(* ===== verification/Cri_Prelude.thy ===== *)
theory Cri_Prelude
  imports Main "HOL-Library.Word" "HOL-Library.Sublist" "HOL-Library.AList"
begin

text \<open>
  The shared prelude. It holds what the sources use of Go itself and of its standard
  library: byte strings and the functions of \<^verbatim>\<open>strings\<close>, the decimal and hexadecimal
  formats of \<^verbatim>\<open>fmt\<close> and \<^verbatim>\<open>strconv\<close>, string-keyed maps as association lists (a \<^verbatim>\<open>range\<close> over
  a Go map visits the entries in the order of the list, which is arbitrary), and the
  generic lemmas the components share. A Go string is a list of bytes; \<open>length\<close> counts
  bytes, as \<^verbatim>\<open>len\<close> does.
\<close>

named_theorems go_defs \<open>definitions of the Go library functions, for evaluation\<close>

subsection \<open>Strings\<close>

definition strings_HasPrefix :: "string \<Rightarrow> string \<Rightarrow> bool" where
  [go_defs]: "strings_HasPrefix s p = prefix p s"

definition strings_HasSuffix :: "string \<Rightarrow> string \<Rightarrow> bool" where
  [go_defs]: "strings_HasSuffix s p = suffix p s"

definition strings_TrimPrefix :: "string \<Rightarrow> string \<Rightarrow> string" where
  [go_defs]: "strings_TrimPrefix s p = (if prefix p s then drop (length p) s else s)"

fun strings_Contains :: "string \<Rightarrow> string \<Rightarrow> bool" where
  "strings_Contains [] p = (p = [])"
| "strings_Contains (c # cs) p = (prefix p (c # cs) \<or> strings_Contains cs p)"

text \<open>\<^verbatim>\<open>strings.Split\<close> for a separator of one byte (the only use but one in the sources).\<close>

fun strings_Split :: "string \<Rightarrow> char \<Rightarrow> string list" where
  "strings_Split [] d = [[]]"
| "strings_Split (c # cs) d =
     (if c = d then [] # strings_Split cs d
      else (case strings_Split cs d of [] \<Rightarrow> [[c]] | w # ws \<Rightarrow> (c # w) # ws))"

fun strings_Join :: "string list \<Rightarrow> string \<Rightarrow> string" where
  "strings_Join [] sep = []"
| "strings_Join [w] sep = w"
| "strings_Join (w # v # ws) sep = w @ sep @ strings_Join (v # ws) sep"

definition lowerByte :: "char \<Rightarrow> char" where
  [go_defs]: "lowerByte c = (let n = (of_char c :: nat) in if 65 \<le> n \<and> n \<le> 90 then char_of (n + 32) else c)"

text \<open>\<^verbatim>\<open>strings.ToLower\<close> on ASCII text.\<close>

definition strings_ToLower :: "string \<Rightarrow> string" where
  [go_defs]: "strings_ToLower s = map lowerByte s"

definition isSpaceByte :: "char \<Rightarrow> bool" where
  [go_defs]: "isSpaceByte c \<longleftrightarrow> (of_char c :: nat) \<in> {9, 10, 11, 12, 13, 32}"

definition strings_TrimSpace :: "string \<Rightarrow> string" where
  [go_defs]: "strings_TrimSpace s = rev (dropWhile isSpaceByte (rev (dropWhile isSpaceByte s)))"

function strings_Fields :: "string \<Rightarrow> string list" where
  "strings_Fields [] = []"
| "strings_Fields (c # cs) =
     (if isSpaceByte c then strings_Fields cs
      else (c # takeWhile (\<lambda>d. \<not> isSpaceByte d) cs) # strings_Fields (dropWhile (\<lambda>d. \<not> isSpaceByte d) cs))"
  by pat_completeness auto

termination strings_Fields
  by (relation "measure length") (auto simp: less_Suc_eq_le length_dropWhile_le)

definition newline :: char where
  "newline = CHR 0x0A"

text \<open>Searching a text from left to right, as the matcher of \<^verbatim>\<open>regexp\<close> does.\<close>

fun tails :: "string \<Rightarrow> string list" where
  "tails [] = [[]]"
| "tails (c # cs) = (c # cs) # tails cs"

fun firstSome :: "('a \<Rightarrow> 'b option) \<Rightarrow> 'a list \<Rightarrow> 'b option" where
  "firstSome f [] = None"
| "firstSome f (x # xs) = (case f x of None \<Rightarrow> firstSome f xs | Some y \<Rightarrow> Some y)"

subsection \<open>Numbers as text\<close>

definition digitChar :: "nat \<Rightarrow> char" where
  [go_defs]: "digitChar d = (if d < 10 then char_of (48 + d) else char_of (87 + d))"

fun fmt_nat :: "nat \<Rightarrow> nat \<Rightarrow> string" where
  "fmt_nat b n =
     (if b < 2 \<or> n < b then [digitChar n] else fmt_nat b (n div b) @ [digitChar (n mod b)])"

declare fmt_nat.simps [simp del]

abbreviation strconv_Itoa :: "nat \<Rightarrow> string" where
  "strconv_Itoa n \<equiv> fmt_nat 10 n"

definition fmt_int :: "int \<Rightarrow> string" where
  [go_defs]: "fmt_int i = (if i < 0 then CHR ''-'' # fmt_nat 10 (nat (- i)) else fmt_nat 10 (nat i))"

text \<open>\<^verbatim>\<open>%08x\<close>.\<close>

definition fmt_hex8 :: "32 word \<Rightarrow> string" where
  [go_defs]: "fmt_hex8 w = (let s = fmt_nat 16 (unat w) in replicate (8 - length s) (CHR ''0'') @ s)"

definition isDigit :: "char \<Rightarrow> bool" where
  [go_defs]: "isDigit c \<longleftrightarrow> 48 \<le> (of_char c :: nat) \<and> (of_char c :: nat) \<le> 57"

definition digitVal :: "char \<Rightarrow> nat" where
  [go_defs]: "digitVal c = of_char c - 48"

text \<open>
  The scanning loop of \<^verbatim>\<open>strconv.ParseUint(s, 10, bits)\<close>: every byte a decimal digit,
  and the value within the maximum after each of them.
\<close>

datatype num_error = NumSyntax | NumRange

fun ParseUint_loop :: "nat \<Rightarrow> nat \<Rightarrow> string \<Rightarrow> num_error + nat" where
  "ParseUint_loop maxVal n [] = Inr n"
| "ParseUint_loop maxVal n (c # cs) =
     (if \<not> isDigit c then Inl NumSyntax
      else if maxVal < 10 * n + digitVal c then Inl NumRange
      else ParseUint_loop maxVal (10 * n + digitVal c) cs)"

definition strconv_ParseUint :: "string \<Rightarrow> nat \<Rightarrow> num_error + nat" where
  [go_defs]: "strconv_ParseUint s bits =
     (if s = [] then Inl NumSyntax else ParseUint_loop (2 ^ bits - 1) 0 s)"

text \<open>
  \<^verbatim>\<open>%q\<close>: a double-quoted Go literal. ASCII bytes are escaped as \<^verbatim>\<open>strconv.Quote\<close> does; a
  byte of a multi-byte rune is kept, which is what it does for printable runes.
\<close>

definition quoteByte :: "char \<Rightarrow> string" where
  [go_defs]: "quoteByte c =
     (let n = (of_char c :: nat); bs = char_of (92 :: nat) in
      if n = 34 \<or> n = 92 then [bs, c]
      else if n = 7 then [bs, CHR ''a''] else if n = 8 then [bs, CHR ''b'']
      else if n = 12 then [bs, CHR ''f''] else if n = 10 then [bs, CHR ''n'']
      else if n = 13 then [bs, CHR ''r''] else if n = 9 then [bs, CHR ''t'']
      else if n = 11 then [bs, CHR ''v'']
      else if n < 32 \<or> n = 127 then [bs, CHR ''x'', digitChar (n div 16), digitChar (n mod 16)]
      else [c])"

definition fmt_q :: "string \<Rightarrow> string" where
  [go_defs]: "fmt_q s = [CHR 0x22] @ concat (map quoteByte s) @ [CHR 0x22]"

subsection \<open>String-keyed maps\<close>

type_synonym gomap = "(string \<times> string) list"

text \<open>Reading an absent key of a \<^verbatim>\<open>map[string]string\<close> gives the empty string.\<close>

definition mapGet :: "gomap \<Rightarrow> string \<Rightarrow> string" where
  [go_defs]: "mapGet m k = (case map_of m k of None \<Rightarrow> [] | Some v \<Rightarrow> v)"

abbreviation mapSet :: "('k \<times> 'v) list \<Rightarrow> 'k \<Rightarrow> 'v \<Rightarrow> ('k \<times> 'v) list" where
  "mapSet m k v \<equiv> AList.update k v m"

abbreviation goMapOk :: "('k \<times> 'v) list \<Rightarrow> bool" where
  "goMapOk m \<equiv> distinct (map fst m)"

subsection \<open>Lemmas on prefixes and search\<close>

lemma TrimPrefix_append [simp]: "strings_TrimPrefix (p @ s) p = s"
  by (simp add: strings_TrimPrefix_def)

lemma TrimPrefix_no_prefix: "\<not> strings_HasPrefix s p \<Longrightarrow> strings_TrimPrefix s p = s"
  by (simp add: strings_TrimPrefix_def strings_HasPrefix_def)

lemma HasPrefix_append [simp]: "strings_HasPrefix (p @ s) p"
  by (simp add: strings_HasPrefix_def)

lemma HasPrefix_iff: "strings_HasPrefix s p \<longleftrightarrow> (\<exists>t. s = p @ t)"
  by (auto simp: strings_HasPrefix_def prefix_def)

lemma Contains_iff: "strings_Contains s p \<longleftrightarrow> (\<exists>a b. s = a @ p @ b)"
proof (induction s)
  case Nil
  then show ?case by auto
next
  case (Cons c cs)
  show ?case
  proof
    assume "strings_Contains (c # cs) p"
    then consider "prefix p (c # cs)" | "strings_Contains cs p" by auto
    then show "\<exists>a b. c # cs = a @ p @ b"
    proof cases
      case 1
      then show ?thesis by (metis append_Nil prefix_def)
    next
      case 2
      then obtain a b where "cs = a @ p @ b" using Cons.IH by auto
      then have "c # cs = (c # a) @ p @ b" by simp
      then show ?thesis by blast
    qed
  next
    assume "\<exists>a b. c # cs = a @ p @ b"
    then obtain a b where ab: "c # cs = a @ p @ b" by auto
    show "strings_Contains (c # cs) p"
    proof (cases a)
      case Nil
      with ab have "prefix p (c # cs)" by (simp add: prefix_def)
      then show ?thesis by simp
    next
      case (Cons x a')
      with ab have "cs = a' @ p @ b" by simp
      with Cons.IH show ?thesis by auto
    qed
  qed
qed

lemma Contains_append_left: "strings_Contains t p \<Longrightarrow> strings_Contains (s @ t) p"
  by (induction s) auto

lemma Contains_append_right:
  assumes "strings_Contains s p"
  shows "strings_Contains (s @ t) p"
proof -
  obtain a b where "s = a @ p @ b" using assms Contains_iff by auto
  then have "s @ t = a @ p @ (b @ t)" by simp
  then show ?thesis unfolding Contains_iff by blast
qed

lemma tails_append: "t \<in> set (tails s) \<longleftrightarrow> (\<exists>a. s = a @ t)"
proof (induction s)
  case (Cons c cs)
  then show ?case by (auto simp: Cons_eq_append_conv)
qed auto

lemma firstSome_None: "(\<And>x. x \<in> set xs \<Longrightarrow> f x = None) \<Longrightarrow> firstSome f xs = None"
  by (induction xs) auto

lemma firstSome_append: "firstSome f (xs @ ys) = (case firstSome f xs of None \<Rightarrow> firstSome f ys | Some y \<Rightarrow> Some y)"
  by (induction xs) (auto split: option.splits)

text \<open>Searching from the last position.\<close>

lemma lastSome_Cons:
  "firstSome f (rev (tails (c # cs))) = (case firstSome f (rev (tails cs)) of None \<Rightarrow> f (c # cs) | Some y \<Rightarrow> Some y)"
  by (simp add: firstSome_append split: option.splits)

lemma lastSome_skip:
  "(\<And>x t. x \<in> set u \<Longrightarrow> f (x # t) = None) \<Longrightarrow> firstSome f (rev (tails (u @ v))) = firstSome f (rev (tails v))"
  by (induction u) (simp_all add: firstSome_append split: option.splits)

lemma lastSome_found:
  "firstSome f (rev (tails v)) = Some y \<Longrightarrow> firstSome f (rev (tails (u @ v))) = Some y"
  by (induction u) (simp_all add: firstSome_append)

lemma find_upt:
  assumes "find P [m..<n] = Some k"
  shows "m \<le> k \<and> k < n \<and> P k \<and> (\<forall>i. m \<le> i \<and> i < k \<longrightarrow> \<not> P i)"
proof -
  obtain i where i: "i < n - m" "P (m + i)" "\<forall>j<i. \<not> P (m + j)" "k = m + i"
    using assms by (auto simp: find_Some_iff)
  then have "\<not> P j" if "m \<le> j" "j < k" for j
    using that by (metis le_add_diff_inverse nat_add_left_cancel_less)
  then show ?thesis using i by auto
qed

lemma TrimSpace_id:
  "\<lbrakk>s \<noteq> []; \<not> isSpaceByte (hd s); \<not> isSpaceByte (last s)\<rbrakk> \<Longrightarrow> strings_TrimSpace s = s"
  by (simp add: strings_TrimSpace_def dropWhile_eq_self_iff [THEN iffD2] hd_rev)

lemma isDigit_not_space: "isDigit c \<Longrightarrow> \<not> isSpaceByte c"
  by (auto simp: isDigit_def isSpaceByte_def)

subsection \<open>Splitting and joining\<close>

lemma Split_not_Nil [simp]: "strings_Split s d \<noteq> []"
  by (cases s) (auto split: list.splits)

lemma Split_no_delim: "d \<notin> set s \<Longrightarrow> strings_Split s d = [s]"
  by (induction s) auto

lemma Split_append_delim: "d \<notin> set w \<Longrightarrow> strings_Split (w @ d # s) d = w # strings_Split s d"
  by (induction w) auto

lemma Split_Join:
  "\<lbrakk>ws \<noteq> []; \<forall>w\<in>set ws. d \<notin> set w\<rbrakk> \<Longrightarrow> strings_Split (strings_Join ws [d]) d = ws"
  by (induction ws "[d]" rule: strings_Join.induct)
    (auto simp: Split_no_delim Split_append_delim)

lemma Join_Cons_split: "strings_Join (w # strings_Split s d) sep = w @ sep @ strings_Join (strings_Split s d) sep"
  by (cases "strings_Split s d") auto

lemma Join_cons_head: "strings_Join ((c # w) # ws) sep = c # strings_Join (w # ws) sep"
  by (cases ws) auto

lemma Join_Split: "strings_Join (strings_Split s d) [d] = s"
proof (induction s)
  case Nil
  then show ?case by simp
next
  case (Cons c cs)
  show ?case
  proof (cases "c = d")
    case True
    with Cons show ?thesis by (simp add: Join_Cons_split)
  next
    case False
    obtain w ws where wws: "strings_Split cs d = w # ws" by (cases "strings_Split cs d") auto
    with False Cons show ?thesis by (simp add: Join_cons_head)
  qed
qed

lemma Split_no_delim_parts: "w \<in> set (strings_Split s d) \<Longrightarrow> d \<notin> set w"
  by (induction s arbitrary: w) (auto split: list.splits if_splits)

lemma Join_inj:
  assumes "\<forall>w\<in>set xs. d \<notin> set w" and "\<forall>w\<in>set ys. d \<notin> set w"
    and "xs \<noteq> []" and "ys \<noteq> []" and "strings_Join xs [d] = strings_Join ys [d]"
  shows "xs = ys"
  using Split_Join [of xs d] Split_Join [of ys d] assms by metis

subsection \<open>Decimal text\<close>

lemma of_char_digitChar: "d < 10 \<Longrightarrow> (of_char (digitChar d) :: nat) = 48 + d"
  by (simp add: digitChar_def)

lemma isDigit_digitChar [simp]: "d < 10 \<Longrightarrow> isDigit (digitChar d)"
  by (simp add: isDigit_def of_char_digitChar)

lemma digitVal_digitChar [simp]: "d < 10 \<Longrightarrow> digitVal (digitChar d) = d"
  by (simp add: digitVal_def of_char_digitChar)

lemma fmt_nat_not_Nil [simp]: "fmt_nat b n \<noteq> []"
  by (subst fmt_nat.simps) simp

lemma Itoa_digits: "\<forall>c\<in>set (strconv_Itoa n). isDigit c"
proof (induction n rule: less_induct)
  case (less n)
  show ?case
  proof (cases "n < 10")
    case True
    then show ?thesis by (subst fmt_nat.simps) simp
  next
    case False
    then have "\<forall>c\<in>set (strconv_Itoa (n div 10)). isDigit c" by (intro less.IH) simp
    with False show ?thesis by (subst fmt_nat.simps) auto
  qed
qed

lemma Itoa_not_in: "\<not> isDigit c \<Longrightarrow> c \<notin> set (strconv_Itoa n)"
  using Itoa_digits by blast

lemma ParseUint_loop_append:
  "ParseUint_loop m a s = Inr n \<Longrightarrow> ParseUint_loop m a (s @ t) = ParseUint_loop m n t"
  by (induction m a s rule: ParseUint_loop.induct) (auto split: if_splits)

lemma ParseUint_loop_Itoa: "n \<le> m \<Longrightarrow> ParseUint_loop m 0 (strconv_Itoa n) = Inr n"
proof (induction n rule: less_induct)
  case (less n)
  show ?case
  proof (cases "n < 10")
    case True
    with less.prems show ?thesis by (subst fmt_nat.simps) simp
  next
    case False
    with less have "ParseUint_loop m 0 (strconv_Itoa (n div 10)) = Inr (n div 10)" by simp
    from ParseUint_loop_append [OF this, of "[digitChar (n mod 10)]"] False less.prems
    show ?thesis by (subst fmt_nat.simps) simp
  qed
qed

lemma ParseUint_Itoa: "n < 2 ^ bits \<Longrightarrow> strconv_ParseUint (strconv_Itoa n) bits = Inr n"
  by (simp add: strconv_ParseUint_def ParseUint_loop_Itoa)

lemma ParseUint_loop_bound: "ParseUint_loop m a s = Inr n \<Longrightarrow> a \<le> m \<Longrightarrow> n \<le> m"
  by (induction m a s rule: ParseUint_loop.induct) (auto split: if_splits)

lemma ParseUint_bound:
  assumes "strconv_ParseUint s bits = Inr n"
  shows "n < 2 ^ bits"
proof -
  have "ParseUint_loop (2 ^ bits - 1) 0 s = Inr n"
    using assms by (simp add: strconv_ParseUint_def split: if_splits)
  then have "n \<le> 2 ^ bits - 1" by (rule ParseUint_loop_bound) simp
  moreover have "0 < (2::nat) ^ bits" by simp
  ultimately show ?thesis by linarith
qed

lemma Itoa_inj:
  assumes "strconv_Itoa m = strconv_Itoa n"
  shows "m = n"
proof -
  have "ParseUint_loop (max m n) 0 (strconv_Itoa m) = Inr m" by (rule ParseUint_loop_Itoa) simp
  moreover have "ParseUint_loop (max m n) 0 (strconv_Itoa n) = Inr n" by (rule ParseUint_loop_Itoa) simp
  ultimately have "Inr m = (Inr n :: num_error + nat)" unfolding assms by (rule trans [OF sym])
  then show ?thesis by simp
qed

subsection \<open>Association lists\<close>

lemma map_of_mapSet [simp]: "map_of (mapSet m k v) x = (if x = k then Some v else map_of m x)"
  by (simp add: update_conv')

lemma update_new: "k \<notin> fst ` set m \<Longrightarrow> mapSet m k v = m @ [(k, v)]"
  by (induction m) auto

lemma set_delete: "set (AList.delete k m) = {x \<in> set m. fst x \<noteq> k}"
  by (auto simp: AList.delete_eq)

lemma goMapOk_mapSet [simp]: "goMapOk m \<Longrightarrow> goMapOk (mapSet m k v)"
  by (rule distinct_update)

lemma map_of_eq_perm:
  "\<lbrakk>goMapOk m; goMapOk m'; set m = set m'\<rbrakk> \<Longrightarrow> map_of m = map_of m'"
  by (simp add: map_of_inject_set)

end
