(* ===== verification/Go_Errors.thy ===== *)
theory Go_Errors
  imports Cri_Prelude
begin

text \<open>
  Go error values and the package \<^verbatim>\<open>utils/errors\<close>. The sources compare errors in three ways,
  and the type keeps them apart: by identity with a package variable (\<open>Sentinel\<close>), by dynamic
  type (\<open>ImageNotFoundError\<close>, \<open>StatusError\<close>, ...), and by a regular expression on the text.
  A nil error is \<open>None\<close>. An error made on the spot by \<^verbatim>\<open>errors.New\<close> or \<^verbatim>\<open>fmt.Errorf\<close> is never
  identical to a package variable, even with the same text: it is an \<open>Errorf\<close>.
\<close>

datatype sentinel =
    ErrKeyNotFound | ErrCheckpointNotFound | ErrCorruptCheckpoint
  | ErrMaximumWrite | ErrShortWrite | ErrEOF | DeadlineExceeded | ContextCanceled | ErrRROUnsupported

datatype goerror =
    Errorf string
  | WrapErr string goerror string
  | Sentinel sentinel
  | NotExist string
  | NumError string num_error
  | OperationTimeout goerror
  | ImageNotFoundError string
  | JSONError int string
  | StatusError nat string
  | DockerExitError int
  | Aggregate "goerror list"
  | ForeignAggregate string "goerror list"

text \<open>A call that returns \<^verbatim>\<open>(T, error)\<close> with one of the two set.\<close>

type_synonym 'a result = "goerror + 'a"

text \<open>Dereferencing a nil pointer panics; where a model reaches one, this value marks that outcome.\<close>

definition nilDereference :: goerror where
  "nilDereference = Errorf ''runtime error: invalid memory address or nil pointer dereference''"

text \<open>The same for an index outside a slice or a string.\<close>

definition indexPanic :: "nat \<Rightarrow> nat \<Rightarrow> goerror" where
  "indexPanic i n = Errorf (''runtime error: index out of range ['' @ fmt_nat 10 i @ ''] with length '' @ fmt_nat 10 n)"

fun sentinelText :: "sentinel \<Rightarrow> string" where
  "sentinelText ErrKeyNotFound = ''key is not found''"
| "sentinelText ErrCheckpointNotFound = ''checkpoint is not found''"
| "sentinelText ErrCorruptCheckpoint = ''checkpoint is corrupted''"
| "sentinelText ErrMaximumWrite = ''maximum write''"
| "sentinelText ErrShortWrite = ''short write''"
| "sentinelText ErrEOF = ''EOF''"
| "sentinelText DeadlineExceeded = ''context deadline exceeded''"
| "sentinelText ContextCanceled = ''context canceled''"
| "sentinelText ErrRROUnsupported = ''RROUnsupported''"

subsection \<open>The text of an error\<close>

text \<open>
  The loop of \<^verbatim>\<open>aggregate.Error\<close>: the texts already seen and the result so far. A text that
  was seen is skipped.
\<close>

fun aggregateLoop :: "string list \<Rightarrow> string \<Rightarrow> string list \<Rightarrow> string list \<times> string" where
  "aggregateLoop seenerrs res [] = (seenerrs, res)"
| "aggregateLoop seenerrs res (msg # msgs) =
     (if msg \<in> set seenerrs then aggregateLoop seenerrs res msgs
      else aggregateLoop (seenerrs @ [msg])
             ((if length (seenerrs @ [msg]) > 1 then res @ '', '' else res) @ msg) msgs)"

definition aggregateText :: "string list \<Rightarrow> string" where
  "aggregateText msgs =
     (case aggregateLoop [] [] msgs of (seenerrs, res) \<Rightarrow>
        if length seenerrs = 1 then res else ''['' @ res @ '']'')"

text \<open>
  \<open>Error\<close> is the \<^verbatim>\<open>Error\<close> method of each error type. \<open>visitTexts\<close> lists the texts that the
  visitor of \<^verbatim>\<open>aggregate.Error\<close> receives: it descends into an aggregate of this package, and
  into one level of any other type that implements the interface.
\<close>

fun Error :: "goerror \<Rightarrow> string" and visitTexts :: "goerror \<Rightarrow> string list" where
  "Error (Errorf s) = s"
| "Error (WrapErr a e b) = a @ Error e @ b"
| "Error (Sentinel s) = sentinelText s"
| "Error (NotExist s) = s"
| "Error (NumError s k) = ''strconv.ParseUint: parsing '' @ fmt_q s @
     (case k of NumSyntax \<Rightarrow> '': invalid syntax'' | NumRange \<Rightarrow> '': value out of range'')"
| "Error (OperationTimeout e) = ''operation timeout: '' @ Error e"
| "Error (ImageNotFoundError i) = ''no such image: '' @ fmt_q i"
| "Error (JSONError c m) = m"
| "Error (StatusError c m) = m"
| "Error (DockerExitError c) = ''Error executing in Docker Container: '' @ fmt_int c"
| "Error (Aggregate es) =
     (if length es = 0 then [] else if length es = 1 then concat (map Error es)
      else aggregateText (concat (map visitTexts es)))"
| "Error (ForeignAggregate m es) = m"
| "visitTexts (Aggregate es) = concat (map visitTexts es)"
| "visitTexts (ForeignAggregate m es) = map Error es"
| "visitTexts e = [Error e]"

subsection \<open>The operations of \<^verbatim>\<open>utils/errors\<close>\<close>

definition NewAggregate :: "goerror option list \<Rightarrow> goerror option" where
  "NewAggregate errlist =
     (if length errlist = 0 then None
      else let errs = List.map_filter (\<lambda>e. e) errlist in
           if length errs = 0 then None else Some (Aggregate errs))"

fun visit :: "(goerror \<Rightarrow> bool) \<Rightarrow> goerror list \<Rightarrow> bool" where
  "visit f [] = False"
| "visit f (Aggregate es # rest) = (if visit f es then True else visit f rest)"
| "visit f (ForeignAggregate m es # rest) = (if list_ex f es then True else visit f rest)"
| "visit f (e # rest) = (if f e then True else visit f rest)"

definition matchesError :: "goerror \<Rightarrow> (goerror \<Rightarrow> bool) list \<Rightarrow> bool" where
  "matchesError err fns = list_ex (\<lambda>fn. fn err) fns"

fun FilterOut :: "goerror \<Rightarrow> (goerror \<Rightarrow> bool) list \<Rightarrow> goerror option"
  and filterErrors :: "goerror list \<Rightarrow> (goerror \<Rightarrow> bool) list \<Rightarrow> goerror list" where
  "FilterOut (Aggregate es) fns = NewAggregate (map Some (filterErrors es fns))"
| "FilterOut (ForeignAggregate m es) fns = NewAggregate (map Some (filterErrors es fns))"
| "FilterOut err fns = (if \<not> matchesError err fns then Some err else None)"
| "filterErrors [] fns = []"
| "filterErrors (err # rest) fns =
     (case FilterOut err fns of None \<Rightarrow> filterErrors rest fns
      | Some r \<Rightarrow> r # filterErrors rest fns)"

text \<open>\<^verbatim>\<open>Errors()\<close> of a value that implements the interface \<^verbatim>\<open>Aggregate\<close>; the cast fails on others.\<close>

fun Errors :: "goerror \<Rightarrow> goerror list option" where
  "Errors (Aggregate es) = Some es"
| "Errors (ForeignAggregate m es) = Some es"
| "Errors e = None"

fun Flatten :: "goerror \<Rightarrow> goerror option"
  and flattenLoop :: "goerror list \<Rightarrow> goerror list" where
  "Flatten (Aggregate es) = NewAggregate (map Some (flattenLoop es))"
| "Flatten (ForeignAggregate m es) = NewAggregate (map Some (flattenLoop es))"
| "Flatten e = None"
| "flattenLoop [] = []"
| "flattenLoop (Aggregate es # rest) =
     (case Flatten (Aggregate es) of None \<Rightarrow> flattenLoop rest
      | Some r \<Rightarrow> the (Errors r) @ flattenLoop rest)"
| "flattenLoop (ForeignAggregate m es # rest) =
     (case Flatten (ForeignAggregate m es) of None \<Rightarrow> flattenLoop rest
      | Some r \<Rightarrow> the (Errors r) @ flattenLoop rest)"
| "flattenLoop (e # rest) = e # flattenLoop rest"

definition Reduce :: "goerror \<Rightarrow> goerror option" where
  "Reduce err =
     (case Errors err of
        Some es \<Rightarrow> (if length es = 1 then Some (es ! 0) else if length es = 0 then None else Some err)
      | None \<Rightarrow> Some err)"

text \<open>\<^verbatim>\<open>errors.Is\<close> for a target that is a package variable.\<close>

fun errors_Is :: "goerror \<Rightarrow> sentinel \<Rightarrow> bool" where
  "errors_Is (Sentinel s) t = (s = t)"
| "errors_Is (WrapErr a e b) t = errors_Is e t"
| "errors_Is (OperationTimeout e) t = errors_Is e t"
| "errors_Is (Aggregate es) t = list_ex (\<lambda>e. errors_Is e t) es"
| "errors_Is (ForeignAggregate m es) t = list_ex (\<lambda>e. errors_Is e t) es"
| "errors_Is e t = False"

subsection \<open>Lemmas\<close>

text \<open>The errors that are not aggregates, in order, at every depth.\<close>

fun leaves :: "goerror \<Rightarrow> goerror list" where
  "leaves (Aggregate es) = concat (map leaves es)"
| "leaves (ForeignAggregate m es) = concat (map leaves es)"
| "leaves e = [e]"

definition isAggregate :: "goerror \<Rightarrow> bool" where
  "isAggregate e \<longleftrightarrow> Errors e \<noteq> None"

lemma map_filter_map_Some [simp]: "List.map_filter (\<lambda>e. e) (map Some es) = es"
  by (induction es) (auto simp: List.map_filter_simps)

lemma NewAggregate_map_Some [simp]:
  "NewAggregate (map Some es) = (if es = [] then None else Some (Aggregate es))"
  by (simp add: NewAggregate_def)

lemma NewAggregate_snoc [simp]: "NewAggregate (map Some es @ [Some e]) = Some (Aggregate (es @ [e]))"
  using NewAggregate_map_Some [of "es @ [e]"] by simp

lemma Flatten_aggregate:
  "isAggregate e \<Longrightarrow> Flatten e = NewAggregate (map Some (flattenLoop (the (Errors e))))"
  by (cases e) (auto simp: isAggregate_def)

lemma flattenLoop_leaves:
  "(Flatten e = (if isAggregate e \<and> leaves e \<noteq> [] then Some (Aggregate (leaves e)) else None))"
  "flattenLoop es = concat (map leaves es)"
  by (induction e and es rule: Flatten_flattenLoop.induct) (auto simp: isAggregate_def)

lemma leaves_not_aggregate: "x \<in> set (leaves e) \<Longrightarrow> \<not> isAggregate x"
  by (induction e rule: leaves.induct) (auto simp: isAggregate_def)

lemma leaves_leaf: "\<not> isAggregate e \<Longrightarrow> leaves e = [e]"
  by (cases e) (auto simp: isAggregate_def)

lemma FilterOut_leaves:
  "(case FilterOut e fns of None \<Rightarrow> [] | Some r \<Rightarrow> leaves r) =
     filter (\<lambda>x. \<not> matchesError x fns) (leaves e)"
  "concat (map leaves (filterErrors es fns)) =
     filter (\<lambda>x. \<not> matchesError x fns) (concat (map leaves es))"
  by (induction e fns and es fns rule: FilterOut_filterErrors.induct)
    (auto simp: split: option.splits if_splits)

text \<open>The texts in the order of their first occurrences.\<close>

definition firsts :: "string list \<Rightarrow> string list" where
  "firsts ms = rev (remdups (rev ms))"

lemma set_firsts [simp]: "set (firsts ms) = set ms"
  by (simp add: firsts_def)

lemma distinct_firsts [simp]: "distinct (firsts ms)"
  by (simp add: firsts_def)

lemma firsts_snoc: "firsts (ms @ [m]) = (if m \<in> set ms then firsts ms else firsts ms @ [m])"
  by (simp add: firsts_def)

lemma Join_snoc: "strings_Join (ws @ [w]) sep = (if ws = [] then w else strings_Join ws sep @ sep @ w)"
  by (induction ws sep rule: strings_Join.induct) auto

lemma firsts_Nil [simp]: "firsts [] = []"
  by (simp add: firsts_def)

lemma firsts_single [simp]: "firsts [m] = [m]"
  by (simp add: firsts_def)

lemma firsts_Nil_iff [simp]: "firsts ms = [] \<longleftrightarrow> ms = []"
  by (simp add: firsts_def)

lemma aggregateLoop_firsts:
  "aggregateLoop (firsts ms) (strings_Join (firsts ms) '', '') ns =
     (firsts (ms @ ns), strings_Join (firsts (ms @ ns)) '', '')"
proof (induction ns arbitrary: ms)
  case Nil
  then show ?case by simp
next
  case (Cons n ns)
  show ?case
  proof (cases "n \<in> set ms")
    case True
    with Cons.IH [of "ms @ [n]"] show ?thesis by (simp add: firsts_snoc)
  next
    case False
    with Cons.IH [of "ms @ [n]"] show ?thesis
      by (cases "ms = []") (simp_all add: firsts_snoc Join_snoc)
  qed
qed

lemma aggregateText_firsts:
  "aggregateText ms =
     (if length (firsts ms) = 1 then hd (firsts ms) else ''['' @ strings_Join (firsts ms) '', '' @ '']'')"
  using aggregateLoop_firsts [of "[]" ms]
  by (auto simp: aggregateText_def firsts_def length_Suc_conv)

subsection \<open>Properties\<close>

text \<open>Flatten returns nil exactly when no error is nested in its argument at any depth;
  otherwise it returns one aggregate that holds every nested error that is not itself an
  aggregate, once per occurrence and in order, so none of its elements is an aggregate.\<close>

lemma Flatten_correct:
  "Flatten (Aggregate es) =
     (if concat (map leaves es) = [] then None else Some (Aggregate (concat (map leaves es))))
   \<and> list_all (\<lambda>x. \<not> isAggregate x) (concat (map leaves es))"
  using flattenLoop_leaves(1) [of "Aggregate es"] leaves_not_aggregate
  by (auto simp: isAggregate_def list_all_iff simp del: Flatten.simps)

text \<open>FilterOut removes exactly the nested errors that some matcher accepts, at every
  depth and whatever the nesting, keeps the others in order, and returns nil, never an empty
  aggregate, when none is left.\<close>

lemma FilterOut_correct:
  "(case FilterOut e fns of
      None \<Rightarrow> filter (\<lambda>x. \<not> matchesError x fns) (leaves e) = []
    | Some r \<Rightarrow> leaves r = filter (\<lambda>x. \<not> matchesError x fns) (leaves e) \<and> r \<noteq> Aggregate [])"
proof (cases "FilterOut e fns")
  case None
  then show ?thesis using FilterOut_leaves(1) [of e fns] by simp
next
  case (Some r)
  moreover have "r \<noteq> Aggregate []"
    using Some by (cases e) (auto split: if_splits)
  ultimately show ?thesis using FilterOut_leaves(1) [of e fns] by simp
qed


end
