(* ===== verification/Util_Io.thy ===== *)
theory Util_Io
  imports Go_Errors
begin

text \<open>
  Writers: the limiting writers of \<^verbatim>\<open>utils/io.go\<close> and of \<^verbatim>\<open>core/helpers.go\<close>. A writer is a
  function on the state it writes to; it returns the number of bytes written and an error.
  A pointer to a counter that two writers share is a pair of a read and a write function on
  that state.
\<close>

type_synonym 'e writer = "string \<Rightarrow> 'e \<Rightarrow> (int \<times> goerror option) \<times> 'e"

record 'e int_ptr =
  ptr_load :: "'e \<Rightarrow> int"
  ptr_store :: "int \<Rightarrow> 'e \<Rightarrow> 'e"

subsection \<open>The writers\<close>

text \<open>\<^verbatim>\<open>bytes.Buffer\<close> of the standard library.\<close>

definition Buffer_Write :: "string writer" where
  "Buffer_Write p b = ((int (length p), None), b @ p)"

text \<open>\<^verbatim>\<open>utils.LimitedWriter\<close>; the state carries its field \<open>N\<close>.\<close>

definition LimitedWriter_Write :: "'e writer \<Rightarrow> ('e \<times> int) writer" where
  "LimitedWriter_Write w p l =
     (case l of (e, N) \<Rightarrow>
        if N \<le> 0 then ((0, Some (Sentinel ErrShortWrite)), (e, N))
        else
          (let truncated = int (length p) > N;
               p = (if truncated then take (nat N) p else p)
           in case w p e of ((n, err), e) \<Rightarrow>
                ((n, if err = None \<and> truncated then Some (Sentinel ErrShortWrite) else err), (e, N - n))))"

definition LimitWriter :: "'e \<Rightarrow> int \<Rightarrow> 'e \<times> int" where
  "LimitWriter w n = (w, n)"

definition writeCloserWrapper_Write :: "'e writer \<Rightarrow> 'e writer" where
  "writeCloserWrapper_Write w buf e = w buf e"

definition writeCloserWrapper_Close :: "'e \<Rightarrow> goerror option \<times> 'e" where
  "writeCloserWrapper_Close e = (None, e)"

text \<open>
  \<^verbatim>\<open>SharedWriteLimiter\<close> of \<^verbatim>\<open>core/helpers.go\<close>: one counter for several streams. A write loads
  the counter, passes the data that fits to the delegate and then subtracts what the delegate took;
  each of the first and the last is atomic and no lock is held in between. \<open>limiterCut\<close> is
  the part between the load and the call of the delegate: the error, or the data to pass on and whether it was cut.
\<close>

definition limiterCut :: "int \<Rightarrow> string \<Rightarrow> (string \<times> bool) result" where
  "limiterCut limit p =
     (if limit \<le> 0 then Inl (Sentinel ErrMaximumWrite)
      else if limit < int (length p) then Inr (take (nat limit) p, True)
      else Inr (p, False))"

definition limiterSubtract :: "int \<Rightarrow> int \<Rightarrow> int" where
  "limiterSubtract n limit = (if n > 0 then limit + (- 1 * n) else limit)"

text \<open>A write with no other write between its load and its subtraction.\<close>

definition SharedWriteLimiter_Write :: "'e int_ptr \<Rightarrow> 'e writer \<Rightarrow> 'e writer" where
  "SharedWriteLimiter_Write limitp delegate p e =
     (if length p = 0 then ((0, None), e)
      else
        (case limiterCut (ptr_load limitp e) p of
           Inl err \<Rightarrow> ((0, Some err), e)
         | Inr (p, truncated) \<Rightarrow>
             (case delegate p e of ((n, err), e) \<Rightarrow>
                ((n, if err = None \<and> truncated then Some (Sentinel ErrMaximumWrite) else err),
                 if n > 0 then ptr_store limitp (limiterSubtract n (ptr_load limitp e)) e else e))))"

definition SharedLimitWriter :: "'e writer option \<Rightarrow> 'e int_ptr \<Rightarrow> 'e writer option" where
  "SharedLimitWriter w limitp = (case w of None \<Rightarrow> None | Some w \<Rightarrow> Some (SharedWriteLimiter_Write limitp w))"

text \<open>
  Writes of several goroutines at once. \<open>ls_pc\<close> is where the write on each stream stands: none in progress, the
  counter loaded and the data cut, or the delegate back with the number of bytes it took and the subtraction still due.
  The delegate of stream \<open>t\<close> takes any number \<open>k\<close> of the bytes it is given; \<open>ls_out\<close> is what it has.
\<close>

datatype limiterPc = LimIdle | LimLoaded string bool | LimWrote int

record limiterSys =
  ls_limit :: int
  ls_pc :: "nat \<Rightarrow> limiterPc"
  ls_out :: "nat \<Rightarrow> string"

inductive limiter_step :: "nat \<Rightarrow> limiterSys \<Rightarrow> limiterSys \<Rightarrow> bool" for writers :: nat where
  limiter_refuse: "\<lbrakk>t < writers; ls_pc s t = LimIdle; p = [] \<or> limiterCut (ls_limit s) p = Inl err\<rbrakk> \<Longrightarrow> limiter_step writers s s"
| limiter_load: "\<lbrakk>t < writers; ls_pc s t = LimIdle; p \<noteq> []; limiterCut (ls_limit s) p = Inr (q, truncated)\<rbrakk> \<Longrightarrow>
    limiter_step writers s (s\<lparr>ls_pc := (ls_pc s)(t := LimLoaded q truncated)\<rparr>)"
| limiter_delegate: "\<lbrakk>t < writers; ls_pc s t = LimLoaded q truncated; k \<le> length q\<rbrakk> \<Longrightarrow>
    limiter_step writers s (s\<lparr>ls_pc := (ls_pc s)(t := LimWrote (int k)), ls_out := (ls_out s)(t := ls_out s t @ take k q)\<rparr>)"
| limiter_subtract: "\<lbrakk>t < writers; ls_pc s t = LimWrote n\<rbrakk> \<Longrightarrow>
    limiter_step writers s (s\<lparr>ls_limit := limiterSubtract n (ls_limit s), ls_pc := (ls_pc s)(t := LimIdle)\<rparr>)"

definition limiterStart :: "int \<Rightarrow> limiterSys" where
  "limiterStart limit = \<lparr>ls_limit = limit, ls_pc = (\<lambda>_. LimIdle), ls_out = (\<lambda>_. [])\<rparr>"

text \<open>A sequence of writes, whatever each of them returns.\<close>

fun writeAll :: "'e writer \<Rightarrow> string list \<Rightarrow> 'e \<Rightarrow> 'e" where
  "writeAll w [] e = e"
| "writeAll w (p # ps) e = writeAll w ps (snd (w p e))"

text \<open>The same on several writers over one state: the number of bytes accepted, and the state.\<close>

fun writeMixed :: "('e writer \<times> string) list \<Rightarrow> 'e \<Rightarrow> int \<times> 'e" where
  "writeMixed [] e = (0, e)"
| "writeMixed ((w, p) # ps) e =
     (case w p e of ((n, _), e) \<Rightarrow> (case writeMixed ps e of (m, e) \<Rightarrow> (n + m, e)))"

subsection \<open>The contract of a writer\<close>

text \<open>
  What \<^verbatim>\<open>io.Writer\<close> demands: the count is between 0 and the length of the data, a short write
  returns an error, and exactly the counted bytes arrive.
\<close>

locale io_writer =
  fixes wr :: "'e writer"
    and content :: "'e \<Rightarrow> string"
  assumes write_count: "wr p e = ((n, err), e') \<Longrightarrow> 0 \<le> n \<and> n \<le> int (length p)"
    and write_short: "wr p e = ((n, err), e') \<Longrightarrow> n < int (length p) \<Longrightarrow> err \<noteq> None"
    and write_content: "wr p e = ((n, err), e') \<Longrightarrow> content e' = content e @ take (nat n) p"
begin

lemma limited_step:
  "\<exists>k \<le> nat N. content (fst (snd (LimitedWriter_Write wr p (e, N)))) = content e @ take k p
     \<and> snd (snd (LimitedWriter_Write wr p (e, N))) = N - int (min k (length p))
     \<and> fst (fst (LimitedWriter_Write wr p (e, N))) = int (min k (length p))"
proof (cases "N \<le> 0")
  case True
  then show ?thesis by (intro exI [of _ 0]) (simp add: LimitedWriter_Write_def)
next
  case False
  define q where "q = (if int (length p) > N then take (nat N) p else p)"
  obtain n err e' where w: "wr q e = ((n, err), e')" by (metis prod.exhaust)
  note c = write_count [OF w] write_content [OF w]
  have q: "q = take (nat N) p" using False by (simp add: q_def)
  have n: "nat n \<le> nat N" "nat n \<le> length p" "0 \<le> n" using c(1) False by (auto simp: q)
  have "take (nat n) q = take (nat n) p" using n by (simp add: q min_def)
  then show ?thesis using False n w c
    by (intro exI [of _ "nat n"]) (simp add: LimitedWriter_Write_def q_def [symmetric] Let_def min_def)
qed

text \<open>However it is called, a limited writer passes on at most its limit, and no bytes that were not written to it.\<close>

lemma limited_bound:
  assumes "0 \<le> N"
  shows "\<exists>d. content (fst (writeAll (LimitedWriter_Write wr) ps (e, N))) = content e @ d \<and> length d \<le> nat N"
  using assms
proof (induction ps arbitrary: e N)
  case (Cons p ps)
  obtain k where k: "k \<le> nat N" "content (fst (snd (LimitedWriter_Write wr p (e, N)))) = content e @ take k p"
      "snd (snd (LimitedWriter_Write wr p (e, N))) = N - int (min k (length p))"
    using limited_step [where p = p and e = e and N = N] by blast
  obtain r e' N' where s: "LimitedWriter_Write wr p (e, N) = (r, e', N')" by (metis prod.exhaust)
  have "0 \<le> N'" using k Cons.prems by (simp add: s)
  from Cons.IH [OF this, of e'] obtain d
    where d: "content (fst (writeAll (LimitedWriter_Write wr) ps (e', N'))) = content e' @ d" "length d \<le> nat N'"
    by blast
  have "length (take k p @ d) \<le> nat N" using d(2) k(1,3) by (simp add: s)
  then show ?case using d(1) k(2) by (intro exI [of _ "take k p @ d"]) (simp add: s)
qed simp

end

text \<open>\<^verbatim>\<open>bytes.Buffer\<close>, the writer the sources limit, keeps the contract.\<close>

interpretation buffer: io_writer Buffer_Write "\<lambda>b. b"
  by unfold_locales (auto simp: Buffer_Write_def)

lemma Limited_Buffer_step:
  "snd (LimitedWriter_Write Buffer_Write p (b, N)) = (b @ take (nat N) p, N - int (min (nat N) (length p)))"
  by (auto simp: LimitedWriter_Write_def Buffer_Write_def Let_def min_def)

lemma writeAll_Limited_Buffer:
  "fst (writeAll (LimitedWriter_Write Buffer_Write) ps (b, N)) = b @ take (nat N) (concat ps)"
proof (induction ps arbitrary: b N)
  case (Cons p ps)
  have "nat (N - int (min (nat N) (length p))) = nat N - length p" by linarith
  then show ?case by (simp add: Cons.IH Limited_Buffer_step)
qed simp

subsection \<open>Properties\<close>

text \<open>A limited writer over a buffer keeps exactly the first \<open>N\<close> bytes of everything that is
  written through it, in however many pieces it comes and whether or not the caller goes on
  after an error.\<close>

lemma LimitedWriter_keeps_prefix:
  "fst (writeAll (LimitedWriter_Write Buffer_Write) ps (LimitWriter [] N)) = take (nat N) (concat ps)"
  by (simp add: LimitWriter_def writeAll_Limited_Buffer)

text \<open>A writer that keeps the contract and leaves the counter behind \<open>limitp\<close> alone.\<close>

definition leavesCounter :: "'e int_ptr \<Rightarrow> 'e writer \<Rightarrow> bool" where
  "leavesCounter limitp d \<longleftrightarrow> (\<forall>p e n err e'. d p e = ((n, err), e') \<longrightarrow>
     0 \<le> n \<and> n \<le> int (length p) \<and> ptr_load limitp e' = ptr_load limitp e)"

lemma SharedWriteLimiter_step:
  assumes "leavesCounter limitp d" and "\<And>v e. ptr_load limitp (ptr_store limitp v e) = v"
    and "0 \<le> ptr_load limitp e" and s: "SharedWriteLimiter_Write limitp d q e = ((n, err), e')"
  shows "0 \<le> n \<and> n \<le> ptr_load limitp e \<and> ptr_load limitp e' = ptr_load limitp e - n"
proof (cases "length q = 0 \<or> ptr_load limitp e \<le> 0")
  case True
  then show ?thesis using assms(3) s by (auto simp: SharedWriteLimiter_Write_def limiterCut_def split: if_splits)
next
  case False
  define r where "r = take (nat (ptr_load limitp e)) q"
  obtain m er e2 where d: "d r e = ((m, er), e2)" by (metis prod.exhaust)
  have r: "\<exists>b. limiterCut (ptr_load limitp e) q = Inr (r, b)"
    using False by (auto simp: r_def limiterCut_def)
  have m: "0 \<le> m" "m \<le> int (length r)" "ptr_load limitp e2 = ptr_load limitp e"
    using assms(1) d by (auto simp: leavesCounter_def)
  have "int (length r) \<le> ptr_load limitp e" using False unfolding r_def length_take by linarith
  then show ?thesis
    using s False m assms(2) r by (auto simp: SharedWriteLimiter_Write_def limiterSubtract_def d split: if_splits)
qed

text \<open>Writers that share one limit accept together at most that many bytes, over every
  sequence of completed writes to any of them, for every delegate that keeps the contract of a writer and
  leaves the counter alone; and the counter holds what is left.\<close>

lemma SharedWriteLimiter_sequential:
  assumes "\<forall>(w, q) \<in> set ps. \<exists>d. w = SharedWriteLimiter_Write limitp d \<and> leavesCounter limitp d"
    and "\<forall>v e. ptr_load limitp (ptr_store limitp v e) = v"
    and "0 \<le> ptr_load limitp e"
  shows "case writeMixed ps e of (k, e') \<Rightarrow>
     0 \<le> k \<and> k \<le> ptr_load limitp e \<and> ptr_load limitp e' = ptr_load limitp e - k"
  using assms
proof (induction ps arbitrary: e)
  case (Cons wp ps)
  obtain w q where wp: "wp = (w, q)" by fastforce
  from Cons.prems(1) obtain d where w: "w = SharedWriteLimiter_Write limitp d" and d: "leavesCounter limitp d"
    by (auto simp: wp)
  obtain n err e' where s: "w q e = ((n, err), e')" by (metis prod.exhaust)
  have step: "0 \<le> n \<and> n \<le> ptr_load limitp e \<and> ptr_load limitp e' = ptr_load limitp e - n"
    using SharedWriteLimiter_step [OF d _ Cons.prems(3) s [unfolded w]] Cons.prems(2) by blast
  then have "0 \<le> ptr_load limitp e'" by simp
  with Cons.IH [OF _ Cons.prems(2), of e'] Cons.prems(1) show ?case
    using step by (auto simp: wp s split: prod.splits)
qed simp

subsection \<open>Concurrent writers\<close>

text \<open>What the streams hold together, what is still to be subtracted, and the bytes a write in progress may still cost.\<close>

definition limiterOut :: "nat \<Rightarrow> limiterSys \<Rightarrow> int" where
  "limiterOut n s = (\<Sum>t<n. int (length (ls_out s t)))"

primrec pcDue :: "limiterPc \<Rightarrow> int" where
  "pcDue LimIdle = 0"
| "pcDue (LimLoaded q b) = 0"
| "pcDue (LimWrote k) = k"

primrec pcHold :: "limiterPc \<Rightarrow> int" where
  "pcHold LimIdle = 0"
| "pcHold (LimLoaded q b) = int (length q)"
| "pcHold (LimWrote k) = k"

definition limiterDue :: "nat \<Rightarrow> limiterSys \<Rightarrow> int" where
  "limiterDue n s = (\<Sum>t<n. pcDue (ls_pc s t))"

definition limiterHold :: "nat \<Rightarrow> limiterSys \<Rightarrow> int" where
  "limiterHold n s = (\<Sum>t<n. pcHold (ls_pc s t))"

lemma sum_upd: "t < (n :: nat) \<Longrightarrow> (\<Sum>u<n. f (if u = t then x else g u)) = (\<Sum>u<n. f (g u)) - f (g t) + (f x :: int)"
  by (subst (1 2) sum.remove [of _ t]) (auto intro: sum.cong)

lemmas limiter_sums = limiterDue_def limiterHold_def limiterOut_def sum_upd sum_upd [where f = "\<lambda>x. int (length x)"]

lemma limiterCut_Inr:
  "limiterCut l p = Inr (q, b) \<Longrightarrow> 0 < l \<and> int (length q) \<le> l \<and> q = take (nat l) p"
  by (auto simp: limiterCut_def split: if_splits)

text \<open>The accounting that every step keeps: the counter is what is left of the limit apart from the subtractions that are due,
  no write in progress holds more than the limit, and all that is spent or held is at most \<open>n\<close> times the limit.\<close>

definition limiterInv :: "nat \<Rightarrow> int \<Rightarrow> limiterSys \<Rightarrow> bool" where
  "limiterInv n L s \<longleftrightarrow> ls_limit s = L - limiterOut n s + limiterDue n s \<and> ls_limit s \<le> L \<and>
     (\<forall>t. 0 \<le> pcDue (ls_pc s t) \<and> pcDue (ls_pc s t) \<le> pcHold (ls_pc s t) \<and> pcHold (ls_pc s t) \<le> L) \<and>
     L - ls_limit s + limiterHold n s \<le> int n * L"

lemma limiterHold_le: "(\<forall>t. pcHold (ls_pc s t) \<le> L) \<Longrightarrow> t < n \<Longrightarrow> ls_pc s t = LimIdle \<Longrightarrow> limiterHold n s \<le> int (n - 1) * L"
proof -
  assume a: "\<forall>t. pcHold (ls_pc s t) \<le> L" "t < n" "ls_pc s t = LimIdle"
  have "limiterHold n s = (\<Sum>u \<in> {..<n} - {t}. pcHold (ls_pc s u))"
    unfolding limiterHold_def using a(2,3) by (subst sum.remove [of _ t]) auto
  also have "\<dots> \<le> int (card ({..<n} - {t})) * L" using a(1) by (intro sum_bounded_above [THEN order_trans]) auto
  finally show ?thesis using a(2) by simp
qed

lemma limiterStart_inv: "0 \<le> L \<Longrightarrow> limiterInv n L (limiterStart L)"
  by (simp add: limiterInv_def limiterStart_def limiterOut_def limiterDue_def limiterHold_def)

lemma limiter_step_inv:
  assumes "limiter_step n s s'" and "limiterInv n L s"
  shows "limiterInv n L s'"
  using assms
proof (cases rule: limiter_step.cases)
  case (limiter_load t p q b)
  have q: "int (length q) \<le> ls_limit s" using limiterCut_Inr [OF limiter_load(5)] by blast
  have "limiterHold n s \<le> int (n - 1) * L" using assms(2) limiter_load by (intro limiterHold_le) (auto simp: limiterInv_def)
  moreover have "int n * L = L + int (n - 1) * L" using limiter_load(2) by (cases n) (simp_all add: algebra_simps)
  ultimately show ?thesis using assms(2) limiter_load q by (auto simp: limiterInv_def limiter_sums)
next
  case (limiter_delegate t q b k)
  have "\<forall>u. 0 \<le> pcDue (ls_pc s u) \<and> pcDue (ls_pc s u) \<le> pcHold (ls_pc s u) \<and> pcHold (ls_pc s u) \<le> L"
    using assms(2) by (simp add: limiterInv_def)
  moreover from this limiter_delegate(3) have "int (length q) \<le> L" by (metis pcHold.simps(2))
  ultimately show ?thesis using assms(2) limiter_delegate by (auto simp: limiterInv_def limiter_sums)
next
  case (limiter_subtract t k)
  have "0 \<le> k" using assms(2) limiter_subtract(3) by (metis limiterInv_def pcDue.simps(3))
  then show ?thesis using assms(2) limiter_subtract by (auto simp: limiterInv_def limiter_sums limiterSubtract_def)
qed simp

lemma limiter_reachable_inv: "(limiter_step n)\<^sup>*\<^sup>* s s' \<Longrightarrow> limiterInv n L s \<Longrightarrow> limiterInv n L s'"
  by (induction rule: rtranclp_induct) (auto intro: limiter_step_inv)

lemma limiterInv_out: "limiterInv n L s \<Longrightarrow> limiterOut n s \<le> int n * L"
proof -
  assume a: "limiterInv n L s"
  then have "limiterDue n s \<le> limiterHold n s" unfolding limiterDue_def limiterHold_def by (intro sum_mono) (simp add: limiterInv_def)
  then show ?thesis using a by (auto simp: limiterInv_def)
qed

text \<open>One write at a time: a step of one stream while no write on another stream is in progress.\<close>

definition limiter_serial :: "nat \<Rightarrow> limiterSys \<Rightarrow> limiterSys \<Rightarrow> bool" where
  "limiter_serial n s s' \<longleftrightarrow> limiter_step n s s' \<and> (\<exists>t. \<forall>u. u \<noteq> t \<longrightarrow> ls_pc s u = LimIdle \<and> ls_pc s' u = LimIdle)"

lemma limiterHold_serial:
  assumes "\<forall>u. u \<noteq> t \<longrightarrow> ls_pc s u = LimIdle"
  shows "limiterHold n s = (if t < n then pcHold (ls_pc s t) else 0)"
proof -
  have "limiterHold n s = (\<Sum>u<n. if u = t then pcHold (ls_pc s t) else 0)"
    unfolding limiterHold_def using assms by (intro sum.cong) auto
  then show ?thesis by simp
qed

lemma limiter_serial_inv:
  assumes "limiter_serial n s s'" and "limiterInv n L s" and "L - ls_limit s + limiterHold n s \<le> L"
  shows "L - ls_limit s' + limiterHold n s' \<le> L"
proof -
  obtain t where t: "\<forall>u. u \<noteq> t \<longrightarrow> ls_pc s u = LimIdle \<and> ls_pc s' u = LimIdle" and st: "limiter_step n s s'"
    using assms(1) by (auto simp: limiter_serial_def)
  have h: "limiterHold n s' = (if t < n then pcHold (ls_pc s' t) else 0)" using t by (intro limiterHold_serial) blast
  from st show ?thesis
  proof (cases rule: limiter_step.cases)
    case limiter_refuse
    then show ?thesis using assms(3) by simp
  next
    case (limiter_load v p q b)
    then have "v = t" using t by (metis fun_upd_same limiterPc.distinct(1) limiterSys.select_convs(2) limiterSys.surjective limiterSys.update_convs(2))
    then have "limiterHold n s' = int (length q) \<and> ls_limit s' = ls_limit s" using h limiter_load(1,2) by simp
    moreover have "int (length q) \<le> ls_limit s" using limiterCut_Inr [OF limiter_load(5)] by blast
    ultimately show ?thesis by linarith
  next
    case (limiter_delegate v q b k)
    then show ?thesis using assms(3) by (simp add: limiter_sums)
  next
    case (limiter_subtract v k)
    have "0 \<le> k" using assms(2) limiter_subtract(3) by (metis limiterInv_def pcDue.simps(3))
    then show ?thesis using assms(3) limiter_subtract by (simp add: limiter_sums limiterSubtract_def)
  qed
qed

lemma limiter_serial_out:
  assumes "(limiter_serial n)\<^sup>*\<^sup>* (limiterStart L) s" and "0 \<le> L"
  shows "limiterOut n s \<le> L"
proof -
  have "limiterInv n L s \<and> L - ls_limit s + limiterHold n s \<le> L" using assms(1)
  proof (induction rule: rtranclp_induct)
    case base
    then show ?case using limiterStart_inv [OF assms(2)] assms(2) by (simp add: limiterStart_def limiterHold_def)
  next
    case (step s s')
    then show ?case using limiter_serial_inv [of n s s' L] limiter_step_inv [of n s s' L] by (simp add: limiter_serial_def)
  qed
  moreover then have "limiterDue n s \<le> limiterHold n s" unfolding limiterDue_def limiterHold_def by (intro sum_mono) (simp add: limiterInv_def)
  ultimately show ?thesis by (auto simp: limiterInv_def)
qed

text \<open>The bound for \<open>n\<close> writers is reached: all of them load the counter before any of them writes.\<close>

definition limiterAllLoaded :: "string \<Rightarrow> nat \<Rightarrow> limiterSys" where
  "limiterAllLoaded p k = (limiterStart (int (length p)))\<lparr>ls_pc := (\<lambda>t. if t < k then LimLoaded p False else LimIdle)\<rparr>"

definition limiterWritten :: "string \<Rightarrow> nat \<Rightarrow> nat \<Rightarrow> limiterSys" where
  "limiterWritten p n k = (limiterAllLoaded p n)\<lparr>ls_pc := (\<lambda>t. if t < k then LimWrote (int (length p)) else if t < n then LimLoaded p False else LimIdle),
     ls_out := (\<lambda>t. if t < k then p else [])\<rparr>"

lemma limiter_all_load: "p \<noteq> [] \<Longrightarrow> k \<le> n \<Longrightarrow> (limiter_step n)\<^sup>*\<^sup>* (limiterStart (int (length p))) (limiterAllLoaded p k)"
proof (induction k)
  case 0
  then show ?case by (simp add: limiterAllLoaded_def limiterStart_def)
next
  case (Suc k)
  let ?s = "limiterAllLoaded p k"
  have "limiter_step n ?s (?s\<lparr>ls_pc := (ls_pc ?s)(k := LimLoaded p False)\<rparr>)"
    using Suc.prems by (intro limiter_load [where p = p]) (simp_all add: limiterAllLoaded_def limiterStart_def limiterCut_def)
  moreover have "?s\<lparr>ls_pc := (ls_pc ?s)(k := LimLoaded p False)\<rparr> = limiterAllLoaded p (Suc k)"
    by (simp add: limiterAllLoaded_def fun_eq_iff less_Suc_eq)
  ultimately show ?case using Suc by (auto intro: rtranclp.rtrancl_into_rtrancl)
qed

lemma limiter_all_write: "k \<le> n \<Longrightarrow> (limiter_step n)\<^sup>*\<^sup>* (limiterAllLoaded p n) (limiterWritten p n k)"
proof (induction k)
  case 0
  then show ?case by (simp add: limiterWritten_def limiterAllLoaded_def limiterStart_def)
next
  case (Suc k)
  let ?s = "limiterWritten p n k"
  let ?t = "?s\<lparr>ls_pc := (ls_pc ?s)(k := LimWrote (int (length p))), ls_out := (ls_out ?s)(k := ls_out ?s k @ take (length p) p)\<rparr>"
  have "limiter_step n ?s ?t"
    using Suc.prems by (intro limiter_delegate [where truncated = False]) (simp_all add: limiterWritten_def)
  moreover have "?t = limiterWritten p n (Suc k)" using Suc.prems by (simp add: limiterWritten_def limiterAllLoaded_def limiterStart_def fun_eq_iff less_Suc_eq)
  ultimately show ?case using Suc by (auto intro: rtranclp.rtrancl_into_rtrancl)
qed

lemma limiter_reaches: "0 \<le> L \<Longrightarrow> \<exists>s. (limiter_step n)\<^sup>*\<^sup>* (limiterStart L) s \<and> limiterOut n s = int n * L"
proof (cases "L = 0")
  case True
  then show ?thesis by (intro exI [of _ "limiterStart L"]) (simp add: limiterStart_def limiterOut_def)
next
  case False
  assume "0 \<le> L"
  define p where "p = replicate (nat L) (CHR ''a'')"
  have p: "L = int (length p)" "p \<noteq> []" using \<open>0 \<le> L\<close> False by (simp_all add: p_def)
  have "limiterOut n (limiterWritten p n n) = int n * L" by (simp add: limiterOut_def limiterWritten_def p)
  moreover have "(limiter_step n)\<^sup>*\<^sup>* (limiterStart L) (limiterWritten p n n)"
    unfolding p(1) using limiter_all_load [OF p(2) order_refl] limiter_all_write [OF order_refl] by (rule rtranclp_trans)
  ultimately show ?thesis by blast
qed

text \<open>A write that runs alone is the function \<open>SharedWriteLimiter_Write\<close> on the counter and the buffer of its stream.\<close>

definition limitCell :: "limiterSys int_ptr" where
  "limitCell = \<lparr>ptr_load = ls_limit, ptr_store = (\<lambda>v s. s\<lparr>ls_limit := v\<rparr>)\<rparr>"

definition streamWrite :: "nat \<Rightarrow> limiterSys writer" where
  "streamWrite t p s = (case Buffer_Write p (ls_out s t) of (r, b) \<Rightarrow> (r, s\<lparr>ls_out := (ls_out s)(t := b)\<rparr>))"

lemma limiter_write_alone:
  assumes "t < n" and "ls_pc s t = LimIdle"
  shows "(limiter_step n)\<^sup>*\<^sup>* s (snd (SharedWriteLimiter_Write limitCell (streamWrite t) p s))"
proof (cases "p = [] \<or> (\<exists>err. limiterCut (ls_limit s) p = Inl err)")
  case True
  then show ?thesis by (auto simp: SharedWriteLimiter_Write_def limitCell_def)
next
  case False
  then obtain q b where q: "limiterCut (ls_limit s) p = Inr (q, b)" by (cases "limiterCut (ls_limit s) p") auto
  let ?s1 = "s\<lparr>ls_pc := (ls_pc s)(t := LimLoaded q b)\<rparr>"
  let ?s2 = "?s1\<lparr>ls_pc := (ls_pc ?s1)(t := LimWrote (int (length q))), ls_out := (ls_out ?s1)(t := ls_out ?s1 t @ take (length q) q)\<rparr>"
  let ?s3 = "?s2\<lparr>ls_limit := limiterSubtract (int (length q)) (ls_limit ?s2), ls_pc := (ls_pc ?s2)(t := LimIdle)\<rparr>"
  have 1: "limiter_step n s ?s1" using assms q False by (intro limiter_load) auto
  have 2: "limiter_step n ?s1 ?s2" using assms(1) by (intro limiter_delegate) simp_all
  have 3: "limiter_step n ?s2 ?s3" using assms(1) by (intro limiter_subtract) simp_all
  have "(ls_pc s)(t := LimIdle) = ls_pc s" using assms(2) by auto
  then have "?s3 = snd (SharedWriteLimiter_Write limitCell (streamWrite t) p s)"
    using False q by (simp add: SharedWriteLimiter_Write_def limitCell_def streamWrite_def Buffer_Write_def limiterSubtract_def)
  moreover have "(limiter_step n)\<^sup>*\<^sup>* s ?s3" using 1 2 3 by (meson converse_rtranclp_into_rtranclp r_into_rtranclp)
  ultimately show ?thesis by simp
qed

text \<open>C37. \<open>n\<close> streams share one limit \<open>L\<close> and write at once, the load of the counter, the write of the delegate and the
  subtraction of each \<^verbatim>\<open>Write\<close> being separate steps in any order between the streams. In every reachable state the streams hold at most \<open>n * L\<close> bytes
  together, the counter is the limit less what they hold, apart from the subtractions still due, and \<open>n * L\<close> is
  reached by some order of the steps: two concurrent writers can write twice the limit. When no two writes overlap the
  streams hold at most \<open>L\<close>. A write that runs alone is the function \<open>SharedWriteLimiter_Write\<close>.\<close>

theorem SharedWriteLimiter_bound:
  assumes "0 \<le> L" and "(limiter_step n)\<^sup>*\<^sup>* (limiterStart L) s"
  shows "limiterOut n s \<le> int n * L \<and> ls_limit s = L - limiterOut n s + limiterDue n s \<and>
    (\<exists>s'. (limiter_step n)\<^sup>*\<^sup>* (limiterStart L) s' \<and> limiterOut n s' = int n * L) \<and>
    ((limiter_serial n)\<^sup>*\<^sup>* (limiterStart L) s \<longrightarrow> limiterOut n s \<le> L) \<and>
    (\<forall>t p. t < n \<longrightarrow> ls_pc s t = LimIdle \<longrightarrow> (limiter_step n)\<^sup>*\<^sup>* s (snd (SharedWriteLimiter_Write limitCell (streamWrite t) p s)))"
proof -
  have "limiterInv n L s" using limiter_reachable_inv [OF assms(2) limiterStart_inv [OF assms(1)]] .
  then show ?thesis
    using limiterInv_out limiter_reaches [OF assms(1)] limiter_serial_out [OF _ assms(1)] limiter_write_alone
    by (auto simp: limiterInv_def)
qed

text \<open>Two streams with the limit 5: the first writes 3 of its bytes alone, so the second may write 2 more.\<close>

definition limiterExample :: limiterSys where
  "limiterExample = snd (SharedWriteLimiter_Write limitCell (streamWrite 1) ''defg''
     (snd (SharedWriteLimiter_Write limitCell (streamWrite 0) ''abc'' (limiterStart 5))))"

theorem SharedWriteLimiter_bound_witness:
  "(limiter_step 2)\<^sup>*\<^sup>* (limiterStart 5) limiterExample \<and> limiterOut 2 limiterExample \<le> int 2 * 5 \<and>
   ls_out limiterExample 0 = ''abc'' \<and> ls_out limiterExample 1 = ''de'' \<and> ls_limit limiterExample = 0"
proof -
  let ?s1 = "snd (SharedWriteLimiter_Write limitCell (streamWrite 0) ''abc'' (limiterStart 5))"
  have 1: "(limiter_step 2)\<^sup>*\<^sup>* (limiterStart 5) ?s1"
    by (rule limiter_write_alone) (simp_all add: limiterStart_def)
  have "(limiter_step 2)\<^sup>*\<^sup>* ?s1 limiterExample" unfolding limiterExample_def
    by (rule limiter_write_alone) (simp_all add: limiterStart_def SharedWriteLimiter_Write_def limiterCut_def limitCell_def streamWrite_def Buffer_Write_def)
  with 1 have r: "(limiter_step 2)\<^sup>*\<^sup>* (limiterStart 5) limiterExample" by (rule rtranclp_trans)
  moreover have "limiterOut 2 limiterExample \<le> int 2 * 5" using SharedWriteLimiter_bound [OF _ r] by simp
  ultimately show ?thesis
    by (simp add: limiterExample_def limiterStart_def SharedWriteLimiter_Write_def limiterCut_def limitCell_def streamWrite_def Buffer_Write_def limiterSubtract_def)
qed

end
