(* ===== verification/Cri_Types.thy ===== *)
theory Cri_Types
  imports Util_Io
begin

text \<open>
  The data the handlers exchange: the CRI messages of the kubelet (the fields the sources
  read or set), and the Docker API types. A pointer the code may find nil is an \<open>option\<close>; a
  pointer the code dereferences without a test is a plain value, so a request that leaves it
  out (where Go panics) is outside the model. A nil slice and an empty one are both \<open>[]\<close>.
  Enumerations keep a constructor for the values the code does not know, where it has a
  branch for them. Times are nanoseconds since the epoch.
\<close>

subsection \<open>CRI messages\<close>

record PodSandboxMetadata =
  psm_Name :: string
  psm_Uid :: string
  psm_Namespace :: string
  psm_Attempt :: "32 word"

record ContainerMetadata =
  cm_Name :: string
  cm_Attempt :: "32 word"

datatype NamespaceMode = NS_POD | NS_CONTAINER | NS_NODE | NS_TARGET

record NamespaceOption =
  no_Network :: NamespaceMode
  no_Pid :: NamespaceMode
  no_Ipc :: NamespaceMode
  no_TargetId :: string

text \<open>The generated getters return the zero value \<^verbatim>\<open>POD\<close> (or the empty string) for nil.\<close>

definition GetNetwork :: "NamespaceOption option \<Rightarrow> NamespaceMode" where
  [go_defs]: "GetNetwork o' = (case o' of None \<Rightarrow> NS_POD | Some n \<Rightarrow> no_Network n)"

definition GetPid :: "NamespaceOption option \<Rightarrow> NamespaceMode" where
  [go_defs]: "GetPid o' = (case o' of None \<Rightarrow> NS_POD | Some n \<Rightarrow> no_Pid n)"

definition GetIpc :: "NamespaceOption option \<Rightarrow> NamespaceMode" where
  [go_defs]: "GetIpc o' = (case o' of None \<Rightarrow> NS_POD | Some n \<Rightarrow> no_Ipc n)"

definition GetTargetId :: "NamespaceOption option \<Rightarrow> string" where
  [go_defs]: "GetTargetId o' = (case o' of None \<Rightarrow> [] | Some n \<Rightarrow> no_TargetId n)"

record SELinuxOption =
  se_User :: string
  se_Role :: string
  se_Type :: string
  se_Level :: string

datatype SecurityProfileType = SP_RuntimeDefault | SP_Unconfined | SP_Localhost | SP_Other int

record SecurityProfile =
  sp_ProfileType :: SecurityProfileType
  sp_LocalhostRef :: string

record Capability =
  cap_Add :: "string list"
  cap_Drop :: "string list"

record LinuxContainerSecurityContext =
  lsc_Capabilities :: "Capability option"
  lsc_Privileged :: bool
  lsc_NamespaceOptions :: "NamespaceOption option"
  lsc_SelinuxOptions :: "SELinuxOption option"
  lsc_RunAsUser :: "int option"
  lsc_RunAsGroup :: "int option"
  lsc_RunAsUsername :: string
  lsc_ReadonlyRootfs :: bool
  lsc_SupplementalGroups :: "int list"
  lsc_ApparmorProfile :: string
  lsc_NoNewPrivs :: bool
  lsc_MaskedPaths :: "string list"
  lsc_ReadonlyPaths :: "string list"
  lsc_Seccomp :: "SecurityProfile option"

record LinuxSandboxSecurityContext =
  lss_NamespaceOptions :: "NamespaceOption option"
  lss_SelinuxOptions :: "SELinuxOption option"
  lss_RunAsUser :: "int option"
  lss_RunAsGroup :: "int option"
  lss_ReadonlyRootfs :: bool
  lss_SupplementalGroups :: "int list"
  lss_Privileged :: bool

record LinuxPodSandboxConfig =
  lps_CgroupParent :: string
  lps_SecurityContext :: "LinuxSandboxSecurityContext option"
  lps_Sysctls :: gomap

record LinuxContainerResources =
  lcr_CpuPeriod :: int
  lcr_CpuQuota :: int
  lcr_CpuShares :: int
  lcr_MemoryLimitInBytes :: int
  lcr_OomScoreAdj :: int
  lcr_CpusetCpus :: string
  lcr_CpusetMems :: string

record LinuxContainerConfig =
  lcc_Resources :: "LinuxContainerResources option"
  lcc_SecurityContext :: "LinuxContainerSecurityContext option"

record DNSConfig =
  dns_Servers :: "string list"
  dns_Searches :: "string list"
  dns_Options :: "string list"

datatype Protocol = Protocol_TCP | Protocol_UDP | Protocol_SCTP | Protocol_other int

record PortMapping =
  pm_Protocol :: Protocol
  pm_ContainerPort :: int
  pm_HostPort :: int
  pm_HostIp :: string

record PodSandboxConfig =
  psc_Metadata :: PodSandboxMetadata
  psc_Hostname :: string
  psc_LogDirectory :: string
  psc_DnsConfig :: "DNSConfig option"
  psc_PortMappings :: "PortMapping list"
  psc_Labels :: gomap
  psc_Annotations :: gomap
  psc_Linux :: "LinuxPodSandboxConfig option"

text \<open>\<^verbatim>\<open>GetLinux().GetSecurityContext().GetNamespaceOptions()\<close> of a sandbox configuration.\<close>

definition sandboxNsOptions :: "PodSandboxConfig \<Rightarrow> NamespaceOption option" where
  [go_defs]: "sandboxNsOptions c =
     Option.bind (Option.bind (psc_Linux c) lps_SecurityContext) lss_NamespaceOptions"

datatype MountPropagation =
    PROPAGATION_PRIVATE | PROPAGATION_HOST_TO_CONTAINER | PROPAGATION_BIDIRECTIONAL
  | PROPAGATION_other int

record Mount =
  mnt_ContainerPath :: string
  mnt_HostPath :: string
  mnt_Readonly :: bool
  mnt_SelinuxRelabel :: bool
  mnt_Propagation :: MountPropagation
  mnt_RecursiveReadOnly :: bool

record Device =
  dev_ContainerPath :: string
  dev_HostPath :: string
  dev_Permissions :: string

record ContainerConfig =
  cc_Metadata :: ContainerMetadata
  cc_Image :: "string option"
  cc_Command :: "string list"
  cc_Args :: "string list"
  cc_WorkingDir :: string
  cc_Envs :: "(string \<times> string) list"
  cc_Mounts :: "Mount list"
  cc_Devices :: "Device list"
  cc_CDIDevices :: "string list"
  cc_Labels :: gomap
  cc_Annotations :: gomap
  cc_LogPath :: string
  cc_Stdin :: bool
  cc_StdinOnce :: bool
  cc_Tty :: bool
  cc_Linux :: "LinuxContainerConfig option"

datatype ContainerState =
    CONTAINER_CREATED | CONTAINER_RUNNING | CONTAINER_EXITED | CONTAINER_UNKNOWN

datatype PodSandboxState = SANDBOX_READY | SANDBOX_NOTREADY

subsection \<open>Docker API types\<close>

record DockerMount =
  dm_Source :: string
  dm_Target :: string
  dm_ReadOnly :: bool
  dm_CreateMountpoint :: bool
  dm_ReadOnlyNonRecursive :: bool
  dm_Propagation :: string

record PortBinding =
  pb_HostIP :: string
  pb_HostPort :: string

record DeviceMapping =
  dvm_PathOnHost :: string
  dvm_PathInContainer :: string
  dvm_CgroupPermissions :: string

record DockerResources =
  dr_Memory :: int
  dr_MemorySwap :: int
  dr_CPUShares :: int
  dr_CPUQuota :: int
  dr_CPUPeriod :: int
  dr_CpusetCpus :: string
  dr_CpusetMems :: string
  dr_Devices :: "DeviceMapping list"
  dr_DeviceRequests :: "(string \<times> string list) list"

record DockerConfig =
  dc_Hostname :: string
  dc_User :: string
  dc_ExposedPorts :: "string list"
  dc_Tty :: bool
  dc_OpenStdin :: bool
  dc_StdinOnce :: bool
  dc_Env :: "string list"
  dc_Cmd :: "string list"
  dc_Healthcheck :: "string list option"
  dc_Image :: string
  dc_WorkingDir :: string
  dc_Entrypoint :: "string list"
  dc_Labels :: gomap
  dc_Volumes :: "string list"
  dc_StopSignal :: string

record HostConfig =
  hc_NetworkMode :: string
  hc_PortBindings :: "(string \<times> PortBinding list) list"
  hc_RestartPolicy :: string
  hc_CapAdd :: "string list"
  hc_CapDrop :: "string list"
  hc_GroupAdd :: "string list"
  hc_IpcMode :: string
  hc_PidMode :: string
  hc_UTSMode :: string
  hc_OomScoreAdj :: int
  hc_Privileged :: bool
  hc_ReadonlyRootfs :: bool
  hc_SecurityOpt :: "string list"
  hc_Sysctls :: gomap
  hc_Runtime :: string
  hc_CgroupParent :: string
  hc_Mounts :: "DockerMount list"
  hc_MaskedPaths :: "string list"
  hc_ReadonlyPaths :: "string list"
  hc_ShmSize :: int
  hc_Resources :: DockerResources

record ContainerCreateConfig =
  ccc_Name :: string
  ccc_Config :: DockerConfig
  ccc_HostConfig :: HostConfig

text \<open>The zero values of the Docker structs.\<close>

definition zeroResources :: DockerResources where
  [go_defs]: "zeroResources = \<lparr>dr_Memory = 0, dr_MemorySwap = 0, dr_CPUShares = 0, dr_CPUQuota = 0,
     dr_CPUPeriod = 0, dr_CpusetCpus = [], dr_CpusetMems = [], dr_Devices = [], dr_DeviceRequests = []\<rparr>"

definition zeroConfig :: DockerConfig where
  [go_defs]: "zeroConfig = \<lparr>dc_Hostname = [], dc_User = [], dc_ExposedPorts = [], dc_Tty = False,
     dc_OpenStdin = False, dc_StdinOnce = False, dc_Env = [], dc_Cmd = [], dc_Healthcheck = None,
     dc_Image = [], dc_WorkingDir = [], dc_Entrypoint = [], dc_Labels = [],
     dc_Volumes = [], dc_StopSignal = []\<rparr>"

definition zeroHostConfig :: HostConfig where
  [go_defs]: "zeroHostConfig = \<lparr>hc_NetworkMode = [], hc_PortBindings = [], hc_RestartPolicy = [],
     hc_CapAdd = [], hc_CapDrop = [], hc_GroupAdd = [], hc_IpcMode = [], hc_PidMode = [], hc_UTSMode = [],
     hc_OomScoreAdj = 0, hc_Privileged = False, hc_ReadonlyRootfs = False, hc_SecurityOpt = [],
     hc_Sysctls = [], hc_Runtime = [], hc_CgroupParent = [], hc_Mounts = [], hc_MaskedPaths = [],
     hc_ReadonlyPaths = [], hc_ShmSize = 0, hc_Resources = zeroResources\<rparr>"

record DockerState =
  ds_Running :: bool
  ds_Pid :: int
  ds_ExitCode :: int
  ds_OOMKilled :: bool
  ds_Error :: string
  ds_StartedAt :: string
  ds_FinishedAt :: string

record MountPoint =
  mp_Source :: string
  mp_Destination :: string
  mp_RW :: bool

record NetworkSettings =
  nst_IPAddress :: string
  nst_GlobalIPv6Address :: string

record ContainerJSON =
  cj_ID :: string
  cj_Name :: string
  cj_Image :: string
  cj_Created :: string
  cj_State :: DockerState
  cj_ResolvConfPath :: string
  cj_LogPath :: string
  cj_HostConfig :: HostConfig
  cj_Config :: DockerConfig
  cj_Mounts :: "MountPoint list"
  cj_NetworkSettings :: "NetworkSettings option"
  cj_SizeRw :: "int option"

text \<open>An entry of the container list.\<close>

record DockerContainer =
  dct_ID :: string
  dct_Names :: "string list"
  dct_Image :: string
  dct_ImageID :: string
  dct_Created :: int
  dct_Labels :: gomap
  dct_State :: string
  dct_Status :: string

record ListOptions =
  lo_All :: bool
  lo_Filters :: "(string \<times> string) list"

record RemoveOptions =
  ro_RemoveVolumes :: bool
  ro_Force :: bool

record AuthConfig =
  au_Username :: string
  au_Password :: string
  au_ServerAddress :: string
  au_IdentityToken :: string
  au_RegistryToken :: string

definition zeroAuth :: AuthConfig where
  [go_defs]: "zeroAuth = \<lparr>au_Username = [], au_Password = [], au_ServerAddress = [],
     au_IdentityToken = [], au_RegistryToken = []\<rparr>"

record ImageInspect =
  ii_ID :: string
  ii_RepoTags :: "string list"
  ii_RepoDigests :: "string list"
  ii_Size :: int
  ii_Config :: "DockerConfig option"
  ii_Created :: string
  ii_Author :: string
  ii_Architecture :: string
  ii_Os :: string
  ii_RootFSType :: string
  ii_RootFSLayers :: "string list"

record HistoryItem =
  hi_Created :: int
  hi_CreatedBy :: string
  hi_Comment :: string
  hi_Size :: int

record ImageSummary =
  is_ID :: string
  is_RepoTags :: "string list"
  is_RepoDigests :: "string list"
  is_Size :: int
  is_SharedSize :: int

record ImageListOptions =
  ilo_All :: bool
  ilo_SharedSize :: bool
  ilo_Filters :: "(string \<times> string) list"

record DockerVersion =
  dv_Version :: string
  dv_APIVersion :: string

text \<open>\<^verbatim>\<open>docker info\<close>: the runtimes with the value of their OCI features status, and the default.\<close>

record DockerInfo =
  di_Runtimes :: "(string \<times> string option) list"
  di_DefaultRuntime :: string
  di_LoggingDriver :: string
  di_CgroupDriver :: string
  di_DockerRootDir :: string

record ExecInspect =
  ei_Running :: bool
  ei_ExitCode :: int

record ExecOptions =
  eo_Cmd :: "string list"
  eo_AttachStdin :: bool
  eo_AttachStdout :: bool
  eo_AttachStderr :: bool
  eo_Tty :: bool

record LogsOptions =
  lgo_ShowStdout :: bool
  lgo_ShowStderr :: bool
  lgo_Since :: string
  lgo_Timestamps :: bool
  lgo_Follow :: bool
  lgo_Tail :: string

text \<open>The counters of a container the sources read from its statistics.\<close>

record StatsResponse =
  sr_CPUTotalUsage :: "64 word"
  sr_MemoryUsage :: "64 word"

subsection \<open>The Docker client interface\<close>

text \<open>
  \<^verbatim>\<open>libdocker.DockerClientInterface\<close>, method by method. The daemon is
  outside the repository: its state is the type variable \<open>'e\<close>, and every operation maps that
  state to a result and a new state. The streams an operation copies its output to are writers
  over the same state; of the input stream only its presence is kept.
\<close>

record 'e StreamOptions =
  so_RawTerminal :: bool
  so_InputStream :: bool
  so_OutputStream :: "'e writer option"
  so_ErrorStream :: "'e writer option"

record 'e docker_client =
  dk_ListContainers :: "ListOptions \<Rightarrow> 'e \<Rightarrow> (DockerContainer list \<times> goerror option) \<times> 'e"
  dk_InspectContainer :: "string \<Rightarrow> 'e \<Rightarrow> ContainerJSON result \<times> 'e"
  dk_InspectContainerWithSize :: "string \<Rightarrow> 'e \<Rightarrow> ContainerJSON result \<times> 'e"
  dk_CreateContainer :: "ContainerCreateConfig \<Rightarrow> 'e \<Rightarrow> string result \<times> 'e"
  dk_StartContainer :: "string \<Rightarrow> 'e \<Rightarrow> goerror option \<times> 'e"
  dk_StopContainer :: "string \<Rightarrow> int \<Rightarrow> 'e \<Rightarrow> goerror option \<times> 'e"
  dk_UpdateContainerResources :: "string \<Rightarrow> DockerResources \<Rightarrow> 'e \<Rightarrow> goerror option \<times> 'e"
  dk_RemoveContainer :: "string \<Rightarrow> RemoveOptions \<Rightarrow> 'e \<Rightarrow> goerror option \<times> 'e"
  dk_InspectImageByRef :: "string \<Rightarrow> 'e \<Rightarrow> ImageInspect result \<times> 'e"
  dk_InspectImageByID :: "string \<Rightarrow> 'e \<Rightarrow> ImageInspect result \<times> 'e"
  dk_ListImages :: "ImageListOptions \<Rightarrow> 'e \<Rightarrow> ImageSummary list result \<times> 'e"
  dk_PullImage :: "string \<Rightarrow> AuthConfig \<Rightarrow> 'e \<Rightarrow> goerror option \<times> 'e"
  dk_RemoveImage :: "string \<Rightarrow> 'e \<Rightarrow> goerror option \<times> 'e"
  dk_ImageHistory :: "string \<Rightarrow> 'e \<Rightarrow> HistoryItem list result \<times> 'e"
  dk_Logs :: "string \<Rightarrow> LogsOptions \<Rightarrow> 'e StreamOptions \<Rightarrow> 'e \<Rightarrow> goerror option \<times> 'e"
  dk_Version :: "'e \<Rightarrow> DockerVersion result \<times> 'e"
  dk_Info :: "'e \<Rightarrow> DockerInfo result \<times> 'e"
  dk_CreateExec :: "string \<Rightarrow> ExecOptions \<Rightarrow> 'e \<Rightarrow> string result \<times> 'e"
  dk_StartExec :: "string \<Rightarrow> bool \<Rightarrow> bool \<Rightarrow> 'e StreamOptions \<Rightarrow> 'e \<Rightarrow> goerror option \<times> 'e"
  dk_InspectExec :: "string \<Rightarrow> 'e \<Rightarrow> ExecInspect result \<times> 'e"
  dk_AttachToContainer :: "string \<Rightarrow> bool \<Rightarrow> 'e StreamOptions \<Rightarrow> 'e \<Rightarrow> goerror option \<times> 'e"
  dk_ResizeContainerTTY :: "string \<Rightarrow> nat \<Rightarrow> nat \<Rightarrow> 'e \<Rightarrow> goerror option \<times> 'e"
  dk_ResizeExecTTY :: "string \<Rightarrow> nat \<Rightarrow> nat \<Rightarrow> 'e \<Rightarrow> goerror option \<times> 'e"
  dk_GetContainerStats :: "string \<Rightarrow> 'e \<Rightarrow> StatsResponse result \<times> 'e"

end
