(* ===== verification/Naming.thy ===== *)
theory Naming
  imports Cri_Types
begin

text \<open>
  Docker container names (\<^verbatim>\<open>core/naming.go\<close>). A name encodes the metadata of a sandbox or a
  container; docker rejects a second container of the same name, which is what makes creation
  idempotent. The handlers read the metadata back from the name.
\<close>

definition kubePrefix :: string where "kubePrefix = ''k8s''"

definition sandboxContainerName :: string where "sandboxContainerName = ''POD''"

definition nameDelimiter :: string where "nameDelimiter = ''_''"

definition DockerImageIDPrefix :: string where "DockerImageIDPrefix = ''docker://''"

definition DockerPullableImageIDPrefix :: string where
  "DockerPullableImageIDPrefix = ''docker-pullable://''"

definition makeSandboxName :: "PodSandboxConfig \<Rightarrow> string" where
  "makeSandboxName s =
     strings_Join
       [kubePrefix,
        sandboxContainerName,
        psm_Name (psc_Metadata s),
        psm_Namespace (psc_Metadata s),
        psm_Uid (psc_Metadata s),
        strconv_Itoa (unat (psm_Attempt (psc_Metadata s)))]
       nameDelimiter"

definition makeContainerName :: "PodSandboxConfig \<Rightarrow> ContainerConfig \<Rightarrow> string" where
  "makeContainerName s c =
     strings_Join
       [kubePrefix,
        cm_Name (cc_Metadata c),
        psm_Name (psc_Metadata s),
        psm_Namespace (psc_Metadata s),
        psm_Uid (psc_Metadata s),
        strconv_Itoa (unat (cm_Attempt (cc_Metadata c)))]
       nameDelimiter"

text \<open>The random number is an argument.\<close>

definition randomizeName :: "32 word \<Rightarrow> string \<Rightarrow> string" where
  "randomizeName rand name = strings_Join [name, fmt_hex8 rand] nameDelimiter"

definition parseUint32 :: "string \<Rightarrow> (32 word) result" where
  "parseUint32 s =
     (case strconv_ParseUint s 32 of Inl e \<Rightarrow> Inl (NumError s e) | Inr n \<Rightarrow> Inr (of_nat n))"

definition parseSandboxName :: "string \<Rightarrow> PodSandboxMetadata result" where
  "parseSandboxName name0 =
     (let name = strings_TrimPrefix name0 ''/'';
          parts = strings_Split name (CHR ''_'')
      in if length parts \<noteq> 6 \<and> length parts \<noteq> 7
         then Inl (Errorf (''failed to parse the sandbox name: '' @ fmt_q name))
         else if parts ! 0 \<noteq> kubePrefix
         then Inl (Errorf (''container is not managed by kubernetes: '' @ fmt_q name))
         else (case parseUint32 (parts ! 5) of
             Inl err \<Rightarrow> Inl (Errorf (''failed to parse the sandbox name '' @ fmt_q name @ '': '' @ Error err))
           | Inr attempt \<Rightarrow>
               Inr \<lparr>psm_Name = parts ! 2, psm_Uid = parts ! 4, psm_Namespace = parts ! 3,
                    psm_Attempt = attempt\<rparr>))"

definition parseContainerName :: "string \<Rightarrow> ContainerMetadata result" where
  "parseContainerName name0 =
     (let name = strings_TrimPrefix name0 ''/'';
          parts = strings_Split name (CHR ''_'')
      in if length parts \<noteq> 6 \<and> length parts \<noteq> 7
         then Inl (Errorf (''failed to parse the container name: '' @ fmt_q name))
         else if parts ! 0 \<noteq> kubePrefix
         then Inl (Errorf (''container is not managed by kubernetes: '' @ fmt_q name))
         else (case parseUint32 (parts ! 5) of
             Inl err \<Rightarrow> Inl (Errorf (''failed to parse the container name '' @ fmt_q name @ '': '' @ Error err))
           | Inr attempt \<Rightarrow> Inr \<lparr>cm_Name = parts ! 1, cm_Attempt = attempt\<rparr>))"

subsection \<open>Lemmas\<close>

text \<open>Kubernetes object names and UIDs hold no underscore; the naming scheme relies on it.\<close>

definition delimiterFree :: "string \<Rightarrow> bool" where
  "delimiterFree s \<longleftrightarrow> CHR ''_'' \<notin> set s"

definition sandboxMetadataOk :: "PodSandboxMetadata \<Rightarrow> bool" where
  "sandboxMetadataOk m \<longleftrightarrow>
     delimiterFree (psm_Name m) \<and> delimiterFree (psm_Namespace m) \<and> delimiterFree (psm_Uid m)"

lemma parseUint32_Itoa [simp]: "parseUint32 (strconv_Itoa (unat w)) = Inr w"
proof -
  have "unat w < 2 ^ 32" using unsigned_less [of w] by simp
  then show ?thesis by (simp add: parseUint32_def ParseUint_Itoa)
qed

lemma Itoa_delimiterFree [simp]: "CHR ''_'' \<notin> set (strconv_Itoa n)"
  by (rule Itoa_not_in) (simp add: isDigit_def)

lemma hexDigit_not_underscore:
  assumes "d < 16"
  shows "digitChar d \<noteq> CHR ''_''"
proof
  assume "digitChar d = CHR ''_''"
  then have "(of_char (digitChar d) :: nat) = of_char (CHR ''_'')" by simp
  then have "(if d < 10 then 48 + d else 87 + d) = (95 :: nat)"
    using assms by (simp add: digitChar_def split: if_splits)
  then show False by (simp split: if_splits)
qed

lemma fmt_hex_delimiterFree: "CHR ''_'' \<notin> set (fmt_nat 16 n)"
proof (induction n rule: less_induct)
  case (less n)
  show ?case
  proof (cases "n < 16")
    case True
    then have "digitChar n \<noteq> CHR ''_''" by (rule hexDigit_not_underscore)
    with True show ?thesis by (subst fmt_nat.simps) simp
  next
    case False
    then have "CHR ''_'' \<notin> set (fmt_nat 16 (n div 16))" by (intro less.IH) simp
    moreover have "digitChar (n mod 16) \<noteq> CHR ''_''" by (rule hexDigit_not_underscore) simp
    ultimately show ?thesis using False by (subst fmt_nat.simps) simp
  qed
qed

lemma fmt_hex8_delimiterFree: "CHR ''_'' \<notin> set (fmt_hex8 w)"
  by (simp add: fmt_hex8_def Let_def fmt_hex_delimiterFree)

text \<open>A name of the scheme, possibly with docker's slash and a random suffix, splits into its parts.\<close>

lemma name_parts:
  assumes "\<forall>w\<in>set ws. delimiterFree w" and "ws \<noteq> []" and "hd ws = kubePrefix"
    and "pre = '''' \<or> pre = ''/''"
  shows "strings_Split (strings_TrimPrefix (pre @ strings_Join ws nameDelimiter) ''/'') (CHR ''_'') = ws"
proof -
  obtain vs where ws: "ws = kubePrefix # vs" using assms(2,3) by (cases ws) auto
  have "\<not> strings_HasPrefix (strings_Join ws nameDelimiter) ''/''"
    by (cases vs) (simp_all add: ws strings_HasPrefix_def kubePrefix_def)
  then have "strings_TrimPrefix (pre @ strings_Join ws nameDelimiter) ''/'' = strings_Join ws nameDelimiter"
    using assms(4) by (auto simp: strings_HasPrefix_def strings_TrimPrefix_def)
  then show ?thesis
    using Split_Join [of ws "CHR ''_''"] assms(1,2) by (simp add: nameDelimiter_def delimiterFree_def)
qed

lemma randomizeName_Join:
  "randomizeName r (strings_Join [a, b, c, d, e, f] nameDelimiter) =
     strings_Join [a, b, c, d, e, f, fmt_hex8 r] nameDelimiter"
  by (simp add: randomizeName_def)

lemma kubePrefix_delimiterFree [simp]: "delimiterFree kubePrefix"
  by (simp add: delimiterFree_def kubePrefix_def)

lemma sandboxContainerName_delimiterFree [simp]: "delimiterFree sandboxContainerName"
  by (simp add: delimiterFree_def sandboxContainerName_def)

lemma Itoa_delimiterFree' [simp]: "delimiterFree (strconv_Itoa n)"
  by (simp add: delimiterFree_def)

lemma fmt_hex8_delimiterFree' [simp]: "delimiterFree (fmt_hex8 w)"
  by (simp add: delimiterFree_def fmt_hex8_delimiterFree)

lemma scheme_parts:
  assumes "name = strings_Join [kubePrefix, b, c, d, e, f] nameDelimiter \<or>
     name = randomizeName r (strings_Join [kubePrefix, b, c, d, e, f] nameDelimiter)"
    and "delimiterFree b" "delimiterFree c" "delimiterFree d" "delimiterFree e" "delimiterFree f"
    and "pre = '''' \<or> pre = ''/''"
  shows "strings_Split (strings_TrimPrefix (pre @ name) ''/'') (CHR ''_'') = [kubePrefix, b, c, d, e, f] \<or>
     strings_Split (strings_TrimPrefix (pre @ name) ''/'') (CHR ''_'') = [kubePrefix, b, c, d, e, f, fmt_hex8 r]"
  using assms(1)
proof
  assume n: "name = strings_Join [kubePrefix, b, c, d, e, f] nameDelimiter"
  show ?thesis unfolding n by (rule disjI1, rule name_parts) (use assms(2-) in simp_all)
next
  assume n: "name = randomizeName r (strings_Join [kubePrefix, b, c, d, e, f] nameDelimiter)"
  show ?thesis unfolding n randomizeName_Join
    by (rule disjI2, rule name_parts) (use assms(2-) in simp_all)
qed

subsection \<open>Properties\<close>

text \<open>The name of a sandbox, as docker reports it (with or without the leading slash) and
  also after a conflict has added a random suffix, parses back to the metadata of the sandbox,
  for every metadata whose fields hold no underscore and for every 32-bit attempt.\<close>

lemma parse_makeSandboxName:
  assumes "sandboxMetadataOk (psc_Metadata s)" and "pre = '''' \<or> pre = ''/''"
    and "name = makeSandboxName s \<or> name = randomizeName r (makeSandboxName s)"
  shows "parseSandboxName (pre @ name) = Inr (psc_Metadata s)"
  by (rule disjE [OF scheme_parts [OF assms(3) [unfolded makeSandboxName_def] _ _ _ _ _ assms(2)]])
    (use assms(1) in \<open>simp_all add: sandboxMetadataOk_def parseSandboxName_def Let_def\<close>)

definition exampleSandboxConfig :: PodSandboxConfig where
  "exampleSandboxConfig = \<lparr>psc_Metadata = \<lparr>psm_Name = ''web-0'', psm_Uid = ''7d3f'',
     psm_Namespace = ''default'', psm_Attempt = 4294967295\<rparr>, psc_Hostname = ''web'', psc_LogDirectory = ''/var/log/pods'',
     psc_DnsConfig = None, psc_PortMappings = [], psc_Labels = [], psc_Annotations = [], psc_Linux = None\<rparr>"

text \<open>The name of a container parses back to its own metadata, with docker's slash and with
  a random suffix as well.\<close>

lemma parse_makeContainerName:
  assumes "sandboxMetadataOk (psc_Metadata s)" and "delimiterFree (cm_Name (cc_Metadata c))"
    and "pre = '''' \<or> pre = ''/''"
    and "name = makeContainerName s c \<or> name = randomizeName r (makeContainerName s c)"
  shows "parseContainerName (pre @ name) = Inr (cc_Metadata c)"
  by (rule disjE [OF scheme_parts [OF assms(4) [unfolded makeContainerName_def] _ _ _ _ _ assms(3)]])
    (use assms(1,2) in \<open>simp_all add: sandboxMetadataOk_def parseContainerName_def Let_def\<close>)

definition exampleContainerConfig :: ContainerConfig where
  "exampleContainerConfig = \<lparr>cc_Metadata = \<lparr>cm_Name = ''nginx'', cm_Attempt = 3\<rparr>, cc_Image = Some ''nginx'',
     cc_Command = [], cc_Args = [], cc_WorkingDir = [], cc_Envs = [], cc_Mounts = [], cc_Devices = [],
     cc_CDIDevices = [], cc_Labels = [], cc_Annotations = [], cc_LogPath = ''nginx/3.log'', cc_Stdin = False,
     cc_StdinOnce = False, cc_Tty = False, cc_Linux = None\<rparr>"

text \<open>C22. Names are as distinct as the metadata: two containers (a sandbox counts as a container
  called POD) of underscore-free metadata get the same docker name only if their pod name,
  namespace, uid, container name and attempt all agree. So docker's refusal of a duplicate
  name never blocks a container of other metadata.\<close>

theorem makeContainerName_inj:
  assumes "sandboxMetadataOk (psc_Metadata s)" and "sandboxMetadataOk (psc_Metadata s')"
    and "delimiterFree (cm_Name (cc_Metadata c))" and "delimiterFree (cm_Name (cc_Metadata c'))"
    and "makeContainerName s c = makeContainerName s' c'"
  shows "cc_Metadata c = cc_Metadata c' \<and> psm_Name (psc_Metadata s) = psm_Name (psc_Metadata s') \<and>
     psm_Namespace (psc_Metadata s) = psm_Namespace (psc_Metadata s') \<and>
     psm_Uid (psc_Metadata s) = psm_Uid (psc_Metadata s')"
proof -
  have "[kubePrefix, cm_Name (cc_Metadata c), psm_Name (psc_Metadata s), psm_Namespace (psc_Metadata s),
      psm_Uid (psc_Metadata s), strconv_Itoa (unat (cm_Attempt (cc_Metadata c)))] =
    [kubePrefix, cm_Name (cc_Metadata c'), psm_Name (psc_Metadata s'), psm_Namespace (psc_Metadata s'),
      psm_Uid (psc_Metadata s'), strconv_Itoa (unat (cm_Attempt (cc_Metadata c')))]"
    by (rule Join_inj [where d = "CHR ''_''"])
      (use assms in \<open>auto simp: makeContainerName_def nameDelimiter_def sandboxMetadataOk_def
         delimiterFree_def kubePrefix_def\<close>)
  then show ?thesis
    by (auto dest!: Itoa_inj intro!: ContainerMetadata.equality simp: word_unat_eq_iff)
qed

theorem makeContainerName_inj_witness:
  "makeContainerName exampleSandboxConfig exampleContainerConfig \<noteq>
   makeContainerName exampleSandboxConfig (exampleContainerConfig\<lparr>cc_Metadata := \<lparr>cm_Name = ''nginx'', cm_Attempt = 4\<rparr>\<rparr>)"
  using makeContainerName_inj [of exampleSandboxConfig exampleSandboxConfig exampleContainerConfig
     "exampleContainerConfig\<lparr>cc_Metadata := \<lparr>cm_Name = ''nginx'', cm_Attempt = 4\<rparr>\<rparr>"]
  by (auto simp: exampleSandboxConfig_def exampleContainerConfig_def sandboxMetadataOk_def delimiterFree_def)

end
