(* ===== verification/Go_Path.thy ===== *)
theory Go_Path
  imports Cri_Prelude
begin

text \<open>
  Slash-separated paths: \<^verbatim>\<open>filepath.Clean\<close>, \<^verbatim>\<open>Join\<close>, \<^verbatim>\<open>Dir\<close>, \<^verbatim>\<open>IsAbs\<close> and \<^verbatim>\<open>path.Base\<close> on a
  unix system, and the lemmas about the paths of the checkpoint directory.
\<close>

text \<open>One path element met by \<^verbatim>\<open>Clean\<close>; the kept elements are in reverse order.\<close>

definition cleanStep :: "bool \<Rightarrow> string \<Rightarrow> string list \<Rightarrow> string list" where
  "cleanStep rooted el out =
     (if el = [] \<or> el = ''.'' then out
      else if el = ''..'' then
        (case out of
           o' # os \<Rightarrow> (if o' = ''..'' then (if rooted then out else ''..'' # out) else os)
         | [] \<Rightarrow> (if rooted then [] else [''..'']))
      else el # out)"

definition filepath_Clean :: "string \<Rightarrow> string" where
  "filepath_Clean p =
     (let rooted = strings_HasPrefix p ''/'';
          out = strings_Join (rev (fold (cleanStep rooted) (strings_Split p (CHR ''/'')) [])) ''/'' in
      if rooted then CHR ''/'' # out else if out = [] then ''.'' else out)"

definition filepath_Join :: "string list \<Rightarrow> string" where
  "filepath_Join els =
     (let ne = filter (\<lambda>e. e \<noteq> []) els in if ne = [] then [] else filepath_Clean (strings_Join ne ''/''))"

text \<open>The path up to and with its last slash, cleaned.\<close>

definition filepath_Dir :: "string \<Rightarrow> string" where
  "filepath_Dir p = filepath_Clean (rev (dropWhile (\<lambda>c. c \<noteq> CHR ''/'') (rev p)))"

definition filepath_IsAbs :: "string \<Rightarrow> bool" where
  "filepath_IsAbs p = strings_HasPrefix p ''/''"

definition path_Base :: "string \<Rightarrow> string" where
  "path_Base p =
     (if p = [] then ''.''
      else let q = rev (dropWhile (\<lambda>c. c = CHR ''/'') (rev p)) in
           let b = rev (takeWhile (\<lambda>c. c \<noteq> CHR ''/'') (rev q)) in
           if b = [] then ''/'' else b)"

lemmas go_path_defs = cleanStep_def filepath_Clean_def filepath_Join_def filepath_Dir_def
  filepath_IsAbs_def path_Base_def

subsection \<open>Absolute clean paths\<close>

definition pathElem :: "string \<Rightarrow> bool" where
  "pathElem e \<longleftrightarrow> e \<noteq> [] \<and> e \<noteq> ''.'' \<and> e \<noteq> ''..'' \<and> CHR ''/'' \<notin> set e"

definition absPath :: "string list \<Rightarrow> string" where
  "absPath es = CHR ''/'' # strings_Join es ''/''"

lemma fold_cleanStep: "\<forall>e\<in>set es. pathElem e \<Longrightarrow> fold (cleanStep r) es out = rev es @ out"
  by (induction es arbitrary: out) (auto simp: cleanStep_def pathElem_def)

lemma Split_absPath:
  "\<lbrakk>es \<noteq> []; \<forall>e\<in>set es. pathElem e\<rbrakk> \<Longrightarrow> strings_Split (absPath es) (CHR ''/'') = [] # es"
  using Split_Join [of es "CHR ''/''"] by (simp add: absPath_def pathElem_def)

lemma Clean_absPath:
  assumes "es \<noteq> []" "\<forall>e\<in>set es. pathElem e"
  shows "filepath_Clean (absPath es) = absPath es"
proof -
  have "strings_HasPrefix (absPath es) ''/''" by (simp add: absPath_def strings_HasPrefix_def)
  moreover have "strings_Split (absPath es) (CHR ''/'') = [] # es" using assms by (rule Split_absPath)
  ultimately show ?thesis
    using assms(2) by (simp add: filepath_Clean_def fold_cleanStep cleanStep_def)
      (simp add: absPath_def)
qed

lemma Join_append_one: "es \<noteq> [] \<Longrightarrow> strings_Join (es @ [k]) sep = strings_Join es sep @ sep @ k"
  by (induction es sep rule: strings_Join.induct) auto

lemma filepath_Join_absPath:
  assumes "es \<noteq> []" "\<forall>e\<in>set es. pathElem e" "pathElem k"
  shows "filepath_Join [absPath es, k] = absPath (es @ [k])"
proof -
  have "strings_Join [absPath es, k] ''/'' = absPath (es @ [k])"
    using assms(1) by (simp add: absPath_def Join_append_one)
  moreover have "absPath es \<noteq> []" by (simp add: absPath_def)
  moreover have "k \<noteq> []" using assms(3) by (simp add: pathElem_def)
  ultimately show ?thesis using Clean_absPath [of "es @ [k]"] assms by (auto simp: filepath_Join_def)
qed

lemma cleanStep_rooted_trailing: "fold (cleanStep True) (es @ [[]]) out = fold (cleanStep True) es out"
  by (simp add: cleanStep_def)

lemma filepath_Dir_absPath:
  assumes "es \<noteq> []" "\<forall>e\<in>set es. pathElem e" "pathElem k"
  shows "filepath_Dir (absPath (es @ [k])) = absPath es"
proof -
  have k: "dropWhile (\<lambda>c. c \<noteq> CHR ''/'') (rev k @ ys) = dropWhile (\<lambda>c. c \<noteq> CHR ''/'') ys" for ys
    by (rule dropWhile_append2) (use assms(3) in \<open>auto simp: pathElem_def\<close>)
  have eq: "absPath (es @ [k]) = absPath es @ ''/'' @ k"
    using assms(1) by (simp add: absPath_def Join_append_one)
  have "dropWhile (\<lambda>c. c \<noteq> CHR ''/'') (rev (absPath es @ ''/'' @ k)) = CHR ''/'' # rev (absPath es)"
    by (simp add: k)
  then have "filepath_Dir (absPath (es @ [k])) = filepath_Clean (absPath es @ ''/'')"
    unfolding eq filepath_Dir_def by simp
  moreover have "absPath es @ ''/'' = CHR ''/'' # strings_Join (es @ [[]]) ''/''"
    using assms(1) by (simp add: absPath_def Join_append_one)
  moreover have "strings_Split (CHR ''/'' # strings_Join (es @ [[]]) ''/'') (CHR ''/'') = [] # es @ [[]]"
    using Split_Join [of "es @ [[]]" "CHR ''/''"] assms by (auto simp: pathElem_def)
  ultimately show ?thesis
    using assms(1,2) by (simp add: filepath_Clean_def fold_cleanStep cleanStep_def strings_HasPrefix_def absPath_def)
qed

lemma absPath_inj:
  "\<lbrakk>\<forall>e\<in>set xs. pathElem e; \<forall>e\<in>set ys. pathElem e; xs \<noteq> []; ys \<noteq> []\<rbrakk>
    \<Longrightarrow> absPath xs = absPath ys \<longleftrightarrow> xs = ys"
  using Join_inj [of xs "CHR ''/''" ys] by (auto simp: absPath_def pathElem_def)

end
