(* ===== verification/Labels.thy ===== *)
theory Labels
  imports Cri_Types Naming Go_Path
begin

text \<open>
  Labels and annotations (\<^verbatim>\<open>core/helpers.go\<close>). Docker has labels only: annotations are stored as
  labels with a prefix, beside the labels the shim adds for itself, and both are taken apart
  again when a container is reported. The loops range over Go maps, so the order of the entries
  is the order of an association list and the properties hold for each of them.
\<close>

definition annotationPrefix :: string where "annotationPrefix = ''annotation.''"

definition containerTypeLabelKey :: string where "containerTypeLabelKey = ''io.kubernetes.docker.type''"

definition containerTypeLabelSandbox :: string where "containerTypeLabelSandbox = ''podsandbox''"

definition containerTypeLabelContainer :: string where "containerTypeLabelContainer = ''container''"

definition containerLogPathLabelKey :: string where
  "containerLogPathLabelKey = ''io.kubernetes.container.logpath''"

definition sandboxIDLabelKey :: string where "sandboxIDLabelKey = ''io.kubernetes.sandbox.id''"

definition KubernetesContainerNameLabel :: string where
  "KubernetesContainerNameLabel = ''io.kubernetes.container.name''"

definition internalLabelKeys :: "string list" where
  "internalLabelKeys = [containerTypeLabelKey, containerLogPathLabelKey, sandboxIDLabelKey]"

lemmas label_consts = annotationPrefix_def containerTypeLabelKey_def containerTypeLabelSandbox_def
  containerTypeLabelContainer_def containerLogPathLabelKey_def sandboxIDLabelKey_def
  KubernetesContainerNameLabel_def

definition makeLabels :: "gomap \<Rightarrow> gomap \<Rightarrow> gomap" where
  "makeLabels labels annotations =
     (let merged = foldl (\<lambda>m (k, v). mapSet m k v) [] labels in
      foldl (\<lambda>m (k, v). mapSet m (annotationPrefix @ k) v) merged annotations)"

text \<open>The body of the loop of \<^verbatim>\<open>extractLabels\<close> for one entry of the input.\<close>

definition extractStep :: "gomap \<Rightarrow> gomap \<times> gomap \<Rightarrow> string \<times> string \<Rightarrow> gomap \<times> gomap" where
  "extractStep input acc kv =
     (case acc of (labels, annotations) \<Rightarrow> case kv of (k, v) \<Rightarrow>
        if list_ex (\<lambda>internalKey. k = internalKey) internalLabelKeys then (labels, annotations)
        else if k = KubernetesContainerNameLabel \<and>
                mapGet input containerTypeLabelKey = containerTypeLabelSandbox then (labels, annotations)
        else if strings_HasPrefix k annotationPrefix
        then (labels, mapSet annotations (strings_TrimPrefix k annotationPrefix) v)
        else (mapSet labels k v, annotations))"

definition extractLabels :: "gomap \<Rightarrow> gomap \<times> gomap" where
  "extractLabels input = foldl (extractStep input) ([], []) input"

text \<open>The labels \<^verbatim>\<open>CreateContainer\<close> gives a container.\<close>

definition containerDockerLabels :: "PodSandboxConfig \<Rightarrow> ContainerConfig \<Rightarrow> string \<Rightarrow> gomap" where
  "containerDockerLabels sandboxConfig config podSandboxID =
     (let labels = makeLabels (cc_Labels config) (cc_Annotations config);
          labels = mapSet labels containerTypeLabelKey containerTypeLabelContainer;
          labels = mapSet labels containerLogPathLabelKey
                     (filepath_Join [psc_LogDirectory sandboxConfig, cc_LogPath config])
      in mapSet labels sandboxIDLabelKey podSandboxID)"

text \<open>The labels \<^verbatim>\<open>makeSandboxDockerConfig\<close> gives a sandbox.\<close>

definition sandboxDockerLabels :: "PodSandboxConfig \<Rightarrow> gomap" where
  "sandboxDockerLabels c =
     (let labels = makeLabels (psc_Labels c) (psc_Annotations c);
          labels = mapSet labels containerTypeLabelKey containerTypeLabelSandbox
      in mapSet labels KubernetesContainerNameLabel sandboxContainerName)"

text \<open>A docker filter is the list of the key and value pairs added to it.\<close>

definition filterAdd :: "(string \<times> string) list \<Rightarrow> string \<Rightarrow> string \<Rightarrow> (string \<times> string) list" where
  "filterAdd args key v = args @ [(key, v)]"

definition AddLabel :: "(string \<times> string) list \<Rightarrow> string \<Rightarrow> string \<Rightarrow> (string \<times> string) list" where
  "AddLabel args key v = filterAdd args ''label'' (key @ ''='' @ v)"

subsection \<open>Lemmas\<close>

lemma foldl_mapSet_map_of:
  "goMapOk xs \<Longrightarrow> map_of (foldl (\<lambda>m (k, v). mapSet m k v) m0 xs) = map_of m0 ++ map_of xs"
proof (induction xs arbitrary: m0)
  case Nil
  then show ?case by simp
next
  case (Cons x xs)
  obtain k v where x: "x = (k, v)" by (cases x)
  from Cons.prems x have "map_of xs k = None" by (simp add: map_of_eq_None_iff)
  moreover have "map_of (foldl (\<lambda>m (k, v). mapSet m k v) m0 (x # xs)) = map_of (mapSet m0 k v) ++ map_of xs"
    using Cons.IH [of "mapSet m0 k v"] Cons.prems x by (simp del: map_of_mapSet)
  ultimately show ?case using x by (auto simp: fun_eq_iff map_add_def split: option.splits)
qed

lemma makeLabels_map_of:
  assumes "goMapOk labels" and "goMapOk annotations"
  shows "map_of (makeLabels labels annotations) =
    map_of labels ++ map_of (map (\<lambda>(k, v). (annotationPrefix @ k, v)) annotations)"
proof -
  have "foldl (\<lambda>m (k, v). mapSet m (annotationPrefix @ k) v) m0 xs =
    foldl (\<lambda>m (k, v). mapSet m k v) m0 (map (\<lambda>(k, v). (annotationPrefix @ k, v)) xs)" for m0 :: gomap and xs
    by (induction xs arbitrary: m0) auto
  moreover have "goMapOk (map (\<lambda>(k, v). (annotationPrefix @ k, v)) annotations)"
    using assms(2) by (simp add: comp_def case_prod_unfold distinct_map inj_on_def)
  ultimately show ?thesis using assms(1)
    by (simp add: makeLabels_def foldl_mapSet_map_of)
qed

lemma map_of_prefixed:
  "map_of (map (\<lambda>(k, v). (p @ k, v)) xs) key =
     (if strings_HasPrefix key p then map_of xs (strings_TrimPrefix key p) else None)"
  by (induction xs) (auto simp: HasPrefix_iff)

lemma goMapOk_foldl:
  "goMapOk m0 \<Longrightarrow> goMapOk (foldl (\<lambda>m (k, v). mapSet m (f k) v) m0 xs)"
  by (induction xs arbitrary: m0) auto

lemma goMapOk_makeLabels [simp]: "goMapOk (makeLabels l a)"
  by (simp add: makeLabels_def goMapOk_foldl goMapOk_foldl [where f = "\<lambda>k. k", simplified])

text \<open>Which entries of the input survive, and where.\<close>

definition labelHidden :: "gomap \<Rightarrow> string \<Rightarrow> bool" where
  "labelHidden input k \<longleftrightarrow> k \<in> set internalLabelKeys \<or>
     (k = KubernetesContainerNameLabel \<and> mapGet input containerTypeLabelKey = containerTypeLabelSandbox)"

lemma extractStep_alt:
  "extractStep input (ls, as) (k, v) =
     (if labelHidden input k then (ls, as)
      else if strings_HasPrefix k annotationPrefix
      then (ls, mapSet as (strings_TrimPrefix k annotationPrefix) v)
      else (mapSet ls k v, as))"
  by (auto simp: extractStep_def labelHidden_def list_ex_iff)

lemma extract_fold:
  assumes "goMapOk xs"
  shows "map_of (fst (foldl (extractStep input) (ls, as) xs)) k =
      (if \<not> labelHidden input k \<and> \<not> strings_HasPrefix k annotationPrefix \<and> k \<in> fst ` set xs
       then map_of xs k else map_of ls k)"
    and "map_of (snd (foldl (extractStep input) (ls, as) xs)) k =
      (if \<not> labelHidden input (annotationPrefix @ k) \<and> annotationPrefix @ k \<in> fst ` set xs
       then map_of xs (annotationPrefix @ k) else map_of as k)"
  using assms
proof (induction xs arbitrary: ls as)
  case Nil
  { case 1 show ?case by simp next case 2 show ?case by simp }
next
  case (Cons x xs)
  obtain key v where x: "x = (key, v)" by (cases x)
  { case 1 then show ?case using Cons.IH(1) x by (auto simp: extractStep_alt) }
  case 2
  show ?case
  proof (cases "strings_HasPrefix key annotationPrefix")
    case True
    then obtain t where "key = annotationPrefix @ t" by (auto simp: HasPrefix_iff)
    with 2 show ?thesis using Cons.IH(2) x by (auto simp: extractStep_alt)
  next
    case False
    then have "annotationPrefix @ k \<noteq> key" by (auto simp: HasPrefix_iff)
    with False 2 show ?thesis using Cons.IH(2) x by (auto simp: extractStep_alt)
  qed
qed

lemma extractLabels_map_of:
  assumes "goMapOk input"
  shows "map_of (fst (extractLabels input)) k =
      (if labelHidden input k \<or> strings_HasPrefix k annotationPrefix then None else map_of input k)"
    and "map_of (snd (extractLabels input)) k =
      (if labelHidden input (annotationPrefix @ k) then None else map_of input (annotationPrefix @ k))"
  using extract_fold [OF assms, of input "[]" "[]" k]
  by (auto simp: extractLabels_def map_of_eq_None_iff simp flip: map_of_eq_None_iff)

lemma annotation_not_hidden [simp]: "\<not> labelHidden input (annotationPrefix @ k)"
  by (simp add: labelHidden_def internalLabelKeys_def label_consts)

lemma labelHidden_perm: "\<lbrakk>goMapOk m; goMapOk m'; set m = set m'\<rbrakk> \<Longrightarrow> labelHidden m = labelHidden m'"
  using map_of_eq_perm [of m m'] by (simp add: labelHidden_def mapGet_def fun_eq_iff)

text \<open>More labels give more: the labels and annotations read from a map are also read from one that extends it, as long as the map says what
  type of container it is for.\<close>

lemma extractLabels_mono:
  assumes "goMapOk input" and "goMapOk input'" and "map_of input \<subseteq>\<^sub>m map_of input'" and "map_of input containerTypeLabelKey \<noteq> None"
  shows "map_of (fst (extractLabels input)) \<subseteq>\<^sub>m map_of (fst (extractLabels input')) \<and>
     map_of (snd (extractLabels input)) \<subseteq>\<^sub>m map_of (snd (extractLabels input'))"
proof -
  have le: "map_of input k = Some v \<Longrightarrow> map_of input' k = Some v" for k v
    using assms(3) by (metis domI map_le_def)
  then have "mapGet input' containerTypeLabelKey = mapGet input containerTypeLabelKey" using assms(4) by (auto simp: mapGet_def)
  then have "labelHidden input' k = labelHidden input k" for k by (simp add: labelHidden_def)
  then show ?thesis using le
    by (auto simp: map_le_def dom_def extractLabels_map_of [OF assms(1)] extractLabels_map_of [OF assms(2)] split: if_splits)
qed

subsection \<open>Properties\<close>

text \<open>What \<open>extractLabels\<close> reports does not depend on the order in which Go visits the entries
  of the label map: two orders of the same entries give the same labels and annotations.\<close>

lemma extractLabels_order_independent:
  assumes "goMapOk input" and "goMapOk input'" and "set input = set input'"
  shows "map_of (fst (extractLabels input)) = map_of (fst (extractLabels input')) \<and>
     map_of (snd (extractLabels input)) = map_of (snd (extractLabels input'))"
  using assms map_of_eq_perm [OF assms] labelHidden_perm [OF assms]
  by (auto simp: extractLabels_map_of fun_eq_iff)

text \<open>Round trip for containers: from the docker labels that \<^verbatim>\<open>CreateContainer\<close> writes,
  \<open>extractLabels\<close> recovers exactly the labels and the annotations of the CRI request, and the
  sandbox id stays readable, provided no label of the request starts with the annotation
  prefix or is one of the shim's own keys (the keys the code assumes free).\<close>

lemma container_labels_roundtrip:
  assumes "goMapOk (cc_Labels c)" and "goMapOk (cc_Annotations c)"
    and "\<forall>k. k \<in> fst ` set (cc_Labels c) \<longrightarrow>
       k \<notin> set internalLabelKeys \<and> \<not> strings_HasPrefix k annotationPrefix"
  shows "map_of (fst (extractLabels (containerDockerLabels s c sid))) = map_of (cc_Labels c) \<and>
     map_of (snd (extractLabels (containerDockerLabels s c sid))) = map_of (cc_Annotations c) \<and>
     mapGet (containerDockerLabels s c sid) sandboxIDLabelKey = sid"
proof -
  let ?m = "containerDockerLabels s c sid"
  have ok: "goMapOk ?m" by (simp add: containerDockerLabels_def Let_def)
  have ctype: "mapGet ?m containerTypeLabelKey = containerTypeLabelContainer"
    by (simp add: containerDockerLabels_def Let_def mapGet_def label_consts)
  have hid: "labelHidden ?m k \<longleftrightarrow> k \<in> set internalLabelKeys" for k
    unfolding labelHidden_def ctype by (simp add: label_consts)
  have out: "k \<notin> set internalLabelKeys \<Longrightarrow> map_of ?m k = map_of (makeLabels (cc_Labels c) (cc_Annotations c)) k" for k
    by (simp add: containerDockerLabels_def Let_def internalLabelKeys_def)
  have lab: "map_of (cc_Labels c) k = None" if "k \<in> set internalLabelKeys \<or> strings_HasPrefix k annotationPrefix" for k
    using assms(3) that by (auto simp: map_of_eq_None_iff)
  have "map_of (fst (extractLabels ?m)) k = map_of (cc_Labels c) k" for k
    using lab [of k]
    by (auto simp: extractLabels_map_of(1) [OF ok] hid out makeLabels_map_of [OF assms(1,2)] map_add_def map_of_prefixed)
  moreover have "map_of (snd (extractLabels ?m)) k = map_of (cc_Annotations c) k" for k
    using hid [of "annotationPrefix @ k"] lab [of "annotationPrefix @ k"]
    by (simp add: extractLabels_map_of(2) [OF ok] out makeLabels_map_of [OF assms(1,2)] map_add_def map_of_prefixed
        split: option.splits)
  moreover have "mapGet ?m sandboxIDLabelKey = sid"
    by (simp add: containerDockerLabels_def Let_def mapGet_def)
  ultimately show ?thesis by (simp add: fun_eq_iff)
qed

text \<open>Round trip for sandboxes: the labels and annotations of the sandbox come back, and the
  labels the shim added (its type key and the container name POD) are hidden.\<close>

lemma sandbox_labels_roundtrip:
  assumes "goMapOk (psc_Labels c)" and "goMapOk (psc_Annotations c)"
    and "\<forall>k. k \<in> fst ` set (psc_Labels c) \<longrightarrow> k \<notin> set internalLabelKeys \<and>
       k \<noteq> KubernetesContainerNameLabel \<and> \<not> strings_HasPrefix k annotationPrefix"
  shows "map_of (fst (extractLabels (sandboxDockerLabels c))) = map_of (psc_Labels c) \<and>
     map_of (snd (extractLabels (sandboxDockerLabels c))) = map_of (psc_Annotations c)"
proof -
  let ?m = "sandboxDockerLabels c"
  have ok: "goMapOk ?m" by (simp add: sandboxDockerLabels_def Let_def)
  have ctype: "mapGet ?m containerTypeLabelKey = containerTypeLabelSandbox"
    by (simp add: sandboxDockerLabels_def Let_def mapGet_def label_consts)
  have hid: "labelHidden ?m k \<longleftrightarrow> k \<in> set internalLabelKeys \<or> k = KubernetesContainerNameLabel" for k
    unfolding labelHidden_def ctype by simp
  have out: "\<not> labelHidden ?m k \<Longrightarrow> map_of ?m k = map_of (makeLabels (psc_Labels c) (psc_Annotations c)) k" for k
    unfolding hid by (simp add: sandboxDockerLabels_def Let_def internalLabelKeys_def)
  have lab: "map_of (psc_Labels c) k = None" if "labelHidden ?m k \<or> strings_HasPrefix k annotationPrefix" for k
    using assms(3) that hid by (auto simp: map_of_eq_None_iff)
  have "map_of (fst (extractLabels ?m)) k = map_of (psc_Labels c) k" for k
    using lab [of k]
    by (auto simp: extractLabels_map_of(1) [OF ok] out makeLabels_map_of [OF assms(1,2)] map_add_def map_of_prefixed)
  moreover have "map_of (snd (extractLabels ?m)) k = map_of (psc_Annotations c) k" for k
    using lab [of "annotationPrefix @ k"]
    by (simp add: extractLabels_map_of(2) [OF ok] out makeLabels_map_of [OF assms(1,2)] map_add_def map_of_prefixed
        split: option.splits)
  ultimately show ?thesis by (simp add: fun_eq_iff)
qed

end
