(* ===== verification/Go_Os.thy ===== *)
theory Go_Os
  imports Go_Errors Go_Path "HOL-Library.List_Lexorder" "HOL-Library.Char_ord"
begin

text \<open>
  The file system as the sources see it through package \<^verbatim>\<open>os\<close> (\<^verbatim>\<open>store.DefaultFs\<close>, \<^verbatim>\<open>store/fs.go\<close>,
  calls the functions of the same names). The state holds the regular files with their
  contents, the directories and the symbolic links. Every call may fail: \<open>os_faults\<close> is the
  schedule of the failures to come, one entry per call, where a failing write has written some
  number of bytes before; the theorems hold for every schedule. An empty schedule is a file
  system on which only the documented errors (a missing file, ...) occur.
\<close>

record osfs =
  os_files :: "(string \<times> string) list"
  os_dirs :: "string list"
  os_links :: "(string \<times> string) list"
  os_rand :: nat
  os_faults :: "(string \<times> nat) option list"

text \<open>The next entry of the fault schedule.\<close>

definition nextFault :: "osfs \<Rightarrow> (string \<times> nat) option \<times> osfs" where
  "nextFault fs = (case os_faults fs of [] \<Rightarrow> (None, fs) | f # rest \<Rightarrow> (f, fs\<lparr>os_faults := rest\<rparr>))"

definition pathExists :: "osfs \<Rightarrow> string \<Rightarrow> bool" where
  "pathExists fs p \<longleftrightarrow> map_of (os_files fs) p \<noteq> None \<or> p \<in> set (os_dirs fs)"

definition noSuchFile :: "string \<Rightarrow> string \<Rightarrow> goerror" where
  "noSuchFile op p = NotExist (op @ '' '' @ p @ '': no such file or directory'')"

definition fs_Stat :: "string \<Rightarrow> osfs \<Rightarrow> goerror option \<times> osfs" where
  "fs_Stat name fs =
     (case nextFault fs of
        (Some (m, _), fs) \<Rightarrow> (Some (Errorf m), fs)
      | (None, fs) \<Rightarrow>
          (let target = (case map_of (os_links fs) name of Some t \<Rightarrow> t | None \<Rightarrow> name) in
           (if pathExists fs target then None else Some (noSuchFile ''stat'' name), fs)))"

definition fs_MkdirAll :: "string \<Rightarrow> osfs \<Rightarrow> goerror option \<times> osfs" where
  "fs_MkdirAll p fs =
     (case nextFault fs of
        (Some (m, _), fs) \<Rightarrow> (Some (Errorf m), fs)
      | (None, fs) \<Rightarrow>
          if p \<in> set (os_dirs fs) then (None, fs)
          else if map_of (os_files fs) p \<noteq> None then (Some (Errorf (''mkdir '' @ p @ '': not a directory'')), fs)
          else (None, fs\<lparr>os_dirs := p # os_dirs fs\<rparr>))"

definition fs_Remove :: "string \<Rightarrow> osfs \<Rightarrow> goerror option \<times> osfs" where
  "fs_Remove name fs =
     (case nextFault fs of
        (Some (m, _), fs) \<Rightarrow> (Some (Errorf m), fs)
      | (None, fs) \<Rightarrow>
          if map_of (os_files fs) name \<noteq> None then (None, fs\<lparr>os_files := AList.delete name (os_files fs)\<rparr>)
          else if map_of (os_links fs) name \<noteq> None then (None, fs\<lparr>os_links := AList.delete name (os_links fs)\<rparr>)
          else if name \<in> set (os_dirs fs) then
            (if list_ex (\<lambda>q. filepath_Dir q = name) (map fst (os_files fs) @ map fst (os_links fs) @ os_dirs fs)
             then (Some (Errorf (''remove '' @ name @ '': directory not empty'')), fs)
             else (None, fs\<lparr>os_dirs := removeAll name (os_dirs fs)\<rparr>))
          else (Some (noSuchFile ''remove'' name), fs))"

definition fs_ReadFile :: "string \<Rightarrow> osfs \<Rightarrow> string result \<times> osfs" where
  "fs_ReadFile name fs =
     (case nextFault fs of
        (Some (m, _), fs) \<Rightarrow> (Inl (Errorf m), fs)
      | (None, fs) \<Rightarrow>
          (case map_of (os_files fs) name of
             Some data \<Rightarrow> (Inr data, fs)
           | None \<Rightarrow> (Inl (if name \<in> set (os_dirs fs) then Errorf (''read '' @ name @ '': is a directory'')
                            else noSuchFile ''open'' name), fs)))"

text \<open>
  \<^verbatim>\<open>os.CreateTemp\<close> appends random numbers to the prefix until it finds a name that is free.
\<close>

definition tempCandidates :: "string \<Rightarrow> string \<Rightarrow> osfs \<Rightarrow> string list" where
  "tempCandidates dir prefx fs =
     map (\<lambda>n. dir @ ''/'' @ prefx @ strconv_Itoa (os_rand fs + n))
       [0..<Suc (length (os_files fs) + length (os_dirs fs))]"

definition tempName :: "string \<Rightarrow> string \<Rightarrow> osfs \<Rightarrow> string" where
  "tempName dir prefx fs = hd (filter (\<lambda>p. \<not> pathExists fs p) (tempCandidates dir prefx fs))"

definition fs_TempFile :: "string \<Rightarrow> string \<Rightarrow> osfs \<Rightarrow> string result \<times> osfs" where
  "fs_TempFile dir prefx fs =
     (case nextFault fs of
        (Some (m, _), fs) \<Rightarrow> (Inl (Errorf m), fs)
      | (None, fs) \<Rightarrow>
          if dir \<notin> set (os_dirs fs) then (Inl (noSuchFile ''open'' dir), fs)
          else let p = tempName dir prefx fs in
               (Inr p, fs\<lparr>os_files := mapSet (os_files fs) p [], os_rand := Suc (os_rand fs)\<rparr>))"

text \<open>Writing to the open file of that path; a failing write may leave a part of the data.\<close>

definition file_Write :: "string \<Rightarrow> string \<Rightarrow> osfs \<Rightarrow> goerror option \<times> osfs" where
  "file_Write p data fs =
     (let old = (case map_of (os_files fs) p of None \<Rightarrow> [] | Some c \<Rightarrow> c) in
      case nextFault fs of
        (Some (m, n), fs) \<Rightarrow> (Some (Errorf m), fs\<lparr>os_files := mapSet (os_files fs) p (old @ take n data)\<rparr>)
      | (None, fs) \<Rightarrow> (None, fs\<lparr>os_files := mapSet (os_files fs) p (old @ data)\<rparr>))"

definition file_Sync :: "osfs \<Rightarrow> goerror option \<times> osfs" where
  "file_Sync fs = (case nextFault fs of (Some (m, _), fs) \<Rightarrow> (Some (Errorf m), fs) | (None, fs) \<Rightarrow> (None, fs))"

definition file_Close :: "osfs \<Rightarrow> goerror option \<times> osfs" where
  "file_Close fs = (case nextFault fs of (Some (m, _), fs) \<Rightarrow> (Some (Errorf m), fs) | (None, fs) \<Rightarrow> (None, fs))"

definition fs_Rename :: "string \<Rightarrow> string \<Rightarrow> osfs \<Rightarrow> goerror option \<times> osfs" where
  "fs_Rename oldpath newpath fs =
     (case nextFault fs of
        (Some (m, _), fs) \<Rightarrow> (Some (Errorf m), fs)
      | (None, fs) \<Rightarrow>
          (case map_of (os_files fs) oldpath of
             None \<Rightarrow> (Some (noSuchFile ''rename'' oldpath), fs)
           | Some data \<Rightarrow>
               if newpath \<in> set (os_dirs fs) then (Some (Errorf (''rename '' @ newpath @ '': file exists'')), fs)
               else (None, fs\<lparr>os_files := mapSet (AList.delete oldpath (os_files fs)) newpath data\<rparr>)))"

text \<open>\<^verbatim>\<open>ioutil.ReadDir\<close>: the names of the entries, sorted.\<close>

definition fs_ReadDir :: "string \<Rightarrow> osfs \<Rightarrow> string list result \<times> osfs" where
  "fs_ReadDir dirname fs =
     (case nextFault fs of
        (Some (m, _), fs) \<Rightarrow> (Inl (Errorf m), fs)
      | (None, fs) \<Rightarrow>
          if dirname \<notin> set (os_dirs fs) then (Inl (noSuchFile ''open'' dirname), fs)
          else (Inr (sort (map path_Base (filter (\<lambda>p. filepath_Dir p = dirname)
                       (map fst (os_files fs) @ map fst (os_links fs) @ os_dirs fs)))), fs))"

definition os_Symlink :: "string \<Rightarrow> string \<Rightarrow> osfs \<Rightarrow> goerror option \<times> osfs" where
  "os_Symlink oldname newname fs =
     (case nextFault fs of
        (Some (m, _), fs) \<Rightarrow> (Some (Errorf m), fs)
      | (None, fs) \<Rightarrow>
          if pathExists fs newname \<or> map_of (os_links fs) newname \<noteq> None
          then (Some (Errorf (''symlink '' @ newname @ '': file exists'')), fs)
          else (None, fs\<lparr>os_links := mapSet (os_links fs) newname oldname\<rparr>))"

text \<open>Opening an existing file with \<^verbatim>\<open>O_TRUNC|O_WRONLY\<close> and writing a string to it.\<close>

definition os_OpenTrunc :: "string \<Rightarrow> osfs \<Rightarrow> goerror option \<times> osfs" where
  "os_OpenTrunc p fs =
     (case nextFault fs of
        (Some (m, _), fs) \<Rightarrow> (Some (Errorf m), fs)
      | (None, fs) \<Rightarrow>
          (case map_of (os_files fs) p of
             None \<Rightarrow> (Some (noSuchFile ''open'' p), fs)
           | Some _ \<Rightarrow> (None, fs\<lparr>os_files := mapSet (os_files fs) p []\<rparr>)))"

text \<open>\<^verbatim>\<open>os.IsNotExist\<close>.\<close>

definition os_IsNotExist :: "goerror \<Rightarrow> bool" where
  "os_IsNotExist e = (case e of NotExist _ \<Rightarrow> True | _ \<Rightarrow> False)"

lemmas fs_op_defs = fs_Stat_def fs_MkdirAll_def fs_Remove_def fs_ReadFile_def fs_TempFile_def
  file_Write_def file_Sync_def file_Close_def fs_Rename_def fs_ReadDir_def

subsection \<open>Lemmas\<close>

lemma nextFault_state:
  "nextFault fs = (f, fs') \<Longrightarrow> os_files fs' = os_files fs \<and> os_dirs fs' = os_dirs fs \<and>
     os_links fs' = os_links fs \<and> os_rand fs' = os_rand fs"
  by (auto simp: nextFault_def split: list.splits)

lemma nextFault_files [simp]:
  "os_files (snd (nextFault fs)) = os_files fs" "os_dirs (snd (nextFault fs)) = os_dirs fs"
  "os_links (snd (nextFault fs)) = os_links fs" "os_rand (snd (nextFault fs)) = os_rand fs"
  by (auto simp: nextFault_def split: list.splits)

lemma nextFault_healthy [simp]: "os_faults fs = [] \<Longrightarrow> nextFault fs = (None, fs)"
  by (simp add: nextFault_def)

lemma distinct_tempCandidates: "distinct (tempCandidates dir prefx fs)"
  by (auto simp: tempCandidates_def distinct_map inj_on_def dest!: Itoa_inj)

lemma tempName_fresh:
  "tempName dir prefx fs \<in> set (tempCandidates dir prefx fs) \<and> \<not> pathExists fs (tempName dir prefx fs)"
proof -
  let ?names = "map fst (os_files fs) @ os_dirs fs"
  have ex: "pathExists fs p \<longleftrightarrow> p \<in> set ?names" for p
    by (auto simp: pathExists_def map_of_eq_None_iff simp flip: not_None_eq)
  have "\<not> set (tempCandidates dir prefx fs) \<subseteq> set ?names"
  proof
    assume "set (tempCandidates dir prefx fs) \<subseteq> set ?names"
    then have "card (set (tempCandidates dir prefx fs)) \<le> card (set ?names)" by (intro card_mono) auto
    also have "\<dots> \<le> length ?names" by (rule card_length)
    finally show False
      using distinct_card [OF distinct_tempCandidates, of dir prefx fs] by (simp add: tempCandidates_def)
  qed
  then have ne: "filter (\<lambda>p. \<not> pathExists fs p) (tempCandidates dir prefx fs) \<noteq> []"
    by (auto simp: ex filter_empty_conv)
  show ?thesis using hd_in_set [OF ne] by (auto simp: tempName_def)
qed

lemma tempName_form:
  obtains n where "tempName dir prefx fs = dir @ ''/'' @ prefx @ strconv_Itoa n"
  using tempName_fresh [of dir prefx fs] by (auto simp: tempCandidates_def)

lemma map_of_delete_pt [simp]: "map_of (AList.delete k al) x = (if x = k then None else map_of al x)"
  by (simp add: delete_conv')

end
