(* ===== verification/Store.thy ===== *)
theory Store
  imports Go_Os
begin

text \<open>
  The checkpoint store (package \<^verbatim>\<open>store\<close>): key validation, the file-backed store with its
  transactional write, and the checkpoint manager on top of the \<^verbatim>\<open>Store\<close> interface. The locale
  \<open>store_contract\<close> states what the interface promises; the manager's lemmas are proved in it, and
  it is interpreted on the file store.
\<close>

subsection \<open>Keys\<close>

definition keyMaxLength :: nat where "keyMaxLength = 250"

definition keyChar :: "char \<Rightarrow> bool" where
  "keyChar c \<longleftrightarrow> (let n = (of_char c :: nat) in
     (65 \<le> n \<and> n \<le> 90) \<or> (97 \<le> n \<and> n \<le> 122) \<or> (48 \<le> n \<and> n \<le> 57))"

definition keyExtChar :: "char \<Rightarrow> bool" where
  "keyExtChar c \<longleftrightarrow> c = CHR ''-'' \<or> keyChar c \<or> c = CHR ''_'' \<or> c = CHR ''.''"

text \<open>
  \<^verbatim>\<open>^([A-Za-z0-9][-A-Za-z0-9_.]*)?[A-Za-z0-9]$\<close>: the final character, and before it the
  optional group.
\<close>

definition keyRegexMatch :: "string \<Rightarrow> bool" where
  "keyRegexMatch key \<longleftrightarrow> key \<noteq> [] \<and> keyChar (last key) \<and>
     (let grp = butlast key in grp = [] \<or> keyChar (hd grp) \<and> list_all keyExtChar (tl grp))"

definition ValidateKey :: "string \<Rightarrow> goerror option" where
  "ValidateKey key =
     (if length key \<le> keyMaxLength \<and> keyRegexMatch key then None
      else Some (Errorf (''invalid key: '' @ fmt_q key)))"

subsection \<open>The Store interface\<close>

record 's store_iface =
  st_Write :: "string \<Rightarrow> string \<Rightarrow> 's \<Rightarrow> goerror option \<times> 's"
  st_Read :: "string \<Rightarrow> 's \<Rightarrow> string result \<times> 's"
  st_Delete :: "string \<Rightarrow> 's \<Rightarrow> goerror option \<times> 's"
  st_List :: "'s \<Rightarrow> string list result \<times> 's"

subsection \<open>The file store\<close>

definition tmpPrefix :: string where "tmpPrefix = ''.''"

definition getPathByKey :: "string \<Rightarrow> string \<Rightarrow> string" where
  "getPathByKey directoryPath key = filepath_Join [directoryPath, key]"

definition ensureDirectory :: "string \<Rightarrow> osfs \<Rightarrow> goerror option \<times> osfs" where
  "ensureDirectory p fs =
     (case fs_Stat p fs of (Some _, fs) \<Rightarrow> fs_MkdirAll p fs | (None, fs) \<Rightarrow> (None, fs))"

definition removePath :: "string \<Rightarrow> osfs \<Rightarrow> goerror option \<times> osfs" where
  "removePath p fs =
     (case fs_Remove p fs of
        (Some err, fs) \<Rightarrow> if \<not> os_IsNotExist err then (Some err, fs) else (None, fs)
      | (None, fs) \<Rightarrow> (None, fs))"

text \<open>The statements of \<^verbatim>\<open>writeFile\<close> after the defer: the returned error, \<^verbatim>\<open>shouldClose\<close>, the state.\<close>

definition writeFileBody :: "string \<Rightarrow> string \<Rightarrow> string \<Rightarrow> osfs \<Rightarrow> goerror option \<times> bool \<times> osfs" where
  "writeFileBody tmpPath p data fs =
     (case file_Write tmpPath data fs of
        (Some err, fs) \<Rightarrow> (Some err, True, fs)
      | (None, fs) \<Rightarrow>
        (case file_Sync fs of
           (Some err, fs) \<Rightarrow> (Some err, True, fs)
         | (None, fs) \<Rightarrow>
           (case file_Close fs of
              (Some err, fs) \<Rightarrow> (Some err, False, fs)
            | (None, fs) \<Rightarrow> (case fs_Rename tmpPath p fs of (r, fs) \<Rightarrow> (r, False, fs)))))"

text \<open>The deferred function: close the file if it is open, and remove it after an error.\<close>

definition writeFileDeferred :: "string \<Rightarrow> bool \<Rightarrow> goerror option \<Rightarrow> osfs \<Rightarrow> goerror option \<times> osfs" where
  "writeFileDeferred tmpPath shouldClose retErr fs =
     (case (if shouldClose
            then (case file_Close fs of
                (Some err, fs) \<Rightarrow>
                  (Some (Errorf (case retErr of
                       None \<Rightarrow> ''close error: '' @ Error err
                     | Some r \<Rightarrow> ''failed to close temp file after error '' @ Error r @ ''; close error: '' @ Error err)), fs)
              | (None, fs) \<Rightarrow> (retErr, fs))
            else (retErr, fs)) of
        (None, fs) \<Rightarrow> (None, fs)
      | (Some r, fs) \<Rightarrow>
          if tmpPath \<noteq> [] then
            (case removePath tmpPath fs of
               (Some err, fs) \<Rightarrow>
                 (Some (Errorf (''failed to remove the temporary file ('' @ fmt_q tmpPath @ '') after error '' @
                    Error r @ ''; remove error: '' @ Error err)), fs)
             | (None, fs) \<Rightarrow> (Some r, fs))
          else (Some r, fs))"

definition writeFile :: "string \<Rightarrow> string \<Rightarrow> osfs \<Rightarrow> goerror option \<times> osfs" where
  "writeFile p data fs =
     (case fs_TempFile (filepath_Dir p) tmpPrefix fs of
        (Inl err, fs) \<Rightarrow> (Some err, fs)
      | (Inr tmpPath, fs) \<Rightarrow>
          (case writeFileBody tmpPath p data fs of
             (retErr, shouldClose, fs) \<Rightarrow> writeFileDeferred tmpPath shouldClose retErr fs))"

definition FileStore_Write :: "string \<Rightarrow> string \<Rightarrow> string \<Rightarrow> osfs \<Rightarrow> goerror option \<times> osfs" where
  "FileStore_Write directoryPath key data fs =
     (case ValidateKey key of
        Some err \<Rightarrow> (Some err, fs)
      | None \<Rightarrow>
          (case ensureDirectory directoryPath fs of
             (Some err, fs) \<Rightarrow> (Some err, fs)
           | (None, fs) \<Rightarrow> writeFile (getPathByKey directoryPath key) data fs))"

definition FileStore_Read :: "string \<Rightarrow> string \<Rightarrow> osfs \<Rightarrow> string result \<times> osfs" where
  "FileStore_Read directoryPath key fs =
     (case ValidateKey key of
        Some err \<Rightarrow> (Inl err, fs)
      | None \<Rightarrow>
          (case fs_ReadFile (getPathByKey directoryPath key) fs of
             (Inl err, fs) \<Rightarrow> (if os_IsNotExist err then Inl (Sentinel ErrKeyNotFound) else Inl err, fs)
           | (Inr bytes, fs) \<Rightarrow> (Inr bytes, fs)))"

definition FileStore_Delete :: "string \<Rightarrow> string \<Rightarrow> osfs \<Rightarrow> goerror option \<times> osfs" where
  "FileStore_Delete directoryPath key fs =
     (case ValidateKey key of
        Some err \<Rightarrow> (Some err, fs)
      | None \<Rightarrow> removePath (getPathByKey directoryPath key) fs)"

definition FileStore_List :: "string \<Rightarrow> osfs \<Rightarrow> string list result \<times> osfs" where
  "FileStore_List directoryPath fs =
     (case fs_ReadDir directoryPath fs of
        (Inl err, fs) \<Rightarrow> (Inl err, fs)
      | (Inr files, fs) \<Rightarrow> (Inr (filter (\<lambda>f. \<not> strings_HasPrefix f tmpPrefix) files), fs))"

definition NewFileStore :: "string \<Rightarrow> osfs \<Rightarrow> osfs store_iface result \<times> osfs" where
  "NewFileStore p fs =
     (case ensureDirectory p fs of
        (Some err, fs) \<Rightarrow> (Inl err, fs)
      | (None, fs) \<Rightarrow>
          (Inr \<lparr>st_Write = FileStore_Write p, st_Read = FileStore_Read p,
                st_Delete = FileStore_Delete p, st_List = FileStore_List p\<rparr>, fs))"

abbreviation FileStore :: "string \<Rightarrow> osfs store_iface" where
  "FileStore p \<equiv> \<lparr>st_Write = FileStore_Write p, st_Read = FileStore_Read p,
     st_Delete = FileStore_Delete p, st_List = FileStore_List p\<rparr>"

subsection \<open>The checkpoint manager\<close>

text \<open>
  A \<^verbatim>\<open>Checkpoint\<close> is its three methods. \<^verbatim>\<open>UnmarshalCheckpoint\<close> fills the checkpoint it is called
  on, here the value in the result.
\<close>

record 'c checkpoint_iface =
  ck_Marshal :: "'c \<Rightarrow> string result"
  ck_Unmarshal :: "string \<Rightarrow> 'c result"
  ck_VerifyChecksum :: "'c \<Rightarrow> goerror option"

definition CreateCheckpoint ::
    "'c checkpoint_iface \<Rightarrow> 's store_iface \<Rightarrow> string \<Rightarrow> 'c \<Rightarrow> 's \<Rightarrow> goerror option \<times> 's" where
  "CreateCheckpoint ck store checkpointKey checkpoint s =
     (case ck_Marshal ck checkpoint of
        Inl err \<Rightarrow> (Some err, s)
      | Inr blob \<Rightarrow> st_Write store checkpointKey blob s)"

definition GetCheckpoint :: "'c checkpoint_iface \<Rightarrow> 's store_iface \<Rightarrow> string \<Rightarrow> 's \<Rightarrow> 'c result \<times> 's" where
  "GetCheckpoint ck store checkpointKey s =
     (case st_Read store checkpointKey s of
        (Inl err, s) \<Rightarrow> (Inl (if err = Sentinel ErrKeyNotFound then Sentinel ErrCheckpointNotFound else err), s)
      | (Inr blob, s) \<Rightarrow>
          (case ck_Unmarshal ck blob of
             Inl err \<Rightarrow> (Inl err, s)
           | Inr c \<Rightarrow> (case ck_VerifyChecksum ck c of Some err \<Rightarrow> (Inl err, s) | None \<Rightarrow> (Inr c, s))))"

definition RemoveCheckpoint :: "'s store_iface \<Rightarrow> string \<Rightarrow> 's \<Rightarrow> goerror option \<times> 's" where
  "RemoveCheckpoint store checkpointKey s = st_Delete store checkpointKey s"

definition ListCheckpoints :: "'s store_iface \<Rightarrow> 's \<Rightarrow> string list result \<times> 's" where
  "ListCheckpoints store s =
     (case st_List store s of
        (Inl err, s) \<Rightarrow> (Inl (Errorf (''failed to list checkpoint store: '' @ Error err)), s)
      | (Inr keys, s) \<Rightarrow> (Inr keys, s))"

subsection \<open>What the interface promises\<close>

text \<open>
  The contract of \<^verbatim>\<open>Store\<close>: \<open>content\<close> is the map from keys to data that a state holds, \<open>healthy\<close>
  says that the device does not fail.
\<close>

locale store_contract =
  fixes st :: "'s store_iface"
    and content :: "'s \<Rightarrow> string \<Rightarrow> string option"
    and healthy :: "'s \<Rightarrow> bool"
    and validKey :: "string \<Rightarrow> bool"
  assumes write_ok: "st_Write st k d s = (None, s') \<Longrightarrow> content s' = (content s)(k \<mapsto> d) \<and> validKey k"
    and write_err: "st_Write st k d s = (Some e, s') \<Longrightarrow> content s' = content s"
    and write_healthy: "healthy s \<Longrightarrow> healthy (snd (st_Write st k d s))"
    and read_frame: "content (snd (st_Read st k s)) = content s"
    and read_hit: "\<lbrakk>healthy s; validKey k; content s k = Some d\<rbrakk> \<Longrightarrow> fst (st_Read st k s) = Inr d"
    and read_miss: "\<lbrakk>healthy s; validKey k; content s k = None\<rbrakk>
      \<Longrightarrow> fst (st_Read st k s) = Inl (Sentinel ErrKeyNotFound)"
    and read_healthy: "healthy s \<Longrightarrow> healthy (snd (st_Read st k s))"
    and delete_ok: "st_Delete st k s = (None, s') \<Longrightarrow> content s' = (content s)(k := None)"
    and delete_err: "st_Delete st k s = (Some e, s') \<Longrightarrow> content s' = content s"
    and delete_healthy: "healthy s \<Longrightarrow> healthy (snd (st_Delete st k s))"
    and delete_missing: "\<lbrakk>healthy s; validKey k; content s k = None\<rbrakk> \<Longrightarrow> fst (st_Delete st k s) = None"
begin

lemma create_get:
  assumes "CreateCheckpoint ck st k c s = (None, s')" and "healthy s"
    and "\<And>b. ck_Marshal ck c = Inr b \<Longrightarrow> ck_Unmarshal ck b = Inr c'" and "ck_VerifyChecksum ck c' = None"
  shows "fst (GetCheckpoint ck st k s') = Inr c'"
proof -
  obtain b where b: "ck_Marshal ck c = Inr b" "st_Write st k b s = (None, s')"
    using assms(1) by (auto simp: CreateCheckpoint_def split: sum.splits)
  have "healthy s'" using write_healthy [OF assms(2), of k b] b(2) by simp
  then have "fst (st_Read st k s') = Inr b" using write_ok [OF b(2)] by (simp add: read_hit)
  then show ?thesis using assms(3) [OF b(1)] assms(4)
    by (auto simp: GetCheckpoint_def split: prod.splits)
qed

lemma create_frame:
  "CreateCheckpoint ck st k c s = (r, s') \<Longrightarrow> k' \<noteq> k \<Longrightarrow> content s' k' = content s k'"
  using write_ok write_err by (cases r) (auto simp: CreateCheckpoint_def split: sum.splits dest!: write_ok write_err)

lemma create_failed: "CreateCheckpoint ck st k c s = (Some e, s') \<Longrightarrow> content s' = content s"
  by (auto simp: CreateCheckpoint_def split: sum.splits dest: write_err)

lemma get_frame: "content (snd (GetCheckpoint ck st k s)) = content s"
  using read_frame [of k s] by (auto simp: GetCheckpoint_def split: prod.splits sum.splits option.splits)

lemma remove_get:
  assumes "RemoveCheckpoint st k s = (None, s')" and "healthy s" and "validKey k"
  shows "fst (GetCheckpoint ck st k s') = Inl (Sentinel ErrCheckpointNotFound)"
proof -
  have d: "st_Delete st k s = (None, s')" using assms(1) by (simp add: RemoveCheckpoint_def)
  then have "healthy s'" using delete_healthy [OF assms(2), of k] by simp
  then have "fst (st_Read st k s') = Inl (Sentinel ErrKeyNotFound)"
    using delete_ok [OF d] assms(3) by (simp add: read_miss)
  then show ?thesis by (auto simp: GetCheckpoint_def split: prod.splits)
qed

lemma remove_absent:
  "\<lbrakk>healthy s; validKey k; content s k = None\<rbrakk> \<Longrightarrow> fst (RemoveCheckpoint st k s) = None"
  by (simp add: RemoveCheckpoint_def delete_missing)

lemma remove_frame: "RemoveCheckpoint st k s = (r, s') \<Longrightarrow> k' \<noteq> k \<Longrightarrow> content s' k' = content s k'"
  by (cases r) (auto simp: RemoveCheckpoint_def dest!: delete_ok delete_err)

end

subsection \<open>The file store keeps the contract\<close>

lemma ValidateKey_iff:
  "ValidateKey key = None \<longleftrightarrow>
     1 \<le> length key \<and> length key \<le> 250 \<and> keyChar (hd key) \<and> keyChar (last key) \<and> list_all keyExtChar key"
proof (cases key rule: rev_cases)
  case Nil
  then show ?thesis by (simp add: ValidateKey_def keyRegexMatch_def)
next
  case (snoc grp c)
  then show ?thesis
    by (cases grp) (auto simp: ValidateKey_def keyRegexMatch_def keyMaxLength_def keyExtChar_def Let_def)
qed

lemma keyChar_not_special: "\<not> keyChar (CHR ''/'')" "\<not> keyChar (CHR ''.'')"
  by (simp_all add: keyChar_def)

lemma keyExtChar_not_slash: "\<not> keyExtChar (CHR ''/'')"
  by (simp add: keyExtChar_def keyChar_not_special)

lemma ValidateKey_pathElem: "ValidateKey key = None \<Longrightarrow> pathElem key \<and> hd key \<noteq> CHR ''.''"
  using keyChar_not_special keyExtChar_not_slash
  by (auto simp: ValidateKey_iff pathElem_def list_all_iff)

definition storeContent :: "string list \<Rightarrow> osfs \<Rightarrow> string \<Rightarrow> string option" where
  "storeContent es fs k = (if ValidateKey k = None then map_of (os_files fs) (absPath (es @ [k])) else None)"

definition storeHealthy :: "string list \<Rightarrow> osfs \<Rightarrow> bool" where
  "storeHealthy es fs \<longleftrightarrow> os_faults fs = [] \<and>
     (\<forall>k. ValidateKey k = None \<longrightarrow> absPath (es @ [k]) \<notin> set (os_dirs fs))"

definition dirOk :: "string list \<Rightarrow> bool" where
  "dirOk es \<longleftrightarrow> es \<noteq> [] \<and> list_all pathElem es"

lemma getPathByKey_abs:
  "\<lbrakk>dirOk es; ValidateKey k = None\<rbrakk> \<Longrightarrow> getPathByKey (absPath es) k = absPath (es @ [k])"
  using ValidateKey_pathElem [of k]
  by (auto simp: getPathByKey_def dirOk_def list_all_iff intro!: filepath_Join_absPath)

lemma Dir_getPathByKey:
  "\<lbrakk>dirOk es; ValidateKey k = None\<rbrakk> \<Longrightarrow> filepath_Dir (absPath (es @ [k])) = absPath es"
  using ValidateKey_pathElem [of k] by (auto simp: dirOk_def list_all_iff intro!: filepath_Dir_absPath)

lemma keyPath_inj:
  "\<lbrakk>dirOk es; ValidateKey k = None; ValidateKey k' = None\<rbrakk> \<Longrightarrow>
     absPath (es @ [k]) = absPath (es @ [k']) \<longleftrightarrow> k = k'"
  using ValidateKey_pathElem [of k] ValidateKey_pathElem [of k']
  by (subst absPath_inj) (auto simp: dirOk_def list_all_iff)

lemma keyPath_not_dir: "dirOk es \<Longrightarrow> ValidateKey k = None \<Longrightarrow> absPath (es @ [k]) \<noteq> absPath es"
  using ValidateKey_pathElem [of k]
  by (subst absPath_inj) (auto simp: dirOk_def list_all_iff)

text \<open>A temporary file never has the path of a key.\<close>

lemma tempPath_not_key:
  assumes "dirOk es" and "ValidateKey k = None"
  shows "tempName (absPath es) tmpPrefix fs \<noteq> absPath (es @ [k])"
proof -
  obtain n where n: "tempName (absPath es) tmpPrefix fs = absPath es @ ''/'' @ tmpPrefix @ strconv_Itoa n"
    by (rule tempName_form)
  have "absPath (es @ [k]) = absPath es @ ''/'' @ k"
    using assms(1) by (simp add: absPath_def Join_append_one dirOk_def)
  then show ?thesis
    using n ValidateKey_pathElem [OF assms(2)] by (auto simp: tmpPrefix_def)
qed

text \<open>The parts of the state the store operations leave alone, up to a set of paths.\<close>

definition sameExcept :: "string set \<Rightarrow> osfs \<Rightarrow> osfs \<Rightarrow> bool" where
  "sameExcept P fs fs' \<longleftrightarrow> os_dirs fs' = os_dirs fs \<and>
     (\<forall>q. q \<notin> P \<longrightarrow> map_of (os_files fs') q = map_of (os_files fs) q) \<and>
     (os_faults fs = [] \<longrightarrow> os_faults fs' = [])"

lemma sameExcept_trans: "sameExcept P a b \<Longrightarrow> sameExcept P b c \<Longrightarrow> sameExcept P a c"
  by (auto simp: sameExcept_def)

lemma sameExcept_refl [simp]: "sameExcept P a a"
  by (simp add: sameExcept_def)

lemma nextFault_same:
  "nextFault fs = (f, fs') \<Longrightarrow> sameExcept {} fs fs' \<and> os_files fs' = os_files fs \<and>
     (os_faults fs = [] \<longrightarrow> f = None)"
  by (auto simp: nextFault_def sameExcept_def split: list.splits)

lemma sameExcept_mono: "sameExcept P a b \<Longrightarrow> P \<subseteq> Q \<Longrightarrow> sameExcept Q a b"
  by (auto simp: sameExcept_def)

lemma file_Write_spec:
  "file_Write p data fs = (r, fs') \<Longrightarrow> sameExcept {p} fs fs' \<and>
     (r = None \<longrightarrow> map_of (os_files fs') p =
        Some ((case map_of (os_files fs) p of None \<Rightarrow> [] | Some c \<Rightarrow> c) @ data))"
  by (auto simp: file_Write_def Let_def sameExcept_def split: prod.splits option.splits dest!: nextFault_same)

lemma file_Sync_spec: "file_Sync fs = (r, fs') \<Longrightarrow> sameExcept {} fs fs' \<and> os_files fs' = os_files fs"
  by (auto simp: file_Sync_def split: prod.splits option.splits dest!: nextFault_same)

lemma file_Close_spec: "file_Close fs = (r, fs') \<Longrightarrow> sameExcept {} fs fs' \<and> os_files fs' = os_files fs"
  by (auto simp: file_Close_def split: prod.splits option.splits dest!: nextFault_same)

lemma fs_Rename_spec:
  "fs_Rename old new fs = (r, fs') \<Longrightarrow> old \<noteq> new \<Longrightarrow>
     (case r of Some e \<Rightarrow> sameExcept {} fs fs' \<and> os_files fs' = os_files fs
      | None \<Rightarrow> sameExcept {old, new} fs fs' \<and> map_of (os_files fs') old = None \<and>
          map_of (os_files fs') new = map_of (os_files fs) old \<and> map_of (os_files fs) old \<noteq> None)"
  by (auto simp: fs_Rename_def sameExcept_def split: prod.splits option.splits if_splits dest!: nextFault_same)

lemma removePath_spec:
  "removePath p fs = (r, fs') \<Longrightarrow> p \<notin> set (os_dirs fs) \<Longrightarrow> sameExcept {p} fs fs' \<and>
     (case r of None \<Rightarrow> map_of (os_files fs') p = None | Some e \<Rightarrow> os_files fs' = os_files fs \<and> os_faults fs \<noteq> [])"
  by (auto simp: removePath_def fs_Remove_def noSuchFile_def os_IsNotExist_def sameExcept_def
      split: prod.splits option.splits if_splits goerror.splits dest!: nextFault_same)

lemma writeFileBody_spec:
  assumes "writeFileBody tmp p data fs = (r, sc, fs')" and "tmp \<noteq> p" and "map_of (os_files fs) tmp = Some []"
  shows "(r = None \<longrightarrow> sameExcept {tmp, p} fs fs' \<and> map_of (os_files fs') p = Some data \<and>
      map_of (os_files fs') tmp = None \<and> \<not> sc) \<and> (r \<noteq> None \<longrightarrow> sameExcept {tmp} fs fs')"
proof -
  obtain r1 fs1 where w: "file_Write tmp data fs = (r1, fs1)" by fastforce
  obtain r2 fs2 where y: "file_Sync fs1 = (r2, fs2)" by fastforce
  obtain r3 fs3 where c: "file_Close fs2 = (r3, fs3)" by fastforce
  obtain r4 fs4 where n: "fs_Rename tmp p fs3 = (r4, fs4)" by fastforce
  note specs = file_Write_spec [OF w] file_Sync_spec [OF y] file_Close_spec [OF c] fs_Rename_spec [OF n assms(2)]
  have data: "r1 = None \<Longrightarrow> map_of (os_files fs3) tmp = Some data" using specs assms(3) by simp
  show ?thesis
    using assms(1) specs data
    by (auto simp: writeFileBody_def w y c n split: option.splits) (auto simp: sameExcept_def)
qed

lemma writeFileDeferred_spec:
  assumes "writeFileDeferred tmp sc r0 fs = (r, fs')" and "tmp \<notin> set (os_dirs fs)" and "r0 = None \<Longrightarrow> \<not> sc"
  shows "(r = None \<longleftrightarrow> r0 = None) \<and> sameExcept {tmp} fs fs' \<and> (r0 = None \<longrightarrow> fs' = fs)"
proof -
  obtain r1 fs1 where c: "file_Close fs = (r1, fs1)" by fastforce
  obtain r2 fs2 where m: "removePath tmp fs1 = (r2, fs2)" by fastforce
  obtain r3 fs3 where m': "removePath tmp fs = (r3, fs3)" by fastforce
  have 1: "sameExcept {tmp} fs fs1" "os_dirs fs1 = os_dirs fs"
    using file_Close_spec [OF c] by (auto simp: sameExcept_def)
  have "sameExcept {tmp} fs1 fs2" using removePath_spec [OF m] 1(2) assms(2) by simp
  then have 2: "sameExcept {tmp} fs fs2" by (rule sameExcept_trans [OF 1(1)])
  have 3: "sameExcept {tmp} fs fs3" using removePath_spec [OF m'] assms(2) by simp
  show ?thesis
    using assms(1,3) 1 2 3
    by (auto simp: writeFileDeferred_def c m m' split: option.splits if_splits)
qed

lemma writeFile_spec:
  assumes "dirOk es" and "ValidateKey k = None" and "writeFile (absPath (es @ [k])) data fs = (r, fs')"
  obtains tmp where "\<forall>k'. ValidateKey k' = None \<longrightarrow> tmp \<noteq> absPath (es @ [k'])"
    and "if r = None then sameExcept {tmp, absPath (es @ [k])} fs fs' \<and>
           map_of (os_files fs') (absPath (es @ [k])) = Some data \<and> map_of (os_files fs') tmp = map_of (os_files fs) tmp
         else sameExcept {tmp} fs fs'"
proof -
  let ?p = "absPath (es @ [k])"
  obtain f fs0 where f: "nextFault fs = (f, fs0)" by fastforce
  let ?tmp = "tempName (absPath es) tmpPrefix fs0"
  have key: "\<forall>k'. ValidateKey k' = None \<longrightarrow> ?tmp \<noteq> absPath (es @ [k'])"
    using tempPath_not_key [OF assms(1)] by blast
  note same0 = nextFault_same [OF f]
  have dir: "filepath_Dir ?p = absPath es" using assms(1,2) by (rule Dir_getPathByKey)
  show thesis
  proof (cases "f = None \<and> absPath es \<in> set (os_dirs fs0)")
    case False
    then have "r \<noteq> None \<and> fs' = fs0"
      using assms(3) by (auto simp: writeFile_def dir fs_TempFile_def f split: option.splits)
    then have "if r = None then sameExcept {?tmp, ?p} fs fs' \<and> map_of (os_files fs') ?p = Some data \<and>
        map_of (os_files fs') ?tmp = map_of (os_files fs) ?tmp else sameExcept {?tmp} fs fs'"
      using same0 by (auto simp: sameExcept_def)
    then show ?thesis by (rule that [OF key])
  next
    case True
    let ?fs1 = "fs0\<lparr>os_files := mapSet (os_files fs0) ?tmp [], os_rand := Suc (os_rand fs0)\<rparr>"
    obtain r2 sc fs2 where b: "writeFileBody ?tmp ?p data ?fs1 = (r2, sc, fs2)" by (rule prod_cases3)
    have d: "writeFileDeferred ?tmp sc r2 fs2 = (r, fs')"
      using assms(3) True by (simp add: writeFile_def dir fs_TempFile_def f Let_def b)
    have tp: "?tmp \<noteq> ?p" using key assms(2) by blast
    have fresh: "?tmp \<notin> set (os_dirs fs0)" "map_of (os_files fs0) ?tmp = None"
      using tempName_fresh [of "absPath es" tmpPrefix fs0] by (auto simp: pathExists_def)
    have same1: "sameExcept {?tmp} fs ?fs1" using same0 by (auto simp: sameExcept_def)
    note body = writeFileBody_spec [OF b tp, simplified]
    have "os_dirs fs2 = os_dirs fs0" using body by (cases r2) (auto simp: sameExcept_def)
    then have defd: "(r = None \<longleftrightarrow> r2 = None) \<and> sameExcept {?tmp} fs2 fs' \<and> (r2 = None \<longrightarrow> fs' = fs2)"
      using writeFileDeferred_spec [OF d] fresh(1) body by auto
    have "if r = None then sameExcept {?tmp, ?p} fs fs' \<and> map_of (os_files fs') ?p = Some data \<and>
        map_of (os_files fs') ?tmp = map_of (os_files fs) ?tmp else sameExcept {?tmp} fs fs'"
      using body defd same1 fresh(2) same0 by (cases r2) (auto simp: sameExcept_def)
    then show ?thesis by (rule that [OF key])
  qed
qed

lemma ensureDirectory_spec:
  "ensureDirectory p fs = (r, fs') \<Longrightarrow> os_files fs' = os_files fs \<and>
     set (os_dirs fs') \<subseteq> insert p (set (os_dirs fs)) \<and> (os_faults fs = [] \<longrightarrow> os_faults fs' = [])"
  by (auto simp: ensureDirectory_def fs_Stat_def fs_MkdirAll_def Let_def sameExcept_def
      split: prod.splits option.splits if_splits dest!: nextFault_same)

lemma FileStore_Write_content:
  assumes "dirOk es" and "FileStore_Write (absPath es) k d fs = (r, fs')"
  shows "storeContent es fs' = (if r = None then (storeContent es fs)(k \<mapsto> d) else storeContent es fs)"
  and "r = None \<longrightarrow> ValidateKey k = None"
  and "set (os_dirs fs') \<subseteq> insert (absPath es) (set (os_dirs fs))"
  and "os_faults fs = [] \<longrightarrow> os_faults fs' = []"
proof -
  have "storeContent es fs' = (if r = None then (storeContent es fs)(k \<mapsto> d) else storeContent es fs) \<and>
      (r = None \<longrightarrow> ValidateKey k = None) \<and> set (os_dirs fs') \<subseteq> insert (absPath es) (set (os_dirs fs)) \<and>
      (os_faults fs = [] \<longrightarrow> os_faults fs' = [])"
  proof (cases "ValidateKey k")
    case (Some e)
    then show ?thesis using assms(2) by (auto simp: FileStore_Write_def)
  next
    case None
    obtain r1 fs1 where e: "ensureDirectory (absPath es) fs = (r1, fs1)" by fastforce
    note e' = ensureDirectory_spec [OF e]
    show ?thesis
    proof (cases r1)
      case (Some x)
      then show ?thesis using assms(2) None e e' by (auto simp: FileStore_Write_def storeContent_def fun_eq_iff)
    next
      case r1: None
      have w: "writeFile (absPath (es @ [k])) d fs1 = (r, fs')"
        using assms(2) None e r1 by (simp add: FileStore_Write_def getPathByKey_abs [OF assms(1) None])
      obtain tmp where tmp: "\<forall>k'. ValidateKey k' = None \<longrightarrow> tmp \<noteq> absPath (es @ [k'])"
        "if r = None then sameExcept {tmp, absPath (es @ [k])} fs1 fs' \<and>
           map_of (os_files fs') (absPath (es @ [k])) = Some d \<and> map_of (os_files fs') tmp = map_of (os_files fs1) tmp
         else sameExcept {tmp} fs1 fs'"
        using writeFile_spec [OF assms(1) None w] by blast
      have content: "storeContent es fs' k' =
          (if r = None then (storeContent es fs)(k \<mapsto> d) else storeContent es fs) k'" for k'
      proof (cases "ValidateKey k' = None")
        case True
        have "absPath (es @ [k]) \<noteq> tmp" "absPath (es @ [k']) \<noteq> tmp" using tmp(1) None True by blast+
        with True show ?thesis
          using tmp(2) e' None keyPath_inj [OF assms(1) None True]
          by (cases "k' = k") (auto simp: storeContent_def sameExcept_def split: if_splits)
      next
        case False
        then show ?thesis using None by (auto simp: storeContent_def)
      qed
      then show ?thesis using tmp(2) e' None by (auto simp: fun_eq_iff sameExcept_def split: if_splits)
    qed
  qed
  then show "storeContent es fs' = (if r = None then (storeContent es fs)(k \<mapsto> d) else storeContent es fs)"
    and "r = None \<longrightarrow> ValidateKey k = None"
    and "set (os_dirs fs') \<subseteq> insert (absPath es) (set (os_dirs fs))"
    and "os_faults fs = [] \<longrightarrow> os_faults fs' = []" by blast+
qed

lemma fs_Remove_files:
  "fs_Remove p fs = (r, fs') \<Longrightarrow>
     (\<forall>q. map_of (os_files fs') q = (if r = None \<and> q = p then None else map_of (os_files fs) q)) \<and>
     (\<forall>e. r = Some e \<longrightarrow> os_IsNotExist e \<longrightarrow> map_of (os_files fs) p = None)"
  by (auto simp: fs_Remove_def os_IsNotExist_def split: prod.splits option.splits if_splits dest!: nextFault_same)

lemma removePath_files:
  assumes "removePath p fs = (r, fs')"
  shows "map_of (os_files fs') q = (if r = None \<and> q = p then None else map_of (os_files fs) q)"
proof -
  obtain r1 fs1 where rm: "fs_Remove p fs = (r1, fs1)" by fastforce
  show ?thesis using fs_Remove_files [OF rm] assms rm
    by (auto simp: removePath_def split: option.splits if_splits)
qed

lemma FileStore_Delete_content:
  assumes "dirOk es" and "FileStore_Delete (absPath es) k fs = (r, fs')"
  shows "storeContent es fs' = (if r = None then (storeContent es fs)(k := None) else storeContent es fs)"
    and "storeHealthy es fs \<Longrightarrow> storeHealthy es fs' \<and> (ValidateKey k = None \<longrightarrow> r = None)"
proof -
  show "storeContent es fs' = (if r = None then (storeContent es fs)(k := None) else storeContent es fs)"
  proof (cases "ValidateKey k = None")
    case True
    then have rm: "removePath (absPath (es @ [k])) fs = (r, fs')"
      using assms(2) by (simp add: FileStore_Delete_def getPathByKey_abs [OF assms(1) True])
    show ?thesis
      using removePath_files [OF rm] True keyPath_inj [OF assms(1) _ True]
      by (auto simp: storeContent_def fun_eq_iff)
  next
    case False
    then show ?thesis using assms(2) by (auto simp: FileStore_Delete_def storeContent_def)
  qed
  assume h: "storeHealthy es fs"
  show "storeHealthy es fs' \<and> (ValidateKey k = None \<longrightarrow> r = None)"
  proof (cases "ValidateKey k = None")
    case True
    then have "absPath (es @ [k]) \<notin> set (os_dirs fs)" using h by (simp add: storeHealthy_def)
    moreover have rm: "removePath (absPath (es @ [k])) fs = (r, fs')"
      using assms(2) True by (simp add: FileStore_Delete_def getPathByKey_abs [OF assms(1) True])
    ultimately show ?thesis using removePath_spec [OF rm] h
      by (cases r) (auto simp: storeHealthy_def sameExcept_def)
  next
    case False
    then show ?thesis using assms(2) h by (auto simp: FileStore_Delete_def)
  qed
qed

lemma FileStore_Read_result:
  assumes "dirOk es" and "storeHealthy es fs" and "ValidateKey k = None"
  shows "FileStore_Read (absPath es) k fs =
    (case storeContent es fs k of Some d \<Rightarrow> Inr d | None \<Rightarrow> Inl (Sentinel ErrKeyNotFound), fs)"
  using assms by (auto simp: FileStore_Read_def getPathByKey_abs fs_ReadFile_def storeHealthy_def storeContent_def
      noSuchFile_def os_IsNotExist_def split: option.splits)

lemma FileStore_Read_frame:
  "storeContent es (snd (FileStore_Read p k fs)) = storeContent es fs \<and>
     (storeHealthy es fs \<longrightarrow> storeHealthy es (snd (FileStore_Read p k fs)))"
  by (auto simp: FileStore_Read_def fs_ReadFile_def storeContent_def storeHealthy_def sameExcept_def fun_eq_iff
      split: option.splits prod.splits sum.splits dest!: nextFault_same)

theorem FileStore_contract:
  assumes "dirOk es"
  shows "store_contract (FileStore (absPath es)) (storeContent es) (storeHealthy es) (\<lambda>k. ValidateKey k = None)"
proof (unfold_locales, goal_cases)
  case (1 k d s s')
  then show ?case using FileStore_Write_content [OF assms, of k d s None s'] by simp
next
  case (2 k d s e s')
  then show ?case using FileStore_Write_content [OF assms, of k d s "Some e" s'] by simp
next
  case (3 s k d)
  obtain r s' where w: "FileStore_Write (absPath es) k d s = (r, s')" by fastforce
  show ?case
    using 3 FileStore_Write_content(3,4) [OF assms w] keyPath_not_dir [OF assms] w
    by (auto simp: storeHealthy_def)
next
  case (8 k s s')
  then show ?case using FileStore_Delete_content(1) [OF assms, of k s None s'] by simp
next
  case (9 k s e s')
  then show ?case using FileStore_Delete_content(1) [OF assms, of k s "Some e" s'] by simp
next
  case (10 s k)
  then show ?case using FileStore_Delete_content(2) [OF assms, of k s] by (simp add: prod_eq_iff)
next
  case (11 s k)
  then show ?case using FileStore_Delete_content(2) [OF assms, of k s] by (simp add: prod_eq_iff)
qed (simp_all add: FileStore_Read_result [OF assms] FileStore_Read_frame)

text \<open>On a device that does not fail, a write to an existing store succeeds.\<close>

lemma FileStore_Write_ok:
  assumes "dirOk es" and "storeHealthy es fs" and "ValidateKey k = None" and "absPath es \<in> set (os_dirs fs)"
  shows "fst (FileStore_Write (absPath es) k d fs) = None"
proof -
  have nf: "os_faults fs = []" and p: "absPath (es @ [k]) \<notin> set (os_dirs fs)" using assms(2,3) by (auto simp: storeHealthy_def)
  have e: "ensureDirectory (absPath es) fs = (None, fs)"
    using nf assms(4) by (auto simp: ensureDirectory_def fs_Stat_def fs_MkdirAll_def split: option.splits prod.splits)
  have dir: "filepath_Dir (absPath (es @ [k])) = absPath es" using assms(1,3) by (rule Dir_getPathByKey)
  show ?thesis
    by (simp add: FileStore_Write_def assms(3) e getPathByKey_abs [OF assms(1,3)] writeFile_def dir fs_TempFile_def nf assms(4)
        Let_def writeFileBody_def file_Write_def file_Sync_def file_Close_def fs_Rename_def p writeFileDeferred_def)
qed

text \<open>The directory of the sandbox checkpoints under the default root directory.\<close>

definition checkpointDir :: "string list" where
  "checkpointDir = [''var'', ''lib'', ''cri-dockerd'', ''sandbox'']"

lemma dirOk_checkpointDir [simp]: "dirOk checkpointDir"
  by (simp add: dirOk_def checkpointDir_def pathElem_def)

interpretation fstore: store_contract "FileStore (absPath checkpointDir)" "storeContent checkpointDir"
  "storeHealthy checkpointDir" "\<lambda>k. ValidateKey k = None"
  by (rule FileStore_contract) simp

lemma path_Base_key: "pathElem k \<Longrightarrow> dirOk es \<Longrightarrow> path_Base (absPath (es @ [k])) = k"
proof -
  assume k: "pathElem k" and es: "dirOk es"
  have eq: "absPath (es @ [k]) = absPath es @ ''/'' @ k"
    using es by (simp add: absPath_def Join_append_one dirOk_def)
  obtain c k' where ck: "rev k = c # k'" using k by (cases "rev k") (auto simp: pathElem_def)
  have c2: "CHR ''/'' \<notin> set (rev k)" using k by (simp add: pathElem_def)
  have c: "c \<noteq> CHR ''/''" using c2 unfolding ck by auto
  have "dropWhile (\<lambda>c. c = CHR ''/'') (rev (absPath es @ ''/'' @ k)) = rev k @ CHR ''/'' # rev (absPath es)"
    using c ck by simp
  moreover have "takeWhile (\<lambda>c. c \<noteq> CHR ''/'') (rev k @ CHR ''/'' # rev (absPath es)) = rev k"
    using c2 by (subst takeWhile_append2) auto
  ultimately show ?thesis using k by (simp add: path_Base_def eq Let_def pathElem_def)
qed

subsection \<open>Properties\<close>

text \<open>C3. The write of the file store is atomic, whatever call of the file system fails and even if
  a failing write leaves a part of the data in the temporary file. If \<^verbatim>\<open>Write\<close> reports success, the store
  holds the new data under that key; if it reports an error, the store is unchanged; and in no
  case is the data of another key touched.\<close>

theorem FileStore_Write_atomic:
  assumes "dirOk es"
  shows "case FileStore_Write (absPath es) k d fs of (r, fs') \<Rightarrow>
     storeContent es fs' = (if r = None then (storeContent es fs)(k \<mapsto> d) else storeContent es fs)"
  using FileStore_Write_content(1) [OF assms] by (auto split: prod.split)

definition exampleFs :: osfs where
  "exampleFs = \<lparr>os_files = [], os_dirs = [''/var/lib/cri-dockerd/sandbox''], os_links = [], os_rand = 7, os_faults = []\<rparr>"

theorem FileStore_Write_atomic_witness:
  "storeContent checkpointDir
     (snd (FileStore_Write (absPath checkpointDir) ''ab12'' ''data''
        (exampleFs\<lparr>os_faults := [None, None, None, None, None, Some (''rename: I/O error'', 0)]\<rparr>))) =
   storeContent checkpointDir (exampleFs\<lparr>os_faults := [None, None, None, None, None, Some (''rename: I/O error'', 0)]\<rparr>)"
proof -
  let ?fs = "exampleFs\<lparr>os_faults := [None, None, None, None, None, Some (''rename: I/O error'', 0)]\<rparr>"
  have "fst (FileStore_Write (absPath checkpointDir) ''ab12'' ''data'' ?fs) \<noteq> None" by code_simp
  then show ?thesis
    using FileStore_Write_atomic [OF dirOk_checkpointDir, where k = "''ab12''" and d = "''data''" and fs = ?fs]
    by (auto split: prod.splits)
qed

text \<open>C24. A key that validation accepts names a file directly inside the store's directory, whatever
  the directory: the joined path has that directory as its parent and the key as its base name,
  so a key can neither escape the directory nor collide with a temporary file.\<close>

theorem ValidateKey_path_safe:
  assumes "dirOk es" and "ValidateKey key = None"
  shows "filepath_Dir (getPathByKey (absPath es) key) = absPath es \<and>
     path_Base (getPathByKey (absPath es) key) = key \<and>
     getPathByKey (absPath es) key \<noteq> tempName (absPath es) tmpPrefix fs"
  using assms ValidateKey_pathElem [OF assms(2)] tempPath_not_key [OF assms, of fs]
  by (auto simp: getPathByKey_abs Dir_getPathByKey path_Base_key)

theorem ValidateKey_path_safe_witness:
  "filepath_Dir (getPathByKey (absPath checkpointDir) ''ab..12'') = absPath checkpointDir"
  using ValidateKey_path_safe [OF dirOk_checkpointDir, of "''ab..12''"]
  by (simp add: ValidateKey_iff keyChar_def keyExtChar_def)

text \<open>The listing of the store shows every key that holds data and never a temporary file, even
  one that an earlier failed write could not remove.\<close>

lemma FileStore_List_keys:
  assumes "dirOk es" and "FileStore_List (absPath es) fs = (Inr ks, fs')"
  shows "(storeContent es fs k \<noteq> None \<longrightarrow> k \<in> set ks) \<and> \<not> list_ex (\<lambda>k. strings_HasPrefix k tmpPrefix) ks"
proof -
  obtain f fs0 where f: "nextFault fs = (f, fs0)" by fastforce
  have ks: "ks = filter (\<lambda>f. \<not> strings_HasPrefix f tmpPrefix) (sort (map path_Base
      (filter (\<lambda>p. filepath_Dir p = absPath es) (map fst (os_files fs) @ map fst (os_links fs) @ os_dirs fs))))"
    using assms(2) f nextFault_state [OF f]
    by (auto simp: FileStore_List_def fs_ReadDir_def split: option.splits if_splits)
  have "k \<in> set ks" if c: "storeContent es fs k \<noteq> None"
  proof -
    from c have v: "ValidateKey k = None" and "map_of (os_files fs) (absPath (es @ [k])) \<noteq> None"
      by (auto simp: storeContent_def split: if_splits)
    then have "absPath (es @ [k]) \<in> set (map fst (os_files fs))"
      by (metis map_of_eq_None_iff set_map)
    moreover have "\<not> strings_HasPrefix k tmpPrefix"
      using ValidateKey_pathElem [OF v] by (cases k) (auto simp: strings_HasPrefix_def tmpPrefix_def)
    ultimately show ?thesis
      unfolding ks using Dir_getPathByKey [OF assms(1) v] path_Base_key [of k es] ValidateKey_pathElem [OF v] assms(1)
      by (auto intro!: image_eqI [where x = "absPath (es @ [k])"])
  qed
  then show ?thesis by (auto simp: ks list_ex_iff)
qed

end
