(* ===== verification/Libdocker.thy ===== *)
theory Libdocker
  imports Cri_Types
begin

text \<open>
  Helpers of package \<^verbatim>\<open>libdocker\<close>: classification of daemon errors by their text, conversion of
  environment, mounts and ports to the Docker types, and matching of image references. The
  regular expressions are executable searches with the leftmost, greedy semantics of Go's
  \<^verbatim>\<open>regexp\<close>. The parsers of image references and digests are third-party code and are arguments.
\<close>

subsection \<open>Errors recognised by their text\<close>

definition idByte :: "char \<Rightarrow> bool" where
  "idByte c \<longleftrightarrow> (let n = (of_char c :: nat) in (48 \<le> n \<and> n \<le> 57) \<or> (97 \<le> n \<and> n \<le> 122))"

text \<open>\<^verbatim>\<open>No such container: [0-9a-z]+\<close>\<close>

definition noSuchContainer :: string where "noSuchContainer = ''No such container: ''"

definition containerNotFoundErrorRegx :: "string \<Rightarrow> bool" where
  "containerNotFoundErrorRegx s = list_ex (\<lambda>t. prefix noSuchContainer t \<and>
     (case drop (length noSuchContainer) t of [] \<Rightarrow> False | c # _ \<Rightarrow> idByte c)) (tails s)"

definition IsContainerNotFoundError :: "goerror \<Rightarrow> bool" where
  "IsContainerNotFoundError err = containerNotFoundErrorRegx (Error err)"

definition IsImageNotFoundError :: "goerror \<Rightarrow> bool" where
  "IsImageNotFoundError err = (case err of ImageNotFoundError _ \<Rightarrow> True | _ \<Rightarrow> False)"

definition StatusRunningPrefix :: string where "StatusRunningPrefix = ''Up''"

definition StatusCreatedPrefix :: string where "StatusCreatedPrefix = ''Created''"

definition StatusExitedPrefix :: string where "StatusExitedPrefix = ''Exited''"

definition CheckContainerStatus :: "'e docker_client \<Rightarrow> string \<Rightarrow> 'e \<Rightarrow> ContainerJSON result \<times> 'e" where
  "CheckContainerStatus client containerID e =
     (case dk_InspectContainer client containerID e of
        (Inl err, e) \<Rightarrow> (Inl err, e)
      | (Inr container, e) \<Rightarrow>
          if \<not> ds_Running (cj_State container)
          then (Inl (Errorf (''container not running ('' @ cj_ID container @ '')'')), e)
          else (Inr container, e))"

subsection \<open>Environment, mounts and ports\<close>

definition GenerateEnvList :: "(string \<times> string) list \<Rightarrow> string list" where
  "GenerateEnvList envs = map (\<lambda>(k, v). k @ ''='' @ v) envs"

record RuntimeHandler =
  rh_Name :: string
  rh_RecursiveReadOnlyMounts :: bool

definition propagationString :: "MountPropagation \<Rightarrow> string" where
  "propagationString p =
     (case p of PROPAGATION_PRIVATE \<Rightarrow> ''PROPAGATION_PRIVATE''
      | PROPAGATION_HOST_TO_CONTAINER \<Rightarrow> ''PROPAGATION_HOST_TO_CONTAINER''
      | PROPAGATION_BIDIRECTIONAL \<Rightarrow> ''PROPAGATION_BIDIRECTIONAL''
      | PROPAGATION_other n \<Rightarrow> fmt_int n)"

text \<open>The loop body of \<^verbatim>\<open>GenerateMountBindings\<close> on a system other than Windows.\<close>

definition mountBinding :: "bool \<Rightarrow> Mount \<Rightarrow> DockerMount result" where
  "mountBinding rroSupported m =
     (if mnt_RecursiveReadOnly m \<and> \<not> rroSupported
      then Inl (WrapErr [] (Sentinel ErrRROUnsupported)
             ('': runtime handler does not support recursive read-only mounts (hostPath='' @ fmt_q (mnt_HostPath m) @ '')''))
      else if mnt_RecursiveReadOnly m \<and> mnt_Propagation m \<noteq> PROPAGATION_PRIVATE
      then Inl (Errorf (''recursive read-only mount needs private propagation, got '' @
             fmt_q (propagationString (mnt_Propagation m)) @ '' (hostPath='' @ fmt_q (mnt_HostPath m) @ '')''))
      else if mnt_RecursiveReadOnly m \<and> \<not> mnt_Readonly m
      then Inl (Errorf (''recursive read-only mount conflicts with RW mount (hostPath='' @ fmt_q (mnt_HostPath m) @ '')''))
      else Inr \<lparr>dm_Source = mnt_HostPath m, dm_Target = mnt_ContainerPath m,
             dm_ReadOnly = mnt_Readonly m, dm_CreateMountpoint = True,
             dm_ReadOnlyNonRecursive = (mnt_Readonly m \<and> \<not> mnt_RecursiveReadOnly m),
             dm_Propagation = (case mnt_Propagation m of
                 PROPAGATION_PRIVATE \<Rightarrow> []
               | PROPAGATION_BIDIRECTIONAL \<Rightarrow> ''rshared''
               | PROPAGATION_HOST_TO_CONTAINER \<Rightarrow> ''rslave''
               | PROPAGATION_other _ \<Rightarrow> [])\<rparr>)"

fun mountBindings :: "bool \<Rightarrow> Mount list \<Rightarrow> DockerMount list result" where
  "mountBindings rroSupported [] = Inr []"
| "mountBindings rroSupported (m # ms) =
     (case mountBinding rroSupported m of
        Inl err \<Rightarrow> Inl err
      | Inr bind \<Rightarrow>
          (case mountBindings rroSupported ms of Inl err \<Rightarrow> Inl err | Inr rest \<Rightarrow> Inr (bind # rest)))"

definition GenerateMountBindings :: "Mount list \<Rightarrow> RuntimeHandler option \<Rightarrow> DockerMount list result" where
  "GenerateMountBindings mounts rtHandler =
     (let rroSupported = (case rtHandler of None \<Rightarrow> False | Some h \<Rightarrow> rh_RecursiveReadOnlyMounts h) in
      mountBindings rroSupported mounts)"

definition dockerPortOf :: "PortMapping \<Rightarrow> string" where
  "dockerPortOf port = fmt_int (pm_ContainerPort port) @
     (case pm_Protocol port of Protocol_UDP \<Rightarrow> ''/udp'' | Protocol_TCP \<Rightarrow> ''/tcp''
      | Protocol_SCTP \<Rightarrow> ''/sctp'' | Protocol_other _ \<Rightarrow> ''/tcp'')"

definition hostBindingOf :: "PortMapping \<Rightarrow> PortBinding" where
  "hostBindingOf port = \<lparr>pb_HostIP = pm_HostIp port, pb_HostPort = fmt_int (pm_HostPort port)\<rparr>"

definition portStep ::
    "string list \<times> (string \<times> PortBinding list) list \<Rightarrow> PortMapping \<Rightarrow> string list \<times> (string \<times> PortBinding list) list" where
  "portStep acc port =
     (case acc of (exposedPorts, portBindings) \<Rightarrow>
        if pm_HostPort port = 0 then (exposedPorts, portBindings)
        else let dockerPort = dockerPortOf port;
                 hostBinding = hostBindingOf port;
                 exposedPorts = List.insert dockerPort exposedPorts
             in (case map_of portBindings dockerPort of
                   Some existedBindings \<Rightarrow> (exposedPorts, mapSet portBindings dockerPort (existedBindings @ [hostBinding]))
                 | None \<Rightarrow> (exposedPorts, mapSet portBindings dockerPort [hostBinding])))"

definition MakePortsAndBindings :: "PortMapping list \<Rightarrow> string list \<times> (string \<times> PortBinding list) list" where
  "MakePortsAndBindings pm = foldl portStep ([], []) pm"

subsection \<open>Image references\<close>

text \<open>
  What the code asks of a parsed reference: its text if it has a tag, and the algorithm and hex
  part of its digest if it has one. The two parsers of the reference package and the parser of
  the digest package are arguments.
\<close>

record image_ref =
  ref_Tagged :: "string option"
  ref_Digest :: "(string \<times> string) option"

record ref_parsers =
  ParseNormalizedNamed :: "string \<Rightarrow> image_ref option"
  dockerref_Parse :: "string \<Rightarrow> image_ref option"
  godigest_Parse :: "string \<Rightarrow> (string \<times> string) option"

text \<open>Whether one of the repository tags matches the image by suffix, as written or normalised.\<close>

definition tagMatches :: "ref_parsers \<Rightarrow> string \<Rightarrow> string \<Rightarrow> bool" where
  "tagMatches ps imageStr tag \<longleftrightarrow>
     (if strings_HasSuffix imageStr tag \<or> strings_HasSuffix tag imageStr then True
      else (case ParseNormalizedNamed ps tag of
          None \<Rightarrow> False
        | Some initialName \<Rightarrow>
            (case ref_Tagged initialName of
               None \<Rightarrow> False
             | Some normalizedTag \<Rightarrow>
                 normalizedTag \<noteq> [] \<and>
                 (strings_HasSuffix imageStr normalizedTag \<or> strings_HasSuffix normalizedTag imageStr))))"

definition repoDigestMatches :: "ref_parsers \<Rightarrow> string \<times> string \<Rightarrow> string \<Rightarrow> bool" where
  "repoDigestMatches ps digest repoDigest \<longleftrightarrow>
     (case ParseNormalizedNamed ps repoDigest of
        None \<Rightarrow> False
      | Some named \<Rightarrow> (case ref_Digest named of None \<Rightarrow> False | Some d \<Rightarrow> fst digest = fst d \<and> snd digest = snd d))"

definition matchImageTagOrSHA :: "ref_parsers \<Rightarrow> ImageInspect \<Rightarrow> string \<Rightarrow> bool" where
  "matchImageTagOrSHA ps inspected imageStr =
     (case ParseNormalizedNamed ps imageStr of
        None \<Rightarrow> False
      | Some named \<Rightarrow>
          if ref_Tagged named = None \<and> ref_Digest named = None then True
          else if ref_Tagged named \<noteq> None \<and> list_ex (tagMatches ps imageStr) (ii_RepoTags inspected) then True
          else (case ref_Digest named of
              None \<Rightarrow> False
            | Some digest \<Rightarrow>
                if list_ex (repoDigestMatches ps digest) (ii_RepoDigests inspected) then True
                else (case godigest_Parse ps (ii_ID inspected) of
                    None \<Rightarrow> False
                  | Some i \<Rightarrow> fst digest = fst i \<and> snd digest = snd i)))"

definition matchImageIDOnly :: "ref_parsers \<Rightarrow> ImageInspect \<Rightarrow> string \<Rightarrow> bool" where
  "matchImageIDOnly ps inspected imageStr =
     (if ii_ID inspected = imageStr then True
      else (case dockerref_Parse ps imageStr of
          None \<Rightarrow> False
        | Some ref \<Rightarrow>
            (case ref_Digest ref of
               None \<Rightarrow> False
             | Some digest \<Rightarrow>
                 (case godigest_Parse ps (ii_ID inspected) of
                    None \<Rightarrow> False
                  | Some i \<Rightarrow> fst digest = fst i \<and> snd digest = snd i))))"

subsection \<open>Lemmas\<close>

text \<open>The pattern occurs in a text as soon as it occurs in a part of it: wrapping keeps an error recognisable.\<close>

lemma containerNotFound_iff:
  "containerNotFoundErrorRegx s \<longleftrightarrow> (\<exists>a c b. s = a @ noSuchContainer @ c # b \<and> idByte c)"
proof
  assume "containerNotFoundErrorRegx s"
  then obtain t where t: "t \<in> set (tails s)" "prefix noSuchContainer t"
    "case drop (length noSuchContainer) t of [] \<Rightarrow> False | c # _ \<Rightarrow> idByte c"
    unfolding containerNotFoundErrorRegx_def list_ex_iff by blast
  obtain a where a: "s = a @ t" using t(1) tails_append by blast
  obtain u where u: "t = noSuchContainer @ u" using t(2) by (rule prefixE)
  with t(3) obtain c b where "u = c # b" "idByte c" by (cases u) auto
  then show "\<exists>a c b. s = a @ noSuchContainer @ c # b \<and> idByte c" unfolding a u by blast
next
  assume "\<exists>a c b. s = a @ noSuchContainer @ c # b \<and> idByte c"
  then obtain a c b where s: "s = a @ (noSuchContainer @ c # b)" "idByte c" by blast
  then have "noSuchContainer @ c # b \<in> set (tails s)" unfolding tails_append by blast
  then show "containerNotFoundErrorRegx s"
    unfolding containerNotFoundErrorRegx_def list_ex_iff using s(2) by (intro bexI [of _ "noSuchContainer @ c # b"]) simp_all
qed

lemma containerNotFound_embedded:
  assumes "containerNotFoundErrorRegx t"
  shows "containerNotFoundErrorRegx (a @ t @ b)"
proof -
  obtain x c y where xcy: "t = x @ noSuchContainer @ c # y" "idByte c"
    using assms containerNotFound_iff by blast
  then have "a @ t @ b = (a @ x) @ noSuchContainer @ c # (y @ b)" by simp
  then show ?thesis using xcy(2) containerNotFound_iff by blast
qed

lemma mountBinding_spec:
  assumes "mountBinding r m = Inr b"
  shows "dm_Source b = mnt_HostPath m \<and> dm_Target b = mnt_ContainerPath m \<and> dm_ReadOnly b = mnt_Readonly m \<and>
     (mnt_Readonly m \<longrightarrow> dm_ReadOnlyNonRecursive b = (\<not> mnt_RecursiveReadOnly m)) \<and>
     (mnt_RecursiveReadOnly m \<longrightarrow> mnt_Readonly m \<and> mnt_Propagation m = PROPAGATION_PRIVATE \<and> r)"
  using assms
  by (cases "mnt_RecursiveReadOnly m"; cases r; cases "mnt_Readonly m"; cases "mnt_Propagation m")
    (auto simp: mountBinding_def)

lemma mountBindings_all: "mountBindings r ms = Inr bs \<longleftrightarrow> map (mountBinding r) ms = map Inr bs"
proof (induction ms arbitrary: bs)
  case (Cons m ms)
  show ?case
  proof (cases bs)
    case (Cons b bs')
    then show ?thesis using Cons.IH [of bs'] by (auto split: sum.splits)
  qed (auto split: sum.splits)
qed auto

lemma mountBindings_error:
  "mountBindings r ms = Inl e \<Longrightarrow>
     \<exists>pre m post. ms = pre @ m # post \<and> list_all (\<lambda>x. \<exists>b. mountBinding r x = Inr b) pre \<and> mountBinding r m = Inl e"
proof (induction ms)
  case (Cons m ms)
  show ?case
  proof (cases "mountBinding r m")
    case (Inl x)
    with Cons.prems have "m # ms = [] @ m # ms \<and> list_all (\<lambda>x. \<exists>b. mountBinding r x = Inr b) [] \<and> mountBinding r m = Inl e"
      by simp
    then show ?thesis by blast
  next
    case (Inr x)
    with Cons obtain pre k post where "ms = pre @ k # post" "list_all (\<lambda>x. \<exists>b. mountBinding r x = Inr b) pre" "mountBinding r k = Inl e"
      by (auto split: sum.splits)
    then have "m # ms = (m # pre) @ k # post \<and> list_all (\<lambda>x. \<exists>b. mountBinding r x = Inr b) (m # pre) \<and> mountBinding r k = Inl e"
      using Inr by simp
    then show ?thesis by blast
  qed
qed simp

lemma repoDigestMatches_iff:
  "repoDigestMatches ps d rd \<longleftrightarrow> (\<exists>n. ParseNormalizedNamed ps rd = Some n \<and> ref_Digest n = Some d)"
  by (cases "ParseNormalizedNamed ps rd") (auto simp: repoDigestMatches_def prod_eq_iff split: option.splits)

definition wantedPorts :: "PortMapping list \<Rightarrow> string \<Rightarrow> PortBinding list" where
  "wantedPorts pm p = map hostBindingOf (filter (\<lambda>m. pm_HostPort m \<noteq> 0 \<and> dockerPortOf m = p) pm)"

lemma wantedPorts_Cons:
  "wantedPorts (m # pm) q =
     (if pm_HostPort m \<noteq> 0 \<and> dockerPortOf m = q then hostBindingOf m # wantedPorts pm q else wantedPorts pm q)"
  by (simp add: wantedPorts_def)

lemma portStep_spec:
  assumes "portStep (ex, bs) m = (ex', bs')"
  shows "map_of bs' q = (if pm_HostPort m \<noteq> 0 \<and> dockerPortOf m = q
      then Some ((case map_of bs q of None \<Rightarrow> [] | Some b \<Rightarrow> b) @ [hostBindingOf m]) else map_of bs q)"
    and "set ex' = set ex \<union> (if pm_HostPort m \<noteq> 0 then {dockerPortOf m} else {})"
  using assms by (auto simp: portStep_def Let_def split: if_splits option.splits)

lemma MakePorts_fold:
  "map_of (snd (foldl portStep (ex, bs) pm)) p =
     (if wantedPorts pm p = [] then map_of bs p
      else Some ((case map_of bs p of None \<Rightarrow> [] | Some b \<Rightarrow> b) @ wantedPorts pm p)) \<and>
   set (fst (foldl portStep (ex, bs) pm)) = set ex \<union> {p. wantedPorts pm p \<noteq> []}"
proof (induction pm arbitrary: ex bs)
  case Nil
  show ?case by (simp add: wantedPorts_def)
next
  case (Cons m pm)
  obtain ex' bs' where st: "portStep (ex, bs) m = (ex', bs')" by fastforce
  show ?case
    using Cons.IH [of ex' bs'] portStep_spec [OF st]
    by (cases "map_of bs p") (auto simp: st wantedPorts_Cons)
qed

subsection \<open>Properties\<close>

text \<open>C19. Mounts are translated one to one and in order, or the first offending mount is reported.
  When the translation succeeds every bind is read-only exactly when its mount is, a read-only
  mount is recursively read-only exactly when that was asked for, and every mount that asked for
  it is read-only, private and served by a runtime handler that supports it.\<close>

theorem GenerateMountBindings_faithful:
  "case GenerateMountBindings ms h of
     Inr bs \<Rightarrow> list_all2 (\<lambda>m b. dm_Source b = mnt_HostPath m \<and> dm_Target b = mnt_ContainerPath m \<and>
       dm_ReadOnly b = mnt_Readonly m \<and> (mnt_Readonly m \<longrightarrow> dm_ReadOnlyNonRecursive b = (\<not> mnt_RecursiveReadOnly m)) \<and>
       (mnt_RecursiveReadOnly m \<longrightarrow> mnt_Readonly m \<and> mnt_Propagation m = PROPAGATION_PRIVATE \<and>
          (\<exists>rt. h = Some rt \<and> rh_RecursiveReadOnlyMounts rt))) ms bs
   | Inl e \<Rightarrow> \<exists>pre m post. ms = pre @ m # post \<and>
       list_all (\<lambda>x. \<exists>b. mountBinding (\<exists>rt. h = Some rt \<and> rh_RecursiveReadOnlyMounts rt) x = Inr b) pre \<and>
       mountBinding (\<exists>rt. h = Some rt \<and> rh_RecursiveReadOnlyMounts rt) m = Inl e"
proof -
  let ?r = "\<exists>rt. h = Some rt \<and> rh_RecursiveReadOnlyMounts rt"
  have gen: "GenerateMountBindings ms h = mountBindings ?r ms"
    by (cases h) (simp_all add: GenerateMountBindings_def)
  show ?thesis
  proof (cases "mountBindings ?r ms")
    case (Inl e)
    show ?thesis unfolding gen Inl sum.case by (rule mountBindings_error [OF Inl])
  next
    case (Inr bs)
    then have eq: "map (mountBinding ?r) ms = map Inr bs" using mountBindings_all by blast
    have len: "length ms = length bs" using arg_cong [OF eq, of length] by simp
    have "mountBinding ?r (ms ! i) = Inr (bs ! i)" if "i < length ms" for i
      using arg_cong [OF eq, of "\<lambda>l. l ! i"] that len by simp
    note spec = mountBinding_spec [OF this]
    show ?thesis
      unfolding gen Inr sum.case by (rule list_all2_all_nthI [OF len]) (rule spec)
  qed
qed

theorem GenerateMountBindings_faithful_witness:
  "dm_ReadOnly (hd (case GenerateMountBindings
     [\<lparr>mnt_ContainerPath = ''/c'', mnt_HostPath = ''/h'', mnt_Readonly = True, mnt_SelinuxRelabel = False,
       mnt_Propagation = PROPAGATION_PRIVATE, mnt_RecursiveReadOnly = True\<rparr>] (Some \<lparr>rh_Name = ''runc'', rh_RecursiveReadOnlyMounts = True\<rparr>)
     of Inr bs \<Rightarrow> bs | Inl e \<Rightarrow> []))"
proof -
  let ?ms = "[\<lparr>mnt_ContainerPath = ''/c'', mnt_HostPath = ''/h'', mnt_Readonly = True, mnt_SelinuxRelabel = False,
       mnt_Propagation = PROPAGATION_PRIVATE, mnt_RecursiveReadOnly = True\<rparr>]"
  let ?h = "Some \<lparr>rh_Name = ''runc'', rh_RecursiveReadOnlyMounts = True\<rparr>"
  obtain bs where bs: "GenerateMountBindings ?ms ?h = Inr bs"
    by (simp add: GenerateMountBindings_def mountBinding_def)
  with GenerateMountBindings_faithful [of ?ms ?h] show ?thesis by (auto simp: list_all2_Cons1)
qed

text \<open>C20. Port bindings agree with their specification: the bindings of a docker port are, in order,
  the host ports of exactly those mappings that name it and have a host port, several of them
  accumulate, and the exposed ports are exactly the ports with a binding.\<close>

theorem MakePortsAndBindings_correct:
  "map_of (snd (MakePortsAndBindings pm)) p =
     (if wantedPorts pm p = [] then None else Some (wantedPorts pm p)) \<and>
   (p \<in> set (fst (MakePortsAndBindings pm)) \<longleftrightarrow> map_of (snd (MakePortsAndBindings pm)) p \<noteq> None)"
  using MakePorts_fold [of "[]" "[]" pm] by (simp add: MakePortsAndBindings_def)

text \<open>A reference with a digest and no tag matches an image only if the image's ID or one of its
  repository digests carries exactly that algorithm and hex value, whatever the parsers return.\<close>

lemma matchImageTagOrSHA_digest:
  assumes "ParseNormalizedNamed ps imageStr = Some r" and "ref_Tagged r = None" and "ref_Digest r = Some d"
  shows "matchImageTagOrSHA ps img imageStr \<longleftrightarrow>
     godigest_Parse ps (ii_ID img) = Some d \<or>
     list_ex (\<lambda>rd. \<exists>n. ParseNormalizedNamed ps rd = Some n \<and> ref_Digest n = Some d) (ii_RepoDigests img)"
  unfolding repoDigestMatches_iff [symmetric]
  by (cases "godigest_Parse ps (ii_ID img)")
    (auto simp: matchImageTagOrSHA_def assms list_ex_iff prod_eq_iff split: if_splits)

definition exampleParsers :: ref_parsers where
  "exampleParsers = \<lparr>ParseNormalizedNamed = (\<lambda>s. if strings_Contains s ''@sha256:''
       then Some \<lparr>ref_Tagged = None, ref_Digest = Some (''sha256'', rev (takeWhile (\<lambda>c. c \<noteq> CHR '':'') (rev s)))\<rparr>
       else Some \<lparr>ref_Tagged = None, ref_Digest = None\<rparr>),
     dockerref_Parse = (\<lambda>s. None),
     godigest_Parse = (\<lambda>s. if strings_HasPrefix s ''sha256:'' then Some (''sha256'', drop 7 s) else None)\<rparr>"

end
