(* ===== verification/Security_Context.thy ===== *)
theory Security_Context
  imports Cri_Types Go_Os
begin

text \<open>
  Security contexts (\<^verbatim>\<open>core/security_context.go\<close>, \<^verbatim>\<open>core/selinux_util.go\<close>, \<^verbatim>\<open>core/security_context_linux.go\<close>):
  how the security context of a CRI request changes the Docker configuration. The Go code
  changes the two configuration structs in place; here each function returns the changed value.
  The JSON codec of seccomp profiles (types of the OCI runtime specification) and the SHA-256 sum
  are arguments.
\<close>

definition namespaceModeHost :: string where "namespaceModeHost = ''host''"

record DockerOpt =
  do_key :: string
  do_value :: string
  do_msg :: string

definition FmtDockerOpts :: "DockerOpt list \<Rightarrow> char \<Rightarrow> string list" where
  "FmtDockerOpts opts sep = map (\<lambda>opt. do_key opt @ [sep] @ do_value opt) opts"

definition defaultSeccompOpt :: "DockerOpt list" where
  "defaultSeccompOpt = [\<lparr>do_key = ''seccomp'', do_value = ''unconfined'', do_msg = []\<rparr>]"

subsection \<open>SELinux options\<close>

definition selinuxLabelUser :: "char \<Rightarrow> string" where "selinuxLabelUser sep = ''label'' @ [sep] @ ''user''"

definition selinuxLabelRole :: "char \<Rightarrow> string" where "selinuxLabelRole sep = ''label'' @ [sep] @ ''role''"

definition selinuxLabelType :: "char \<Rightarrow> string" where "selinuxLabelType sep = ''label'' @ [sep] @ ''type''"

definition selinuxLabelLevel :: "char \<Rightarrow> string" where "selinuxLabelLevel sep = ''label'' @ [sep] @ ''level''"

definition modifySecurityOption :: "string list \<Rightarrow> string \<Rightarrow> string \<Rightarrow> string list" where
  "modifySecurityOption config name v = (if length v > 0 then config @ [name @ '':'' @ v] else config)"

definition addSELinuxOptions :: "string list \<Rightarrow> SELinuxOption \<Rightarrow> char \<Rightarrow> string list" where
  "addSELinuxOptions config selinuxOpts sep =
     (let config = modifySecurityOption config (selinuxLabelUser sep) (se_User selinuxOpts);
          config = modifySecurityOption config (selinuxLabelRole sep) (se_Role selinuxOpts);
          config = modifySecurityOption config (selinuxLabelType sep) (se_Type selinuxOpts)
      in modifySecurityOption config (selinuxLabelLevel sep) (se_Level selinuxOpts))"

text \<open>The options \<^verbatim>\<open>selinuxMountLabel\<close> hands to \<^verbatim>\<open>label.InitLabels\<close>, whose result is an argument.\<close>

definition selinuxMountOpts :: "SELinuxOption option \<Rightarrow> string list" where
  "selinuxMountOpts selinuxOpts =
     (let opts = (case selinuxOpts of
            None \<Rightarrow> []
          | Some s \<Rightarrow>
              (if se_User s \<noteq> [] then [''user:'' @ se_User s] else []) @
              (if se_Role s \<noteq> [] then [''role:'' @ se_Role s] else []) @
              (if se_Type s \<noteq> [] then [''type:'' @ se_Type s] else []) @
              (if se_Level s \<noteq> [] then [''level:'' @ se_Level s] else []))
      in if length opts = 0 then [''disable''] else opts)"

definition selinuxMountLabel :: "(string list \<Rightarrow> string result) \<Rightarrow> SELinuxOption option \<Rightarrow> string result" where
  "selinuxMountLabel InitLabels selinuxOpts = InitLabels (selinuxMountOpts selinuxOpts)"

subsection \<open>AppArmor\<close>

definition getAppArmorOpts :: "string \<Rightarrow> DockerOpt list" where
  "getAppArmorOpts profile =
     (if profile = [] \<or> profile = ''runtime/default'' then []
      else if profile = ''unconfined'' then [\<lparr>do_key = ''apparmor'', do_value = ''unconfined'', do_msg = []\<rparr>]
      else [\<lparr>do_key = ''apparmor'', do_value = strings_TrimPrefix profile ''localhost/'', do_msg = []\<rparr>])"

definition getApparmorSecurityOpts :: "LinuxContainerSecurityContext option \<Rightarrow> char \<Rightarrow> string list" where
  "getApparmorSecurityOpts sc sep =
     (case sc of
        None \<Rightarrow> []
      | Some sc \<Rightarrow> if lsc_ApparmorProfile sc = [] then []
                   else FmtDockerOpts (getAppArmorOpts (lsc_ApparmorProfile sc)) sep)"

subsection \<open>Users and host options\<close>

definition modifyContainerConfig ::
    "LinuxContainerSecurityContext option \<Rightarrow> DockerConfig \<Rightarrow> DockerConfig result" where
  "modifyContainerConfig sc config =
     (case sc of
        None \<Rightarrow> Inr config
      | Some sc \<Rightarrow>
          let user0 = (case lsc_RunAsUser sc of None \<Rightarrow> dc_User config | Some u \<Rightarrow> fmt_int u);
              user1 = (if lsc_RunAsUsername sc \<noteq> [] then lsc_RunAsUsername sc else user0)
          in (case lsc_RunAsGroup sc of
                None \<Rightarrow> Inr (config\<lparr>dc_User := user1\<rparr>)
              | Some g \<Rightarrow>
                  if user1 = [] then Inl (Errorf ''runAsGroup is specified without a runAsUser'')
                  else Inr (config\<lparr>dc_User := user1 @ '':'' @ fmt_int g\<rparr>)))"

definition modifyHostConfig ::
    "LinuxContainerSecurityContext option \<Rightarrow> HostConfig \<Rightarrow> char \<Rightarrow> HostConfig result" where
  "modifyHostConfig sc hostConfig sep =
     (case sc of
        None \<Rightarrow> Inr hostConfig
      | Some s \<Rightarrow>
          let hc = hostConfig\<lparr>hc_GroupAdd := hc_GroupAdd hostConfig @ map fmt_int (lsc_SupplementalGroups s)\<rparr>;
              hc = hc\<lparr>hc_Privileged := lsc_Privileged s, hc_ReadonlyRootfs := lsc_ReadonlyRootfs s\<rparr>;
              hc = (case lsc_Capabilities s of
                      None \<Rightarrow> hc | Some c \<Rightarrow> hc\<lparr>hc_CapAdd := cap_Add c, hc_CapDrop := cap_Drop c\<rparr>);
              hc = (case lsc_SelinuxOptions s of
                      None \<Rightarrow> hc | Some o' \<Rightarrow> hc\<lparr>hc_SecurityOpt := addSELinuxOptions (hc_SecurityOpt hc) o' sep\<rparr>);
              hc = hc\<lparr>hc_SecurityOpt := hc_SecurityOpt hc @ getApparmorSecurityOpts sc sep\<rparr>;
              hc = (if lsc_NoNewPrivs s then hc\<lparr>hc_SecurityOpt := hc_SecurityOpt hc @ [''no-new-privileges'']\<rparr> else hc);
              hc = (if \<not> hc_Privileged hc
                    then hc\<lparr>hc_MaskedPaths := lsc_MaskedPaths s, hc_ReadonlyPaths := lsc_ReadonlyPaths s\<rparr> else hc)
          in Inr hc)"

subsection \<open>Namespaces\<close>

text \<open>\<open>network\<close> is the name of the network plugin, \<open>None\<close> for a nil plugin manager.\<close>

definition modifyHostOptionsForSandbox ::
    "NamespaceOption option \<Rightarrow> string option \<Rightarrow> HostConfig \<Rightarrow> HostConfig" where
  "modifyHostOptionsForSandbox nsOpts network hc0 =
     (let hc = (if GetIpc nsOpts = NS_NODE then hc0\<lparr>hc_IpcMode := namespaceModeHost\<rparr> else hc0) in
      if GetNetwork nsOpts = NS_NODE then hc\<lparr>hc_NetworkMode := namespaceModeHost\<rparr>
      else (case network of
          None \<Rightarrow> hc\<lparr>hc_NetworkMode := ''default''\<rparr>
        | Some name \<Rightarrow>
            if name = ''cni'' \<or> name = ''kubenet'' then hc\<lparr>hc_NetworkMode := ''none''\<rparr>
            else hc\<lparr>hc_NetworkMode := ''default''\<rparr>))"

definition modifySandboxNamespaceOptions ::
    "NamespaceOption option \<Rightarrow> HostConfig \<Rightarrow> string option \<Rightarrow> HostConfig" where
  "modifySandboxNamespaceOptions nsOpts hostConfig network =
     (let hc = (if GetPid nsOpts = NS_NODE then hostConfig\<lparr>hc_PidMode := namespaceModeHost\<rparr> else hostConfig) in
      modifyHostOptionsForSandbox nsOpts network hc)"

definition modifyHostOptionsForContainer :: "NamespaceOption option \<Rightarrow> string \<Rightarrow> HostConfig \<Rightarrow> HostConfig" where
  "modifyHostOptionsForContainer nsOpts podSandboxID hc =
     (let sandboxNSMode = ''container:'' @ podSandboxID;
          hc = hc\<lparr>hc_NetworkMode := sandboxNSMode, hc_IpcMode := sandboxNSMode, hc_UTSMode := []\<rparr>
      in if GetNetwork nsOpts = NS_NODE then hc\<lparr>hc_UTSMode := namespaceModeHost\<rparr> else hc)"

definition modifyContainerNamespaceOptions :: "NamespaceOption option \<Rightarrow> string \<Rightarrow> HostConfig \<Rightarrow> HostConfig" where
  "modifyContainerNamespaceOptions nsOpts podSandboxID hostConfig =
     (let hc = (case GetPid nsOpts of
            NS_NODE \<Rightarrow> hostConfig\<lparr>hc_PidMode := namespaceModeHost\<rparr>
          | NS_POD \<Rightarrow> hostConfig\<lparr>hc_PidMode := ''container:'' @ podSandboxID\<rparr>
          | NS_TARGET \<Rightarrow> hostConfig\<lparr>hc_PidMode := ''container:'' @ GetTargetId nsOpts\<rparr>
          | NS_CONTAINER \<Rightarrow> hostConfig)
      in modifyHostOptionsForContainer nsOpts podSandboxID hc)"

definition applySandboxSecurityContext ::
    "LinuxPodSandboxConfig option \<Rightarrow> DockerConfig \<Rightarrow> HostConfig \<Rightarrow> string option \<Rightarrow> char
      \<Rightarrow> (DockerConfig \<times> HostConfig) result" where
  "applySandboxSecurityContext lc config hc network sep =
     (case lc of
        None \<Rightarrow> Inr (config, hc)
      | Some l \<Rightarrow>
          let sc = map_option (\<lambda>s. \<lparr>lsc_Capabilities = None, lsc_Privileged = lss_Privileged s,
                     lsc_NamespaceOptions = lss_NamespaceOptions s, lsc_SelinuxOptions = lss_SelinuxOptions s,
                     lsc_RunAsUser = lss_RunAsUser s, lsc_RunAsGroup = lss_RunAsGroup s, lsc_RunAsUsername = [],
                     lsc_ReadonlyRootfs = lss_ReadonlyRootfs s, lsc_SupplementalGroups = lss_SupplementalGroups s,
                     lsc_ApparmorProfile = [], lsc_NoNewPrivs = False, lsc_MaskedPaths = [], lsc_ReadonlyPaths = [],
                     lsc_Seccomp = None\<rparr>) (lps_SecurityContext l)
          in (case modifyContainerConfig sc config of
                Inl err \<Rightarrow> Inl err
              | Inr config \<Rightarrow>
                  (case modifyHostConfig sc hc sep of
                     Inl err \<Rightarrow> Inl err
                   | Inr hc \<Rightarrow>
                       Inr (config, modifySandboxNamespaceOptions
                              (Option.bind sc lsc_NamespaceOptions) hc network))))"

definition applyContainerSecurityContext ::
    "LinuxContainerConfig option \<Rightarrow> string \<Rightarrow> DockerConfig \<Rightarrow> HostConfig \<Rightarrow> char \<Rightarrow> (DockerConfig \<times> HostConfig) result" where
  "applyContainerSecurityContext lc podSandboxID config hc sep =
     (case lc of
        None \<Rightarrow> Inr (config, hc)
      | Some l \<Rightarrow>
          (case modifyContainerConfig (lcc_SecurityContext l) config of
             Inl err \<Rightarrow> Inl err
           | Inr config \<Rightarrow>
               (case modifyHostConfig (lcc_SecurityContext l) hc sep of
                  Inl err \<Rightarrow> Inl err
                | Inr hc \<Rightarrow>
                    Inr (config, modifyContainerNamespaceOptions
                           (Option.bind (lcc_SecurityContext l) lsc_NamespaceOptions) podSandboxID hc))))"

subsection \<open>Seccomp profiles\<close>

record LinuxSyscall =
  ls_Names :: "string list"
  ls_Action :: string
  ls_Other :: string

text \<open>\<open>sec_Other\<close> stands for the fields of the profile that the code carries along unread.\<close>

record LinuxSeccomp =
  sec_Syscalls :: "LinuxSyscall list"
  sec_Other :: string

record seccomp_codec =
  sj_Unmarshal :: "string \<Rightarrow> LinuxSeccomp result"
  sj_Marshal :: "LinuxSeccomp \<Rightarrow> string result"
  sj_Compact :: "string \<Rightarrow> string result"
  sj_sha256 :: "string \<Rightarrow> string"
  sj_String :: "SecurityProfile \<Rightarrow> string"

definition profileTypeString :: "SecurityProfileType \<Rightarrow> string" where
  "profileTypeString t =
     (case t of SP_RuntimeDefault \<Rightarrow> ''RuntimeDefault'' | SP_Unconfined \<Rightarrow> ''Unconfined''
      | SP_Localhost \<Rightarrow> ''Localhost'' | SP_Other n \<Rightarrow> fmt_int n)"

definition keepSyscallName :: "bool \<Rightarrow> LinuxSyscall \<Rightarrow> string \<Rightarrow> bool" where
  "keepSyscallName privileged scall name \<longleftrightarrow>
     \<not> (privileged \<and> name = ''sethostname'' \<and> ls_Action scall = ''SCMP_ACT_ERRNO'')"

fun filterSyscalls :: "bool \<Rightarrow> LinuxSyscall list \<Rightarrow> LinuxSyscall list" where
  "filterSyscalls privileged [] = []"
| "filterSyscalls privileged (scall # rest) =
     (let filteredSyscallNames = filter (keepSyscallName privileged scall) (ls_Names scall) in
      if length filteredSyscallNames = 0 then filterSyscalls privileged rest
      else scall\<lparr>ls_Names := filteredSyscallNames\<rparr> # filterSyscalls privileged rest)"

definition getSeccompDockerOpts ::
    "seccomp_codec \<Rightarrow> SecurityProfile option \<Rightarrow> bool \<Rightarrow> osfs \<Rightarrow> DockerOpt list result \<times> osfs" where
  "getSeccompDockerOpts sj seccomp privileged fs =
     (case seccomp of
        None \<Rightarrow> (Inr defaultSeccompOpt, fs)
      | Some p \<Rightarrow>
          if sp_ProfileType p = SP_Unconfined then (Inr defaultSeccompOpt, fs)
          else if sp_ProfileType p = SP_RuntimeDefault \<or> profileTypeString (sp_ProfileType p) = ''docker/default''
          then (Inr [], fs)
          else if sp_ProfileType p \<noteq> SP_Localhost
          then (Inl (Errorf (''unknown seccomp profile option: '' @ sj_String sj p)), fs)
          else let fname = sp_LocalhostRef p in
            if \<not> filepath_IsAbs fname
            then (Inl (Errorf (''seccomp profile path must be absolute, but got relative path '' @ fmt_q fname)), fs)
            else (case fs_ReadFile fname fs of
                (Inl err, fs) \<Rightarrow> (Inl (Errorf (''cannot load seccomp profile '' @ fmt_q fname @ '': '' @ Error err)), fs)
              | (Inr file, fs) \<Rightarrow>
                  ((case sj_Unmarshal sj file of
                      Inl err \<Rightarrow> Inl (Errorf (''decoding seccomp profile failed '' @ fmt_q fname @ '': '' @ Error err))
                    | Inr seccompSpec \<Rightarrow>
                        let filtered = filterSyscalls privileged (sec_Syscalls seccompSpec) in
                        if length filtered = 0 then Inr []
                        else (case sj_Marshal sj (seccompSpec\<lparr>sec_Syscalls := filtered\<rparr>) of
                            Inl err \<Rightarrow> Inl (Errorf (''re-encoding seccomp profile failed '' @ fmt_q fname @ '': '' @ Error err))
                          | Inr file \<Rightarrow>
                              (case sj_Compact sj file of
                                 Inl err \<Rightarrow> Inl err
                               | Inr b \<Rightarrow>
                                   Inr [\<lparr>do_key = ''seccomp'', do_value = b,
                                         do_msg = fname @ ''(sha256:'' @ sj_sha256 sj file @ '')''\<rparr>]))), fs)))"

definition getSeccompSecurityOpts ::
    "seccomp_codec \<Rightarrow> SecurityProfile option \<Rightarrow> bool \<Rightarrow> char \<Rightarrow> osfs \<Rightarrow> string list result \<times> osfs" where
  "getSeccompSecurityOpts sj seccompProfile privileged sep fs =
     (case getSeccompDockerOpts sj seccompProfile privileged fs of
        (Inl err, fs) \<Rightarrow> (Inl err, fs)
      | (Inr seccompOpts, fs) \<Rightarrow> (Inr (FmtDockerOpts seccompOpts sep), fs))"

definition getSecurityOpts ::
    "seccomp_codec \<Rightarrow> SecurityProfile option \<Rightarrow> bool \<Rightarrow> char \<Rightarrow> osfs \<Rightarrow> string list result \<times> osfs" where
  "getSecurityOpts sj seccomp privileged sep fs =
     (case getSeccompSecurityOpts sj seccomp privileged sep fs of
        (Inl err, fs) \<Rightarrow>
          (Inl (Errorf (''failed to generate seccomp security options for container: '' @ Error err)), fs)
      | (Inr seccompSecurityOpts, fs) \<Rightarrow> (Inr seccompSecurityOpts, fs))"

definition getSandBoxSecurityOpts :: "char \<Rightarrow> string list" where
  "getSandBoxSecurityOpts sep = [''no-new-privileges'']"

subsection \<open>Lemmas\<close>

lemma modifyHostConfig_frame:
  "modifyHostConfig sc hc sep = Inr hc' \<Longrightarrow>
     hc_NetworkMode hc' = hc_NetworkMode hc \<and> hc_IpcMode hc' = hc_IpcMode hc \<and> hc_PidMode hc' = hc_PidMode hc \<and>
     hc_UTSMode hc' = hc_UTSMode hc \<and> hc_Runtime hc' = hc_Runtime hc \<and> hc_Resources hc' = hc_Resources hc \<and>
     hc_CgroupParent hc' = hc_CgroupParent hc \<and> hc_Mounts hc' = hc_Mounts hc"
  by (auto simp: modifyHostConfig_def Let_def split: option.splits if_splits)

lemma modifyHostConfig_total: "\<exists>hc'. modifyHostConfig sc hc sep = Inr hc'"
  by (auto simp: modifyHostConfig_def Let_def split: option.splits)

definition syscallRules :: "LinuxSyscall list \<Rightarrow> (string \<times> string) list" where
  "syscallRules scs = concat (map (\<lambda>s. map (\<lambda>n. (n, ls_Action s)) (ls_Names s)) scs)"

lemma syscallRules_filter:
  "syscallRules (filterSyscalls p scs) =
     filter (\<lambda>(n, a). \<not> (p \<and> n = ''sethostname'' \<and> a = ''SCMP_ACT_ERRNO'')) (syscallRules scs)"
proof (induction scs)
  case (Cons s scs)
  have k: "filter (\<lambda>(n, a). \<not> (p \<and> n = ''sethostname'' \<and> a = ''SCMP_ACT_ERRNO'')) (map (\<lambda>n. (n, ls_Action s)) (ls_Names s)) =
      map (\<lambda>n. (n, ls_Action s)) (filter (keepSyscallName p s) (ls_Names s))"
    by (simp add: filter_map comp_def keepSyscallName_def [abs_def])
  show ?case
  proof (cases "filter (keepSyscallName p s) (ls_Names s) = []")
    case True
    then show ?thesis using Cons k by (simp add: syscallRules_def)
  next
    case False
    then show ?thesis using Cons k by (simp add: syscallRules_def Let_def)
  qed
qed (simp add: syscallRules_def)

lemma filterSyscalls_nonempty: "s \<in> set (filterSyscalls p scs) \<Longrightarrow> ls_Names s \<noteq> []"
  by (induction scs) (auto simp: Let_def split: if_splits)

lemma filterSyscalls_no_rules: "syscallRules scs = [] \<Longrightarrow> filterSyscalls p scs = []"
  by (induction scs) (auto simp: syscallRules_def)

text \<open>What the two configuration functions leave alone, and the namespace modes they set.\<close>

lemma modifyContainerConfig_frame: "modifyContainerConfig sc c = Inr c' \<Longrightarrow> \<exists>u. c' = c\<lparr>dc_User := u\<rparr>"
  by (auto simp: modifyContainerConfig_def Let_def split: option.splits if_splits intro: exI [where x = "dc_User c"])

lemma modifySandboxNamespaceOptions_modes:
  assumes "hc_PidMode hc \<noteq> namespaceModeHost" and "hc_IpcMode hc \<noteq> namespaceModeHost"
  shows "hc_NetworkMode (modifySandboxNamespaceOptions ns hc net) = namespaceModeHost \<longleftrightarrow> GetNetwork ns = NS_NODE"
    and "hc_PidMode (modifySandboxNamespaceOptions ns hc net) = namespaceModeHost \<longleftrightarrow> GetPid ns = NS_NODE"
    and "hc_IpcMode (modifySandboxNamespaceOptions ns hc net) = namespaceModeHost \<longleftrightarrow> GetIpc ns = NS_NODE"
    and "hc_Runtime (modifySandboxNamespaceOptions ns hc net) = hc_Runtime hc"
  using assms
  by (auto simp: modifySandboxNamespaceOptions_def modifyHostOptionsForSandbox_def Let_def namespaceModeHost_def split: option.splits)

lemma modifyContainerNamespaceOptions_network [simp]:
  "hc_NetworkMode (modifyContainerNamespaceOptions ns i hc) = ''container:'' @ i"
  by (simp add: modifyContainerNamespaceOptions_def modifyHostOptionsForContainer_def Let_def)

subsection \<open>Properties\<close>

text \<open>C23. A container joins the namespaces of its sandbox: whatever the security context, when the
  Linux options are applied the network and IPC namespaces are those of the sandbox container,
  the UTS namespace is the host's exactly for host-network pods, and the PID namespace is the
  host's, the sandbox's, the target's or the container's own as the request says.\<close>

theorem applyContainerSecurityContext_namespaces:
  assumes "applyContainerSecurityContext (Some l) sid config hc sep = Inr (config', hc')"
  shows "let ns = Option.bind (lcc_SecurityContext l) lsc_NamespaceOptions in
     hc_NetworkMode hc' = ''container:'' @ sid \<and> hc_IpcMode hc' = ''container:'' @ sid \<and>
     hc_UTSMode hc' = (if GetNetwork ns = NS_NODE then ''host'' else []) \<and>
     hc_PidMode hc' = (case GetPid ns of NS_NODE \<Rightarrow> ''host'' | NS_POD \<Rightarrow> ''container:'' @ sid
        | NS_TARGET \<Rightarrow> ''container:'' @ GetTargetId ns | NS_CONTAINER \<Rightarrow> hc_PidMode hc)"
  using assms
  by (auto simp: applyContainerSecurityContext_def modifyContainerNamespaceOptions_def
      modifyHostOptionsForContainer_def namespaceModeHost_def Let_def
      split: sum.splits NamespaceMode.splits dest!: modifyHostConfig_frame)

definition exampleSecurityContext :: LinuxContainerSecurityContext where
  "exampleSecurityContext = \<lparr>lsc_Capabilities = None, lsc_Privileged = False,
     lsc_NamespaceOptions = Some \<lparr>no_Network = NS_NODE, no_Pid = NS_TARGET, no_Ipc = NS_POD, no_TargetId = ''t1''\<rparr>,
     lsc_SelinuxOptions = None, lsc_RunAsUser = Some 1000, lsc_RunAsGroup = Some 2000, lsc_RunAsUsername = [],
     lsc_ReadonlyRootfs = True, lsc_SupplementalGroups = [7], lsc_ApparmorProfile = [], lsc_NoNewPrivs = True,
     lsc_MaskedPaths = [''/proc/kcore''], lsc_ReadonlyPaths = [], lsc_Seccomp = None\<rparr>"

theorem applyContainerSecurityContext_namespaces_witness:
  "hc_PidMode (snd (case applyContainerSecurityContext
      (Some \<lparr>lcc_Resources = None, lcc_SecurityContext = Some exampleSecurityContext\<rparr>) ''s1'' zeroConfig zeroHostConfig (CHR ''='')
     of Inr r \<Rightarrow> r | Inl _ \<Rightarrow> (zeroConfig, zeroHostConfig))) = ''container:t1''"
proof -
  let ?l = "\<lparr>lcc_Resources = None, lcc_SecurityContext = Some exampleSecurityContext\<rparr>"
  obtain config' hc' where r: "applyContainerSecurityContext (Some ?l) ''s1'' zeroConfig zeroHostConfig (CHR ''='') = Inr (config', hc')"
    using modifyHostConfig_total [of "Some exampleSecurityContext" zeroHostConfig "CHR ''=''"]
    by (auto simp: applyContainerSecurityContext_def modifyContainerConfig_def exampleSecurityContext_def fmt_int_def Let_def)
  from applyContainerSecurityContext_namespaces [OF r] show ?thesis
    unfolding r by (simp add: exampleSecurityContext_def GetPid_def GetTargetId_def Let_def)
qed

text \<open>C36. Filtering a seccomp profile drops exactly the rules that make \<^verbatim>\<open>sethostname\<close> fail in a
  privileged container, and nothing in any other container: the sequence of rules that is
  passed to docker is the sequence of the profile without those.\<close>

theorem seccomp_filter_exact:
  "syscallRules (filterSyscalls privileged scs) =
     filter (\<lambda>(name, action). \<not> (privileged \<and> name = ''sethostname'' \<and> action = ''SCMP_ACT_ERRNO'')) (syscallRules scs)
   \<and> list_all (\<lambda>s. ls_Names s \<noteq> []) (filterSyscalls privileged scs)"
  by (auto simp: syscallRules_filter list_all_iff dest: filterSyscalls_nonempty)

text \<open>C35. A localhost profile without system call rules loses its default action: the code passes no
  seccomp option at all for it, so docker applies its own default profile instead of the
  profile the request names, whatever that profile says.\<close>

theorem seccomp_profile_without_rules_dropped:
  assumes "sp_ProfileType p = SP_Localhost" and "filepath_IsAbs (sp_LocalhostRef p)"
    and "fst (fs_ReadFile (sp_LocalhostRef p) fs) = Inr blob"
    and "sj_Unmarshal sj blob = Inr spec" and "syscallRules (sec_Syscalls spec) = []"
  shows "fst (getSeccompSecurityOpts sj (Some p) privileged sep fs) = Inr []"
proof -
  have "filterSyscalls privileged (sec_Syscalls spec) = []"
    using assms(5) by (rule filterSyscalls_no_rules)
  moreover obtain fs' where "fs_ReadFile (sp_LocalhostRef p) fs = (Inr blob, fs')" using assms(3) by (metis prod.collapse)
  ultimately show ?thesis
    using assms(1,2,4)
    by (simp add: getSeccompSecurityOpts_def getSeccompDockerOpts_def profileTypeString_def FmtDockerOpts_def Let_def)
qed

definition exampleSeccompCodec :: seccomp_codec where
  "exampleSeccompCodec = \<lparr>sj_Unmarshal = (\<lambda>s. Inr \<lparr>sec_Syscalls = [], sec_Other = s\<rparr>),
     sj_Marshal = (\<lambda>p. Inr (sec_Other p)), sj_Compact = Inr, sj_sha256 = (\<lambda>s. []), sj_String = (\<lambda>p. sp_LocalhostRef p)\<rparr>"

theorem seccomp_profile_without_rules_dropped_witness:
  "fst (getSeccompSecurityOpts exampleSeccompCodec
     (Some \<lparr>sp_ProfileType = SP_Localhost, sp_LocalhostRef = ''/etc/deny.json''\<rparr>) False (CHR ''='')
     \<lparr>os_files = [(''/etc/deny.json'', ''{defaultAction: SCMP_ACT_ERRNO}'')], os_dirs = [], os_links = [], os_rand = 0, os_faults = []\<rparr>) = Inr []"
  by (rule seccomp_profile_without_rules_dropped [where blob = "''{defaultAction: SCMP_ACT_ERRNO}''"
        and spec = "\<lparr>sec_Syscalls = [], sec_Other = ''{defaultAction: SCMP_ACT_ERRNO}''\<rparr>"])
    (simp_all add: exampleSeccompCodec_def fs_ReadFile_def filepath_IsAbs_def strings_HasPrefix_def syscallRules_def)

end
