(* ===== verification/Go_Net.thy ===== *)
theory Go_Net
  imports Go_Errors
begin

unbundle bit_operations_syntax

text \<open>
  What the sources use of the package \<^verbatim>\<open>net\<close> of the standard library and of the vendored package
  \<^verbatim>\<open>k8s.io/utils/net\<close>: addresses, their text, and their family. An address is a list of bytes,
  and the empty list is nil. The vendored package keeps an older parser that lets decimal
  fields begin with zeros and hexadecimal groups have more than four digits; \<open>strict\<close> tells the
  two parsers apart.
\<close>

type_synonym IP = "8 word list"

definition net_IPv4 :: "8 word list \<Rightarrow> IP" where
  "net_IPv4 p = replicate 10 0 @ [0xff, 0xff] @ p"

definition IP_To4 :: "IP \<Rightarrow> IP" where
  "IP_To4 ip =
     (if length ip = 4 then ip
      else if length ip = 16 \<and> take 10 ip = replicate 10 0 \<and> ip ! 10 = 0xff \<and> ip ! 11 = 0xff then drop 12 ip
      else [])"

definition IP_To16 :: "IP \<Rightarrow> IP" where
  "IP_To16 ip = (if length ip = 4 then net_IPv4 ip else if length ip = 16 then ip else [])"

subsection \<open>Parsing\<close>

text \<open>
  \<^verbatim>\<open>dtoi\<close> and \<^verbatim>\<open>xtoi\<close> read the digits at the front: the number, the count of digits, and whether
  there was one and the number stayed below \<^verbatim>\<open>big\<close>.
\<close>

definition net_big :: nat where
  "net_big = 0xFFFFFF"

fun dtoi_loop :: "nat \<Rightarrow> nat \<Rightarrow> string \<Rightarrow> nat \<times> nat \<times> bool" where
  "dtoi_loop n i [] = (n, i, True)"
| "dtoi_loop n i (c # cs) =
     (if isDigit c then
        let n = n * 10 + digitVal c in
        if n \<ge> net_big then (net_big, i, False) else dtoi_loop n (i + 1) cs
      else (n, i, True))"

definition dtoi :: "string \<Rightarrow> nat \<times> nat \<times> bool" where
  "dtoi s = (case dtoi_loop 0 0 s of (n, i, ok) \<Rightarrow> if ok \<and> i = 0 then (0, 0, False) else (n, i, ok))"

definition xdigit :: "char \<Rightarrow> nat option" where
  "xdigit c =
     (let n = (of_char c :: nat) in
      if isDigit c then Some (digitVal c)
      else if 97 \<le> n \<and> n \<le> 102 then Some (n - 97 + 10)
      else if 65 \<le> n \<and> n \<le> 70 then Some (n - 65 + 10)
      else None)"

fun xtoi_loop :: "nat \<Rightarrow> nat \<Rightarrow> string \<Rightarrow> nat \<times> nat \<times> bool" where
  "xtoi_loop n i [] = (n, i, True)"
| "xtoi_loop n i (c # cs) =
     (case xdigit c of
        Some d \<Rightarrow>
          let n = n * 16 + d in
          if n \<ge> net_big then (0, i, False) else xtoi_loop n (i + 1) cs
      | None \<Rightarrow> (n, i, True))"

definition xtoi :: "string \<Rightarrow> nat \<times> nat \<times> bool" where
  "xtoi s = (case xtoi_loop 0 0 s of (n, i, ok) \<Rightarrow> if ok \<and> i = 0 then (0, 0, False) else (n, i, ok))"

function parseIPv4_loop :: "bool \<Rightarrow> 8 word list \<Rightarrow> string \<Rightarrow> IP" where
  "parseIPv4_loop strict p s =
     (if length p < 4 then
        if s = [] then []
        else if length p > 0 \<and> hd s \<noteq> CHR ''.'' then []
        else
          let s = (if length p > 0 then tl s else s) in
          (case dtoi s of (n, c, ok) \<Rightarrow>
             if \<not> ok \<or> n > 0xFF then []
             else if strict \<and> c > 1 \<and> hd s = CHR ''0'' then []
             else parseIPv4_loop strict (p @ [of_nat n]) (drop c s))
      else if s \<noteq> [] then [] else net_IPv4 p)"
  by pat_completeness auto

termination parseIPv4_loop
  by (relation "measure (\<lambda>(strict, p, s). 4 - length p)") auto

definition parseIPv4 :: "bool \<Rightarrow> string \<Rightarrow> IP" where
  "parseIPv4 strict s = parseIPv4_loop strict [] s"

text \<open>
  The loop of \<^verbatim>\<open>parseIPv6\<close>: the bytes read so far, the position of the ellipsis, and the rest of
  the text. It gives the same after the loop, or \<open>None\<close> for a syntax error.
\<close>

function parseIPv6_loop :: "bool \<Rightarrow> nat option \<Rightarrow> 8 word list \<Rightarrow> string \<Rightarrow> (nat option \<times> 8 word list \<times> string) option" where
  "parseIPv6_loop strict ellipsis p s =
     (if length p < 16 then
        (case xtoi s of (n, c, ok) \<Rightarrow>
           if \<not> ok \<or> n > 0xFFFF \<or> strict \<and> c > 4 then None
           else if c < length s \<and> s ! c = CHR ''.'' then
             if ellipsis = None \<and> length p \<noteq> 12 then None
             else if length p + 4 > 16 then None
             else (let ip4 = parseIPv4 strict s in
                   if ip4 = [] then None else Some (ellipsis, p @ drop 12 ip4, []))
           else
             let p = p @ [of_nat (n div 256), of_nat n];
                 s = drop c s
             in if s = [] then Some (ellipsis, p, s)
                else if hd s \<noteq> CHR '':'' \<or> length s = 1 then None
                else
                  let s = tl s in
                  if hd s = CHR '':'' then
                    if ellipsis \<noteq> None then None
                    else if tl s = [] then Some (Some (length p), p, tl s)
                    else parseIPv6_loop strict (Some (length p)) p (tl s)
                  else parseIPv6_loop strict ellipsis p s)
      else Some (ellipsis, p, s))"
  by pat_completeness auto

termination parseIPv6_loop
  by (relation "measure (\<lambda>(strict, e, p, s). 16 - length p)") auto

definition expandEllipsis :: "(nat option \<times> 8 word list \<times> string) option \<Rightarrow> IP" where
  "expandEllipsis r =
     (case r of
        None \<Rightarrow> []
      | Some (ellipsis, p, s) \<Rightarrow>
          if s \<noteq> [] then []
          else if length p < 16 then
            (case ellipsis of
               None \<Rightarrow> []
             | Some e \<Rightarrow> take e p @ replicate (16 - length p) 0 @ drop e p)
          else if ellipsis \<noteq> None then [] else p)"

definition parseIPv6 :: "bool \<Rightarrow> string \<Rightarrow> IP" where
  "parseIPv6 strict s =
     (if length s \<ge> 2 \<and> s ! 0 = CHR '':'' \<and> s ! 1 = CHR '':'' then
        if drop 2 s = [] then replicate 16 0
        else expandEllipsis (parseIPv6_loop strict (Some 0) [] (drop 2 s))
      else expandEllipsis (parseIPv6_loop strict None [] s))"

text \<open>The first dot or colon tells which of the two to use.\<close>

definition ParseIP :: "bool \<Rightarrow> string \<Rightarrow> IP" where
  "ParseIP strict s =
     (case dropWhile (\<lambda>c. c \<noteq> CHR ''.'' \<and> c \<noteq> CHR '':'') s of
        [] \<Rightarrow> []
      | c # _ \<Rightarrow> if c = CHR ''.'' then parseIPv4 strict s else parseIPv6 strict s)"

definition net_ParseIP :: "string \<Rightarrow> IP" where
  "net_ParseIP s = ParseIP True s"

definition ParseIPSloppy :: "string \<Rightarrow> IP" where
  "ParseIPSloppy s = ParseIP False s"

subsection \<open>Families\<close>

datatype IPFamily = IPFamilyUnknown | IPFamily4 | IPFamily6

definition IPFamilyOf :: "IP \<Rightarrow> IPFamily" where
  "IPFamilyOf ip = (if IP_To4 ip \<noteq> [] then IPFamily4 else if IP_To16 ip \<noteq> [] then IPFamily6 else IPFamilyUnknown)"

definition IPFamilyOfString :: "string \<Rightarrow> IPFamily" where
  "IPFamilyOfString s = IPFamilyOf (ParseIPSloppy s)"

definition IsIPv6 :: "IP \<Rightarrow> bool" where
  "IsIPv6 ip \<longleftrightarrow> IPFamilyOf ip = IPFamily6"

definition IsIPv6String :: "string \<Rightarrow> bool" where
  "IsIPv6String s \<longleftrightarrow> IPFamilyOfString s = IPFamily6"

subsection \<open>Printing\<close>

definition dotted :: "IP \<Rightarrow> string" where
  "dotted p = strings_Join (map (\<lambda>b. fmt_nat 10 (unat b)) p) ''.''"

fun groupsOf :: "IP \<Rightarrow> nat list" where
  "groupsOf (a # b # p) = (256 * unat a + unat b) # groupsOf p"
| "groupsOf _ = []"

text \<open>The leftmost longest run of at least two zero groups, as its start and end.\<close>

definition zeroRun :: "nat list \<Rightarrow> nat \<Rightarrow> nat" where
  "zeroRun g i = i + length (takeWhile (\<lambda>x. x = 0) (drop i g))"

definition longestZeros :: "nat list \<Rightarrow> nat \<times> nat" where
  "longestZeros g =
     foldl (\<lambda>(zs, ze) i. let j = zeroRun g i in if j - i \<ge> 2 \<and> j - i > ze - zs then (i, j) else (zs, ze))
       (255, 255) [0..<8]"

definition hexGroups :: "nat list \<Rightarrow> string" where
  "hexGroups g = strings_Join (map (fmt_nat 16) g) '':''"

definition ipv6Text :: "IP \<Rightarrow> string" where
  "ipv6Text p =
     (let g = groupsOf p in
      case longestZeros g of (zs, ze) \<Rightarrow>
        if zs < 8 then hexGroups (take zs g) @ ''::'' @ hexGroups (drop ze g) else hexGroups g)"

definition hexBytes :: "IP \<Rightarrow> string" where
  "hexBytes p = concat (map (\<lambda>b. [digitChar (unat b div 16), digitChar (unat b mod 16)]) p)"

definition IP_String :: "IP \<Rightarrow> string" where
  "IP_String ip =
     (if length ip = 0 then ''<nil>''
      else if length ip \<noteq> 4 \<and> length ip \<noteq> 16 then CHR ''?'' # hexBytes ip
      else if IP_To4 ip \<noteq> [] then dotted (IP_To4 ip) else ipv6Text ip)"

definition net_JoinHostPort :: "string \<Rightarrow> string \<Rightarrow> string" where
  "net_JoinHostPort host port =
     (if CHR '':'' \<in> set host then ''['' @ host @ '']:'' @ port else host @ '':'' @ port)"

subsection \<open>Networks\<close>

record IPNet =
  net_IP :: IP
  net_Mask :: "8 word list"

text \<open>\<^verbatim>\<open>CIDRMask\<close> with the number of bytes: ones first, then the byte with the rest of them, then zeros.\<close>

fun maskBytes :: "nat \<Rightarrow> nat \<Rightarrow> 8 word list" where
  "maskBytes 0 n = []"
| "maskBytes (Suc l) n = (if n \<ge> 8 then 0xff # maskBytes l (n - 8) else NOT (drop_bit n 0xff) # maskBytes l 0)"

definition CIDRMask :: "nat \<Rightarrow> nat \<Rightarrow> 8 word list" where
  "CIDRMask ones bits = (if bits \<noteq> 32 \<and> bits \<noteq> 128 \<or> ones > bits then [] else maskBytes (bits div 8) ones)"

definition IP_Mask :: "IP \<Rightarrow> 8 word list \<Rightarrow> IP" where
  "IP_Mask ip msk =
     (let msk = (if length msk = 16 \<and> length ip = 4 \<and> list_all (\<lambda>b. b = 0xff) (take 12 msk) then drop 12 msk else msk);
          ip = (if length msk = 4 \<and> length ip = 16 \<and> take 12 ip = replicate 10 0 @ [0xff, 0xff] then drop 12 ip else ip)
      in if length ip \<noteq> length msk then [] else map2 (AND) ip msk)"

definition CIDRError :: "string \<Rightarrow> goerror" where
  "CIDRError s = Errorf (''invalid CIDR address: '' @ s)"

text \<open>
  \<^verbatim>\<open>ParseCIDR\<close>. An address in dotted form has 32 bits, one with colons 128, also where it embeds a
  dotted one.
\<close>

definition ParseCIDR :: "bool \<Rightarrow> string \<Rightarrow> (IP \<times> IPNet) result" where
  "ParseCIDR strict s =
     (if CHR ''/'' \<notin> set s then Inl (CIDRError s)
      else
        let addr = takeWhile (\<lambda>c. c \<noteq> CHR ''/'') s;
            mask = tl (dropWhile (\<lambda>c. c \<noteq> CHR ''/'') s);
            ip4 = parseIPv4 strict addr;
            iplen = (if ip4 \<noteq> [] then 4 else 16);
            ip = (if ip4 \<noteq> [] then ip4 else parseIPv6 strict addr)
        in (case dtoi mask of (n, i, ok) \<Rightarrow>
              if ip = [] \<or> \<not> ok \<or> i \<noteq> length mask \<or> n > 8 * iplen then Inl (CIDRError s)
              else let m = CIDRMask n (8 * iplen) in Inr (ip, \<lparr>net_IP = IP_Mask ip m, net_Mask = m\<rparr>)))"

definition net_ParseCIDR :: "string \<Rightarrow> (IP \<times> IPNet) result" where
  "net_ParseCIDR s = ParseCIDR True s"

definition ParseCIDRSloppy :: "string \<Rightarrow> (IP \<times> IPNet) result" where
  "ParseCIDRSloppy s = ParseCIDR False s"

text \<open>The number of leading ones, if only zeros follow.\<close>

fun leadingOnes :: "nat \<Rightarrow> 8 word \<Rightarrow> nat \<times> 8 word" where
  "leadingOnes 0 v = (0, v)"
| "leadingOnes (Suc k) v = (if bit v 7 then case leadingOnes k (push_bit 1 v) of (n, w) \<Rightarrow> (Suc n, w) else (0, v))"

fun simpleMaskLength :: "8 word list \<Rightarrow> int" where
  "simpleMaskLength [] = 0"
| "simpleMaskLength (v # vs) =
     (if v = 0xff then (let n = simpleMaskLength vs in if n = - 1 then - 1 else 8 + n)
      else (case leadingOnes 8 v of (n, w) \<Rightarrow> if w \<noteq> 0 \<or> list_ex (\<lambda>b. b \<noteq> 0) vs then - 1 else int n))"

definition IPMask_Size :: "8 word list \<Rightarrow> int \<times> int" where
  "IPMask_Size m = (let ones = simpleMaskLength m in if ones = - 1 then (0, 0) else (ones, 8 * int (length m)))"

definition IPMask_String :: "8 word list \<Rightarrow> string" where
  "IPMask_String m = (if length m = 0 then ''<nil>'' else hexBytes m)"

definition IPNet_String :: "IPNet \<Rightarrow> string" where
  "IPNet_String n =
     (let ip = (if IP_To4 (net_IP n) \<noteq> [] then IP_To4 (net_IP n) else net_IP n);
          m = net_Mask n;
          m = (if length m = 16 \<and> length ip = 4 then drop 12 m else m)
      in if IP_To4 (net_IP n) = [] \<and> length ip \<noteq> 16 \<or> length m \<noteq> length ip then ''<nil>''
         else let l = simpleMaskLength m in
              if l = - 1 then IP_String ip @ ''/'' @ IPMask_String m else IP_String ip @ ''/'' @ fmt_int l)"

definition IsIPv6CIDRString :: "string \<Rightarrow> bool" where
  "IsIPv6CIDRString s \<longleftrightarrow> (case ParseCIDRSloppy s of Inl _ \<Rightarrow> False | Inr (ip, _) \<Rightarrow> IPFamilyOf ip = IPFamily6)"

subsection \<open>Masks and hexadecimal digits\<close>

lemma xdigit_digitChar: "d < 16 \<Longrightarrow> xdigit (digitChar d) = Some d"
  by (auto simp: xdigit_def digitChar_def isDigit_def digitVal_def Let_def)

lemma unat_byte_div16: "unat (b :: 8 word) div 16 < 16"
  using unsigned_less [of b, where ?'a = nat] by simp

lemma slash_notin_hexBytes: "CHR ''/'' \<notin> set (hexBytes bs)"
proof -
  have "xdigit c \<noteq> None" if "c \<in> set (hexBytes bs)" for c
    using that by (auto simp: hexBytes_def xdigit_digitChar unat_byte_div16)
  moreover have "xdigit (CHR ''/'') = None" by (simp add: xdigit_def isDigit_def)
  ultimately show ?thesis by blast
qed

lemma length_maskBytes [simp]: "length (maskBytes l n) = l"
  by (induction l n rule: maskBytes.induct) auto

lemma leadingOnes_bytes: "map (leadingOnes 8) [- 256, - 128, - 64, - 32, - 16, - 8, - 4, - 2] = [(0, 0), (1, 0), (2, 0), (3, 0), (4, 0), (5, 0), (6, 0), (7, 0)]"
  by code_simp

lemma partial_byte: "n < 8 \<Longrightarrow> NOT (drop_bit n 0xff :: 8 word) \<noteq> 0xff \<and> leadingOnes 8 (NOT (drop_bit n 0xff)) = (n, 0)"
proof -
  assume "n < 8"
  then have "n = 0 \<or> n = 1 \<or> n = 2 \<or> n = 3 \<or> n = 4 \<or> n = 5 \<or> n = 6 \<or> n = 7" by arith
  then show ?thesis
    using leadingOnes_bytes by (elim disjE) simp_all
qed

lemma maskBytes_zero: "maskBytes l 0 = replicate l 0"
  by (induction l) simp_all

lemma simpleMaskLength_maskBytes: "n \<le> 8 * l \<Longrightarrow> simpleMaskLength (maskBytes l n) = int n"
  by (induction l n rule: maskBytes.induct)
    (auto simp: partial_byte maskBytes_zero Let_def list_ex_iff)

lemma ParseCIDR_mask:
  assumes "ParseCIDR strict s = Inr (ip, n)"
  obtains k where "net_Mask n = CIDRMask k (8 * length (net_Mask n))" "k \<le> 8 * length (net_Mask n)"
    "length (net_Mask n) = 4 \<or> length (net_Mask n) = 16" "IP_Mask ip (net_Mask n) = net_IP n"
  using assms
  by (auto simp: ParseCIDR_def Let_def CIDRMask_def split: if_splits prod.splits)

lemma IPMask_Size_CIDRMask:
  "\<lbrakk>l = 4 \<or> l = 16; k \<le> 8 * l\<rbrakk> \<Longrightarrow> IPMask_Size (CIDRMask k (8 * l)) = (int k, 8 * int l)"
  by (auto simp: IPMask_Size_def CIDRMask_def simpleMaskLength_maskBytes Let_def)

end
