(* ===== verification/Network_Plugin.thy ===== *)
theory Network_Plugin
  imports Cri_Types Go_Net
begin

text \<open>
  The network plugin interface, the no-op plugin and the plugin manager (\<^verbatim>\<open>network/plugins.go\<close>).
  The manager serialises the operations on one pod with a reference-counted lock per pod; that
  protocol is modelled as a step relation on the lock table, the lock objects and the state of
  every goroutine, and shown to exclude two operations on the same pod, to keep the reference
  counts exact and to leave no lock behind.
\<close>

subsection \<open>The plugin interface\<close>

type_synonym container_id = "string \<times> string"

definition BuildContainerID :: "string \<Rightarrow> string \<Rightarrow> container_id" where
  "BuildContainerID ty i = (ty, i)"

record PodNetworkStatus =
  pns_IP :: string
  pns_IPs :: "string list"

text \<open>The host argument of \<open>Init\<close> is what a plugin is built over, so it is not repeated here.\<close>

record 'e network_plugin =
  np_Name :: string
  np_Init :: "string \<Rightarrow> string \<Rightarrow> int \<Rightarrow> 'e \<Rightarrow> goerror option \<times> 'e"
  np_Event :: "string \<Rightarrow> gomap \<Rightarrow> 'e \<Rightarrow> 'e"
  np_Capabilities :: "int list"
  np_SetUpPod :: "string \<Rightarrow> string \<Rightarrow> container_id \<Rightarrow> gomap \<Rightarrow> gomap \<Rightarrow> 'e \<Rightarrow> goerror option \<times> 'e"
  np_TearDownPod :: "string \<Rightarrow> string \<Rightarrow> container_id \<Rightarrow> 'e \<Rightarrow> goerror option \<times> 'e"
  np_GetPodNetworkStatus :: "string \<Rightarrow> string \<Rightarrow> container_id \<Rightarrow> 'e \<Rightarrow> PodNetworkStatus option result \<times> 'e"
  np_Status :: "'e \<Rightarrow> goerror option \<times> 'e"

definition NET_PLUGIN_EVENT_POD_CIDR_CHANGE :: string where
  "NET_PLUGIN_EVENT_POD_CIDR_CHANGE = ''pod-cidr-change''"

definition NET_PLUGIN_EVENT_POD_CIDR_CHANGE_DETAIL_CIDR :: string where
  "NET_PLUGIN_EVENT_POD_CIDR_CHANGE_DETAIL_CIDR = ''pod-cidr''"

definition DefaultInterfaceName :: string where
  "DefaultInterfaceName = ''eth0''"

text \<open>The kernel parameters of the host, and the command that loads a kernel module.\<close>

record 'e sysctl_iface =
  sys_modprobe :: "string \<Rightarrow> 'e \<Rightarrow> 'e"
  sys_GetSysctl :: "string \<Rightarrow> 'e \<Rightarrow> int result \<times> 'e"
  sys_SetSysctl :: "string \<Rightarrow> int \<Rightarrow> 'e \<Rightarrow> goerror option \<times> 'e"

definition sysctlBridgeCallIPTables :: string where
  "sysctlBridgeCallIPTables = ''net/bridge/bridge-nf-call-iptables''"

definition sysctlBridgeCallIP6Tables :: string where
  "sysctlBridgeCallIP6Tables = ''net/bridge/bridge-nf-call-ip6tables''"

definition Noop_Init :: "'e sysctl_iface \<Rightarrow> string \<Rightarrow> string \<Rightarrow> int \<Rightarrow> 'e \<Rightarrow> goerror option \<times> 'e" where
  "Noop_Init sys hairpinMode nonMasqueradeCIDR mtu e =
     (let e = sys_modprobe sys ''br-netfilter'' e;
          e = snd (sys_SetSysctl sys sysctlBridgeCallIPTables 1 e)
      in case sys_GetSysctl sys sysctlBridgeCallIP6Tables e of
           (Inr val, e) \<Rightarrow> (None, if val \<noteq> 1 then snd (sys_SetSysctl sys sysctlBridgeCallIP6Tables 1 e) else e)
         | (Inl err, e) \<Rightarrow> (None, e))"

definition NoopNetworkPlugin :: "'e sysctl_iface \<Rightarrow> 'e network_plugin" where
  "NoopNetworkPlugin sys = \<lparr>np_Name = ''kubernetes.io/no-op'', np_Init = Noop_Init sys,
     np_Event = (\<lambda>n d e. e), np_Capabilities = [],
     np_SetUpPod = (\<lambda>ns n i a o' e. (None, e)), np_TearDownPod = (\<lambda>ns n i e. (None, e)),
     np_GetPodNetworkStatus = (\<lambda>ns n i e. (Inr None, e)), np_Status = (\<lambda>e. (None, e))\<rparr>"

text \<open>Registration: the plugins by name, and the errors of those that are refused.\<close>

fun registerPlugins ::
    "(string \<Rightarrow> string list) \<Rightarrow> (string \<times> 'e network_plugin) list \<Rightarrow> goerror list \<Rightarrow> 'e network_plugin list
      \<Rightarrow> (string \<times> 'e network_plugin) list \<times> goerror list" where
  "registerPlugins IsQualifiedName pluginMap allErrs [] = (pluginMap, allErrs)"
| "registerPlugins IsQualifiedName pluginMap allErrs (plugin # rest) =
     (let name = np_Name plugin; errs = IsQualifiedName name in
      if length errs \<noteq> 0 then
        registerPlugins IsQualifiedName pluginMap
          (allErrs @ [Errorf (''network plugin has invalid name: '' @ fmt_q name @ '': '' @ strings_Join errs '';'')]) rest
      else if map_of pluginMap name \<noteq> None then
        registerPlugins IsQualifiedName pluginMap
          (allErrs @ [Errorf (''network plugin '' @ fmt_q name @ '' was registered more than once'')]) rest
      else registerPlugins IsQualifiedName (mapSet pluginMap name plugin) allErrs rest)"

definition InitNetworkPlugin ::
    "(string \<Rightarrow> string list) \<Rightarrow> 'e sysctl_iface \<Rightarrow> 'e network_plugin list \<Rightarrow> string \<Rightarrow> string \<Rightarrow> string \<Rightarrow> int
      \<Rightarrow> 'e \<Rightarrow> 'e network_plugin option \<times> goerror option \<times> 'e" where
  "InitNetworkPlugin IsQualifiedName sys plugins networkPluginName hairpinMode nonMasqueradeCIDR mtu e =
     (if networkPluginName = [] \<or> networkPluginName = ''no-op'' then
        (let plug = NoopNetworkPlugin sys in
         case np_Init plug hairpinMode nonMasqueradeCIDR mtu e of
           (Some err, e) \<Rightarrow> (None, Some err, e) | (None, e) \<Rightarrow> (Some plug, None, e))
      else (case registerPlugins IsQualifiedName [] [] plugins of (pluginMap, allErrs) \<Rightarrow>
          (case map_of pluginMap networkPluginName of
             Some chosenPlugin \<Rightarrow>
               (case np_Init chosenPlugin hairpinMode nonMasqueradeCIDR mtu e of
                  (Some err, e) \<Rightarrow>
                    (Some chosenPlugin,
                     NewAggregate (map Some (allErrs @ [Errorf (''network plugin '' @ fmt_q networkPluginName @ '' failed init: '' @ Error err)])), e)
                | (None, e) \<Rightarrow> (Some chosenPlugin, NewAggregate (map Some allErrs), e))
           | None \<Rightarrow>
               (None, NewAggregate (map Some (allErrs @ [Errorf (''network plugin '' @ fmt_q networkPluginName @ '' not found'')])), e))))"

definition buildPodFullName :: "string \<Rightarrow> string \<Rightarrow> string" where
  "buildPodFullName name nspace = name @ ''_'' @ nspace"

subsection \<open>The operations of the manager\<close>

text \<open>
  Between taking and releasing the pod's lock, an operation is one call of the plugin whose error
  is wrapped. The metrics it records are not part of the state.
\<close>

definition PM_GetPodNetworkStatus ::
    "'e network_plugin \<Rightarrow> string \<Rightarrow> string \<Rightarrow> container_id \<Rightarrow> 'e \<Rightarrow> PodNetworkStatus option result \<times> 'e" where
  "PM_GetPodNetworkStatus plugin podNamespace podName i e =
     (let fullPodName = buildPodFullName podName podNamespace in
      case np_GetPodNetworkStatus plugin podNamespace podName i e of
        (Inl err, e) \<Rightarrow> (Inl (Errorf (''networkPlugin '' @ np_Name plugin @ '' failed on the status hook for pod '' @
                           fmt_q fullPodName @ '': '' @ Error err)), e)
      | (Inr netStatus, e) \<Rightarrow> (Inr netStatus, e))"

definition PM_Event :: "'e network_plugin \<Rightarrow> string \<Rightarrow> gomap \<Rightarrow> 'e \<Rightarrow> 'e" where
  "PM_Event plugin name details e = np_Event plugin name details e"

definition PM_Status :: "'e network_plugin \<Rightarrow> 'e \<Rightarrow> goerror option \<times> 'e" where
  "PM_Status plugin e = np_Status plugin e"

definition PM_SetUpPod ::
    "'e network_plugin \<Rightarrow> string \<Rightarrow> string \<Rightarrow> container_id \<Rightarrow> gomap \<Rightarrow> gomap \<Rightarrow> 'e \<Rightarrow> goerror option \<times> 'e" where
  "PM_SetUpPod plugin podNamespace podName i annotations options e =
     (let fullPodName = buildPodFullName podName podNamespace in
      case np_SetUpPod plugin podNamespace podName i annotations options e of
        (Some err, e) \<Rightarrow> (Some (Errorf (''networkPlugin '' @ np_Name plugin @ '' failed to set up pod '' @
                            fmt_q fullPodName @ '' network: '' @ Error err)), e)
      | (None, e) \<Rightarrow> (None, e))"

definition PM_TearDownPod ::
    "'e network_plugin \<Rightarrow> string \<Rightarrow> string \<Rightarrow> container_id \<Rightarrow> 'e \<Rightarrow> goerror option \<times> 'e" where
  "PM_TearDownPod plugin podNamespace podName i e =
     (let fullPodName = buildPodFullName podName podNamespace in
      case np_TearDownPod plugin podNamespace podName i e of
        (Some err, e) \<Rightarrow> (Some (Errorf (''networkPlugin '' @ np_Name plugin @ '' failed to teardown pod '' @
                            fmt_q fullPodName @ '' network: '' @ Error err)), e)
      | (None, e) \<Rightarrow> (None, e))"

subsection \<open>Pod addresses\<close>

text \<open>\<open>run\<close> gives the combined output and the error of a command.\<close>

type_synonym command_output = "string list \<Rightarrow> string \<times> goerror option"

definition getOnePodIP :: "command_output \<Rightarrow> string \<Rightarrow> string \<Rightarrow> string \<Rightarrow> string \<Rightarrow> IP result" where
  "getOnePodIP run nsenterPath netnsPath interfaceName addrType =
     (case run [nsenterPath, ''--net='' @ netnsPath, ''-F'', ''--'', ''ip'', ''-o'', addrType, ''addr'', ''show'', ''dev'',
                interfaceName, ''scope'', ''global''] of
        (output, Some err) \<Rightarrow> Inl (Errorf (''unexpected command output '' @ output @ '' with error: '' @ Error err))
      | (output, None) \<Rightarrow>
          let lines = strings_Split output newline in
          if length lines < 1 then Inl (Errorf (''unexpected command output '' @ output))
          else let fields = strings_Fields (lines ! 0) in
            if length fields < 4 then Inl (Errorf (''unexpected address output '' @ lines ! 0 @ '' ''))
            else (case net_ParseCIDR (fields ! 3) of
                Inl err \<Rightarrow> Inl (Errorf (''CNI failed to parse ip from output '' @ output @ '' due to '' @ Error err))
              | Inr (ip, _) \<Rightarrow> Inr ip))"

definition GetPodIPs :: "bool \<Rightarrow> command_output \<Rightarrow> string \<Rightarrow> string \<Rightarrow> string \<Rightarrow> IP list result" where
  "GetPodIPs IPv6DualStackEnabled run nsenterPath netnsPath interfaceName =
     (let get = getOnePodIP run nsenterPath netnsPath interfaceName in
      if \<not> IPv6DualStackEnabled then
        (case (case get ''-4'' of Inl _ \<Rightarrow> get ''-6'' | Inr ip \<Rightarrow> Inr ip) of
           Inl err \<Rightarrow> Inl err
         | Inr ip \<Rightarrow> Inr [ip])
      else let rs = map get [''-4'', ''-6''];
               ips = concat (map (\<lambda>r. case r of Inr ip \<Rightarrow> [ip] | Inl _ \<Rightarrow> []) rs);
               errs = concat (map (\<lambda>r. case r of Inr _ \<Rightarrow> [] | Inl e \<Rightarrow> [e]) rs)
           in if length ips = 0 then Inl (Aggregate errs) else Inr ips)"

subsection \<open>Pod locks\<close>

text \<open>
  A lock object is a reference count and a mutex. \<open>pods\<close> maps a pod to the address of its lock
  object. A goroutine is idle, waits for the mutex of a lock object it has a reference to, or
  holds it and runs its plugin call. Unlocking a mutex that is not locked crashes the program.
\<close>

record podLock =
  refcount :: nat
  mu_locked :: bool

datatype goroutine = Idle | Waiting string nat | Running string nat

record plugin_manager =
  pm_pods :: "string \<rightharpoonup> nat"
  pm_locks :: "nat \<Rightarrow> podLock"
  pm_next :: nat
  pm_threads :: "nat \<Rightarrow> goroutine"
  pm_crashed :: bool

definition NewPluginManager :: plugin_manager where
  "NewPluginManager = \<lparr>pm_pods = Map.empty, pm_locks = (\<lambda>_. \<lparr>refcount = 0, mu_locked = False\<rparr>), pm_next = 0,
     pm_threads = (\<lambda>_. Idle), pm_crashed = False\<rparr>"

text \<open>\<^verbatim>\<open>podLock\<close>: the address whose mutex the caller locks next.\<close>

definition pm_podLock :: "string \<Rightarrow> plugin_manager \<Rightarrow> nat \<times> plugin_manager" where
  "pm_podLock fullPodName pm =
     (let (a, pm) = (case pm_pods pm fullPodName of
            Some a \<Rightarrow> (a, pm)
          | None \<Rightarrow> (pm_next pm,
              pm\<lparr>pm_locks := (pm_locks pm)(pm_next pm := \<lparr>refcount = 0, mu_locked = False\<rparr>),
                 pm_pods := (pm_pods pm)(fullPodName \<mapsto> pm_next pm), pm_next := Suc (pm_next pm)\<rparr>))
      in (a, pm\<lparr>pm_locks := (pm_locks pm)(a := (pm_locks pm a)\<lparr>refcount := refcount (pm_locks pm a) + 1\<rparr>)\<rparr>))"

definition pm_podUnlock :: "string \<Rightarrow> plugin_manager \<Rightarrow> plugin_manager" where
  "pm_podUnlock fullPodName pm =
     (case pm_pods pm fullPodName of
        None \<Rightarrow> pm
      | Some a \<Rightarrow>
          if refcount (pm_locks pm a) = 0 then pm\<lparr>pm_pods := (pm_pods pm)(fullPodName := None)\<rparr>
          else let rc = refcount (pm_locks pm a) - 1;
                   pm = pm\<lparr>pm_locks := (pm_locks pm)(a := \<lparr>refcount = rc, mu_locked = False\<rparr>),
                           pm_crashed := (pm_crashed pm \<or> \<not> mu_locked (pm_locks pm a))\<rparr>
               in if rc = 0 then pm\<lparr>pm_pods := (pm_pods pm)(fullPodName := None)\<rparr> else pm)"

text \<open>
  The steps of the goroutines: an idle one starts an operation on some pod, a waiting one takes
  the mutex when it is free, a running one finishes and releases.
\<close>

inductive pm_step :: "plugin_manager \<Rightarrow> plugin_manager \<Rightarrow> bool" where
  start: "\<lbrakk>pm_threads pm t = Idle; pm_podLock p pm = (a, pm')\<rbrakk>
    \<Longrightarrow> pm_step pm (pm'\<lparr>pm_threads := (pm_threads pm')(t := Waiting p a)\<rparr>)"
| acquire: "\<lbrakk>pm_threads pm t = Waiting p a; \<not> mu_locked (pm_locks pm a)\<rbrakk>
    \<Longrightarrow> pm_step pm (pm\<lparr>pm_locks := (pm_locks pm)(a := (pm_locks pm a)\<lparr>mu_locked := True\<rparr>),
                       pm_threads := (pm_threads pm)(t := Running p a)\<rparr>)"
| release: "\<lbrakk>pm_threads pm t = Running p a; pm' = pm_podUnlock p pm\<rbrakk>
    \<Longrightarrow> pm_step pm (pm'\<lparr>pm_threads := (pm_threads pm')(t := Idle)\<rparr>)"

inductive pm_reachable :: "plugin_manager \<Rightarrow> bool" where
  init: "pm_reachable NewPluginManager"
| step: "\<lbrakk>pm_reachable pm; pm_step pm pm'\<rbrakk> \<Longrightarrow> pm_reachable pm'"

inductive_cases pm_stepE: "pm_step pm pm'"

subsection \<open>The invariant of the locks\<close>

text \<open>The goroutines with an operation on a pod in flight.\<close>

definition inflight :: "plugin_manager \<Rightarrow> string \<Rightarrow> nat set" where
  "inflight pm p = {t. \<exists>a. pm_threads pm t = Waiting p a \<or> pm_threads pm t = Running p a}"

text \<open>The goroutines that hold the mutex of a pod and run its plugin call.\<close>

definition holders :: "plugin_manager \<Rightarrow> string \<Rightarrow> nat set" where
  "holders pm p = {t. \<exists>a. pm_threads pm t = Running p a}"

definition pm_inv :: "plugin_manager \<Rightarrow> bool" where
  "pm_inv pm \<longleftrightarrow>
     finite {t. pm_threads pm t \<noteq> Idle} \<and>
     (\<forall>t p a. pm_threads pm t = Waiting p a \<or> pm_threads pm t = Running p a \<longrightarrow> pm_pods pm p = Some a) \<and>
     (\<forall>p a. pm_pods pm p = Some a \<longrightarrow>
        a < pm_next pm \<and> refcount (pm_locks pm a) = card (inflight pm p) \<and> inflight pm p \<noteq> {} \<and>
        mu_locked (pm_locks pm a) = (holders pm p \<noteq> {})) \<and>
     (\<forall>p q a. pm_pods pm p = Some a \<longrightarrow> pm_pods pm q = Some a \<longrightarrow> p = q) \<and>
     (\<forall>t u p. t \<in> holders pm p \<longrightarrow> u \<in> holders pm p \<longrightarrow> t = u) \<and>
     \<not> pm_crashed pm"

lemma pm_invI:
  assumes "finite {t. pm_threads pm t \<noteq> Idle}"
    and "\<And>t p a. pm_threads pm t = Waiting p a \<or> pm_threads pm t = Running p a \<Longrightarrow> pm_pods pm p = Some a"
    and "\<And>p a. pm_pods pm p = Some a \<Longrightarrow> a < pm_next pm"
    and "\<And>p a. pm_pods pm p = Some a \<Longrightarrow> refcount (pm_locks pm a) = card (inflight pm p) \<and> inflight pm p \<noteq> {}"
    and "\<And>p a. pm_pods pm p = Some a \<Longrightarrow> mu_locked (pm_locks pm a) = (holders pm p \<noteq> {})"
    and "\<And>p q a. pm_pods pm p = Some a \<Longrightarrow> pm_pods pm q = Some a \<Longrightarrow> p = q"
    and "\<And>t u p. t \<in> holders pm p \<Longrightarrow> u \<in> holders pm p \<Longrightarrow> t = u"
    and "\<not> pm_crashed pm"
  shows "pm_inv pm"
  using assms unfolding pm_inv_def by blast

lemma pm_invD:
  assumes "pm_inv pm"
  shows "finite {t. pm_threads pm t \<noteq> Idle}"
    and "pm_threads pm t = Waiting p a \<or> pm_threads pm t = Running p a \<Longrightarrow> pm_pods pm p = Some a"
    and "pm_pods pm p = Some a \<Longrightarrow> a < pm_next pm"
    and "pm_pods pm p = Some a \<Longrightarrow> refcount (pm_locks pm a) = card (inflight pm p) \<and> inflight pm p \<noteq> {}"
    and "pm_pods pm p = Some a \<Longrightarrow> mu_locked (pm_locks pm a) = (holders pm p \<noteq> {})"
    and "pm_pods pm p = Some a \<Longrightarrow> pm_pods pm q = Some a \<Longrightarrow> p = q"
    and "t \<in> holders pm p \<Longrightarrow> u \<in> holders pm p \<Longrightarrow> t = u"
    and "\<not> pm_crashed pm"
  using assms unfolding pm_inv_def by blast+

lemma finite_inflight: "pm_inv pm \<Longrightarrow> finite (inflight pm p)"
  by (rule finite_subset [OF _ pm_invD(1)]) (auto simp: inflight_def)

lemma holders_inflight: "holders pm p \<subseteq> inflight pm p"
  by (auto simp: holders_def inflight_def)

lemma inflight_absent: "pm_inv pm \<Longrightarrow> pm_pods pm p = None \<Longrightarrow> inflight pm p = {}"
  by (auto simp: inflight_def dest: pm_invD(2))

lemma finite_busy_upd: "finite {t. f t \<noteq> Idle} \<Longrightarrow> finite {t. (f(u := g)) t \<noteq> Idle}"
  by (rule finite_subset [of _ "insert u {t. f t \<noteq> Idle}"]) auto

lemma pm_inv_init: "pm_inv NewPluginManager"
  by (simp add: pm_inv_def NewPluginManager_def holders_def)

lemma pm_inv_start:
  assumes inv: "pm_inv pm" and idle: "pm_threads pm t = Idle" and lock: "pm_podLock p pm = (a, pm')"
  shows "pm_inv (pm'\<lparr>pm_threads := (pm_threads pm')(t := Waiting p a)\<rparr>)" (is "pm_inv ?pm")
proof -
  note invD = pm_invD [OF inv]
  have thr: "pm_threads pm' = pm_threads pm" "pm_crashed pm' = pm_crashed pm"
    using lock by (auto simp: pm_podLock_def Let_def split: option.splits)
  have infl: "inflight ?pm q = (if q = p then insert t (inflight pm p) else inflight pm q)" for q
    using idle by (auto simp: inflight_def thr)
  have hold: "holders ?pm q = holders pm q" for q using idle by (auto simp: holders_def thr)
  have card: "card (insert t (inflight pm p)) = Suc (card (inflight pm p))"
    using idle finite_inflight [OF inv] by (simp add: inflight_def)
  have pods: "pm_pods pm' = (pm_pods pm)(p \<mapsto> a)" "pm_next pm \<le> pm_next pm'"
    using lock by (auto simp: pm_podLock_def Let_def fun_upd_idem split: option.splits)
  have old: "pm_pods pm p = Some b \<Longrightarrow> a = b" for b using lock by (auto simp: pm_podLock_def)
  have loc: "a < pm_next pm' \<and> refcount (pm_locks pm' a) = Suc (card (inflight pm p)) \<and>
      mu_locked (pm_locks pm' a) = (holders pm p \<noteq> {}) \<and> (\<forall>q. pm_pods pm q = Some a \<longrightarrow> q = p)"
  proof (cases "pm_pods pm p")
    case (Some b)
    then have "a = b" "pm_next pm' = pm_next pm" "refcount (pm_locks pm' a) = Suc (refcount (pm_locks pm b))"
      "mu_locked (pm_locks pm' a) = mu_locked (pm_locks pm b)"
      using lock by (auto simp: pm_podLock_def)
    then show ?thesis using invD(3,4,5) [OF Some] invD(6) [OF _ Some] by simp
  next
    case None
    then have "a = pm_next pm" "pm_next pm' = Suc a" "refcount (pm_locks pm' a) = 1" "\<not> mu_locked (pm_locks pm' a)"
      using lock by (auto simp: pm_podLock_def)
    moreover have "inflight pm p = {}" using inv None by (rule inflight_absent)
    moreover have "holders pm p = {}" using holders_inflight [of pm p] calculation(5) by simp
    moreover have "pm_pods pm q \<noteq> Some (pm_next pm)" for q using invD(3) [of q "pm_next pm"] by auto
    ultimately show ?thesis by simp
  qed
  then have rc: "refcount (pm_locks pm' a) = Suc (card (inflight pm p))" "mu_locked (pm_locks pm' a) = (holders pm p \<noteq> {})"
    and new: "\<And>q. pm_pods pm q = Some a \<Longrightarrow> q = p" by blast+
  have locks: "b \<noteq> a \<Longrightarrow> pm_locks pm' b = pm_locks pm b" for b
    using lock by (auto simp: pm_podLock_def Let_def split: option.splits)
  show ?thesis
  proof (rule pm_invI)
    show "finite {u. pm_threads ?pm u \<noteq> Idle}" using finite_busy_upd [OF invD(1)] by (simp add: thr)
    show "pm_pods ?pm q = Some b" if "pm_threads ?pm u = Waiting q b \<or> pm_threads ?pm u = Running q b" for u q b
      using that invD(2) [of u q b] old [of b] pods by (auto simp: thr split: if_splits)
    show "b < pm_next ?pm" if "pm_pods ?pm q = Some b" for q b
      using that pods loc invD(3) [of q b] by (auto split: if_splits)
    show "refcount (pm_locks ?pm b) = card (inflight ?pm q) \<and> inflight ?pm q \<noteq> {}" if "pm_pods ?pm q = Some b" for q b
    proof (cases "q = p")
      case True
      with that pods rc(1) show ?thesis unfolding infl by (simp add: card)
    next
      case False
      with that pods have qb: "pm_pods pm q = Some b" by simp
      then have "b \<noteq> a" using False new [of q] by auto
      with False invD(4) [OF qb] show ?thesis unfolding infl by (simp add: locks)
    qed
    show "mu_locked (pm_locks ?pm b) = (holders ?pm q \<noteq> {})" if "pm_pods ?pm q = Some b" for q b
    proof (cases "q = p")
      case True
      with that pods rc(2) show ?thesis unfolding hold by simp
    next
      case False
      with that pods have qb: "pm_pods pm q = Some b" by simp
      then have "b \<noteq> a" using False new [of q] by auto
      with invD(5) [OF qb] show ?thesis unfolding hold by (simp add: locks)
    qed
    have sub: "pm_pods pm q = Some b \<or> q = p \<and> b = a" if "pm_pods ?pm q = Some b" for q b
      using that pods(1) by (cases "q = p") simp_all
    show "q = q'" if "pm_pods ?pm q = Some b" "pm_pods ?pm q' = Some b" for q q' b
      using sub [OF that(1)] sub [OF that(2)] new invD(6) [of q b q'] by metis
    show "u = v" if "u \<in> holders ?pm q" "v \<in> holders ?pm q" for u v q
      using that invD(7) by (auto simp: hold)
    show "\<not> pm_crashed ?pm" using invD(8) by (simp add: thr)
  qed
qed

lemma pm_inv_acquire:
  assumes inv: "pm_inv pm" and wait: "pm_threads pm t = Waiting p a" and free: "\<not> mu_locked (pm_locks pm a)"
  shows "pm_inv (pm\<lparr>pm_locks := (pm_locks pm)(a := (pm_locks pm a)\<lparr>mu_locked := True\<rparr>),
     pm_threads := (pm_threads pm)(t := Running p a)\<rparr>)" (is "pm_inv ?pm")
proof -
  note invD = pm_invD [OF inv]
  have pa: "pm_pods pm p = Some a" using invD(2) wait by blast
  have none: "holders pm p = {}" using invD(5) [OF pa] free by simp
  have infl: "inflight ?pm q = inflight pm q" for q using wait by (auto simp: inflight_def)
  have hold: "holders ?pm q = (if q = p then {t} else holders pm q)" for q
    using wait none by (auto simp: holders_def split: if_splits)
  show ?thesis
  proof (rule pm_invI)
    show "finite {u. pm_threads ?pm u \<noteq> Idle}" using finite_busy_upd [OF invD(1)] by simp
    show "pm_pods ?pm q = Some b" if "pm_threads ?pm u = Waiting q b \<or> pm_threads ?pm u = Running q b" for u q b
      using that invD(2) [of u q b] pa by (auto split: if_splits)
    show "b < pm_next ?pm" if "pm_pods ?pm q = Some b" for q b using that invD(3) by simp
    show "refcount (pm_locks ?pm b) = card (inflight ?pm q) \<and> inflight ?pm q \<noteq> {}" if "pm_pods ?pm q = Some b" for q b
      using that invD(4) [of q b] unfolding infl by auto
    show "mu_locked (pm_locks ?pm b) = (holders ?pm q \<noteq> {})" if "pm_pods ?pm q = Some b" for q b
      using that invD(5) [of q b] invD(6) [OF pa, of q] pa unfolding hold by auto
    show "q = q'" if "pm_pods ?pm q = Some b" "pm_pods ?pm q' = Some b" for q q' b using that invD(6) by simp
    show "u = v" if "u \<in> holders ?pm q" "v \<in> holders ?pm q" for u v q
      using that invD(7) [of u q v] unfolding hold by (auto split: if_splits)
    show "\<not> pm_crashed ?pm" using invD(8) by simp
  qed
qed

lemma pm_inv_release:
  assumes inv: "pm_inv pm" and run: "pm_threads pm t = Running p a" and "pm' = pm_podUnlock p pm"
  shows "pm_inv (pm'\<lparr>pm_threads := (pm_threads pm')(t := Idle)\<rparr>)" (is "pm_inv ?pm")
proof -
  note invD = pm_invD [OF inv]
  have pa: "pm_pods pm p = Some a" using invD(2) run by blast
  have tin: "t \<in> inflight pm p" "t \<in> holders pm p" using run by (auto simp: inflight_def holders_def)
  have locked: "mu_locked (pm_locks pm a)" using invD(5) [OF pa] tin(2) by blast
  have rc: "refcount (pm_locks pm a) = card (inflight pm p)" using invD(4) [OF pa] by simp
  have pos: "card (inflight pm p) \<noteq> 0" using tin(1) finite_inflight [OF inv] by auto
  have card: "card (inflight pm p - {t}) = card (inflight pm p) - 1" using tin(1) by simp
  have pm': "pm_threads pm' = pm_threads pm" "pm_next pm' = pm_next pm" "pm_crashed pm' = pm_crashed pm"
    "pm_locks pm' = (pm_locks pm)(a := \<lparr>refcount = card (inflight pm p) - 1, mu_locked = False\<rparr>)"
    "pm_pods pm' = (if card (inflight pm p) - 1 = 0 then (pm_pods pm)(p := None) else pm_pods pm)"
    using assms(3) pa rc pos locked by (simp_all add: pm_podUnlock_def Let_def)
  have infl: "inflight ?pm q = (if q = p then inflight pm p - {t} else inflight pm q)" for q
    using run by (auto simp: inflight_def pm')
  have hold: "holders ?pm q = (if q = p then {} else holders pm q)" for q
    using run invD(7) [OF _ tin(2)] by (auto simp: holders_def pm' split: if_splits)
  have gone: "card (inflight pm p) - 1 = 0 \<longleftrightarrow> inflight pm p - {t} = {}"
    unfolding card [symmetric] by (rule card_0_eq) (simp add: finite_inflight [OF inv])
  have sub: "pm_pods ?pm q = Some b \<Longrightarrow> pm_pods pm q = Some b" for q b by (auto simp: pm' split: if_splits)
  have empty: "inflight pm p \<subseteq> {t} \<Longrightarrow> pm_threads pm u = Waiting p b \<or> pm_threads pm u = Running p b \<Longrightarrow> u = t" for u b
    by (auto simp: inflight_def)
  show ?thesis
  proof (rule pm_invI)
    show "finite {u. pm_threads ?pm u \<noteq> Idle}" using finite_busy_upd [OF invD(1)] by (simp add: pm')
    show "pm_pods ?pm q = Some b" if "pm_threads ?pm u = Waiting q b \<or> pm_threads ?pm u = Running q b" for u q b
      using that invD(2) [of u q b] gone empty by (auto simp: pm' split: if_splits)
    show "b < pm_next ?pm" if "pm_pods ?pm q = Some b" for q b using sub [OF that] invD(3) by (simp add: pm')
    show "refcount (pm_locks ?pm b) = card (inflight ?pm q) \<and> inflight ?pm q \<noteq> {}" if "pm_pods ?pm q = Some b" for q b
      using that sub [OF that] invD(4) [of q b] invD(6) [OF pa, of q] gone card pa unfolding infl
      by (auto simp: pm' split: if_splits)
    show "mu_locked (pm_locks ?pm b) = (holders ?pm q \<noteq> {})" if "pm_pods ?pm q = Some b" for q b
      using sub [OF that] invD(5) [of q b] invD(6) [OF pa, of q] pa unfolding hold by (auto simp: pm')
    show "q = q'" if "pm_pods ?pm q = Some b" "pm_pods ?pm q' = Some b" for q q' b
      using sub [OF that(1)] sub [OF that(2)] invD(6) by blast
    show "u = v" if "u \<in> holders ?pm q" "v \<in> holders ?pm q" for u v q
      using that invD(7) [of u q v] unfolding hold by (auto split: if_splits)
    show "\<not> pm_crashed ?pm" using invD(8) by (simp add: pm')
  qed
qed

lemma pm_inv_step: "pm_step pm pm' \<Longrightarrow> pm_inv pm \<Longrightarrow> pm_inv pm'"
  by (induction rule: pm_step.induct) (blast intro: pm_inv_start pm_inv_acquire pm_inv_release)+

lemma pm_inv_reachable: "pm_reachable pm \<Longrightarrow> pm_inv pm"
  by (induction rule: pm_reachable.induct) (auto intro: pm_inv_init pm_inv_step)

subsection \<open>Lemmas on registration and addresses\<close>

lemma registerPlugins_map:
  "map_of (fst (registerPlugins f m errs ps)) n =
     (case map_of m n of Some pl \<Rightarrow> Some pl | None \<Rightarrow> find (\<lambda>pl. np_Name pl = n \<and> f n = []) ps)"
  by (induction f m errs ps rule: registerPlugins.induct)
    (auto simp: Let_def split: option.splits)

lemma registerPlugins_errs:
  "snd (registerPlugins f m errs ps) = [] \<longleftrightarrow>
     errs = [] \<and> list_all (\<lambda>pl. f (np_Name pl) = []) ps \<and> distinct (map np_Name ps) \<and>
     list_all (\<lambda>pl. map_of m (np_Name pl) = None) ps"
proof (induction f m errs ps rule: registerPlugins.induct)
  case (2 f m errs pl ps)
  show ?case
  proof (cases "f (np_Name pl) = [] \<and> map_of m (np_Name pl) = None")
    case True
    then show ?thesis using 2(3) by (auto simp: Let_def list_all_iff image_iff)
  next
    case False
    then show ?thesis using 2(1,2) by (auto simp: Let_def)
  qed
qed simp

subsection \<open>Properties\<close>

text \<open>C5. Mutual exclusion: in every reachable state of the plugin manager at most one goroutine runs
  a plugin call for a given pod, although lock objects are created on demand and removed from
  the table when their count drops to zero.\<close>

theorem plugin_manager_mutual_exclusion:
  assumes "pm_reachable pm" and "pm_threads pm t = Running p a" and "pm_threads pm u = Running p b"
  shows "t = u \<and> a = b"
proof -
  note invD = pm_invD [OF pm_inv_reachable [OF assms(1)]]
  have "pm_pods pm p = Some a" "pm_pods pm p = Some b" using invD(2) assms(2,3) by blast+
  moreover have "t = u" using invD(7) [of t p u] assms(2,3) by (auto simp: holders_def)
  ultimately show ?thesis by simp
qed

definition examplePm :: plugin_manager where
  "examplePm =
     (let (a, pm) = pm_podLock ''web_default'' NewPluginManager; pm = pm\<lparr>pm_threads := (pm_threads pm)(1 := Waiting ''web_default'' a)\<rparr>;
          pm = pm\<lparr>pm_locks := (pm_locks pm)(a := (pm_locks pm a)\<lparr>mu_locked := True\<rparr>), pm_threads := (pm_threads pm)(1 := Running ''web_default'' a)\<rparr>;
          (a, pm) = pm_podLock ''web_default'' pm
      in pm\<lparr>pm_threads := (pm_threads pm)(2 := Waiting ''web_default'' a)\<rparr>)"

lemma examplePm_reachable: "pm_reachable examplePm"
proof -
  let ?p = "''web_default''"
  obtain a pm1 where 1: "pm_podLock ?p NewPluginManager = (a, pm1)" by fastforce
  let ?s1 = "pm1\<lparr>pm_threads := (pm_threads pm1)(1 := Waiting ?p a)\<rparr>"
  let ?s2 = "?s1\<lparr>pm_locks := (pm_locks ?s1)(a := (pm_locks ?s1 a)\<lparr>mu_locked := True\<rparr>), pm_threads := (pm_threads ?s1)(1 := Running ?p a)\<rparr>"
  obtain b pm3 where 3: "pm_podLock ?p ?s2 = (b, pm3)" by fastforce
  have f: "\<not> mu_locked (pm_locks pm1 a)" and th: "pm_threads pm1 = (\<lambda>_. Idle)"
    using 1 by (auto simp: pm_podLock_def NewPluginManager_def)
  have "pm_reachable ?s1"
    by (rule pm_reachable.step [OF pm_reachable.init pm_step.start [OF _ 1]]) (simp add: NewPluginManager_def)
  then have "pm_reachable ?s2"
    by (rule pm_reachable.step) (rule pm_step.acquire, simp_all add: f)
  then have "pm_reachable (pm3\<lparr>pm_threads := (pm_threads pm3)(2 := Waiting ?p b)\<rparr>)"
    by (rule pm_reachable.step) (rule pm_step.start [OF _ 3], simp add: th)
  then show ?thesis by (simp only: examplePm_def Let_def 1 prod.case 3)
qed

theorem plugin_manager_mutual_exclusion_witness:
  "{x. pm_threads examplePm (fst x) = Running ''web_default'' (snd x)} = {(1, 0)}" (is "?S = _")
proof -
  have r: "pm_threads examplePm 1 = Running ''web_default'' 0"
    by (simp add: examplePm_def pm_podLock_def NewPluginManager_def)
  show ?thesis
  proof (intro equalityI subsetI)
    fix x
    assume "x \<in> ?S"
    then have "pm_threads examplePm (fst x) = Running ''web_default'' (snd x)" by (rule CollectD)
    from plugin_manager_mutual_exclusion [OF examplePm_reachable this r] show "x \<in> {(1, 0)}"
      by (simp add: prod_eq_iff)
  next
    fix x :: "nat \<times> nat"
    assume "x \<in> {(1, 0)}"
    then show "x \<in> ?S" using r by simp
  qed
qed

text \<open>C18. The lock table is exact: in every reachable state a pod has an entry if and only if some
  operation on it is in flight, the reference count of its lock is the number of those
  operations, and no mutex was ever unlocked without being locked. So no lock leaks and none
  is freed while it is in use.\<close>

theorem plugin_manager_refcount_exact:
  assumes "pm_reachable pm"
  shows "(case pm_pods pm p of
       None \<Rightarrow> inflight pm p = {}
     | Some a \<Rightarrow> refcount (pm_locks pm a) = card (inflight pm p) \<and> inflight pm p \<noteq> {}) \<and> \<not> pm_crashed pm"
  using pm_inv_reachable [OF assms] inflight_absent pm_invD(4,8)
  by (auto split: option.split)

theorem plugin_manager_refcount_exact_witness:
  "refcount (pm_locks examplePm 0) = card (inflight examplePm ''web_default'') \<and> refcount (pm_locks examplePm 0) = 2"
proof -
  have "pm_pods examplePm ''web_default'' = Some 0 \<and> refcount (pm_locks examplePm 0) = 2"
    by (simp add: examplePm_def pm_podLock_def NewPluginManager_def)
  then show ?thesis
    using plugin_manager_refcount_exact [OF examplePm_reachable, of "''web_default''"] by simp
qed

definition exampleSysctl :: "unit sysctl_iface" where
  "exampleSysctl = \<lparr>sys_modprobe = (\<lambda>n e. e), sys_GetSysctl = (\<lambda>k e. (Inr 1, e)), sys_SetSysctl = (\<lambda>k v e. (None, e))\<rparr>"

text \<open>Plugin selection: unless the no-op plugin is asked for, the plugin that is chosen is the
  first registered plugin of that (valid) name, and the start-up error is nil exactly when all
  names are valid and distinct, the plugin exists and its initialisation succeeds.\<close>

lemma InitNetworkPlugin_selection:
  assumes "name \<noteq> []" and "name \<noteq> ''no-op''"
  shows "case InitNetworkPlugin valid sys ps name hp cidr mtu e of (chosen, err, e') \<Rightarrow>
     chosen = find (\<lambda>pl. np_Name pl = name \<and> valid name = []) ps \<and>
     (err = None \<longleftrightarrow> list_all (\<lambda>pl. valid (np_Name pl) = []) ps \<and> distinct (map np_Name ps) \<and>
        (\<exists>pl. chosen = Some pl \<and> fst (np_Init pl hp cidr mtu e) = None))"
proof -
  obtain m errs where r: "registerPlugins valid [] [] ps = (m, errs)" by fastforce
  have m: "map_of m name = find (\<lambda>pl. np_Name pl = name \<and> valid name = []) ps"
    using registerPlugins_map [of valid "[]" "[]" ps name] by (simp add: r)
  have errs: "errs = [] \<longleftrightarrow> list_all (\<lambda>pl. valid (np_Name pl) = []) ps \<and> distinct (map np_Name ps)"
    using registerPlugins_errs [of valid "[]" "[]" ps] by (simp add: r list_all_iff)
  show ?thesis
  proof (cases "map_of m name")
    case None
    then show ?thesis using assms by (simp add: InitNetworkPlugin_def r m [symmetric])
  next
    case (Some pl)
    obtain ie e' where i: "np_Init pl hp cidr mtu e = (ie, e')" by fastforce
    then show ?thesis
      using assms errs by (cases ie) (simp_all add: InitNetworkPlugin_def r Some m [symmetric])
  qed
qed

end
