(* ===== verification/Util_Cache.thy ===== *)
theory Util_Cache
  imports Go_Errors
begin

text \<open>
  The memoising cache of \<^verbatim>\<open>utils/cache.go\<close>. The \<^verbatim>\<open>sync.Map\<close> is an association list; the lock of an
  entry makes a call of \<open>Memoize\<close> on a key one step. The clock is an argument \<open>now\<close> that reads
  and advances the state, so the time a computation takes is part of the model. Times are
  nanoseconds; the zero time is \<open>None\<close>, and \<^verbatim>\<open>time.Since\<close> saturates.
\<close>

record 'v cache_entry =
  ce_value :: "'v option"
  ce_generated :: "int option"
  ce_lastTimeTaken :: int

definition zeroEntry :: "'v cache_entry" where
  "zeroEntry = \<lparr>ce_value = None, ce_generated = None, ce_lastTimeTaken = 0\<rparr>"

type_synonym 'v cache = "(string \<times> 'v cache_entry) list"

definition maxDuration :: int where "maxDuration = 2 ^ 63 - 1"

definition timeSub :: "int \<Rightarrow> int option \<Rightarrow> int" where
  "timeSub t u = (case u of None \<Rightarrow> maxDuration | Some u \<Rightarrow> max (- maxDuration - 1) (min maxDuration (t - u)))"

subsection \<open>Operations\<close>

definition getEntry :: "'v cache \<Rightarrow> string \<Rightarrow> 'v cache_entry \<times> 'v cache" where
  "getEntry c key =
     (case map_of c key of Some e \<Rightarrow> (e, c) | None \<Rightarrow> (zeroEntry, mapSet c key zeroEntry))"

definition Memoize ::
    "('s \<Rightarrow> int \<times> 's) \<Rightarrow> string \<Rightarrow> int \<Rightarrow> ('s \<Rightarrow> 'v result \<times> 's) \<Rightarrow> 'v cache \<Rightarrow> 's \<Rightarrow> 'v option result \<times> 'v cache \<times> 's" where
  "Memoize now key minTTL fn c s =
     (case getEntry c key of (e, c) \<Rightarrow>
      (case now s of (t, s) \<Rightarrow>
       if timeSub t (ce_generated e) < minTTL + ce_lastTimeTaken e then (Inr (ce_value e), c, s)
       else
         (case now s of (start, s) \<Rightarrow>
          (case fn s of
             (Inl err, s) \<Rightarrow> (Inl err, c, s)
           | (Inr v, s) \<Rightarrow>
               (case now s of (generated, s) \<Rightarrow>
                (case now s of (t, s) \<Rightarrow>
                  (Inr (Some v),
                   mapSet c key \<lparr>ce_value = Some v, ce_generated = Some generated, ce_lastTimeTaken = timeSub t (Some start)\<rparr>,
                   s)))))))"

definition Cache_Delete :: "string \<Rightarrow> 'v cache \<Rightarrow> 'v cache" where
  "Cache_Delete key c = AList.delete key c"

text \<open>\<open>ks\<close> are the keys in the order in which \<^verbatim>\<open>Range\<close> visits them.\<close>

fun clearLoop :: "('s \<Rightarrow> int \<times> 's) \<Rightarrow> int \<Rightarrow> string list \<Rightarrow> 'v cache \<Rightarrow> 's \<Rightarrow> 'v cache \<times> 's" where
  "clearLoop now d [] c s = (c, s)"
| "clearLoop now d (k # ks) c s =
     (case map_of c k of
        None \<Rightarrow> clearLoop now d ks c s
      | Some e \<Rightarrow>
          (case now s of (t, s) \<Rightarrow>
             clearLoop now d ks (if timeSub t (ce_generated e) > d then Cache_Delete k c else c) s))"

definition ClearByAge :: "('s \<Rightarrow> int \<times> 's) \<Rightarrow> int \<Rightarrow> 'v cache \<Rightarrow> 's \<Rightarrow> 'v cache \<times> 's" where
  "ClearByAge now d c s = clearLoop now d (map fst c) c s"

subsection \<open>Lemmas\<close>

text \<open>
  An entry is well formed when it holds a value once it has been generated, and never counts a
  negative or an excessive time for computing it.
\<close>

definition entryOk :: "('v \<Rightarrow> bool) \<Rightarrow> 'v cache_entry \<Rightarrow> bool" where
  "entryOk P e \<longleftrightarrow> (case ce_generated e of
      None \<Rightarrow> ce_lastTimeTaken e = 0
    | Some g \<Rightarrow> (\<exists>v. ce_value e = Some v \<and> P v))"

lemma entryOk_zero [simp]: "entryOk P zeroEntry"
  by (simp add: entryOk_def zeroEntry_def)

lemma getEntry_Some: "map_of c key = Some e \<Longrightarrow> getEntry c key = (e, c)"
  by (simp add: getEntry_def)

text \<open>A zero entry is never a hit: its age is the largest duration.\<close>

lemma entryOk_hit:
  assumes "entryOk P e" and "minTTL \<le> maxDuration" and "timeSub t (ce_generated e) < minTTL + ce_lastTimeTaken e"
  shows "\<exists>v. ce_value e = Some v \<and> P v"
  using assms by (auto simp: entryOk_def timeSub_def split: option.splits)

lemma Memoize_value:
  assumes c: "\<And>e. map_of c key = Some e \<Longrightarrow> entryOk P e" and ttl: "minTTL \<le> maxDuration"
    and fn: "\<And>s v s'. fn s = (Inr v, s') \<Longrightarrow> P v"
    and r: "Memoize now key minTTL fn c s = (Inr r, c', s')"
  shows "\<exists>v. r = Some v \<and> P v"
proof -
  obtain e c1 where g: "getEntry c key = (e, c1)" by fastforce
  have e: "entryOk P e" using g c by (auto simp: getEntry_def split: option.splits)
  obtain t s1 where n1: "now s = (t, s1)" by fastforce
  show ?thesis
  proof (cases "timeSub t (ce_generated e) < minTTL + ce_lastTimeTaken e")
    case True
    then show ?thesis using r entryOk_hit [OF e ttl True] by (simp add: Memoize_def g n1)
  next
    case False
    obtain st s2 where n2: "now s1 = (st, s2)" by fastforce
    obtain v s3 where f: "fn s2 = (v, s3)" by fastforce
    show ?thesis using r False fn [of s2 _ s3] f
      by (cases v) (auto simp: Memoize_def g n1 n2 split: prod.splits)
  qed
qed

lemma Memoize_frame:
  assumes "Memoize now key minTTL fn c s = (r, c', s')" and "k \<noteq> key"
  shows "map_of c' k = map_of c k"
  using assms by (auto simp: Memoize_def getEntry_def split: prod.splits option.splits sum.splits if_splits)

lemma Memoize_entry:
  assumes "\<And>e. map_of c key = Some e \<Longrightarrow> entryOk P e" and fn: "\<And>s v s'. fn s = (Inr v, s') \<Longrightarrow> P v"
    and r: "Memoize now key minTTL fn c s = (r, c', s')" and "map_of c' key = Some e"
  shows "entryOk P e"
  using assms
  by (auto simp: Memoize_def getEntry_def entryOk_def zeroEntry_def
      split: prod.splits option.splits sum.splits if_splits)

text \<open>An error is not remembered: the entry of the key stays as it was, up to the empty one.\<close>

lemma Memoize_error:
  assumes "Memoize now key minTTL fn c s = (Inl err, c', s')"
  shows "c' = snd (getEntry c key)"
  using assms by (auto simp: Memoize_def split: prod.splits sum.splits if_splits)

end
