(* ===== verification/Go_Json.thy ===== *)
theory Go_Json
  imports Go_Errors
begin

text \<open>
  The part of \<^verbatim>\<open>encoding/json\<close> the checkpoints use: the text of a JSON value as \<^verbatim>\<open>json.Marshal\<close> writes
  it (compact, strings with the HTML escapes, invalid UTF-8 replaced), and the reader behind
  \<^verbatim>\<open>json.Unmarshal\<close>. A number is kept as its literal, since the decoder converts the literal to the
  type of the field. The reader has fuel; every recursive call but one per byte consumes input,
  so twice the length of the text is enough, and \<open>parse_print\<close> shows it is for what the printer
  writes. The texts of syntax errors are abbreviated.
\<close>

datatype json = JNull | JBool bool | JNum string | JStr string | JArr "json list" | JObj "(string \<times> json) list"

abbreviation byteOf :: "char \<Rightarrow> nat" where "byteOf c \<equiv> of_char c"

subsection \<open>UTF-8\<close>

definition inBytes :: "nat \<Rightarrow> nat \<Rightarrow> char \<Rightarrow> bool" where
  "inBytes lo hi c \<longleftrightarrow> lo \<le> byteOf c \<and> byteOf c \<le> hi"

abbreviation contByte :: "char \<Rightarrow> bool" where "contByte \<equiv> inBytes 0x80 0xBF"

text \<open>The length of the multi-byte rune a string starts with, 0 if it is not a valid one.\<close>

fun utf8_len :: "string \<Rightarrow> nat" where
  "utf8_len (a # b # cs) =
     (if inBytes 0xC2 0xDF a then (if contByte b then 2 else 0)
      else if inBytes 0xE0 0xEF a then
        (if (if byteOf a = 0xE0 then inBytes 0xA0 0xBF b else if byteOf a = 0xED then inBytes 0x80 0x9F b else contByte b)
            \<and> (case cs of c # _ \<Rightarrow> contByte c | [] \<Rightarrow> False) then 3 else 0)
      else if inBytes 0xF0 0xF4 a then
        (if (if byteOf a = 0xF0 then inBytes 0x90 0xBF b else if byteOf a = 0xF4 then inBytes 0x80 0x8F b else contByte b)
            \<and> (case cs of c # d # _ \<Rightarrow> contByte c \<and> contByte d | _ \<Rightarrow> False) then 4 else 0)
      else 0)"
| "utf8_len _ = 0"

definition utf8_encode :: "nat \<Rightarrow> string" where
  "utf8_encode r = map char_of
     (if r < 0x80 then [r]
      else if r < 0x800 then [0xC0 + r div 64, 0x80 + r mod 64]
      else if r < 0x10000 then [0xE0 + r div 4096, 0x80 + r div 64 mod 64, 0x80 + r mod 64]
      else [0xF0 + r div 262144, 0x80 + r div 4096 mod 64, 0x80 + r div 64 mod 64, 0x80 + r mod 64])"

definition runeError :: string where "runeError = utf8_encode 0xFFFD"

subsection \<open>Printing\<close>

abbreviation backslash :: char where "backslash \<equiv> CHR 0x5C"

abbreviation quoteChar :: char where "quoteChar \<equiv> CHR 0x22"

definition jsonEscByte :: "char \<Rightarrow> string" where
  "jsonEscByte c =
     (if c = backslash \<or> c = quoteChar then [backslash, c]
      else if byteOf c = 8 then [backslash, CHR ''b''] else if byteOf c = 12 then [backslash, CHR ''f'']
      else if byteOf c = 10 then [backslash, CHR ''n''] else if byteOf c = 13 then [backslash, CHR ''r'']
      else if byteOf c = 9 then [backslash, CHR ''t'']
      else if byteOf c < 32 \<or> c = CHR ''<'' \<or> c = CHR ''>'' \<or> c = CHR ''&''
        then [backslash, CHR ''u'', CHR ''0'', CHR ''0'', digitChar (byteOf c div 16), digitChar (byteOf c mod 16)]
      else [c])"

function jsonEscape :: "string \<Rightarrow> string" where
  "jsonEscape [] = []"
| "jsonEscape (c # cs) =
     (if byteOf c < 0x80 then jsonEscByte c @ jsonEscape cs
      else if utf8_len (c # cs) = 0 then [backslash] @ ''ufffd'' @ jsonEscape cs
      else if map byteOf (take 3 (c # cs)) = [0xE2, 0x80, 0xA8] then [backslash] @ ''u2028'' @ jsonEscape (drop 2 cs)
      else if map byteOf (take 3 (c # cs)) = [0xE2, 0x80, 0xA9] then [backslash] @ ''u2029'' @ jsonEscape (drop 2 cs)
      else take (utf8_len (c # cs)) (c # cs) @ jsonEscape (drop (utf8_len (c # cs) - 1) cs))"
  by pat_completeness auto
termination by (relation "measure length") auto

definition jsonQuote :: "string \<Rightarrow> string" where
  "jsonQuote s = [quoteChar] @ jsonEscape s @ [quoteChar]"

fun json_print :: "json \<Rightarrow> string" where
  "json_print JNull = ''null''"
| "json_print (JBool b) = (if b then ''true'' else ''false'')"
| "json_print (JNum n) = n"
| "json_print (JStr s) = jsonQuote s"
| "json_print (JArr vs) = ''['' @ strings_Join (map json_print vs) '','' @ '']''"
| "json_print (JObj ms) = ''{'' @ strings_Join (map (\<lambda>(k, v). jsonQuote k @ '':'' @ json_print v) ms) '','' @ ''}''"

subsection \<open>Reading\<close>

definition jsonSpace :: "char \<Rightarrow> bool" where "jsonSpace c \<longleftrightarrow> byteOf c \<in> {9, 10, 13, 32}"

definition skipWs :: "string \<Rightarrow> string" where "skipWs s = dropWhile jsonSpace s"

definition hexVal :: "char \<Rightarrow> nat option" where
  "hexVal c = (if isDigit c then Some (byteOf c - 48)
     else if inBytes 97 102 c then Some (byteOf c - 87) else if inBytes 65 70 c then Some (byteOf c - 55) else None)"

fun hex4 :: "string \<Rightarrow> nat option" where
  "hex4 (a # b # c # d # _) =
     (case (hexVal a, hexVal b, hexVal c, hexVal d) of
        (Some w, Some x, Some y, Some z) \<Rightarrow> Some (((w * 16 + x) * 16 + y) * 16 + z) | _ \<Rightarrow> None)"
| "hex4 _ = None"

definition simpleEsc :: "char \<Rightarrow> char option" where
  "simpleEsc e = (if e = quoteChar \<or> e = backslash \<or> e = CHR ''/'' then Some e
     else if e = CHR ''b'' then Some (char_of (8 :: nat)) else if e = CHR ''f'' then Some (char_of (12 :: nat))
     else if e = CHR ''n'' then Some (char_of (10 :: nat)) else if e = CHR ''r'' then Some (char_of (13 :: nat))
     else if e = CHR ''t'' then Some (char_of (9 :: nat)) else None)"

text \<open>The rune after \<^verbatim>\<open>\u\<close> and the number of bytes it takes; a half of a surrogate pair is replaced.\<close>

definition escRune :: "nat \<Rightarrow> string \<Rightarrow> string \<times> nat" where
  "escRune r rest =
     (if r < 0xD800 \<or> 0xE000 \<le> r then (utf8_encode r, 0)
      else (case (r < 0xDC00, take 2 rest = [backslash, CHR ''u''], hex4 (drop 2 rest)) of
          (True, True, Some l) \<Rightarrow>
            if 0xDC00 \<le> l \<and> l < 0xE000 then (utf8_encode (0x10000 + (r - 0xD800) * 1024 + (l - 0xDC00)), 6)
            else (runeError, 0)
        | _ \<Rightarrow> (runeError, 0)))"

text \<open>The body of a string literal, up to and including the closing quote.\<close>

function parseStr :: "string \<Rightarrow> (string \<times> string) option" where
  "parseStr [] = None"
| "parseStr (c # cs) =
     (if c = quoteChar then Some ([], cs)
      else if c = backslash then
        (case cs of
           [] \<Rightarrow> None
         | e # es \<Rightarrow>
             if e = CHR ''u'' then
               (case hex4 es of
                  None \<Rightarrow> None
                | Some r \<Rightarrow> (case escRune r (drop 4 es) of (txt', k) \<Rightarrow>
                    map_option (apfst ((@) txt')) (parseStr (drop k (drop 4 es)))))
             else (case simpleEsc e of None \<Rightarrow> None | Some x \<Rightarrow> map_option (apfst ((#) x)) (parseStr es)))
      else if byteOf c < 32 then None
      else if byteOf c < 0x80 then map_option (apfst ((#) c)) (parseStr cs)
      else if utf8_len (c # cs) = 0 then map_option (apfst ((@) runeError)) (parseStr cs)
      else map_option (apfst ((@) (take (utf8_len (c # cs)) (c # cs)))) (parseStr (drop (utf8_len (c # cs) - 1) cs)))"
  by pat_completeness auto
termination by (relation "measure length") auto

definition parseDigits :: "string \<Rightarrow> (string \<times> string) option" where
  "parseDigits s = (if takeWhile isDigit s = [] then None else Some (takeWhile isDigit s, dropWhile isDigit s))"

definition parseInt :: "string \<Rightarrow> (string \<times> string) option" where
  "parseInt s = (case s of [] \<Rightarrow> None | c # cs \<Rightarrow> if c = CHR ''0'' then Some ([c], cs) else parseDigits s)"

definition parseFrac :: "string \<Rightarrow> (string \<times> string) option" where
  "parseFrac s = (case s of [] \<Rightarrow> Some ([], [])
     | c # cs \<Rightarrow> if c = CHR ''.'' then map_option (apfst ((#) c)) (parseDigits cs) else Some ([], s))"

definition parseExp :: "string \<Rightarrow> (string \<times> string) option" where
  "parseExp s = (case s of [] \<Rightarrow> Some ([], [])
     | c # cs \<Rightarrow>
         if c = CHR ''e'' \<or> c = CHR ''E'' then
           (case cs of
              d # ds \<Rightarrow> if d = CHR ''+'' \<or> d = CHR ''-'' then map_option (apfst (\<lambda>n. c # d # n)) (parseDigits ds)
                        else map_option (apfst ((#) c)) (parseDigits cs)
            | [] \<Rightarrow> None)
         else Some ([], s))"

definition parseNum :: "string \<Rightarrow> (string \<times> string) option" where
  "parseNum s =
     (let (sign, s) = (case s of c # cs \<Rightarrow> if c = CHR ''-'' then ([c], cs) else ([], s) | [] \<Rightarrow> ([], [])) in
      case parseInt s of None \<Rightarrow> None
      | Some (i, s) \<Rightarrow> (case parseFrac s of None \<Rightarrow> None
        | Some (f, s) \<Rightarrow> (case parseExp s of None \<Rightarrow> None | Some (e, s) \<Rightarrow> Some (sign @ i @ f @ e, s))))"

fun parseValue :: "nat \<Rightarrow> string \<Rightarrow> (json \<times> string) option"
and parseElems :: "nat \<Rightarrow> string \<Rightarrow> (json list \<times> string) option"
and parseMembers :: "nat \<Rightarrow> string \<Rightarrow> ((string \<times> json) list \<times> string) option" where
  "parseValue 0 s = None"
| "parseValue (Suc n) s =
     (case skipWs s of
        [] \<Rightarrow> None
      | c # cs \<Rightarrow>
          if c = CHR ''{'' then
            (case skipWs cs of d # r \<Rightarrow> if d = CHR ''}'' then Some (JObj [], r) else map_option (apfst JObj) (parseMembers n cs)
             | [] \<Rightarrow> None)
          else if c = CHR ''['' then
            (case skipWs cs of d # r \<Rightarrow> if d = CHR '']'' then Some (JArr [], r) else map_option (apfst JArr) (parseElems n cs)
             | [] \<Rightarrow> None)
          else if c = quoteChar then map_option (apfst JStr) (parseStr cs)
          else if prefix ''null'' (c # cs) then Some (JNull, drop 4 (c # cs))
          else if prefix ''true'' (c # cs) then Some (JBool True, drop 4 (c # cs))
          else if prefix ''false'' (c # cs) then Some (JBool False, drop 5 (c # cs))
          else map_option (apfst JNum) (parseNum (c # cs)))"
| "parseElems 0 s = None"
| "parseElems (Suc n) s =
     (case parseValue n s of
        None \<Rightarrow> None
      | Some (v, r) \<Rightarrow>
          (case skipWs r of
             d # r \<Rightarrow> if d = CHR '','' then map_option (apfst ((#) v)) (parseElems n r)
                      else if d = CHR '']'' then Some ([v], r) else None
           | [] \<Rightarrow> None))"
| "parseMembers 0 s = None"
| "parseMembers (Suc n) s =
     (case skipWs s of
        q # ks \<Rightarrow>
          if q \<noteq> quoteChar then None
          else (case parseStr ks of
             None \<Rightarrow> None
           | Some (k, r) \<Rightarrow>
               (case skipWs r of
                  c # r \<Rightarrow>
                    if c \<noteq> CHR '':'' then None
                    else (case parseValue n r of
                       None \<Rightarrow> None
                     | Some (v, r) \<Rightarrow>
                         (case skipWs r of
                            d # r \<Rightarrow> if d = CHR '','' then map_option (apfst ((#) (k, v))) (parseMembers n r)
                                     else if d = CHR ''}'' then Some ([(k, v)], r) else None
                          | [] \<Rightarrow> None))
                | [] \<Rightarrow> None))
      | [] \<Rightarrow> None)"

text \<open>The value of a text that is one JSON value with white space around it.\<close>

definition json_parse :: "string \<Rightarrow> json result" where
  "json_parse s =
     (case parseValue (2 * length s + 2) s of
        Some (v, r) \<Rightarrow> if skipWs r = [] then Inr v else Inl (Errorf ''invalid character after top-level value'')
      | None \<Rightarrow> Inl (Errorf ''invalid character or unexpected end of JSON input''))"

subsection \<open>What is printed is read back\<close>

definition asciiStr :: "string \<Rightarrow> bool" where "asciiStr s \<longleftrightarrow> list_all (\<lambda>c. byteOf c < 0x80) s"

fun jsonOk :: "json \<Rightarrow> bool" where
  "jsonOk (JNum n) \<longleftrightarrow> (\<exists>i. n = fmt_int i)"
| "jsonOk (JStr s) \<longleftrightarrow> asciiStr s"
| "jsonOk (JArr vs) \<longleftrightarrow> list_all jsonOk vs"
| "jsonOk (JObj ms) \<longleftrightarrow> list_all (\<lambda>(k, v). asciiStr k \<and> jsonOk v) ms"
| "jsonOk _ \<longleftrightarrow> True"

text \<open>What may follow a number without being taken for a part of it.\<close>

definition numEnd :: "string \<Rightarrow> bool" where
  "numEnd r \<longleftrightarrow> (case r of [] \<Rightarrow> True | c # _ \<Rightarrow> \<not> isDigit c \<and> c \<noteq> CHR ''.'' \<and> c \<noteq> CHR ''e'' \<and> c \<noteq> CHR ''E'')"

lemma hexVal_digitChar: "d < 16 \<Longrightarrow> hexVal (digitChar d) = Some d"
  by (simp add: hexVal_def digitChar_def isDigit_def inBytes_def)

lemma parseStr_u00:
  assumes "byteOf c < 0x80"
  shows "parseStr ([backslash, CHR ''u'', CHR ''0'', CHR ''0'', digitChar (byteOf c div 16), digitChar (byteOf c mod 16)] @ t)
     = map_option (apfst ((#) c)) (parseStr t)"
proof -
  have z: "hexVal (CHR ''0'') = Some 0" by (simp add: hexVal_def isDigit_def)
  have "hexVal (digitChar (byteOf c div 16)) = Some (byteOf c div 16)"
    "hexVal (digitChar (byteOf c mod 16)) = Some (byteOf c mod 16)"
    using assms by (simp_all add: hexVal_digitChar)
  then have "hex4 ([CHR ''0'', CHR ''0'', digitChar (byteOf c div 16), digitChar (byteOf c mod 16)] @ t) = Some (byteOf c)"
    by (simp add: z)
  moreover have "(@) [c] = (#) c" by (simp add: fun_eq_iff)
  ultimately show ?thesis using assms by (simp add: escRune_def utf8_encode_def)
qed

lemma parseStr_escByte:
  assumes "byteOf c < 0x80"
  shows "parseStr (jsonEscByte c @ t) = map_option (apfst ((#) c)) (parseStr t)"
proof (cases "c = backslash \<or> c = quoteChar \<or> byteOf c \<in> {8, 9, 10, 12, 13}")
  case True
  have eq: "c = char_of n" if "byteOf c = n" for n using that by auto
  from True consider "c = backslash" | "c = quoteChar" | "c = char_of (8 :: nat)" | "c = char_of (9 :: nat)"
    | "c = char_of (10 :: nat)" | "c = char_of (12 :: nat)" | "c = char_of (13 :: nat)"
    using eq by blast
  then show ?thesis by cases (simp_all add: jsonEscByte_def simpleEsc_def)
next
  case False
  then show ?thesis
  proof (cases "byteOf c < 32 \<or> c = CHR ''<'' \<or> c = CHR ''>'' \<or> c = CHR ''&''")
    case True
    then have "jsonEscByte c = [backslash, CHR ''u'', CHR ''0'', CHR ''0'', digitChar (byteOf c div 16), digitChar (byteOf c mod 16)]"
      using False by (simp add: jsonEscByte_def)
    then show ?thesis using parseStr_u00 [OF assms] by simp
  next
    case plain: False
    then have "jsonEscByte c = [c]" using False by (simp add: jsonEscByte_def)
    then show ?thesis using plain False assms by simp
  qed
qed

lemma parseStr_escape: "asciiStr s \<Longrightarrow> parseStr (jsonEscape s @ quoteChar # r) = Some (s, r)"
  by (induction s) (simp_all add: asciiStr_def parseStr_escByte del: parseStr.simps(2), simp)

lemma jsonQuote_Cons: "jsonQuote s @ r = quoteChar # jsonEscape s @ quoteChar # r"
  by (simp add: jsonQuote_def)

lemma skipWs_Cons [simp]: "skipWs (c # s) = (if jsonSpace c then skipWs s else c # s)"
  by (simp add: skipWs_def)

lemma not_jsonSpace [simp]:
  "\<not> jsonSpace quoteChar" "\<not> jsonSpace (CHR ''['')" "\<not> jsonSpace (CHR '']'')" "\<not> jsonSpace (CHR ''{'')"
  "\<not> jsonSpace (CHR ''}'')" "\<not> jsonSpace (CHR '','')" "\<not> jsonSpace (CHR '':'')" "\<not> jsonSpace (CHR ''n'')"
  "\<not> jsonSpace (CHR ''t'')" "\<not> jsonSpace (CHR ''f'')"
  by (simp_all add: jsonSpace_def)

lemma isDigit_props: "isDigit c \<Longrightarrow> \<not> jsonSpace c \<and> c \<notin> set ''{[]}ntf-'' \<and> c \<noteq> quoteChar"
  by (auto simp: isDigit_def jsonSpace_def)

lemma parseDigits_nat:
  assumes "numEnd r" and "ds \<noteq> []" and "list_all isDigit ds"
  shows "parseDigits (ds @ r) = Some (ds, r)"
proof -
  have "takeWhile isDigit r = []" using assms(1) by (cases r) (auto simp: numEnd_def)
  moreover have "dropWhile isDigit r = r" using assms(1) by (cases r) (auto simp: numEnd_def)
  ultimately show ?thesis using assms(2,3) by (simp add: parseDigits_def list_all_iff takeWhile_append dropWhile_append)
qed

lemma fmt_nat_digits: "list_all isDigit (fmt_nat 10 n)"
proof (induction n rule: less_induct)
  case (less n)
  have "isDigit (digitChar d)" if "d < 10" for d using that by (simp add: isDigit_def digitChar_def)
  then show ?case using less.IH [of "n div 10"] by (subst fmt_nat.simps) simp
qed

lemma fmt_nat_nonzero: "0 < n \<Longrightarrow> hd (fmt_nat 10 n) \<noteq> CHR ''0''"
proof (induction n rule: less_induct)
  case (less n)
  have ne: "fmt_nat 10 m \<noteq> []" for m by (subst fmt_nat.simps) simp
  show ?case
  proof (cases "n < 10")
    case True
    have "byteOf (digitChar n) = 48 + n" using True by (simp add: digitChar_def)
    then have "digitChar n \<noteq> CHR ''0''" using less.prems by auto
    then show ?thesis using True by (subst fmt_nat.simps) simp
  next
    case False
    then have "hd (fmt_nat 10 n) = hd (fmt_nat 10 (n div 10))"
      by (subst fmt_nat.simps) (simp add: ne)
    then show ?thesis using False less.IH [of "n div 10"] by simp
  qed
qed

lemma parseInt_nat:
  assumes "numEnd r"
  shows "parseInt (fmt_nat 10 n @ r) = Some (fmt_nat 10 n, r)"
proof (cases "n = 0")
  case True
  have "fmt_nat 10 0 = ''0''" by (subst fmt_nat.simps) (simp add: digitChar_def char_of_eq_iff)
  then show ?thesis using True by (simp add: parseInt_def)
next
  case False
  obtain c cs where c: "fmt_nat 10 n = c # cs" by (cases "fmt_nat 10 n") (simp_all add: fmt_nat.simps [of 10 n] split: if_splits)
  then have "c \<noteq> CHR ''0''" using False fmt_nat_nonzero [of n] by simp
  then show ?thesis using parseDigits_nat [OF assms _ fmt_nat_digits [of n]] by (simp add: parseInt_def c)
qed

lemma parseNum_int:
  assumes "numEnd r"
  shows "parseNum (fmt_int i @ r) = Some (fmt_int i, r)"
proof -
  have f: "parseFrac r = Some ([], r)" "parseExp r = Some ([], r)"
    using assms by (cases r; simp add: parseFrac_def parseExp_def numEnd_def)+
  obtain c cs where c: "fmt_nat 10 (nat i) = c # cs"
    by (cases "fmt_nat 10 (nat i)") (simp_all add: fmt_nat.simps [of 10 "nat i"] split: if_splits)
  moreover have "c \<noteq> CHR ''-''" using fmt_nat_digits [of "nat i"] isDigit_props [of c] by (simp add: c)
  ultimately show ?thesis using parseInt_nat [OF assms, of "nat i"] parseInt_nat [OF assms, of "nat (- i)"]
    by (simp add: parseNum_def fmt_int_def f)
qed

lemma numEnd_delim [simp]: "numEnd (CHR '','' # r)" "numEnd (CHR '']'' # r)" "numEnd (CHR ''}'' # r)" "numEnd []"
  by (simp_all add: numEnd_def isDigit_def)

text \<open>The reader undoes the printer on \<open>v\<close>, given fuel for its text.\<close>

definition undone :: "json \<Rightarrow> bool" where
  "undone v \<longleftrightarrow> (\<forall>n r. 2 * length (json_print v) < n \<longrightarrow> numEnd r \<longrightarrow> parseValue n (json_print v @ r) = Some (v, r))"

lemma undoneD:
  "undone v \<Longrightarrow> 2 * length (json_print v) < n \<Longrightarrow> numEnd r \<Longrightarrow> parseValue n (json_print v @ r) = Some (v, r)"
  by (simp add: undone_def)

text \<open>The text after the opening bracket of a list, or brace of an object, is read back.\<close>

lemma parseElems_print:
  assumes "list_all undone vs" and "vs \<noteq> []" and "2 * length (strings_Join (map json_print vs) '','' @ '']'') < n"
  shows "parseElems n (strings_Join (map json_print vs) '','' @ '']'' @ r) = Some (vs, r)"
  using assms
proof (induction vs arbitrary: n)
  case (Cons v vs)
  obtain m where m: "n = Suc m" using Cons.prems(3) by (cases n) auto
  show ?case
  proof (cases vs)
    case Nil
    have "parseValue m (json_print v @ CHR '']'' # r) = Some (v, CHR '']'' # r)"
      using Cons.prems by (intro undoneD) (simp_all add: Nil m)
    then show ?thesis by (simp add: Nil m)
  next
    case (Cons w ws)
    let ?rest = "strings_Join (map json_print vs) '','' @ '']'' @ r"
    have j: "strings_Join (json_print v # map json_print vs) '','' = json_print v @ '','' @ strings_Join (map json_print vs) '',''"
      by (simp add: Cons)
    have "parseValue m (json_print v @ CHR '','' # ?rest) = Some (v, CHR '','' # ?rest)"
      using Cons.prems by (intro undoneD) (simp_all add: j m)
    moreover have "parseElems m ?rest = Some (vs, r)"
      using Cons.prems by (intro Cons.IH) (simp_all add: j m Cons)
    ultimately show ?thesis by (simp add: j m)
  qed
qed simp

definition printMember :: "string \<times> json \<Rightarrow> string" where
  "printMember m = jsonQuote (fst m) @ '':'' @ json_print (snd m)"

lemma parseMembers_print:
  assumes "list_all (\<lambda>m. asciiStr (fst m) \<and> undone (snd m)) ms" and "ms \<noteq> []"
    and "2 * length (strings_Join (map printMember ms) '','' @ ''}'') < n"
  shows "parseMembers n (strings_Join (map printMember ms) '','' @ ''}'' @ r) = Some (ms, r)"
  using assms
proof (induction ms arbitrary: n)
  case (Cons kv ms)
  obtain m where m: "n = Suc m" using Cons.prems(3) by (cases n) auto
  obtain k v where kv: "kv = (k, v)" by fastforce
  have k: "asciiStr k" and v: "undone v" using Cons.prems(1) by (simp_all add: kv)
  show ?case
  proof (cases ms)
    case Nil
    have "parseValue m (json_print v @ CHR ''}'' # r) = Some (v, CHR ''}'' # r)"
      using Cons.prems by (intro undoneD [OF v]) (simp_all add: Nil m kv printMember_def)
    then show ?thesis by (simp add: Nil m kv printMember_def jsonQuote_Cons parseStr_escape [OF k])
  next
    case (Cons w ws)
    let ?rest = "strings_Join (map printMember ms) '','' @ ''}'' @ r"
    have j: "strings_Join (printMember kv # map printMember ms) '','' =
        jsonQuote k @ '':'' @ json_print v @ '','' @ strings_Join (map printMember ms) '',''"
      by (simp add: Cons kv) (simp add: printMember_def)
    have "parseValue m (json_print v @ CHR '','' # ?rest) = Some (v, CHR '','' # ?rest)"
      using Cons.prems by (intro undoneD [OF v]) (simp_all add: j m)
    moreover have "parseMembers m ?rest = Some (ms, r)"
      using Cons.prems by (intro Cons.IH) (simp_all add: j m Cons)
    ultimately show ?thesis by (simp add: j m jsonQuote_Cons parseStr_escape [OF k]) (simp add: kv)
  qed
qed simp

lemma fmt_int_Cons: "\<exists>c cs. fmt_int i = c # cs \<and> (isDigit c \<or> c = CHR ''-'')"
proof -
  obtain c cs where "fmt_nat 10 (nat i) = c # cs"
    by (cases "fmt_nat 10 (nat i)") (simp_all add: fmt_nat.simps [of 10 "nat i"] split: if_splits)
  then show ?thesis using fmt_nat_digits [of "nat i"] by (simp add: fmt_int_def)
qed

lemma print_first:
  assumes "jsonOk v"
  shows "\<exists>c cs. json_print v = c # cs \<and> \<not> jsonSpace c \<and> c \<noteq> CHR '']''"
proof (cases v)
  case (JNum n)
  then obtain i where "n = fmt_int i" using assms by auto
  then show ?thesis using JNum fmt_int_Cons [of i] isDigit_props by (fastforce simp: jsonSpace_def)
qed (simp_all add: jsonQuote_def)

lemma undone_num: "undone (JNum (fmt_int i))"
proof -
  obtain c cs where c: "fmt_int i = c # cs" "isDigit c \<or> c = CHR ''-''" using fmt_int_Cons by blast
  have d: "\<not> jsonSpace c \<and> c \<noteq> CHR ''{'' \<and> c \<noteq> CHR ''['' \<and> c \<noteq> quoteChar \<and> c \<noteq> CHR ''n'' \<and> c \<noteq> CHR ''t'' \<and> c \<noteq> CHR ''f''"
  proof (cases "isDigit c")
    case True
    then show ?thesis using isDigit_props [of c] by simp
  next
    case False
    then have "c = CHR ''-''" using c(2) by blast
    then show ?thesis by (simp add: jsonSpace_def)
  qed
  then have d': "CHR ''n'' \<noteq> c \<and> CHR ''t'' \<noteq> c \<and> CHR ''f'' \<noteq> c" by blast
  have "parseValue n (fmt_int i @ r) = Some (JNum (fmt_int i), r)" if "0 < n" and "numEnd r" for n r
  proof -
    obtain m where "n = Suc m" using \<open>0 < n\<close> by (cases n) auto
    then show ?thesis using d d' parseNum_int [OF that(2), of i] by (simp add: c)
  qed
  then show ?thesis by (simp add: undone_def)
qed

lemma undone_arr:
  assumes "list_all jsonOk vs" and "list_all undone vs"
  shows "undone (JArr vs)"
  unfolding undone_def
proof (intro allI impI)
  fix n r
  assume n: "2 * length (json_print (JArr vs)) < n"
  obtain m where m: "n = Suc m" using n by (cases n) auto
  show "parseValue n (json_print (JArr vs) @ r) = Some (JArr vs, r)"
  proof (cases vs)
    case (Cons v ws)
    obtain c cs where c: "json_print v = c # cs" "\<not> jsonSpace c" "c \<noteq> CHR '']''"
      using print_first [of v] assms(1) Cons by auto
    obtain t where t: "strings_Join (map json_print vs) '','' = c # t"
      using c(1) by (cases ws) (simp_all add: Cons)
    have "parseElems m (strings_Join (map json_print vs) '','' @ '']'' @ r) = Some (vs, r)"
      using n assms(2) by (intro parseElems_print) (simp_all add: m Cons)
    then show ?thesis using c by (simp add: m t)
  qed (simp add: m)
qed

lemma undone_obj:
  assumes "list_all (\<lambda>m. asciiStr (fst m) \<and> undone (snd m)) ms"
  shows "undone (JObj ms)"
  unfolding undone_def
proof (intro allI impI)
  fix n r
  assume n: "2 * length (json_print (JObj ms)) < n"
  obtain m where m: "n = Suc m" using n by (cases n) auto
  have p: "(\<lambda>(k, v). jsonQuote k @ '':'' @ json_print v) = printMember" by (auto simp: printMember_def)
  show "parseValue n (json_print (JObj ms) @ r) = Some (JObj ms, r)"
  proof (cases ms)
    case (Cons kv ws)
    obtain t where t: "strings_Join (map printMember ms) '','' = quoteChar # t"
      by (cases ws) (simp_all add: Cons printMember_def jsonQuote_def)
    have "parseMembers m (strings_Join (map printMember ms) '','' @ ''}'' @ r) = Some (ms, r)"
      using n assms by (intro parseMembers_print) (simp_all add: m Cons p [simplified])
    then show ?thesis by (simp add: m t p [simplified])
  qed (simp add: m)
qed

lemma jsonOk_undone: "jsonOk v \<Longrightarrow> undone v"
proof (induction v)
  case (JArr vs)
  then show ?case by (intro undone_arr) (auto simp: list_all_iff)
next
  case (JObj ms)
  have "undone v" if "(k, v) \<in> set ms" for k v
    using JObj.IH [of "(k, v)" v] that JObj.prems by (auto simp: list_all_iff)
  then show ?case using JObj.prems by (intro undone_obj) (auto simp: list_all_iff)
next
  case (JNum n)
  then show ?case using undone_num by auto
next
  case (JStr s)
  have "parseValue n (jsonQuote s @ r) = Some (JStr s, r)" if "0 < n" for n r
    using that JStr by (cases n) (simp_all add: jsonQuote_Cons parseStr_escape)
  then show ?case by (simp add: undone_def)
next
  case (JBool b)
  have "parseValue n ((if b then ''true'' else ''false'') @ r) = Some (JBool b, r)" if "0 < n" for n r
    using that by (cases n; cases b) simp_all
  then show ?case by (simp add: undone_def)
next
  case JNull
  have "parseValue n (''null'' @ r) = Some (JNull, r)" if "0 < n" for n r
    using that by (cases n) simp_all
  then show ?case by (simp add: undone_def)
qed

text \<open>The main lemma: reading what \<open>json_print\<close> writes gives the value back.\<close>

lemma parse_print: "jsonOk v \<Longrightarrow> json_parse (json_print v) = Inr v"
  using undoneD [OF jsonOk_undone, of v "2 * length (json_print v) + 2" "[]"]
  by (simp add: json_parse_def skipWs_def)

end
