(* ===== verification/Checkpoint.thy ===== *)
theory Checkpoint
  imports Store Naming Go_Json
begin

text \<open>
  Sandbox checkpoints (\<^verbatim>\<open>core/checkpoint.go\<close>, \<^verbatim>\<open>store/checksum.go\<close>, the parts of
  \<^verbatim>\<open>core/sandbox_helpers.go\<close> and \<^verbatim>\<open>config/types.go\<close> that build them). The text that is hashed is the
  output of the spew library, an argument \<open>spew\<close>; the hash itself is computed. Dereferencing a nil
  \<^verbatim>\<open>Data\<close> pointer panics in Go: the value \<open>nilDereference\<close> stands for that.
\<close>

definition sandboxCheckpointDir :: string where "sandboxCheckpointDir = ''sandbox''"

definition schemaVersion :: string where "schemaVersion = ''v1''"

subsection \<open>Data\<close>

record ck_port_mapping =
  ckp_Protocol :: "string option"
  ckp_ContainerPort :: "int option"
  ckp_HostPort :: "int option"
  ckp_HostIP :: string

record CheckpointData =
  cd_PortMappings :: "ck_port_mapping option list"
  cd_HostNetwork :: bool

record PodSandboxCheckpoint =
  pc_Version :: string
  pc_Name :: string
  pc_Namespace :: string
  pc_Data :: "CheckpointData option"
  pc_Checksum :: "64 word"

definition zeroPortMapping :: ck_port_mapping where
  "zeroPortMapping = \<lparr>ckp_Protocol = None, ckp_ContainerPort = None, ckp_HostPort = None, ckp_HostIP = []\<rparr>"

definition zeroCheckpointData :: CheckpointData where
  "zeroCheckpointData = \<lparr>cd_PortMappings = [], cd_HostNetwork = False\<rparr>"

definition NewPodSandboxCheckpoint :: "string \<Rightarrow> string \<Rightarrow> CheckpointData \<Rightarrow> PodSandboxCheckpoint" where
  "NewPodSandboxCheckpoint namespace name data =
     \<lparr>pc_Version = schemaVersion, pc_Name = name, pc_Namespace = namespace, pc_Data = Some data, pc_Checksum = 0\<rparr>"

definition GetData :: "PodSandboxCheckpoint \<Rightarrow> (string \<times> string \<times> string \<times> ck_port_mapping option list \<times> bool) result" where
  "GetData cp =
     (case pc_Data cp of
        None \<Rightarrow> Inl nilDereference
      | Some d \<Rightarrow> Inr (pc_Version cp, pc_Name cp, pc_Namespace cp, cd_PortMappings d, cd_HostNetwork d))"

subsection \<open>The checksum\<close>

text \<open>\<^verbatim>\<open>hash/fnv.New32a\<close>.\<close>

definition fnv32a :: "string \<Rightarrow> 32 word" where
  "fnv32a s = foldl (\<lambda>h c. xor h (word_of_nat (of_char c)) * 16777619) 2166136261 s"

definition deepHashObject :: "('d \<Rightarrow> string) \<Rightarrow> 'd \<Rightarrow> 32 word" where
  "deepHashObject spew objectToWrite = fnv32a (spew objectToWrite)"

definition getChecksum :: "('d \<Rightarrow> string) \<Rightarrow> 'd \<Rightarrow> 64 word" where
  "getChecksum spew data = ucast (deepHashObject spew data)"

definition NewChecksum :: "('d \<Rightarrow> string) \<Rightarrow> 'd \<Rightarrow> 64 word" where
  "NewChecksum spew data = getChecksum spew data"

definition Checksum_Verify :: "('d \<Rightarrow> string) \<Rightarrow> 64 word \<Rightarrow> 'd \<Rightarrow> goerror option" where
  "Checksum_Verify spew cs data = (if cs \<noteq> NewChecksum spew data then Some (Errorf ''checkpoint is corrupted'') else None)"

subsection \<open>The JSON encoding of the structs\<close>

text \<open>Fields with \<^verbatim>\<open>omitempty\<close> are left out when they are nil, empty or false.\<close>

definition encodePort :: "ck_port_mapping option \<Rightarrow> json" where
  "encodePort p = (case p of
      None \<Rightarrow> JNull
    | Some p \<Rightarrow> JObj
        ((case ckp_Protocol p of None \<Rightarrow> [] | Some x \<Rightarrow> [(''protocol'', JStr x)]) @
         (case ckp_ContainerPort p of None \<Rightarrow> [] | Some x \<Rightarrow> [(''container_port'', JNum (fmt_int x))]) @
         (case ckp_HostPort p of None \<Rightarrow> [] | Some x \<Rightarrow> [(''host_port'', JNum (fmt_int x))]) @
         (if ckp_HostIP p = [] then [] else [(''host_ip'', JStr (ckp_HostIP p))])))"

definition encodeData :: "CheckpointData \<Rightarrow> json" where
  "encodeData d = JObj
     ((if cd_PortMappings d = [] then [] else [(''port_mappings'', JArr (map encodePort (cd_PortMappings d)))]) @
      (if cd_HostNetwork d then [(''host_network'', JBool True)] else []))"

definition encodeCheckpoint :: "PodSandboxCheckpoint \<Rightarrow> json" where
  "encodeCheckpoint cp = JObj
     ([(''version'', JStr (pc_Version cp)), (''name'', JStr (pc_Name cp)), (''namespace'', JStr (pc_Namespace cp))] @
      (case pc_Data cp of None \<Rightarrow> [] | Some d \<Rightarrow> [(''data'', encodeData d)]) @
      [(''checksum'', JNum (fmt_int (uint (pc_Checksum cp))))])"

subsection \<open>Decoding\<close>

text \<open>A member is for the field of that name, or else for the one whose name differs in case only.\<close>

definition fieldOf :: "string list \<Rightarrow> string \<Rightarrow> string" where
  "fieldOf names k =
     (if k \<in> set names then k
      else (case find (\<lambda>n. strings_ToLower n = strings_ToLower k) names of Some n \<Rightarrow> n | None \<Rightarrow> []))"

fun jsonKind :: "json \<Rightarrow> string" where
  "jsonKind JNull = ''null''"
| "jsonKind (JBool b) = ''bool''"
| "jsonKind (JNum n) = ''number''"
| "jsonKind (JStr s) = ''string''"
| "jsonKind (JArr vs) = ''array''"
| "jsonKind (JObj ms) = ''object''"

definition typeError :: "json \<Rightarrow> string \<Rightarrow> goerror" where
  "typeError v t = Errorf (''json: cannot unmarshal '' @ jsonKind v @ '' into Go value of type '' @ t)"

definition decodeString :: "json \<Rightarrow> string \<Rightarrow> string result" where
  "decodeString v old = (case v of JStr s \<Rightarrow> Inr s | JNull \<Rightarrow> Inr old | _ \<Rightarrow> Inl (typeError v ''string''))"

definition decodeBool :: "json \<Rightarrow> bool \<Rightarrow> bool result" where
  "decodeBool v old = (case v of JBool b \<Rightarrow> Inr b | JNull \<Rightarrow> Inr old | _ \<Rightarrow> Inl (typeError v ''bool''))"

definition decodeStringPtr :: "json \<Rightarrow> string option result" where
  "decodeStringPtr v = (case v of JStr s \<Rightarrow> Inr (Some s) | JNull \<Rightarrow> Inr None | _ \<Rightarrow> Inl (typeError v ''string''))"

text \<open>\<^verbatim>\<open>strconv.ParseInt\<close> on a literal, within the bounds of an \<^verbatim>\<open>int32\<close>.\<close>

definition parseInt32 :: "string \<Rightarrow> int option" where
  "parseInt32 n =
     (case n of
        [] \<Rightarrow> None
      | c # cs \<Rightarrow>
          if c = CHR ''-'' then
            (case strconv_ParseUint cs 64 of Inr k \<Rightarrow> if k \<le> 2 ^ 31 then Some (- int k) else None | Inl _ \<Rightarrow> None)
          else (case strconv_ParseUint n 64 of Inr k \<Rightarrow> if k < 2 ^ 31 then Some (int k) else None | Inl _ \<Rightarrow> None))"

definition decodeInt32Ptr :: "json \<Rightarrow> int option result" where
  "decodeInt32Ptr v =
     (case v of
        JNull \<Rightarrow> Inr None
      | JNum n \<Rightarrow> (case parseInt32 n of Some i \<Rightarrow> Inr (Some i) | None \<Rightarrow> Inl (typeError v ''int32''))
      | _ \<Rightarrow> Inl (typeError v ''int32''))"

definition decodeUint64 :: "json \<Rightarrow> 64 word \<Rightarrow> 64 word result" where
  "decodeUint64 v old =
     (case v of
        JNull \<Rightarrow> Inr old
      | JNum n \<Rightarrow> (case strconv_ParseUint n 64 of Inr k \<Rightarrow> Inr (word_of_nat k) | Inl _ \<Rightarrow> Inl (typeError v ''store.Checksum''))
      | _ \<Rightarrow> Inl (typeError v ''store.Checksum''))"

text \<open>The members of an object in their order; the first error ends the decoding.\<close>

fun decodeMembers :: "(string \<Rightarrow> json \<Rightarrow> 'a \<Rightarrow> 'a result) \<Rightarrow> (string \<times> json) list \<Rightarrow> 'a \<Rightarrow> 'a result" where
  "decodeMembers f [] x = Inr x"
| "decodeMembers f ((k, v) # ms) x = (case f k v x of Inl e \<Rightarrow> Inl e | Inr x \<Rightarrow> decodeMembers f ms x)"

definition portField :: "string \<Rightarrow> json \<Rightarrow> ck_port_mapping \<Rightarrow> ck_port_mapping result" where
  "portField k v p =
     (let n = fieldOf [''protocol'', ''container_port'', ''host_port'', ''host_ip''] k in
      if n = ''protocol'' then map_sum id (\<lambda>x. p\<lparr>ckp_Protocol := x\<rparr>) (decodeStringPtr v)
      else if n = ''container_port'' then map_sum id (\<lambda>x. p\<lparr>ckp_ContainerPort := x\<rparr>) (decodeInt32Ptr v)
      else if n = ''host_port'' then map_sum id (\<lambda>x. p\<lparr>ckp_HostPort := x\<rparr>) (decodeInt32Ptr v)
      else if n = ''host_ip'' then map_sum id (\<lambda>x. p\<lparr>ckp_HostIP := x\<rparr>) (decodeString v (ckp_HostIP p))
      else Inr p)"

definition decodePort :: "json \<Rightarrow> ck_port_mapping option \<Rightarrow> ck_port_mapping option result" where
  "decodePort v old =
     (case v of
        JNull \<Rightarrow> Inr None
      | JObj ms \<Rightarrow> map_sum id Some (decodeMembers portField ms (case old of None \<Rightarrow> zeroPortMapping | Some p \<Rightarrow> p))
      | _ \<Rightarrow> Inl (typeError v ''config.PortMapping''))"

text \<open>An array is decoded into the elements that are there already, then into new ones.\<close>

fun decodePorts :: "json list \<Rightarrow> ck_port_mapping option list \<Rightarrow> ck_port_mapping option list result" where
  "decodePorts [] olds = Inr []"
| "decodePorts (v # vs) olds =
     (case decodePort v (case olds of [] \<Rightarrow> None | old # _ \<Rightarrow> old) of
        Inl e \<Rightarrow> Inl e
      | Inr p \<Rightarrow> map_sum id ((#) p) (decodePorts vs (drop 1 olds)))"

definition dataField :: "string \<Rightarrow> json \<Rightarrow> CheckpointData \<Rightarrow> CheckpointData result" where
  "dataField k v d =
     (let n = fieldOf [''port_mappings'', ''host_network''] k in
      if n = ''port_mappings'' then
        (case v of
           JArr vs \<Rightarrow> map_sum id (\<lambda>x. d\<lparr>cd_PortMappings := x\<rparr>) (decodePorts vs (cd_PortMappings d))
         | JNull \<Rightarrow> Inr (d\<lparr>cd_PortMappings := []\<rparr>)
         | _ \<Rightarrow> Inl (typeError v ''[]*config.PortMapping''))
      else if n = ''host_network'' then map_sum id (\<lambda>x. d\<lparr>cd_HostNetwork := x\<rparr>) (decodeBool v (cd_HostNetwork d))
      else Inr d)"

definition decodeData :: "json \<Rightarrow> CheckpointData option \<Rightarrow> CheckpointData option result" where
  "decodeData v old =
     (case v of
        JNull \<Rightarrow> Inr None
      | JObj ms \<Rightarrow> map_sum id Some (decodeMembers dataField ms (case old of None \<Rightarrow> zeroCheckpointData | Some d \<Rightarrow> d))
      | _ \<Rightarrow> Inl (typeError v ''core.CheckpointData''))"

definition checkpointField :: "string \<Rightarrow> json \<Rightarrow> PodSandboxCheckpoint \<Rightarrow> PodSandboxCheckpoint result" where
  "checkpointField k v cp =
     (let n = fieldOf [''version'', ''name'', ''namespace'', ''data'', ''checksum''] k in
      if n = ''version'' then map_sum id (\<lambda>x. cp\<lparr>pc_Version := x\<rparr>) (decodeString v (pc_Version cp))
      else if n = ''name'' then map_sum id (\<lambda>x. cp\<lparr>pc_Name := x\<rparr>) (decodeString v (pc_Name cp))
      else if n = ''namespace'' then map_sum id (\<lambda>x. cp\<lparr>pc_Namespace := x\<rparr>) (decodeString v (pc_Namespace cp))
      else if n = ''data'' then map_sum id (\<lambda>x. cp\<lparr>pc_Data := x\<rparr>) (decodeData v (pc_Data cp))
      else if n = ''checksum'' then map_sum id (\<lambda>x. cp\<lparr>pc_Checksum := x\<rparr>) (decodeUint64 v (pc_Checksum cp))
      else Inr cp)"

definition decodeCheckpoint :: "json \<Rightarrow> PodSandboxCheckpoint \<Rightarrow> PodSandboxCheckpoint result" where
  "decodeCheckpoint v cp =
     (case v of
        JNull \<Rightarrow> Inr cp
      | JObj ms \<Rightarrow> decodeMembers checkpointField ms cp
      | _ \<Rightarrow> Inl (typeError v ''core.PodSandboxCheckpoint''))"

subsection \<open>The methods of a checkpoint\<close>

definition MarshalCheckpoint :: "(CheckpointData \<Rightarrow> string) \<Rightarrow> PodSandboxCheckpoint \<Rightarrow> string result" where
  "MarshalCheckpoint spew cp =
     (case pc_Data cp of
        None \<Rightarrow> Inl nilDereference
      | Some d \<Rightarrow> Inr (json_print (encodeCheckpoint (cp\<lparr>pc_Checksum := NewChecksum spew d\<rparr>))))"

definition UnmarshalCheckpoint :: "string \<Rightarrow> PodSandboxCheckpoint \<Rightarrow> PodSandboxCheckpoint result" where
  "UnmarshalCheckpoint blob cp = (case json_parse blob of Inl e \<Rightarrow> Inl e | Inr v \<Rightarrow> decodeCheckpoint v cp)"

definition VerifyChecksum :: "(CheckpointData \<Rightarrow> string) \<Rightarrow> PodSandboxCheckpoint \<Rightarrow> goerror option" where
  "VerifyChecksum spew cp =
     (case pc_Data cp of None \<Rightarrow> Some nilDereference | Some d \<Rightarrow> Checksum_Verify spew (pc_Checksum cp) d)"

text \<open>The handlers read checkpoints into \<^verbatim>\<open>NewPodSandboxCheckpoint("", "", &CheckpointData{})\<close>.\<close>

definition sandboxCheckpoint :: "(CheckpointData \<Rightarrow> string) \<Rightarrow> PodSandboxCheckpoint checkpoint_iface" where
  "sandboxCheckpoint spew =
     \<lparr>ck_Marshal = MarshalCheckpoint spew,
      ck_Unmarshal = (\<lambda>blob. UnmarshalCheckpoint blob (NewPodSandboxCheckpoint [] [] zeroCheckpointData)),
      ck_VerifyChecksum = VerifyChecksum spew\<rparr>"

subsection \<open>The checkpoint of a sandbox\<close>

definition toCheckpointProtocol :: "Protocol \<Rightarrow> string" where
  "toCheckpointProtocol protocol =
     (case protocol of Protocol_TCP \<Rightarrow> ''tcp'' | Protocol_UDP \<Rightarrow> ''udp'' | Protocol_SCTP \<Rightarrow> ''sctp'' | _ \<Rightarrow> ''tcp'')"

definition constructPodSandboxCheckpoint :: "PodSandboxConfig \<Rightarrow> PodSandboxCheckpoint" where
  "constructPodSandboxCheckpoint sandboxConfig =
     NewPodSandboxCheckpoint (psm_Namespace (psc_Metadata sandboxConfig)) (psm_Name (psc_Metadata sandboxConfig))
       \<lparr>cd_PortMappings = map (\<lambda>pm. Some
            \<lparr>ckp_Protocol = Some (toCheckpointProtocol (pm_Protocol pm)), ckp_ContainerPort = Some (pm_ContainerPort pm),
             ckp_HostPort = Some (pm_HostPort pm), ckp_HostIP = pm_HostIp pm\<rparr>) (psc_PortMappings sandboxConfig),
        cd_HostNetwork = (GetNetwork (sandboxNsOptions sandboxConfig) = NS_NODE)\<rparr>"

subsection \<open>Lemmas\<close>

lemma fmt_nat_Cons: "\<exists>c cs. fmt_nat 10 n = c # cs \<and> c \<noteq> CHR ''-''"
proof -
  obtain c cs where c: "fmt_nat 10 n = c # cs" by (cases "fmt_nat 10 n") (simp_all add: fmt_nat.simps [of 10 n] split: if_splits)
  then have "isDigit c" using fmt_nat_digits [of n] by simp
  then show ?thesis using c by (auto simp: isDigit_def)
qed

lemma parseInt32_fmt: "- (2 ^ 31) \<le> i \<Longrightarrow> i < 2 ^ 31 \<Longrightarrow> parseInt32 (fmt_int i) = Some i"
proof (cases "i < 0")
  case True
  assume "- (2 ^ 31) \<le> i"
  then have "nat (- i) \<le> 2 ^ 31" by simp
  moreover have "strconv_ParseUint (fmt_nat 10 (nat (- i))) 64 = Inr (nat (- i))"
    using \<open>- (2 ^ 31) \<le> i\<close> by (intro ParseUint_Itoa) simp
  ultimately show ?thesis using True by (simp add: parseInt32_def fmt_int_def)
next
  case False
  assume "i < 2 ^ 31"
  then have "strconv_ParseUint (fmt_nat 10 (nat i)) 64 = Inr (nat i)" using False by (intro ParseUint_Itoa) simp
  moreover obtain c cs where "fmt_nat 10 (nat i) = c # cs" "c \<noteq> CHR ''-''" using fmt_nat_Cons by blast
  ultimately show ?thesis using False \<open>i < 2 ^ 31\<close> by (simp add: parseInt32_def fmt_int_def)
qed

definition portOk :: "ck_port_mapping \<Rightarrow> bool" where
  "portOk p \<longleftrightarrow> pred_option asciiStr (ckp_Protocol p) \<and> asciiStr (ckp_HostIP p) \<and>
     pred_option (\<lambda>i. - (2 ^ 31) \<le> i \<and> i < 2 ^ 31) (ckp_ContainerPort p) \<and>
     pred_option (\<lambda>i. - (2 ^ 31) \<le> i \<and> i < 2 ^ 31) (ckp_HostPort p)"

definition checkpointOk :: "PodSandboxCheckpoint \<Rightarrow> bool" where
  "checkpointOk cp \<longleftrightarrow> asciiStr (pc_Version cp) \<and> asciiStr (pc_Name cp) \<and> asciiStr (pc_Namespace cp) \<and>
     (\<exists>d. pc_Data cp = Some d \<and> list_all (pred_option portOk) (cd_PortMappings d))"

lemma asciiStr_fields:
  "asciiStr ''protocol''" "asciiStr ''container_port''" "asciiStr ''host_port''" "asciiStr ''host_ip''"
  "asciiStr ''port_mappings''" "asciiStr ''host_network''" "asciiStr ''version''" "asciiStr ''name''"
  "asciiStr ''namespace''" "asciiStr ''data''" "asciiStr ''checksum''"
  by (simp_all add: asciiStr_def)

lemma jsonOk_encodePort: "pred_option portOk p \<Longrightarrow> jsonOk (encodePort p)"
  by (cases p) (auto simp: encodePort_def portOk_def asciiStr_fields split: option.splits)

lemma jsonOk_encodeData: "list_all (pred_option portOk) (cd_PortMappings d) \<Longrightarrow> jsonOk (encodeData d)"
  by (auto simp: encodeData_def asciiStr_fields list_all_iff jsonOk_encodePort)

lemma jsonOk_encodeCheckpoint: "checkpointOk cp \<Longrightarrow> jsonOk (encodeCheckpoint cp)"
  by (auto simp: encodeCheckpoint_def checkpointOk_def asciiStr_fields jsonOk_encodeData)

lemma decodeInt32Ptr_fmt: "- (2 ^ 31) \<le> i \<Longrightarrow> i < 2 ^ 31 \<Longrightarrow> decodeInt32Ptr (JNum (fmt_int i)) = Inr (Some i)"
  by (simp add: decodeInt32Ptr_def parseInt32_fmt)

lemma portField_simps:
  "portField ''protocol'' v p = map_sum id (\<lambda>x. p\<lparr>ckp_Protocol := x\<rparr>) (decodeStringPtr v)"
  "portField ''container_port'' v p = map_sum id (\<lambda>x. p\<lparr>ckp_ContainerPort := x\<rparr>) (decodeInt32Ptr v)"
  "portField ''host_port'' v p = map_sum id (\<lambda>x. p\<lparr>ckp_HostPort := x\<rparr>) (decodeInt32Ptr v)"
  "portField ''host_ip'' v p = map_sum id (\<lambda>x. p\<lparr>ckp_HostIP := x\<rparr>) (decodeString v (ckp_HostIP p))"
  by (simp_all add: portField_def fieldOf_def)

lemma decode_encodePort: "pred_option portOk p \<Longrightarrow> decodePort (encodePort p) None = Inr p"
proof (cases p)
  case (Some q)
  assume "pred_option portOk p"
  then have q: "portOk q" by (simp add: Some)
  obtain pr cport hport ip where f: "q = \<lparr>ckp_Protocol = pr, ckp_ContainerPort = cport, ckp_HostPort = hport, ckp_HostIP = ip\<rparr>"
    by (cases q) simp
  show ?thesis using q
    by (cases pr; cases cport; cases hport; cases "ip = []")
      (simp_all add: Some f portOk_def encodePort_def decodePort_def zeroPortMapping_def portField_simps
        decodeStringPtr_def decodeString_def decodeInt32Ptr_fmt)
qed (simp add: encodePort_def decodePort_def)

lemma decode_encodePorts: "list_all (pred_option portOk) ps \<Longrightarrow> decodePorts (map encodePort ps) [] = Inr ps"
  by (induction ps) (simp_all add: decode_encodePort)

lemma decode_encodeData:
  assumes "list_all (pred_option portOk) (cd_PortMappings d)"
  shows "decodeData (encodeData d) (Some zeroCheckpointData) = Inr (Some d)"
proof -
  obtain ps hn where d: "d = \<lparr>cd_PortMappings = ps, cd_HostNetwork = hn\<rparr>" by (cases d) simp
  have f: "dataField ''port_mappings'' (JArr vs) x = map_sum id (\<lambda>y. x\<lparr>cd_PortMappings := y\<rparr>) (decodePorts vs (cd_PortMappings x))"
    "dataField ''host_network'' v x = map_sum id (\<lambda>y. x\<lparr>cd_HostNetwork := y\<rparr>) (decodeBool v (cd_HostNetwork x))" for vs v x
    by (simp_all add: dataField_def fieldOf_def)
  show ?thesis using assms
    by (cases "ps = []"; cases hn)
      (simp_all add: d encodeData_def decodeData_def zeroCheckpointData_def f decode_encodePorts decodeBool_def)
qed

lemma decodeUint64_fmt: "decodeUint64 (JNum (fmt_int (uint w))) old = Inr w"
proof -
  have "unat w < 2 ^ LENGTH(64)" by (rule unsigned_less)
  then have "strconv_ParseUint (fmt_nat 10 (unat w)) 64 = Inr (unat w)" by (intro ParseUint_Itoa) simp
  then show ?thesis by (simp add: decodeUint64_def fmt_int_def)
qed

lemma decode_encodeCheckpoint:
  assumes "checkpointOk cp"
  shows "decodeCheckpoint (encodeCheckpoint cp) (NewPodSandboxCheckpoint [] [] zeroCheckpointData) = Inr cp"
proof -
  obtain d where d: "pc_Data cp = Some d" "list_all (pred_option portOk) (cd_PortMappings d)"
    using assms by (auto simp: checkpointOk_def)
  have f: "checkpointField ''version'' v x = map_sum id (\<lambda>y. x\<lparr>pc_Version := y\<rparr>) (decodeString v (pc_Version x))"
    "checkpointField ''name'' v x = map_sum id (\<lambda>y. x\<lparr>pc_Name := y\<rparr>) (decodeString v (pc_Name x))"
    "checkpointField ''namespace'' v x = map_sum id (\<lambda>y. x\<lparr>pc_Namespace := y\<rparr>) (decodeString v (pc_Namespace x))"
    "checkpointField ''data'' v x = map_sum id (\<lambda>y. x\<lparr>pc_Data := y\<rparr>) (decodeData v (pc_Data x))"
    "checkpointField ''checksum'' v x = map_sum id (\<lambda>y. x\<lparr>pc_Checksum := y\<rparr>) (decodeUint64 v (pc_Checksum x))" for v x
    by (simp_all add: checkpointField_def fieldOf_def)
  show ?thesis
    by (simp add: encodeCheckpoint_def decodeCheckpoint_def d(1) f decodeString_def NewPodSandboxCheckpoint_def
        decode_encodeData [OF d(2)] decodeUint64_fmt)
qed

lemma Marshal_Unmarshal:
  assumes "checkpointOk cp" and "MarshalCheckpoint spew cp = Inr blob" and "pc_Data cp = Some d"
  shows "ck_Unmarshal (sandboxCheckpoint spew) blob = Inr (cp\<lparr>pc_Checksum := NewChecksum spew d\<rparr>)"
proof -
  let ?cp = "cp\<lparr>pc_Checksum := NewChecksum spew d\<rparr>"
  have ok: "checkpointOk ?cp" using assms(1) by (simp add: checkpointOk_def)
  have "blob = json_print (encodeCheckpoint ?cp)" using assms(2,3) by (simp add: MarshalCheckpoint_def)
  then show ?thesis
    by (simp add: sandboxCheckpoint_def UnmarshalCheckpoint_def parse_print [OF jsonOk_encodeCheckpoint [OF ok]]
        decode_encodeCheckpoint [OF ok])
qed

text \<open>What a sandbox configuration must meet for its checkpoint to be kept exactly.\<close>

definition sandboxConfigOk :: "PodSandboxConfig \<Rightarrow> bool" where
  "sandboxConfigOk c \<longleftrightarrow> asciiStr (psm_Name (psc_Metadata c)) \<and> asciiStr (psm_Namespace (psc_Metadata c)) \<and>
     list_all (\<lambda>pm. asciiStr (pm_HostIp pm) \<and> - (2 ^ 31) \<le> pm_ContainerPort pm \<and> pm_ContainerPort pm < 2 ^ 31 \<and>
       - (2 ^ 31) \<le> pm_HostPort pm \<and> pm_HostPort pm < 2 ^ 31) (psc_PortMappings c)"

lemma asciiStr_protocol: "asciiStr (toCheckpointProtocol p)"
  by (cases p) (simp_all add: toCheckpointProtocol_def asciiStr_def)

lemma construct_ok: "sandboxConfigOk c \<Longrightarrow> checkpointOk (constructPodSandboxCheckpoint c)"
  by (auto simp: sandboxConfigOk_def checkpointOk_def constructPodSandboxCheckpoint_def NewPodSandboxCheckpoint_def
      list_all_iff portOk_def asciiStr_protocol schemaVersion_def) (simp add: asciiStr_def)

text \<open>Every error of the decoder is a fresh value, never one of the sentinels.\<close>

definition plainError :: "goerror \<Rightarrow> bool" where
  "plainError e \<longleftrightarrow> (\<forall>n. e \<noteq> Sentinel n)"

lemma plainError_simps [simp]: "plainError (Errorf m)" "plainError (typeError v t)" "plainError nilDereference" "plainError (NotExist m)"
  by (simp_all add: plainError_def typeError_def nilDereference_def)

lemma map_sum_Inl [simp]: "map_sum id f r = Inl e \<longleftrightarrow> r = Inl e"
  by (cases r) auto

lemma decodeMembers_plain:
  assumes "\<And>k v x e. f k v x = Inl e \<Longrightarrow> plainError e"
  shows "decodeMembers f ms x = Inl e \<Longrightarrow> plainError e"
  by (induction ms arbitrary: x) (auto split: sum.splits dest: assms)

lemma decode_plain:
  "decodeString v a = Inl e \<Longrightarrow> plainError e" "decodeBool v b = Inl e \<Longrightarrow> plainError e" "decodeStringPtr v = Inl e \<Longrightarrow> plainError e"
  "decodeInt32Ptr v = Inl e \<Longrightarrow> plainError e" "decodeUint64 v w = Inl e \<Longrightarrow> plainError e"
  by (auto simp: decodeString_def decodeBool_def decodeStringPtr_def decodeInt32Ptr_def decodeUint64_def
      split: json.splits option.splits sum.splits)

lemma decodePort_plain: "decodePort v old = Inl e \<Longrightarrow> plainError e"
  by (auto simp: decodePort_def portField_def Let_def split: json.splits if_splits dest!: decodeMembers_plain [rotated] decode_plain)

lemma decodePorts_plain: "decodePorts vs olds = Inl e \<Longrightarrow> plainError e"
  by (induction vs olds rule: decodePorts.induct) (auto split: sum.splits dest: decodePort_plain)

lemma decodeData_plain: "decodeData v old = Inl e \<Longrightarrow> plainError e"
  by (auto simp: decodeData_def dataField_def Let_def split: json.splits if_splits
      dest!: decodeMembers_plain [rotated] decode_plain decodePorts_plain)

lemma UnmarshalCheckpoint_plain: "UnmarshalCheckpoint blob cp = Inl e \<Longrightarrow> plainError e"
  by (auto simp: UnmarshalCheckpoint_def json_parse_def decodeCheckpoint_def checkpointField_def Let_def
      split: json.splits if_splits sum.splits option.splits dest!: decodeMembers_plain [rotated] decode_plain decodeData_plain)

subsection \<open>Properties\<close>

text \<open>C7. The checkpoint of a sandbox survives the store: after \<^verbatim>\<open>CreateCheckpoint\<close> has succeeded on the
  file store, \<^verbatim>\<open>GetCheckpoint\<close> reads back a checkpoint with the pod's name, namespace, port mappings
  and host network flag, and its checksum is accepted. This covers the JSON text, its parser, the
  decoder and the atomic file write together, for every printer of the hashed text.\<close>

theorem sandbox_checkpoint_persisted:
  assumes "CreateCheckpoint (sandboxCheckpoint spew) (FileStore (absPath checkpointDir)) k
      (constructPodSandboxCheckpoint c) fs = (None, fs')"
    and "storeHealthy checkpointDir fs" and "sandboxConfigOk c"
  shows "\<exists>cp. fst (GetCheckpoint (sandboxCheckpoint spew) (FileStore (absPath checkpointDir)) k fs') = Inr cp \<and>
     GetData cp = Inr (''v1'', psm_Name (psc_Metadata c), psm_Namespace (psc_Metadata c),
       map (\<lambda>pm. Some \<lparr>ckp_Protocol = Some (toCheckpointProtocol (pm_Protocol pm)), ckp_ContainerPort = Some (pm_ContainerPort pm),
          ckp_HostPort = Some (pm_HostPort pm), ckp_HostIP = pm_HostIp pm\<rparr>) (psc_PortMappings c),
       GetNetwork (sandboxNsOptions c) = NS_NODE)"
proof -
  let ?cp = "constructPodSandboxCheckpoint c"
  obtain d where d: "pc_Data ?cp = Some d" by (simp add: constructPodSandboxCheckpoint_def NewPodSandboxCheckpoint_def)
  let ?cp' = "?cp\<lparr>pc_Checksum := NewChecksum spew d\<rparr>"
  have v: "ck_VerifyChecksum (sandboxCheckpoint spew) ?cp' = None"
    by (simp add: sandboxCheckpoint_def VerifyChecksum_def d Checksum_Verify_def)
  have "fst (GetCheckpoint (sandboxCheckpoint spew) (FileStore (absPath checkpointDir)) k fs') = Inr ?cp'"
  proof (rule fstore.create_get [OF assms(1,2) _ v])
    fix b
    assume "ck_Marshal (sandboxCheckpoint spew) ?cp = Inr b"
    then have "MarshalCheckpoint spew ?cp = Inr b" by (simp add: sandboxCheckpoint_def)
    then show "ck_Unmarshal (sandboxCheckpoint spew) b = Inr ?cp'"
      using construct_ok [OF assms(3)] d by (intro Marshal_Unmarshal)
  qed
  then show ?thesis
    by (auto simp: GetData_def constructPodSandboxCheckpoint_def NewPodSandboxCheckpoint_def schemaVersion_def)
qed

definition examplePodConfig :: PodSandboxConfig where
  "examplePodConfig = exampleSandboxConfig\<lparr>psc_PortMappings :=
     [\<lparr>pm_Protocol = Protocol_UDP, pm_ContainerPort = 53, pm_HostPort = 5353, pm_HostIp = ''10.0.0.1''\<rparr>]\<rparr>"

lemma exampleFs_write: "fst (FileStore_Write (absPath checkpointDir) ''ab12'' d exampleFs) = None"
  by code_simp

theorem sandbox_checkpoint_persisted_witness:
  "\<exists>cp. fst (GetCheckpoint (sandboxCheckpoint (\<lambda>d. ''data'')) (FileStore (absPath checkpointDir)) ''ab12''
       (snd (CreateCheckpoint (sandboxCheckpoint (\<lambda>d. ''data'')) (FileStore (absPath checkpointDir)) ''ab12''
          (constructPodSandboxCheckpoint examplePodConfig) exampleFs))) = Inr cp \<and> pc_Name cp = psm_Name (psc_Metadata examplePodConfig)"
proof -
  let ?c = "CreateCheckpoint (sandboxCheckpoint (\<lambda>d. ''data'')) (FileStore (absPath checkpointDir)) ''ab12''
     (constructPodSandboxCheckpoint examplePodConfig) exampleFs"
  have "fst ?c = None" using exampleFs_write
    by (simp add: CreateCheckpoint_def sandboxCheckpoint_def MarshalCheckpoint_def constructPodSandboxCheckpoint_def
        NewPodSandboxCheckpoint_def)
  then have c: "?c = (None, snd ?c)" by (metis prod.collapse)
  have "sandboxConfigOk examplePodConfig" by code_simp
  moreover have "storeHealthy checkpointDir exampleFs"
    by (auto simp: storeHealthy_def exampleFs_def checkpointDir_def absPath_def)
  ultimately show ?thesis using sandbox_checkpoint_persisted [OF c] by (auto simp: GetData_def split: option.splits)
qed

end
