(* ===== verification/Go_Time.thy ===== *)
theory Go_Time
  imports Go_Errors
begin

text \<open>
  Times of package \<^verbatim>\<open>time\<close>, as nanoseconds since the Unix epoch, in UTC: the text format
  \<^verbatim>\<open>RFC3339Nano\<close> in which the daemon reports them, its parser, and \<^verbatim>\<open>UnixNano\<close>, which wraps around
  when the value does not fit 64 bits. The zero time is the first instant of the year 1.
\<close>

definition zeroTime :: int where "zeroTime = - 62135596800 * 10 ^ 9"

definition IsZero :: "int \<Rightarrow> bool" where "IsZero t \<longleftrightarrow> t = zeroTime"

text \<open>Arithmetic on \<^verbatim>\<open>int64\<close> wraps around.\<close>

definition wrap64 :: "int \<Rightarrow> int" where "wrap64 i = sint (word_of_int i :: 64 word)"

definition UnixNano :: "int \<Rightarrow> int" where "UnixNano t = wrap64 t"

definition Unix :: "int \<Rightarrow> int" where "Unix t = t div 10 ^ 9"

definition timeSecond :: int where "timeSecond = 10 ^ 9"

subsection \<open>Civil dates\<close>

definition daysFromCivil :: "int \<Rightarrow> int \<Rightarrow> int \<Rightarrow> int" where
  "daysFromCivil y m d =
     (let y = (if m \<le> 2 then y - 1 else y); era = y div 400; yoe = y - era * 400;
          doy = (153 * (if m > 2 then m - 3 else m + 9) + 2) div 5 + d - 1;
          doe = yoe * 365 + yoe div 4 - yoe div 100 + doy
      in era * 146097 + doe - 719468)"

definition civilFromDays :: "int \<Rightarrow> int \<times> int \<times> int" where
  "civilFromDays z =
     (let z = z + 719468; era = z div 146097; doe = z - era * 146097;
          yoe = (doe - doe div 1460 + doe div 36524 - doe div 146096) div 365;
          doy = doe - (365 * yoe + yoe div 4 - yoe div 100); mp = (5 * doy + 2) div 153;
          m = (if mp < 10 then mp + 3 else mp - 9); y = yoe + era * 400
      in (if m \<le> 2 then y + 1 else y, m, doy - (153 * mp + 2) div 5 + 1))"

definition daysInMonth :: "int \<Rightarrow> int \<Rightarrow> int" where
  "daysInMonth y m =
     (if m = 2 then (if y mod 4 = 0 \<and> (y mod 100 \<noteq> 0 \<or> y mod 400 = 0) then 29 else 28)
      else if m \<in> {4, 6, 9, 11} then 30 else 31)"

subsection \<open>Format\<close>

definition padInt :: "nat \<Rightarrow> int \<Rightarrow> string" where
  "padInt w i = (let s = fmt_nat 10 (nat i) in replicate (w - length s) (CHR ''0'') @ s)"

definition trimZeros :: "string \<Rightarrow> string" where
  "trimZeros s = rev (dropWhile (\<lambda>c. c = CHR ''0'') (rev s))"

definition formatRFC3339Nano :: "int \<Rightarrow> string" where
  "formatRFC3339Nano t =
     (let sec = t div 10 ^ 9; nano = t mod 10 ^ 9; day = sec div 86400; sod = sec mod 86400 in
      case civilFromDays day of (y, m, d) \<Rightarrow>
        padInt 4 y @ ''-'' @ padInt 2 m @ ''-'' @ padInt 2 d @ ''T'' @ padInt 2 (sod div 3600) @ '':'' @
        padInt 2 (sod div 60 mod 60) @ '':'' @ padInt 2 (sod mod 60) @
        (if nano = 0 then [] else ''.'' @ trimZeros (padInt 9 nano)) @ ''Z'')"

subsection \<open>Parse\<close>

text \<open>A fixed number of digits, within bounds; a literal byte.\<close>

definition parseFixed :: "nat \<Rightarrow> int \<Rightarrow> int \<Rightarrow> string \<Rightarrow> (int \<times> string) option" where
  "parseFixed w lo hi s =
     (let ds = take w s in
      if length ds = w \<and> list_all isDigit ds then
        (let v = int (foldl (\<lambda>n c. 10 * n + digitVal c) 0 ds) in
         if lo \<le> v \<and> v \<le> hi then Some (v, drop w s) else None)
      else None)"

definition parseByte :: "char \<Rightarrow> string \<Rightarrow> string option" where
  "parseByte c s = (case s of [] \<Rightarrow> None | d # r \<Rightarrow> if d = c then Some r else None)"

definition parseFraction :: "string \<Rightarrow> (int \<times> string) option" where
  "parseFraction s =
     (case s of
        c # r \<Rightarrow>
          if c = CHR ''.'' \<or> c = CHR '','' then
            (let ds = takeWhile isDigit r in
             if ds = [] then None
             else Some (int (foldl (\<lambda>n c. 10 * n + digitVal c) 0 (take 9 (ds @ replicate 9 (CHR ''0'')))), dropWhile isDigit r))
          else Some (0, s)
      | [] \<Rightarrow> Some (0, []))"

text \<open>The offset of the zone in seconds.\<close>

definition parseZone :: "string \<Rightarrow> int option" where
  "parseZone s =
     (if s = ''Z'' then Some 0
      else case s of
        c # r \<Rightarrow>
          if c = CHR ''+'' \<or> c = CHR ''-'' then
            Option.bind (parseFixed 2 0 23 r) (\<lambda>(h, r).
              Option.bind (parseByte (CHR '':'') r) (\<lambda>r.
                Option.bind (parseFixed 2 0 59 r) (\<lambda>(m, r).
                  if r = [] then Some ((if c = CHR ''-'' then - 1 else 1) * (3600 * h + 60 * m)) else None)))
          else None
      | [] \<Rightarrow> None)"

definition parseRFC3339Nano :: "string \<Rightarrow> int option" where
  "parseRFC3339Nano s =
     Option.bind (parseFixed 4 0 9999 s) (\<lambda>(y, s). Option.bind (parseByte (CHR ''-'') s) (\<lambda>s.
     Option.bind (parseFixed 2 1 12 s) (\<lambda>(mo, s). Option.bind (parseByte (CHR ''-'') s) (\<lambda>s.
     Option.bind (parseFixed 2 1 (daysInMonth y mo) s) (\<lambda>(d, s). Option.bind (parseByte (CHR ''T'') s) (\<lambda>s.
     Option.bind (parseFixed 2 0 23 s) (\<lambda>(h, s). Option.bind (parseByte (CHR '':'') s) (\<lambda>s.
     Option.bind (parseFixed 2 0 59 s) (\<lambda>(mi, s). Option.bind (parseByte (CHR '':'') s) (\<lambda>s.
     Option.bind (parseFixed 2 0 59 s) (\<lambda>(sec, s).
     Option.bind (parseFraction s) (\<lambda>(nano, s).
     Option.bind (parseZone s) (\<lambda>off.
       Some ((daysFromCivil y mo d * 86400 + h * 3600 + mi * 60 + sec - off) * 10 ^ 9 + nano))))))))))))))"

text \<open>\<^verbatim>\<open>libdocker.ParseDockerTimestamp\<close>.\<close>

definition ParseDockerTimestamp :: "string \<Rightarrow> int result" where
  "ParseDockerTimestamp s =
     (case parseRFC3339Nano s of
        Some t \<Rightarrow> Inr t
      | None \<Rightarrow> Inl (Errorf (''parsing time '' @ fmt_q s @ '' as a timestamp failed'')))"

definition dockerTimestampToString :: "int \<Rightarrow> string" where
  "dockerTimestampToString t = formatRFC3339Nano t"

lemmas time_defs = parseRFC3339Nano_def parseFixed_def parseByte_def parseFraction_def parseZone_def daysInMonth_def
  daysFromCivil_def isDigit_def digitVal_def

lemma zeroTime_text: "parseRFC3339Nano ''0001-01-01T00:00:00Z'' = Some zeroTime"
  by (simp add: time_defs zeroTime_def)

end
