(* ===== verification/Fake_Docker.thy ===== *)
theory Fake_Docker
  imports Libdocker Go_Time Go_Json
begin

text \<open>
  The in-memory Docker client of \<^verbatim>\<open>libdocker/fake_client.go\<close>. It is the implementation of the client
  interface that the repository's own tests run the handlers against, and the concrete daemon on
  which this development interprets the contract of that interface. The clock and the random
  generator are the streams of their readings; the sleeps are left out. A container in the map is
  a pointer that later calls change; no caller holds one across calls, so the map holds values.
\<close>

record fake_docker =
  fk_Clock :: "nat \<Rightarrow> int"
  fk_ticks :: nat
  fk_RunningContainerList :: "DockerContainer list"
  fk_ExitedContainerList :: "DockerContainer list"
  fk_ContainerMap :: "(string \<times> ContainerJSON) list"
  fk_ImageInspects :: "(string \<times> ImageInspect) list"
  fk_Images :: "ImageSummary list"
  fk_ImageIDsNeedingAuth :: "(string \<times> AuthConfig) list"
  fk_Errors :: "(string \<times> goerror option) list"
  fk_called :: "(string \<times> string list) list"
  fk_pulled :: "string list"
  fk_EnableTrace :: bool
  fk_RandGenerator :: "nat \<Rightarrow> 32 word"
  fk_draws :: nat
  fk_pid :: int
  fk_Created :: "string list"
  fk_Started :: "string list"
  fk_Stopped :: "string list"
  fk_Removed :: "string list"
  fk_ImagesPulled :: "string list"
  fk_VersionInfo :: DockerVersion
  fk_Information :: DockerInfo
  fk_ExecInspect :: ExecInspect
  fk_execCmd :: "string list"
  fk_ImageHistoryMap :: "(string \<times> HistoryItem list) list"
  fk_ContainerStatsMap :: "(string \<times> StatsResponse) list"

definition fakeDockerVersion :: string where "fakeDockerVersion = ''23.0.0''"

definition fakeImageSize :: int where "fakeImageSize = 1024"

definition dockerNamePrefix :: string where "dockerNamePrefix = ''/''"

text \<open>\<open>clk\<close>, \<open>rnd\<close> and \<open>pid\<close> are the readings of the clock, of the generator, and of \<^verbatim>\<open>os.Getpid\<close>.\<close>

definition NewFakeDockerClient :: "(nat \<Rightarrow> int) \<Rightarrow> (nat \<Rightarrow> 32 word) \<Rightarrow> int \<Rightarrow> fake_docker" where
  "NewFakeDockerClient clk rnd pid =
     \<lparr>fk_Clock = clk, fk_ticks = 0, fk_RunningContainerList = [], fk_ExitedContainerList = [], fk_ContainerMap = [],
      fk_ImageInspects = [], fk_Images = [], fk_ImageIDsNeedingAuth = [], fk_Errors = [], fk_called = [], fk_pulled = [],
      fk_EnableTrace = True, fk_RandGenerator = rnd, fk_draws = 0, fk_pid = pid, fk_Created = [], fk_Started = [],
      fk_Stopped = [], fk_Removed = [], fk_ImagesPulled = [],
      fk_VersionInfo = \<lparr>dv_Version = fakeDockerVersion, dv_APIVersion = ''1.42''\<rparr>,
      fk_Information = \<lparr>di_Runtimes = [(''runc'', None)], di_DefaultRuntime = [], di_LoggingDriver = [],
        di_CgroupDriver = [], di_DockerRootDir = []\<rparr>,
      fk_ExecInspect = \<lparr>ei_Running = False, ei_ExitCode = 0\<rparr>, fk_execCmd = [], fk_ImageHistoryMap = [],
      fk_ContainerStatsMap = []\<rparr>"

subsection \<open>Trace, injected errors, clock\<close>

definition appendCalled :: "string \<Rightarrow> string list \<Rightarrow> fake_docker \<Rightarrow> fake_docker" where
  "appendCalled name args f = (if fk_EnableTrace f then f\<lparr>fk_called := fk_called f @ [(name, args)]\<rparr> else f)"

definition appendPulled :: "string \<Rightarrow> fake_docker \<Rightarrow> fake_docker" where
  "appendPulled pull f = (if fk_EnableTrace f then f\<lparr>fk_pulled := fk_pulled f @ [pull]\<rparr> else f)"

definition appendContainerTrace :: "string \<Rightarrow> string \<Rightarrow> fake_docker \<Rightarrow> fake_docker" where
  "appendContainerTrace traceCategory containerName f =
     (if \<not> fk_EnableTrace f then f
      else if traceCategory = ''Created'' then f\<lparr>fk_Created := fk_Created f @ [containerName]\<rparr>
      else if traceCategory = ''Started'' then f\<lparr>fk_Started := fk_Started f @ [containerName]\<rparr>
      else if traceCategory = ''Stopped'' then f\<lparr>fk_Stopped := fk_Stopped f @ [containerName]\<rparr>
      else if traceCategory = ''Removed'' then f\<lparr>fk_Removed := fk_Removed f @ [containerName]\<rparr>
      else f)"

definition InjectError :: "string \<Rightarrow> goerror option \<Rightarrow> fake_docker \<Rightarrow> fake_docker" where
  "InjectError fn err f = f\<lparr>fk_Errors := mapSet (fk_Errors f) fn err\<rparr>"

definition InjectErrors :: "(string \<times> goerror option) list \<Rightarrow> fake_docker \<Rightarrow> fake_docker" where
  "InjectErrors errs f = f\<lparr>fk_Errors := foldl (\<lambda>m (fn, err). mapSet m fn err) (fk_Errors f) errs\<rparr>"

definition ClearErrors :: "fake_docker \<Rightarrow> fake_docker" where
  "ClearErrors f = f\<lparr>fk_Errors := []\<rparr>"

definition ClearCalls :: "fake_docker \<Rightarrow> fake_docker" where
  "ClearCalls f = f\<lparr>fk_called := [], fk_pulled := [], fk_Created := [], fk_Started := [], fk_Stopped := [], fk_Removed := []\<rparr>"

definition getCalledNames :: "fake_docker \<Rightarrow> string list" where
  "getCalledNames f = map fst (fk_called f)"

definition AssertCalls :: "string list \<Rightarrow> fake_docker \<Rightarrow> bool" where
  "AssertCalls calls f \<longleftrightarrow> calls = getCalledNames f"

definition popError :: "string \<Rightarrow> fake_docker \<Rightarrow> goerror option \<times> fake_docker" where
  "popError op f =
     (case map_of (fk_Errors f) op of
        Some err \<Rightarrow> (err, f\<lparr>fk_Errors := AList.delete op (fk_Errors f)\<rparr>)
      | None \<Rightarrow> (None, f))"

definition fakeNow :: "fake_docker \<Rightarrow> int \<times> fake_docker" where
  "fakeNow f = (fk_Clock f (fk_ticks f), f\<lparr>fk_ticks := Suc (fk_ticks f)\<rparr>)"

definition fakeRand :: "fake_docker \<Rightarrow> 32 word \<times> fake_docker" where
  "fakeRand f = (fk_RandGenerator f (fk_draws f), f\<lparr>fk_draws := Suc (fk_draws f)\<rparr>)"

subsection \<open>Containers\<close>

record FakeContainer =
  fc_ID :: string
  fc_Name :: string
  fc_Running :: bool
  fc_ExitCode :: int
  fc_Pid :: int
  fc_CreatedAt :: int
  fc_StartedAt :: int
  fc_FinishedAt :: int
  fc_Config :: "DockerConfig option"
  fc_HostConfig :: "HostConfig option"

definition zeroFakeContainer :: FakeContainer where
  "zeroFakeContainer = \<lparr>fc_ID = [], fc_Name = [], fc_Running = False, fc_ExitCode = 0, fc_Pid = 0, fc_CreatedAt = zeroTime,
     fc_StartedAt = zeroTime, fc_FinishedAt = zeroTime, fc_Config = None, fc_HostConfig = None\<rparr>"

definition convertFakeContainer :: "FakeContainer \<Rightarrow> ContainerJSON" where
  "convertFakeContainer f =
     (let config = (case fc_Config f of None \<Rightarrow> zeroConfig | Some c \<Rightarrow> c);
          hostConfig = (case fc_HostConfig f of None \<Rightarrow> zeroHostConfig | Some h \<Rightarrow> h)
      in \<lparr>cj_ID = fc_ID f, cj_Name = fc_Name f, cj_Image = dc_Image config,
          cj_Created = dockerTimestampToString (fc_CreatedAt f),
          cj_State = \<lparr>ds_Running = fc_Running f, ds_Pid = fc_Pid f, ds_ExitCode = fc_ExitCode f, ds_OOMKilled = False,
            ds_Error = [], ds_StartedAt = dockerTimestampToString (fc_StartedAt f),
            ds_FinishedAt = dockerTimestampToString (fc_FinishedAt f)\<rparr>,
          cj_ResolvConfPath = [], cj_LogPath = [], cj_HostConfig = hostConfig, cj_Config = config, cj_Mounts = [],
          cj_NetworkSettings = Some \<lparr>nst_IPAddress = [], nst_GlobalIPv6Address = []\<rparr>, cj_SizeRw = Some 40\<rparr>)"

definition zeroDockerContainer :: DockerContainer where
  "zeroDockerContainer = \<lparr>dct_ID = [], dct_Names = [], dct_Image = [], dct_ImageID = [], dct_Created = 0,
     dct_Labels = [], dct_State = [], dct_Status = []\<rparr>"

fun setFakeLoop :: "FakeContainer list \<Rightarrow> fake_docker \<Rightarrow> fake_docker" where
  "setFakeLoop [] f = f"
| "setFakeLoop (c # cs) f =
     (let f = f\<lparr>fk_ContainerMap := mapSet (fk_ContainerMap f) (fc_ID c) (convertFakeContainer c)\<rparr>;
          container = zeroDockerContainer\<lparr>dct_Names := [fc_Name c], dct_ID := fc_ID c,
            dct_Labels := (case fc_Config c of None \<Rightarrow> [] | Some cfg \<Rightarrow> dc_Labels cfg)\<rparr>
      in setFakeLoop cs
           (if fc_Running c then f\<lparr>fk_RunningContainerList := fk_RunningContainerList f @ [container]\<rparr>
            else f\<lparr>fk_ExitedContainerList := fk_ExitedContainerList f @ [container]\<rparr>))"

definition SetFakeContainers :: "FakeContainer list \<Rightarrow> fake_docker \<Rightarrow> fake_docker" where
  "SetFakeContainers containers f =
     setFakeLoop containers (f\<lparr>fk_ContainerMap := [], fk_RunningContainerList := [], fk_ExitedContainerList := []\<rparr>)"

text \<open>\<^verbatim>\<open>filters.Args.Get\<close>: the values given for a key, as a set.\<close>

definition filtersGet :: "(string \<times> string) list \<Rightarrow> string \<Rightarrow> string list" where
  "filtersGet fs key = remdups (map snd (filter (\<lambda>kv. fst kv = key) fs))"

definition fakeContainerStatus :: "string \<Rightarrow> string" where
  "fakeContainerStatus state =
     (if strings_HasPrefix state StatusCreatedPrefix then ''created''
      else if strings_HasPrefix state StatusRunningPrefix then ''running''
      else if strings_HasPrefix state StatusExitedPrefix then ''exited''
      else ''unknown'')"

text \<open>Whether a container matches the label filters, in their order; a filter without exactly one \<^verbatim>\<open>=\<close> is an error.\<close>

fun labelMatch :: "gomap \<Rightarrow> string list \<Rightarrow> bool result" where
  "labelMatch labels [] = Inr True"
| "labelMatch labels (labelFilter # rest) =
     (let kv = strings_Split labelFilter (CHR ''='') in
      if length kv \<noteq> 2 then Inl (Errorf (''invalid label filter '' @ fmt_q labelFilter))
      else if mapGet labels (kv ! 0) \<noteq> kv ! 1 then Inr False
      else labelMatch labels rest)"

fun labelFilterLoop :: "string list \<Rightarrow> DockerContainer list \<Rightarrow> DockerContainer list result" where
  "labelFilterLoop labelFilters [] = Inr []"
| "labelFilterLoop labelFilters (c # cs) =
     (case labelMatch (dct_Labels c) labelFilters of
        Inl err \<Rightarrow> Inl err
      | Inr match \<Rightarrow> map_sum id (\<lambda>r. if match then c # r else r) (labelFilterLoop labelFilters cs))"

definition Fake_ListContainers ::
    "ListOptions \<Rightarrow> fake_docker \<Rightarrow> (DockerContainer list \<times> goerror option) \<times> fake_docker" where
  "Fake_ListContainers options f =
     (case popError ''list'' (appendCalled ''list'' [] f) of (err, f) \<Rightarrow>
      (let containerList = fk_RunningContainerList f @ (if lo_All options then fk_ExitedContainerList f else []);
           idFilters = filtersGet (lo_Filters options) ''id'';
           containerList = (if length idFilters \<noteq> 0 then filter (\<lambda>c. dct_ID c \<in> set idFilters) containerList else containerList);
           statusFilters = filtersGet (lo_Filters options) ''status'';
           containerList = (if length statusFilters = 1
             then filter (\<lambda>c. fakeContainerStatus (dct_Status c) \<in> set statusFilters) containerList else containerList);
           labelFilters = filtersGet (lo_Filters options) ''label''
       in if length labelFilters \<noteq> 0 then
            (case labelFilterLoop labelFilters containerList of
               Inl e \<Rightarrow> (([], Some e), f)
             | Inr filtered \<Rightarrow> ((filtered, err), f))
          else ((containerList, err), f)))"

definition Fake_InspectContainer :: "string \<Rightarrow> fake_docker \<Rightarrow> ContainerJSON result \<times> fake_docker" where
  "Fake_InspectContainer i f =
     (case popError ''inspect_container'' (appendCalled ''inspect_container'' [] f) of (err, f) \<Rightarrow>
      (case (map_of (fk_ContainerMap f) i, err) of
         (_, Some err) \<Rightarrow> (Inl err, f)
       | (Some container, None) \<Rightarrow> (Inr container, f)
       | (None, None) \<Rightarrow> (Inl (Errorf (''container '' @ fmt_q i @ '' not found'')), f)))"

definition Fake_InspectContainerWithSize :: "string \<Rightarrow> fake_docker \<Rightarrow> ContainerJSON result \<times> fake_docker" where
  "Fake_InspectContainerWithSize i f =
     (case popError ''inspect_container_withsize'' (appendCalled ''inspect_container_withsize'' [] f) of (err, f) \<Rightarrow>
      (case (map_of (fk_ContainerMap f) i, err) of
         (_, Some err) \<Rightarrow> (Inl err, f)
       | (Some container, None) \<Rightarrow> (Inr container, f)
       | (None, None) \<Rightarrow> (Inl (Errorf (''container '' @ fmt_q i @ '' not found'')), f)))"

text \<open>FNV-1a with 64 bits, in hexadecimal.\<close>

definition fnv64a :: "string \<Rightarrow> 64 word" where
  "fnv64a s = foldl (\<lambda>h c. xor h (word_of_nat (of_char c)) * 1099511628211) 14695981039346656037 s"

definition GetFakeContainerID :: "string \<Rightarrow> string" where
  "GetFakeContainerID name = fmt_nat 16 (unat (fnv64a name))"

definition Fake_CreateContainer :: "ContainerCreateConfig \<Rightarrow> fake_docker \<Rightarrow> string result \<times> fake_docker" where
  "Fake_CreateContainer c f =
     (case popError ''create'' (appendCalled ''create'' [] f) of
        (Some err, f) \<Rightarrow> (Inl err, f)
      | (None, f) \<Rightarrow>
          (let name = dockerNamePrefix @ ccc_Name c; i = GetFakeContainerID name; f = appendContainerTrace ''Created'' i f in
           case fakeNow f of (timestamp, f) \<Rightarrow>
             (Inr i, f\<lparr>fk_RunningContainerList :=
                zeroDockerContainer\<lparr>dct_ID := i, dct_Names := [name], dct_Image := dc_Image (ccc_Config c), dct_Created := Unix timestamp,
                  dct_State := StatusCreatedPrefix, dct_Labels := dc_Labels (ccc_Config c)\<rparr> # fk_RunningContainerList f,
                fk_ContainerMap := mapSet (fk_ContainerMap f) i (convertFakeContainer
                  (zeroFakeContainer\<lparr>fc_ID := i, fc_Name := name, fc_Config := Some (ccc_Config c),
                    fc_HostConfig := Some (ccc_HostConfig c), fc_CreatedAt := timestamp\<rparr>))\<rparr>)))"

definition updateContainerStatus :: "string \<Rightarrow> string \<Rightarrow> fake_docker \<Rightarrow> fake_docker" where
  "updateContainerStatus i status f =
     f\<lparr>fk_RunningContainerList := map (\<lambda>c. if dct_ID c = i then c\<lparr>dct_Status := status\<rparr> else c) (fk_RunningContainerList f)\<rparr>"

text \<open>\<^verbatim>\<open>NetworkMode.ConnectedContainer\<close>: what follows \<^verbatim>\<open>container:\<close>, if that is the mode.\<close>

definition connectedContainer :: "string \<Rightarrow> string option" where
  "connectedContainer mode =
     (if strings_HasPrefix mode ''container:'' then Some (drop (length ''container:'') mode) else None)"

definition fakeIP :: "32 word \<Rightarrow> string" where
  "fakeIP r = ''10.'' @ fmt_nat 10 (unat r div 65536 mod 256) @ ''.'' @ fmt_nat 10 (unat r div 256 mod 256) @ ''.'' @
     fmt_nat 10 (unat r mod 256)"

text \<open>The second half of \<^verbatim>\<open>StartContainer\<close>: the container that is found is marked as running.\<close>

definition fakeStarted :: "string \<Rightarrow> ContainerJSON \<Rightarrow> fake_docker \<Rightarrow> goerror option \<times> fake_docker" where
  "fakeStarted i container f =
     (case fakeNow f of (timestamp, f) \<Rightarrow>
      (case fakeRand f of (r, f) \<Rightarrow>
        (let container = container\<lparr>cj_State := (cj_State container)\<lparr>ds_Running := True, ds_Pid := fk_pid f,
                ds_StartedAt := dockerTimestampToString timestamp\<rparr>,
              cj_NetworkSettings := map_option (\<lambda>n. n\<lparr>nst_IPAddress := fakeIP r\<rparr>) (cj_NetworkSettings container)\<rparr>;
             f = f\<lparr>fk_ContainerMap := mapSet (fk_ContainerMap f) i container\<rparr>
         in (None, updateContainerStatus i StatusRunningPrefix f))))"

text \<open>
  An unknown container is dereferenced before \<^verbatim>\<open>ok\<close> is looked at, so starting one panics.
\<close>

definition Fake_StartContainer :: "string \<Rightarrow> fake_docker \<Rightarrow> goerror option \<times> fake_docker" where
  "Fake_StartContainer i f =
     (case popError ''start'' (appendCalled ''start'' [] f) of
        (Some err, f) \<Rightarrow> (Some err, f)
      | (None, f) \<Rightarrow>
          (let f = appendContainerTrace ''Started'' i f in
           case map_of (fk_ContainerMap f) i of
             None \<Rightarrow> (Some nilDereference, f)
           | Some container \<Rightarrow>
               (case connectedContainer (hc_NetworkMode (cj_HostConfig container)) of
                  Some hostContainerID \<Rightarrow>
                    if \<not> list_ex (\<lambda>c. dct_ID c = hostContainerID) (fk_RunningContainerList f) then
                      (Some (Errorf (''failed to start container '' @ [CHR 0x22] @ i @ [CHR 0x22] @
                         '': Error response from daemon: cannot join network of a non running container: '' @ hostContainerID)), f)
                    else fakeStarted i container f
                | None \<Rightarrow> fakeStarted i container f)))"

definition Fake_StopContainer :: "string \<Rightarrow> int \<Rightarrow> fake_docker \<Rightarrow> goerror option \<times> fake_docker" where
  "Fake_StopContainer i timeout f =
     (case popError ''stop'' (appendCalled ''stop'' [] f) of
        (Some err, f) \<Rightarrow> (Some err, f)
      | (None, f) \<Rightarrow>
          (let f = updateContainerStatus i StatusExitedPrefix (appendContainerTrace ''Stopped'' i f);
               stopped = filter (\<lambda>c. dct_ID c = i) (fk_RunningContainerList f);
               f = f\<lparr>fk_ExitedContainerList := rev stopped @ fk_ExitedContainerList f,
                     fk_RunningContainerList := filter (\<lambda>c. dct_ID c \<noteq> i) (fk_RunningContainerList f)\<rparr>
           in case map_of (fk_ContainerMap f) i of
                None \<Rightarrow>
                  (case fakeNow f of (t1, f) \<Rightarrow> (case fakeNow f of (t2, f) \<Rightarrow>
                    (None, f\<lparr>fk_ContainerMap := mapSet (fk_ContainerMap f) i (convertFakeContainer
                       (zeroFakeContainer\<lparr>fc_ID := i, fc_Name := i, fc_StartedAt := t1 - timeSecond, fc_FinishedAt := t2\<rparr>))\<rparr>)))
              | Some container \<Rightarrow>
                  (case fakeNow f of (t, f) \<Rightarrow>
                    (None, f\<lparr>fk_ContainerMap := mapSet (fk_ContainerMap f) i
                       (container\<lparr>cj_State := (cj_State container)\<lparr>ds_FinishedAt := dockerTimestampToString t, ds_Running := False\<rparr>\<rparr>)\<rparr>))))"

text \<open>Removal of the first entry of a list that meets a condition.\<close>

fun removeFirst :: "('a \<Rightarrow> bool) \<Rightarrow> 'a list \<Rightarrow> 'a list" where
  "removeFirst P [] = []"
| "removeFirst P (x # xs) = (if P x then xs else x # removeFirst P xs)"

text \<open>
  A listed container that is missing in the map is dereferenced in the second loop; the first
  listed one decides.
\<close>

definition Fake_RemoveContainer :: "string \<Rightarrow> RemoveOptions \<Rightarrow> fake_docker \<Rightarrow> goerror option \<times> fake_docker" where
  "Fake_RemoveContainer i opts f =
     (case popError ''remove'' (appendCalled ''remove'' [] f) of
        (Some err, f) \<Rightarrow> (Some err, f)
      | (None, f) \<Rightarrow>
          if list_ex (\<lambda>c. dct_ID c = i) (fk_ExitedContainerList f) then
            (None, appendContainerTrace ''Removed'' i
               (f\<lparr>fk_ContainerMap := AList.delete i (fk_ContainerMap f),
                  fk_ExitedContainerList := removeFirst (\<lambda>c. dct_ID c = i) (fk_ExitedContainerList f)\<rparr>))
          else if list_ex (\<lambda>c. dct_ID c = i) (fk_RunningContainerList f) then
            (case map_of (fk_ContainerMap f) i of
               None \<Rightarrow> (Some nilDereference, f)
             | Some container \<Rightarrow>
                 if \<not> ds_Running (cj_State container) then
                   (None, appendContainerTrace ''Removed'' i
                      (f\<lparr>fk_ContainerMap := AList.delete i (fk_ContainerMap f),
                         fk_RunningContainerList := removeFirst (\<lambda>c. dct_ID c = i) (fk_RunningContainerList f)\<rparr>))
                 else (Some (Errorf ''container not stopped''), f))
          else (Some (Errorf ''container not stopped''), f))"

definition Fake_UpdateContainerResources :: "string \<Rightarrow> DockerResources \<Rightarrow> fake_docker \<Rightarrow> goerror option \<times> fake_docker" where
  "Fake_UpdateContainerResources i updateConfig f = (None, f)"

definition Fake_Logs :: "string \<Rightarrow> LogsOptions \<Rightarrow> fake_docker StreamOptions \<Rightarrow> fake_docker \<Rightarrow> goerror option \<times> fake_docker" where
  "Fake_Logs i opts sopts f = popError ''logs'' (appendCalled ''logs'' [] f)"

subsection \<open>Images\<close>

definition zeroImageInspect :: ImageInspect where
  "zeroImageInspect = \<lparr>ii_ID = [], ii_RepoTags = [], ii_RepoDigests = [], ii_Size = 0, ii_Config = None, ii_Created = [],
     ii_Author = [], ii_Architecture = [], ii_Os = [], ii_RootFSType = [], ii_RootFSLayers = []\<rparr>"

definition createImageInspectFromRef :: "string \<Rightarrow> ImageInspect" where
  "createImageInspectFromRef ref =
     zeroImageInspect\<lparr>ii_ID := ref, ii_RepoTags := [ref], ii_Size := fakeImageSize, ii_Config := Some zeroConfig\<rparr>"

definition createImageInspectFromImage :: "ImageSummary \<Rightarrow> ImageInspect" where
  "createImageInspectFromImage img =
     zeroImageInspect\<lparr>ii_ID := is_ID img, ii_RepoTags := is_RepoTags img, ii_Size := fakeImageSize, ii_Config := Some zeroConfig\<rparr>"

definition createImageFromImageInspect :: "ImageInspect \<Rightarrow> ImageSummary" where
  "createImageFromImageInspect inspect =
     \<lparr>is_ID = ii_ID inspect, is_RepoTags = ii_RepoTags inspect, is_RepoDigests = [], is_Size = fakeImageSize, is_SharedSize = 0\<rparr>"

definition Fake_InspectImageByRef :: "string \<Rightarrow> fake_docker \<Rightarrow> ImageInspect result \<times> fake_docker" where
  "Fake_InspectImageByRef name f =
     (case popError ''inspect_image'' (appendCalled ''inspect_image'' [] f) of
        (Some err, f) \<Rightarrow> (Inl err, f)
      | (None, f) \<Rightarrow>
          (case map_of (fk_ImageInspects f) name of Some r \<Rightarrow> (Inr r, f) | None \<Rightarrow> (Inl (ImageNotFoundError name), f)))"

definition Fake_InspectImageByID :: "string \<Rightarrow> fake_docker \<Rightarrow> ImageInspect result \<times> fake_docker" where
  "Fake_InspectImageByID name f =
     (case popError ''inspect_image'' (appendCalled ''inspect_image'' [] f) of
        (Some err, f) \<Rightarrow> (Inl err, f)
      | (None, f) \<Rightarrow>
          (case map_of (fk_ImageInspects f) name of Some r \<Rightarrow> (Inr r, f) | None \<Rightarrow> (Inl (ImageNotFoundError name), f)))"

definition isAuthorizedForImage :: "fake_docker \<Rightarrow> string \<Rightarrow> AuthConfig \<Rightarrow> bool" where
  "isAuthorizedForImage f img auth =
     (case map_of (fk_ImageIDsNeedingAuth f) img of
        None \<Rightarrow> True
      | Some reqd \<Rightarrow> au_Username auth = au_Username reqd \<and> au_Password auth = au_Password reqd)"

text \<open>The JSON text of an \<^verbatim>\<open>AuthConfig\<close>, whose fields are all \<^verbatim>\<open>omitempty\<close>.\<close>

definition authJson :: "AuthConfig \<Rightarrow> string" where
  "authJson auth = json_print (JObj (map (apsnd JStr) (filter (\<lambda>kv. snd kv \<noteq> [])
     [(''username'', au_Username auth), (''password'', au_Password auth), (''serveraddress'', au_ServerAddress auth),
      (''identitytoken'', au_IdentityToken auth), (''registrytoken'', au_RegistryToken auth)])))"

definition Fake_PullImage :: "string \<Rightarrow> AuthConfig \<Rightarrow> fake_docker \<Rightarrow> goerror option \<times> fake_docker" where
  "Fake_PullImage img auth f =
     (case popError ''pull'' (appendCalled ''pull'' [] f) of
        (Some err, f) \<Rightarrow> (Some err, f)
      | (None, f) \<Rightarrow>
          if \<not> isAuthorizedForImage f img auth then (Some (ImageNotFoundError img), f)
          else
            (let inspect = createImageInspectFromRef img;
                 f = appendPulled (img @ '' using '' @ authJson auth) (f\<lparr>fk_ImageInspects := mapSet (fk_ImageInspects f) img inspect\<rparr>)
             in (None, f\<lparr>fk_Images := fk_Images f @ [createImageFromImageInspect inspect], fk_ImagesPulled := fk_ImagesPulled f @ [img]\<rparr>)))"

definition Fake_ListImages :: "ImageListOptions \<Rightarrow> fake_docker \<Rightarrow> ImageSummary list result \<times> fake_docker" where
  "Fake_ListImages opts f =
     (case popError ''list_images'' (appendCalled ''list_images'' [] f) of
        (Some err, f) \<Rightarrow> (Inl err, f) | (None, f) \<Rightarrow> (Inr (fk_Images f), f))"

definition Fake_RemoveImage :: "string \<Rightarrow> fake_docker \<Rightarrow> goerror option \<times> fake_docker" where
  "Fake_RemoveImage img f =
     (case popError ''remove_image'' (appendCalled ''remove_image'' [img] f) of
        (Some err, f) \<Rightarrow> (Some err, f)
      | (None, f) \<Rightarrow> (None, f\<lparr>fk_Images := removeFirst (\<lambda>x. is_ID x = img) (fk_Images f)\<rparr>))"

definition InjectImages :: "ImageSummary list \<Rightarrow> fake_docker \<Rightarrow> fake_docker" where
  "InjectImages images f =
     f\<lparr>fk_Images := fk_Images f @ images,
       fk_ImageInspects := foldl (\<lambda>m x. mapSet m (is_ID x) (createImageInspectFromImage x)) (fk_ImageInspects f) images\<rparr>"

definition MakeImagesPrivate :: "ImageSummary list \<Rightarrow> AuthConfig \<Rightarrow> fake_docker \<Rightarrow> fake_docker" where
  "MakeImagesPrivate images auth f =
     f\<lparr>fk_ImageIDsNeedingAuth := foldl (\<lambda>m x. mapSet m (is_ID x) auth) (fk_ImageIDsNeedingAuth f) images\<rparr>"

definition ResetImages :: "fake_docker \<Rightarrow> fake_docker" where
  "ResetImages f = f\<lparr>fk_Images := [], fk_ImageInspects := [], fk_ImageIDsNeedingAuth := []\<rparr>"

definition InjectImageInspects :: "ImageInspect list \<Rightarrow> fake_docker \<Rightarrow> fake_docker" where
  "InjectImageInspects inspects f =
     f\<lparr>fk_Images := fk_Images f @ map createImageFromImageInspect inspects,
       fk_ImageInspects := foldl (\<lambda>m x. mapSet m (ii_ID x) x) (fk_ImageInspects f) inspects\<rparr>"

definition Fake_ImageHistory :: "string \<Rightarrow> fake_docker \<Rightarrow> HistoryItem list result \<times> fake_docker" where
  "Fake_ImageHistory i f =
     (let f = appendCalled ''image_history'' [] f in
      (Inr (case map_of (fk_ImageHistoryMap f) i of None \<Rightarrow> [] | Some h \<Rightarrow> h), f))"

definition InjectImageHistory :: "(string \<times> HistoryItem list) list \<Rightarrow> fake_docker \<Rightarrow> fake_docker" where
  "InjectImageHistory data f = f\<lparr>fk_ImageHistoryMap := data\<rparr>"

subsection \<open>System, exec, statistics\<close>

definition Fake_Version :: "fake_docker \<Rightarrow> DockerVersion result \<times> fake_docker" where
  "Fake_Version f = (case popError ''version'' f of (Some err, f) \<Rightarrow> (Inl err, f) | (None, f) \<Rightarrow> (Inr (fk_VersionInfo f), f))"

definition Fake_Info :: "fake_docker \<Rightarrow> DockerInfo result \<times> fake_docker" where
  "Fake_Info f = (Inr (fk_Information f), f)"

definition Fake_CreateExec :: "string \<Rightarrow> ExecOptions \<Rightarrow> fake_docker \<Rightarrow> string result \<times> fake_docker" where
  "Fake_CreateExec i opts f = (Inr ''12345678'', appendCalled ''create_exec'' [] (f\<lparr>fk_execCmd := eo_Cmd opts\<rparr>))"

definition Fake_StartExec :: "string \<Rightarrow> bool \<Rightarrow> bool \<Rightarrow> fake_docker StreamOptions \<Rightarrow> fake_docker \<Rightarrow> goerror option \<times> fake_docker" where
  "Fake_StartExec startExec detach tty sopts f = (None, appendCalled ''start_exec'' [] f)"

definition Fake_AttachToContainer :: "string \<Rightarrow> bool \<Rightarrow> fake_docker StreamOptions \<Rightarrow> fake_docker \<Rightarrow> goerror option \<times> fake_docker" where
  "Fake_AttachToContainer i attachStdin sopts f = (None, appendCalled ''attach'' [] f)"

definition Fake_InspectExec :: "string \<Rightarrow> fake_docker \<Rightarrow> ExecInspect result \<times> fake_docker" where
  "Fake_InspectExec i f =
     (case popError ''inspect_exec'' f of (Some err, f) \<Rightarrow> (Inl err, f) | (None, f) \<Rightarrow> (Inr (fk_ExecInspect f), f))"

definition Fake_ResizeExecTTY :: "string \<Rightarrow> nat \<Rightarrow> nat \<Rightarrow> fake_docker \<Rightarrow> goerror option \<times> fake_docker" where
  "Fake_ResizeExecTTY i h w f = (None, appendCalled ''resize_exec'' [] f)"

definition Fake_ResizeContainerTTY :: "string \<Rightarrow> nat \<Rightarrow> nat \<Rightarrow> fake_docker \<Rightarrow> goerror option \<times> fake_docker" where
  "Fake_ResizeContainerTTY i h w f = (None, appendCalled ''resize_container'' [] f)"

definition InjectContainerStats :: "(string \<times> StatsResponse) list \<Rightarrow> fake_docker \<Rightarrow> fake_docker" where
  "InjectContainerStats data f = f\<lparr>fk_ContainerStatsMap := data\<rparr>"

definition Fake_GetContainerStats :: "string \<Rightarrow> fake_docker \<Rightarrow> StatsResponse result \<times> fake_docker" where
  "Fake_GetContainerStats i f =
     (let f = appendCalled ''get_container_stats'' [] f in
      case map_of (fk_ContainerStatsMap f) i of
        Some stats \<Rightarrow> (Inr stats, f)
      | None \<Rightarrow> (Inl (Errorf (''container '' @ fmt_q i @ '' not found'')), f))"

definition fakeClient :: "fake_docker docker_client" where
  "fakeClient =
     \<lparr>dk_ListContainers = Fake_ListContainers, dk_InspectContainer = Fake_InspectContainer,
      dk_InspectContainerWithSize = Fake_InspectContainerWithSize, dk_CreateContainer = Fake_CreateContainer,
      dk_StartContainer = Fake_StartContainer, dk_StopContainer = Fake_StopContainer,
      dk_UpdateContainerResources = Fake_UpdateContainerResources, dk_RemoveContainer = Fake_RemoveContainer,
      dk_InspectImageByRef = Fake_InspectImageByRef, dk_InspectImageByID = Fake_InspectImageByID,
      dk_ListImages = Fake_ListImages, dk_PullImage = Fake_PullImage, dk_RemoveImage = Fake_RemoveImage,
      dk_ImageHistory = Fake_ImageHistory, dk_Logs = Fake_Logs, dk_Version = Fake_Version, dk_Info = Fake_Info,
      dk_CreateExec = Fake_CreateExec, dk_StartExec = Fake_StartExec, dk_InspectExec = Fake_InspectExec,
      dk_AttachToContainer = Fake_AttachToContainer, dk_ResizeContainerTTY = Fake_ResizeContainerTTY,
      dk_ResizeExecTTY = Fake_ResizeExecTTY, dk_GetContainerStats = Fake_GetContainerStats\<rparr>"

text \<open>\<^verbatim>\<open>FakeDockerPuller\<close>.\<close>

definition Puller_Pull :: "'e docker_client \<Rightarrow> string \<Rightarrow> 'e \<Rightarrow> goerror option \<times> 'e" where
  "Puller_Pull client img e = dk_PullImage client img zeroAuth e"

definition Puller_GetImageRef :: "'e docker_client \<Rightarrow> string \<Rightarrow> 'e \<Rightarrow> string result \<times> 'e" where
  "Puller_GetImageRef client img e =
     (case dk_InspectImageByRef client img e of
        (Inl err, e) \<Rightarrow> (if IsImageNotFoundError err then Inr [] else Inl err, e)
      | (Inr _, e) \<Rightarrow> (Inr img, e))"

subsection \<open>What the handlers rely on\<close>

text \<open>
  The contract of the client interface on the life of a container. \<open>view\<close> is the set of containers
  the daemon knows. A failing operation changes none of them, one that succeeds changes only the
  container it names, and only its state.
\<close>

definition sameContainer :: "ContainerJSON \<Rightarrow> ContainerJSON \<Rightarrow> bool" where
  "sameContainer j k \<longleftrightarrow> cj_ID k = cj_ID j \<and> cj_Name k = cj_Name j \<and> cj_Config k = cj_Config j \<and> cj_HostConfig k = cj_HostConfig j"

text \<open>
  What a container has of the configuration it was created with. The daemon may fill in what the request leaves open: the labels of
  the image are defaults that come on top of the requested ones, an empty runtime or namespace mode becomes the default of the daemon.
  The requested labels are kept; a container uses a namespace of the host if and only if the request says so; and a runtime that is named is
  the runtime of the container.
\<close>

definition sameHostModes :: "HostConfig \<Rightarrow> HostConfig \<Rightarrow> bool" where
  "sameHostModes h k \<longleftrightarrow>
     (hc_NetworkMode k = ''host'' \<longleftrightarrow> hc_NetworkMode h = ''host'') \<and> (hc_PidMode k = ''host'' \<longleftrightarrow> hc_PidMode h = ''host'') \<and>
     (hc_IpcMode k = ''host'' \<longleftrightarrow> hc_IpcMode h = ''host'') \<and> (hc_Runtime h \<noteq> [] \<longrightarrow> hc_Runtime k = hc_Runtime h)"

definition createdAs :: "ContainerCreateConfig \<Rightarrow> ContainerJSON \<Rightarrow> bool" where
  "createdAs c j \<longleftrightarrow> cj_Name j = ''/'' @ ccc_Name c \<and> \<not> ds_Running (cj_State j) \<and>
     (goMapOk (dc_Labels (ccc_Config c)) \<longrightarrow> goMapOk (dc_Labels (cj_Config j))) \<and>
     map_of (dc_Labels (ccc_Config c)) \<subseteq>\<^sub>m map_of (dc_Labels (cj_Config j)) \<and>
     sameHostModes (ccc_HostConfig c) (cj_HostConfig j)"

locale docker_contract =
  fixes dk :: "'e docker_client"
    and view :: "'e \<Rightarrow> string \<Rightarrow> ContainerJSON option"
  assumes inspect_ok: "dk_InspectContainer dk i e = (Inr j, e') \<Longrightarrow> view e i = Some j"
    and inspect_frame: "dk_InspectContainer dk i e = (r, e') \<Longrightarrow> view e' = view e"
    and list_frame: "dk_ListContainers dk lo e = (l, e') \<Longrightarrow> view e' = view e"
    and image_frame: "dk_InspectImageByRef dk img e = (ri, e') \<Longrightarrow> view e' = view e"
    and image_id_frame: "dk_InspectImageByID dk img e = (ri, e') \<Longrightarrow> view e' = view e"
    and pull_frame: "dk_PullImage dk img au e = (ro, e') \<Longrightarrow> view e' = view e"
    and version_frame: "dk_Version dk e = (rv, e') \<Longrightarrow> view e' = view e"
    and info_frame: "dk_Info dk e = (rn, e') \<Longrightarrow> view e' = view e"
    and create_ok: "dk_CreateContainer dk c e = (Inr i, e') \<Longrightarrow>
      \<exists>j. view e' = (view e)(i \<mapsto> j) \<and> cj_ID j = i \<and> createdAs c j"
    and create_err: "dk_CreateContainer dk c e = (Inl x, e') \<Longrightarrow> view e' = view e"
    and start_ok: "dk_StartContainer dk i e = (None, e') \<Longrightarrow>
      \<exists>j k. view e i = Some j \<and> view e' = (view e)(i \<mapsto> k) \<and> sameContainer j k \<and> ds_Running (cj_State k)"
    and start_err: "dk_StartContainer dk i e = (Some x, e') \<Longrightarrow> view e' = view e"
    and stop_ok: "dk_StopContainer dk i t e = (None, e') \<Longrightarrow>
      \<exists>k. view e' = (view e)(i \<mapsto> k) \<and> \<not> ds_Running (cj_State k) \<and> (\<forall>j. view e i = Some j \<longrightarrow> sameContainer j k)"
    and stop_err: "dk_StopContainer dk i t e = (Some x, e') \<Longrightarrow> view e' = view e"
    and remove_ok: "dk_RemoveContainer dk i opts e = (None, e') \<Longrightarrow> view e' = (view e)(i := None)"
    and remove_err: "dk_RemoveContainer dk i opts e = (Some x, e') \<Longrightarrow> view e' = view e"

text \<open>The operations of the fake client on its map of containers.\<close>

definition fakeView :: "fake_docker \<Rightarrow> string \<Rightarrow> ContainerJSON option" where
  "fakeView f = map_of (fk_ContainerMap f)"

lemma appendCalled_map [simp]: "fk_ContainerMap (appendCalled n a f) = fk_ContainerMap f"
  by (simp add: appendCalled_def)

lemma appendTrace_map [simp]: "fk_ContainerMap (appendContainerTrace c n f) = fk_ContainerMap f"
  by (simp add: appendContainerTrace_def)

lemma appendPulled_map [simp]: "fk_ContainerMap (appendPulled n f) = fk_ContainerMap f"
  by (simp add: appendPulled_def)

lemma popError_map: "popError op f = (r, f') \<Longrightarrow> fk_ContainerMap f' = fk_ContainerMap f"
  by (auto simp: popError_def split: option.splits)

lemma fakeNow_map: "fakeNow f = (t, f') \<Longrightarrow> fk_ContainerMap f' = fk_ContainerMap f"
  by (auto simp: fakeNow_def)

lemma fakeRand_map: "fakeRand f = (t, f') \<Longrightarrow> fk_ContainerMap f' = fk_ContainerMap f"
  by (auto simp: fakeRand_def)

lemma updateContainerStatus_map [simp]: "fk_ContainerMap (updateContainerStatus i st f) = fk_ContainerMap f"
  by (simp add: updateContainerStatus_def)

lemmas fake_map = popError_map fakeNow_map fakeRand_map

lemma map_of_update_fun: "map_of (AList.update k v m) = (map_of m)(k \<mapsto> v)"
  by (simp add: fun_eq_iff)

lemma map_of_delete_fun: "map_of (AList.delete k m) = (map_of m)(k := None)"
  by (simp add: fun_eq_iff delete_conv)

lemma Fake_Create_ok:
  assumes "Fake_CreateContainer c f = (Inr i, f')"
  shows "\<exists>j. fakeView f' = (fakeView f)(i \<mapsto> j) \<and> cj_ID j = i \<and> createdAs c j"
  using assms
  by (auto simp: createdAs_def sameHostModes_def Fake_CreateContainer_def Let_def fakeView_def map_of_update_fun convertFakeContainer_def zeroFakeContainer_def
      dockerNamePrefix_def split: prod.splits option.splits dest!: fake_map simp del: map_of_mapSet)

lemma fakeStarted_ok:
  assumes "fakeStarted i j f = (r, f')"
  shows "r = None \<and> (\<exists>k. fakeView f' = (fakeView f)(i \<mapsto> k) \<and> sameContainer j k \<and> ds_Running (cj_State k))"
  using assms
  by (auto simp: fakeStarted_def Let_def fakeView_def map_of_update_fun sameContainer_def
      split: prod.splits dest!: fake_map simp del: map_of_mapSet)

lemma Fake_Start_spec:
  assumes "Fake_StartContainer i f = (r, f')"
  shows "(case r of Some x \<Rightarrow> fakeView f' = fakeView f
     | None \<Rightarrow> \<exists>j k. fakeView f i = Some j \<and> fakeView f' = (fakeView f)(i \<mapsto> k) \<and> sameContainer j k \<and> ds_Running (cj_State k))"
proof -
  obtain p f1 where p: "popError ''start'' (appendCalled ''start'' [] f) = (p, f1)" by fastforce
  have v: "fakeView f1 = fakeView f" using popError_map [OF p] by (simp add: fakeView_def)
  show ?thesis
  proof (cases p)
    case (Some x)
    then show ?thesis using assms v by (auto simp: Fake_StartContainer_def p)
  next
    case None
    define f2 where "f2 = appendContainerTrace ''Started'' i f1"
    have v2: "fakeView f2 = fakeView f" "map_of (fk_ContainerMap f1) i = fakeView f i" using v by (simp_all add: f2_def fakeView_def)
    show ?thesis
    proof (cases "fakeView f i")
      case None
      then show ?thesis using assms \<open>p = None\<close> v2 by (auto simp: Fake_StartContainer_def p f2_def [symmetric] Let_def)
    next
      case (Some j)
      have "(r = None \<and> fakeStarted i j f2 = (r, f')) \<or> ((\<exists>x. r = Some x) \<and> f' = f2)"
        using assms \<open>p = None\<close> v2 Some fakeStarted_ok [of i j f2]
        by (auto simp: Fake_StartContainer_def p f2_def [symmetric] Let_def split: option.splits if_splits)
      then show ?thesis using fakeStarted_ok [of i j f2 r f'] Some v2 by auto
    qed
  qed
qed

lemma Fake_Stop_spec:
  assumes "Fake_StopContainer i t f = (r, f')"
  shows "(case r of Some x \<Rightarrow> fakeView f' = fakeView f
     | None \<Rightarrow> \<exists>k. fakeView f' = (fakeView f)(i \<mapsto> k) \<and> \<not> ds_Running (cj_State k) \<and> (\<forall>j. fakeView f i = Some j \<longrightarrow> sameContainer j k))"
  using assms
  by (auto simp: Fake_StopContainer_def Let_def fakeView_def map_of_update_fun convertFakeContainer_def zeroFakeContainer_def
      sameContainer_def split: prod.splits option.splits dest!: fake_map simp del: map_of_mapSet)

lemma Fake_Remove_spec:
  assumes "Fake_RemoveContainer i opts f = (r, f')"
  shows "(case r of Some x \<Rightarrow> fakeView f' = fakeView f | None \<Rightarrow> fakeView f' = (fakeView f)(i := None))"
  using assms
  by (auto simp: Fake_RemoveContainer_def fakeView_def map_of_delete_fun split: prod.splits option.splits if_splits dest!: fake_map)

interpretation fake: docker_contract fakeClient fakeView
proof (unfold_locales, goal_cases)
  case (1 i e j e')
  then show ?case
    by (auto simp: fakeClient_def Fake_InspectContainer_def fakeView_def split: prod.splits option.splits dest!: fake_map)
next
  case (2 i e r e')
  then show ?case
    by (auto simp: fakeClient_def Fake_InspectContainer_def fakeView_def split: prod.splits option.splits dest!: fake_map)
next
  case (3 lo e l e')
  then show ?case
    by (auto simp: fakeClient_def Fake_ListContainers_def fakeView_def Let_def split: prod.splits option.splits if_splits sum.splits dest!: fake_map)
next
  case (4 img e ri e')
  then show ?case
    by (auto simp: fakeClient_def Fake_InspectImageByRef_def fakeView_def split: prod.splits option.splits dest!: fake_map)
next
  case (5 img e ri e')
  then show ?case
    by (auto simp: fakeClient_def Fake_InspectImageByID_def fakeView_def split: prod.splits option.splits dest!: fake_map)
next
  case (6 img au e ro e')
  then show ?case
    by (auto simp: fakeClient_def Fake_PullImage_def fakeView_def Let_def split: prod.splits option.splits if_splits dest!: fake_map)
next
  case (7 e rv e')
  then show ?case by (auto simp: fakeClient_def Fake_Version_def fakeView_def split: prod.splits option.splits dest!: fake_map)
next
  case (8 e rn e')
  then show ?case by (auto simp: fakeClient_def Fake_Info_def)
next
  case (9 c e i e')
  then show ?case using Fake_Create_ok [of c e i e'] by (auto simp: fakeClient_def)
next
  case (10 c e x e')
  then show ?case
    by (auto simp: fakeClient_def Fake_CreateContainer_def fakeView_def Let_def split: prod.splits option.splits dest!: fake_map)
next
  case (11 i e e')
  then show ?case using Fake_Start_spec [of i e None e'] by (simp add: fakeClient_def)
next
  case (12 i e x e')
  then show ?case using Fake_Start_spec [of i e "Some x" e'] by (simp add: fakeClient_def)
next
  case (13 i t e e')
  then show ?case using Fake_Stop_spec [of i t e None e'] by (simp add: fakeClient_def)
next
  case (14 i t e x e')
  then show ?case using Fake_Stop_spec [of i t e "Some x" e'] by (simp add: fakeClient_def)
next
  case (15 i opts e e')
  then show ?case using Fake_Remove_spec [of i opts e None e'] by (simp add: fakeClient_def)
next
  case (16 i opts e x e')
  then show ?case using Fake_Remove_spec [of i opts e "Some x" e'] by (simp add: fakeClient_def)
qed

end
