(* ===== verification/Docker_Service.thy ===== *)
theory Docker_Service
  imports Checkpoint Libdocker Security_Context Network_Plugin Util_Cache Labels Fake_Docker "HOL-Library.Multiset"
begin

text \<open>
  The service object (\<^verbatim>\<open>core/docker_service.go\<close>): its fields, the state its handlers share, what it
  learns from the daemon through the system info cache, and its start-up. Fields that are set
  once are in \<open>docker_service\<close>; what changes while the service runs is in \<open>svc_state\<close>: the two maps
  with their locks dropped (every access is one step), the cache, the file system, and the
  environment \<open>'e\<close> of the daemon, the network plugin and the clock.

  Functions of third-party packages are fields of \<open>externals\<close>: the clock, the printer behind the
  checksum, the reader of a runtime's OCI features, the semantic version parser and comparison,
  the SELinux and SHA-256 functions.
\<close>

datatype cached = CVersion DockerVersion | CInfo DockerInfo | CHandlers "RuntimeHandler list"

record 'e externals =
  ex_now :: "'e \<Rightarrow> int \<times> 'e"
  ex_spew :: "CheckpointData \<Rightarrow> string"
  ex_kernelSupportsRRO :: bool
  ex_ociMountOptions :: "string \<Rightarrow> string list result"
  ex_semver_Parse :: "string \<Rightarrow> nat list result"
  ex_semver_Compare :: "nat list \<Rightarrow> nat list \<Rightarrow> int"
  ex_dnsMarshal :: "DNSConfig \<Rightarrow> string result"
  ex_keyringLookup :: "string \<Rightarrow> AuthConfig list option"
  ex_ParseNamed :: "string \<Rightarrow> (string \<times> string option \<times> string option) result"
  ex_InitLabels :: "string list \<Rightarrow> string result"
  ex_Relabel :: "string \<Rightarrow> string \<Rightarrow> bool \<Rightarrow> 'e \<Rightarrow> goerror option \<times> 'e"
  ex_randUint32 :: "'e \<Rightarrow> 32 word \<times> 'e"
  ex_seccomp :: seccomp_codec

record 'e docker_service =
  svc_client :: "'e docker_client"
  svc_podSandboxImage :: string
  svc_network :: "'e network_plugin"
  svc_cgroupDriver :: string
  svc_checkpointManager :: "osfs store_iface"
  svc_dockerRootDir :: string
  svc_streaming :: bool
  svc_ext :: "'e externals"

text \<open>The platform data kept for the removal of a container is the empty struct on Linux.\<close>

record 'e svc_state =
  ss_networkReady :: "(string \<times> bool) list"
  ss_containerCleanupInfos :: "(string \<times> unit) list"
  ss_systemInfoCache :: "cached cache"
  ss_fs :: osfs
  ss_env :: 'e

text \<open>A call to the daemon, the plugin or the clock; a call of package \<^verbatim>\<open>os\<close>.\<close>

definition onEnv :: "('e \<Rightarrow> 'a \<times> 'e) \<Rightarrow> 'e svc_state \<Rightarrow> 'a \<times> 'e svc_state" where
  [go_defs]: "onEnv f s = (case f (ss_env s) of (r, e) \<Rightarrow> (r, s\<lparr>ss_env := e\<rparr>))"

definition onFs :: "(osfs \<Rightarrow> 'a \<times> osfs) \<Rightarrow> 'e svc_state \<Rightarrow> 'a \<times> 'e svc_state" where
  [go_defs]: "onFs f s = (case f (ss_fs s) of (r, fs) \<Rightarrow> (r, s\<lparr>ss_fs := fs\<rparr>))"

definition runtimeName :: string where "runtimeName = ''docker''"

definition dockerRuntimeName :: string where "dockerRuntimeName = ''docker''"

definition kubeAPIVersion :: string where "kubeAPIVersion = ''0.1.0''"

definition CRIVersion :: string where "CRIVersion = ''v1''"

definition MinimumDockerAPIVersion :: string where "MinimumDockerAPIVersion = ''1.42.0''"

definition defaultCgroupDriver :: string where "defaultCgroupDriver = ''cgroupfs''"

definition defaultSandboxImage :: string where "defaultSandboxImage = ''registry.k8s.io/pause:3.10''"

definition systemInfoCacheMinTTL :: int where "systemInfoCacheMinTTL = 60 * 10 ^ 9"

subsection \<open>Versions and runtime information\<close>

definition memo ::
    "'e docker_service \<Rightarrow> string \<Rightarrow> ('e svc_state \<Rightarrow> cached result \<times> 'e svc_state) \<Rightarrow> 'e svc_state
      \<Rightarrow> cached option result \<times> 'e svc_state" where
  "memo ds key fn s =
     (case Memoize (onEnv (ex_now (svc_ext ds))) key systemInfoCacheMinTTL fn (ss_systemInfoCache s) s of
        (r, c, s) \<Rightarrow> (r, s\<lparr>ss_systemInfoCache := c\<rparr>))"

text \<open>A failing type assertion panics in Go; \<open>typeAssertion\<close> marks that outcome.\<close>

definition typeAssertion :: goerror where "typeAssertion = Errorf ''panic: interface conversion''"

definition fixAPIVersion :: "DockerVersion \<Rightarrow> DockerVersion" where
  "fixAPIVersion v = v\<lparr>dv_APIVersion := dv_APIVersion v @ ''.0''\<rparr>"

definition getDockerVersion :: "'e docker_service \<Rightarrow> 'e svc_state \<Rightarrow> DockerVersion result \<times> 'e svc_state" where
  "getDockerVersion ds s =
     (case memo ds ''docker_version'' (\<lambda>s. case onEnv (dk_Version (svc_client ds)) s of (r, s) \<Rightarrow> (map_sum id CVersion r, s)) s of
        (Inl err, s) \<Rightarrow> (Inl (Errorf (''failed to get docker version from dockerd: '' @ Error err)), s)
      | (Inr (Some (CVersion v)), s) \<Rightarrow> (Inr (fixAPIVersion v), s)
      | (Inr _, s) \<Rightarrow> (Inl typeAssertion, s))"

definition getDockerInfo :: "'e docker_service \<Rightarrow> 'e svc_state \<Rightarrow> DockerInfo result \<times> 'e svc_state" where
  "getDockerInfo ds s =
     (case memo ds ''docker_info'' (\<lambda>s. case onEnv (dk_Info (svc_client ds)) s of (r, s) \<Rightarrow> (map_sum id CInfo r, s)) s of
        (Inl err, s) \<Rightarrow> (Inl (Errorf (''failed to get docker info from dockerd: '' @ Error err)), s)
      | (Inr (Some (CInfo info)), s) \<Rightarrow> (Inr info, s)
      | (Inr _, s) \<Rightarrow> (Inl typeAssertion, s))"

text \<open>The loop of \<^verbatim>\<open>getRuntimeHandlers\<close> over the runtimes, in the order the map yields them.\<close>

fun runtimeHandlerLoop ::
    "'e externals \<Rightarrow> string \<Rightarrow> (string \<times> string option) list \<Rightarrow> RuntimeHandler list \<Rightarrow> RuntimeHandler list result" where
  "runtimeHandlerLoop ex defaultRuntime [] handlers = Inr handlers"
| "runtimeHandlerLoop ex defaultRuntime ((dockerName, status) # rest) handlers =
     (case (if ex_kernelSupportsRRO ex then
              (case status of
                 None \<Rightarrow> Inr False
               | Some ociFeaturesStr \<Rightarrow>
                   (case ex_ociMountOptions ex ociFeaturesStr of
                      Inl err \<Rightarrow> Inl (Errorf (''failed to unmarshal '' @ fmt_q ociFeaturesStr @ '': '' @ Error err))
                    | Inr opts \<Rightarrow> Inr (''rro'' \<in> set opts)))
            else Inr False) of
        Inl err \<Rightarrow> Inl err
      | Inr rro \<Rightarrow>
          (let handlers = handlers @ [\<lparr>rh_Name = dockerName, rh_RecursiveReadOnlyMounts = rro\<rparr>];
               handlers = (if dockerName = defaultRuntime then \<lparr>rh_Name = [], rh_RecursiveReadOnlyMounts = rro\<rparr> # handlers else handlers)
           in runtimeHandlerLoop ex defaultRuntime rest handlers))"

definition runtimeHandlers :: "'e externals \<Rightarrow> DockerInfo \<Rightarrow> RuntimeHandler list result" where
  "runtimeHandlers ex info =
     map_sum id (sort_key rh_Name) (runtimeHandlerLoop ex (di_DefaultRuntime info) (di_Runtimes info) [])"

definition getRuntimeHandlers :: "'e docker_service \<Rightarrow> 'e svc_state \<Rightarrow> RuntimeHandler list result \<times> 'e svc_state" where
  "getRuntimeHandlers ds s =
     (case getDockerInfo ds s of
        (Inl err, s) \<Rightarrow> (Inl err, s)
      | (Inr info, s) \<Rightarrow>
          (case memo ds ''docker_info_handlers'' (\<lambda>s. (map_sum id CHandlers (runtimeHandlers (svc_ext ds) info), s)) s of
             (Inl err, s) \<Rightarrow> (Inl (Errorf (''failed to get runtime handlers: '' @ Error err)), s)
           | (Inr (Some (CHandlers hs)), s) \<Rightarrow> (Inr hs, s)
           | (Inr _, s) \<Rightarrow> (Inl typeAssertion, s)))"

definition IsRuntimeConfigured :: "'e docker_service \<Rightarrow> string \<Rightarrow> 'e svc_state \<Rightarrow> goerror option \<times> 'e svc_state" where
  "IsRuntimeConfigured ds runtime s =
     (case getDockerInfo ds s of
        (Inl err, s) \<Rightarrow> (Some (Errorf (''failed to get docker info: '' @ Error err)), s)
      | (Inr info, s) \<Rightarrow>
          (if runtime \<in> fst ` set (di_Runtimes info) then None
           else Some (Errorf (''no runtime for '' @ fmt_q runtime @ '' is configured'')), s))"

definition getDockerAPIVersion :: "'e docker_service \<Rightarrow> 'e svc_state \<Rightarrow> nat list result \<times> 'e svc_state" where
  "getDockerAPIVersion ds s =
     (case getDockerVersion ds s of
        (Inl err, s) \<Rightarrow> (Inl err, s)
      | (Inr dv, s) \<Rightarrow> (ex_semver_Parse (svc_ext ds) (dv_APIVersion dv), s))"

definition checkVersionCompatibility :: "'e docker_service \<Rightarrow> 'e svc_state \<Rightarrow> goerror option \<times> 'e svc_state" where
  "checkVersionCompatibility ds s =
     (case getDockerAPIVersion ds s of
        (Inl err, s) \<Rightarrow> (Some err, s)
      | (Inr apiVersion, s) \<Rightarrow>
          (case ex_semver_Parse (svc_ext ds) MinimumDockerAPIVersion of
             Inl err \<Rightarrow> (Some err, s)
           | Inr minAPIVersion \<Rightarrow>
               (if ex_semver_Compare (svc_ext ds) apiVersion minAPIVersion < 0
                then Some (Errorf (''docker API version is older than '' @ MinimumDockerAPIVersion)) else None, s)))"

record VersionResponse =
  vr_Version :: string
  vr_RuntimeName :: string
  vr_RuntimeVersion :: string
  vr_RuntimeApiVersion :: string

definition Version :: "'e docker_service \<Rightarrow> 'e svc_state \<Rightarrow> VersionResponse result \<times> 'e svc_state" where
  "Version ds s =
     (case getDockerVersion ds s of
        (Inl err, s) \<Rightarrow> (Inl err, s)
      | (Inr v, s) \<Rightarrow>
          (Inr \<lparr>vr_Version = kubeAPIVersion, vr_RuntimeName = dockerRuntimeName,
                vr_RuntimeVersion = dv_Version v, vr_RuntimeApiVersion = CRIVersion\<rparr>, s))"

subsection \<open>Runtime status and configuration\<close>

record RuntimeCondition =
  rc_Type :: string
  rc_Status :: bool
  rc_Reason :: string
  rc_Message :: string

record StatusResponse =
  sp_Conditions :: "RuntimeCondition list"
  sp_RuntimeHandlers :: "RuntimeHandler list"
  sp_Info :: "gomap option"

definition sandboxImage :: "'e docker_service \<Rightarrow> string" where
  "sandboxImage ds = (if length (svc_podSandboxImage ds) \<noteq> 0 then svc_podSandboxImage ds else defaultSandboxImage)"

definition Status :: "'e docker_service \<Rightarrow> bool \<Rightarrow> 'e svc_state \<Rightarrow> StatusResponse result \<times> 'e svc_state" where
  "Status ds verbose s =
     (case getDockerVersion ds s of (v, s) \<Rightarrow>
      (let runtimeReady = (case v of
             Inr _ \<Rightarrow> \<lparr>rc_Type = ''RuntimeReady'', rc_Status = True, rc_Reason = [], rc_Message = []\<rparr>
           | Inl err \<Rightarrow> \<lparr>rc_Type = ''RuntimeReady'', rc_Status = False, rc_Reason = ''DockerDaemonNotReady'',
                         rc_Message = ''docker: failed to get docker version: '' @ Error err\<rparr>) in
       case onEnv (PM_Status (svc_network ds)) s of (nst, s) \<Rightarrow>
      (let networkReady = (case nst of
             None \<Rightarrow> \<lparr>rc_Type = ''NetworkReady'', rc_Status = True, rc_Reason = [], rc_Message = []\<rparr>
           | Some err \<Rightarrow> \<lparr>rc_Type = ''NetworkReady'', rc_Status = False, rc_Reason = ''NetworkPluginNotReady'',
                          rc_Message = ''docker: network plugin is not ready: '' @ Error err\<rparr>) in
       case getRuntimeHandlers ds s of
         (Inl err, s) \<Rightarrow> (Inl err, s)
       | (Inr handlers, s) \<Rightarrow>
           (Inr \<lparr>sp_Conditions = [runtimeReady, networkReady], sp_RuntimeHandlers = handlers,
                 sp_Info = (if verbose then Some [(''config'', json_print (JObj [(''sandboxImage'', JStr (sandboxImage ds))]))] else None)\<rparr>, s))))"

datatype cgroup_driver = SYSTEMD | CGROUPFS

definition RuntimeConfig :: "'e docker_service \<Rightarrow> cgroup_driver result" where
  "RuntimeConfig ds =
     (if svc_cgroupDriver ds = ''cgroupfs'' then Inr CGROUPFS
      else if svc_cgroupDriver ds = ''systemd'' then Inr SYSTEMD
      else Inl (Errorf (''unknown cgroup driver: '' @ svc_cgroupDriver ds)))"

definition GenerateExpectedCgroupParent :: "'e docker_service \<Rightarrow> string \<Rightarrow> string result" where
  "GenerateExpectedCgroupParent ds cgroupParent =
     Inr (if cgroupParent \<noteq> [] then (if svc_cgroupDriver ds = ''systemd'' then path_Base cgroupParent else cgroupParent)
          else cgroupParent)"

text \<open>The argument is the pod CIDR of the request, or \<open>None\<close> without a runtime configuration.\<close>

definition UpdateRuntimeConfig :: "'e docker_service \<Rightarrow> string option \<Rightarrow> 'e svc_state \<Rightarrow> 'e svc_state" where
  "UpdateRuntimeConfig ds podCidr s =
     (case podCidr of
        None \<Rightarrow> s
      | Some cidr \<Rightarrow>
          if cidr \<noteq> [] then
            s\<lparr>ss_env := PM_Event (svc_network ds) NET_PLUGIN_EVENT_POD_CIDR_CHANGE
                [(NET_PLUGIN_EVENT_POD_CIDR_CHANGE_DETAIL_CIDR, cidr)] (ss_env s)\<rparr>
          else s)"

subsection \<open>The network-ready map and the clean-up infos\<close>

definition getNetworkReady :: "string \<Rightarrow> 'e svc_state \<Rightarrow> bool \<times> bool" where
  "getNetworkReady podSandboxID s =
     (case map_of (ss_networkReady s) podSandboxID of None \<Rightarrow> (False, False) | Some ready \<Rightarrow> (ready, True))"

definition setNetworkReady :: "string \<Rightarrow> bool \<Rightarrow> 'e svc_state \<Rightarrow> 'e svc_state" where
  "setNetworkReady podSandboxID ready s = s\<lparr>ss_networkReady := mapSet (ss_networkReady s) podSandboxID ready\<rparr>"

definition clearNetworkReady :: "string \<Rightarrow> 'e svc_state \<Rightarrow> 'e svc_state" where
  "clearNetworkReady podSandboxID s = s\<lparr>ss_networkReady := AList.delete podSandboxID (ss_networkReady s)\<rparr>"

definition getContainerCleanupInfo :: "string \<Rightarrow> 'e svc_state \<Rightarrow> unit option" where
  "getContainerCleanupInfo containerID s = map_of (ss_containerCleanupInfos s) containerID"

definition setContainerCleanupInfo :: "string \<Rightarrow> unit \<Rightarrow> 'e svc_state \<Rightarrow> 'e svc_state" where
  "setContainerCleanupInfo containerID info s =
     s\<lparr>ss_containerCleanupInfos := mapSet (ss_containerCleanupInfos s) containerID info\<rparr>"

definition clearContainerCleanupInfo :: "string \<Rightarrow> 'e svc_state \<Rightarrow> 'e svc_state" where
  "clearContainerCleanupInfo containerID s =
     s\<lparr>ss_containerCleanupInfos := AList.delete containerID (ss_containerCleanupInfos s)\<rparr>"

subsection \<open>Start-up\<close>

definition PromiscuousBridge :: string where "PromiscuousBridge = ''promiscuous-bridge''"

definition HairpinVeth :: string where "HairpinVeth = ''hairpin-veth''"

definition HairpinNone :: string where "HairpinNone = ''none''"

record plugin_settings =
  pls_HairpinMode :: string
  pls_NonMasqueradeCIDR :: string
  pls_PluginName :: string
  pls_MTU :: int

definition effectiveHairpinMode :: "plugin_settings \<Rightarrow> plugin_settings result" where
  "effectiveHairpinMode t =
     (if pls_HairpinMode t = PromiscuousBridge \<or> pls_HairpinMode t = HairpinVeth then
        (if pls_HairpinMode t = PromiscuousBridge \<and> pls_PluginName t \<noteq> ''kubenet''
         then Inr (t\<lparr>pls_HairpinMode := HairpinVeth\<rparr>) else Inr t)
      else if pls_HairpinMode t \<noteq> HairpinNone then Inl (Errorf (''unknown value: '' @ fmt_q (pls_HairpinMode t)))
      else Inr t)"

text \<open>The cgroup driver the service uses on Linux, checked against the one of the kubelet.\<close>

definition chooseCgroupDriver :: "string \<Rightarrow> DockerInfo \<Rightarrow> string result" where
  "chooseCgroupDriver kubeCgroupDriver dockerInfo =
     (let cgroupDriver = (if length (di_CgroupDriver dockerInfo) = 0 then defaultCgroupDriver else di_CgroupDriver dockerInfo) in
      if length kubeCgroupDriver \<noteq> 0 \<and> kubeCgroupDriver \<noteq> cgroupDriver then
        Inl (Errorf (''misconfiguration: kubelet cgroup driver: '' @ fmt_q kubeCgroupDriver @
          '' is different from docker cgroup driver: '' @ fmt_q cgroupDriver))
      else Inr cgroupDriver)"

text \<open>
  \<open>newServer\<close> is the outcome of building the streaming server when it is configured, \<open>plugins\<close> the
  CNI and kubenet plugins built from the settings, \<open>dump\<close> the \<^verbatim>\<open>%+v\<close> text of the settings. Until
  the plugin is chosen the network field is nil in Go and not used.
\<close>

definition NewDockerService ::
    "'e externals \<Rightarrow> 'e docker_client \<Rightarrow> 'e sysctl_iface \<Rightarrow> (string \<Rightarrow> string list) \<Rightarrow> goerror option option \<Rightarrow>
      (plugin_settings \<Rightarrow> 'e network_plugin list) \<Rightarrow> (plugin_settings \<Rightarrow> string) \<Rightarrow>
      string \<Rightarrow> plugin_settings \<Rightarrow> string \<Rightarrow> string \<Rightarrow> 'e svc_state \<Rightarrow> 'e docker_service result \<times> 'e svc_state" where
  "NewDockerService ex client sys IsQualifiedName newServer plugins dump podSandboxImage pluginSettings kubeCgroupDriver criDockerdRootDir s =
     (case onFs (NewFileStore (filepath_Join [criDockerdRootDir, sandboxCheckpointDir])) s of
        (Inl err, s) \<Rightarrow> (Inl err, s)
      | (Inr checkpointManager, s) \<Rightarrow>
          (let ds = \<lparr>svc_client = client, svc_podSandboxImage = podSandboxImage, svc_network = NoopNetworkPlugin sys,
                     svc_cgroupDriver = [], svc_checkpointManager = checkpointManager, svc_dockerRootDir = [],
                     svc_streaming = (newServer \<noteq> None), svc_ext = ex\<rparr>;
               s = s\<lparr>ss_networkReady := [], ss_containerCleanupInfos := [], ss_systemInfoCache := []\<rparr>
           in case checkVersionCompatibility ds s of
                (Some err, s) \<Rightarrow> (Inl err, s)
              | (None, s) \<Rightarrow>
                  (case Option.bind newServer id of
                     Some err \<Rightarrow> (Inl err, s)
                   | None \<Rightarrow>
                       (case effectiveHairpinMode pluginSettings of
                          Inl err \<Rightarrow> (Inl err, s)
                        | Inr pluginSettings \<Rightarrow>
                            (case onEnv (\<lambda>e. case InitNetworkPlugin IsQualifiedName sys (plugins pluginSettings)
                                    (pls_PluginName pluginSettings) (pls_HairpinMode pluginSettings)
                                    (pls_NonMasqueradeCIDR pluginSettings) (pls_MTU pluginSettings) e of
                                  (plug, err, e) \<Rightarrow> ((plug, err), e)) s of
                               ((plug, Some err), s) \<Rightarrow>
                                 (Inl (Errorf (''didn't find compatible CNI plugin with given settings '' @ dump pluginSettings @
                                    '': '' @ Error err)), s)
                             | ((None, None), s) \<Rightarrow> (Inl nilDereference, s)
                             | ((Some plug, None), s) \<Rightarrow>
                                 (let ds = ds\<lparr>svc_network := plug\<rparr> in
                                  case getDockerInfo ds s of
                                    (Inl err, s) \<Rightarrow> (Inl (Errorf ''Failed to execute Info() call to the Docker client''), s)
                                  | (Inr dockerInfo, s) \<Rightarrow>
                                      (let ds = ds\<lparr>svc_dockerRootDir := di_DockerRootDir dockerInfo\<rparr> in
                                       case chooseCgroupDriver kubeCgroupDriver dockerInfo of
                                         Inl err \<Rightarrow> (Inl err, s)
                                       | Inr cgroupDriver \<Rightarrow> (Inr (ds\<lparr>svc_cgroupDriver := cgroupDriver\<rparr>), s))))))))"

subsection \<open>Lemmas\<close>

lemma onEnv_frame [simp]:
  "ss_networkReady (snd (onEnv f s)) = ss_networkReady s" "ss_systemInfoCache (snd (onEnv f s)) = ss_systemInfoCache s"
  "ss_fs (snd (onEnv f s)) = ss_fs s" "ss_containerCleanupInfos (snd (onEnv f s)) = ss_containerCleanupInfos s"
  by (simp_all add: onEnv_def split: prod.splits)

lemma onFs_frame [simp]:
  "ss_networkReady (snd (onFs f s)) = ss_networkReady s" "ss_systemInfoCache (snd (onFs f s)) = ss_systemInfoCache s"
  "ss_env (snd (onFs f s)) = ss_env s" "ss_containerCleanupInfos (snd (onFs f s)) = ss_containerCleanupInfos s"
  by (simp_all add: onFs_def split: prod.splits)

lemma onEnv_fields:
  "onEnv f s = (r, s') \<Longrightarrow> ss_networkReady s' = ss_networkReady s \<and> ss_systemInfoCache s' = ss_systemInfoCache s \<and>
     ss_fs s' = ss_fs s \<and> ss_containerCleanupInfos s' = ss_containerCleanupInfos s \<and> f (ss_env s) = (r, ss_env s')"
  by (auto simp: onEnv_def split: prod.splits)

lemma onFs_fields:
  "onFs f s = (r, s') \<Longrightarrow> ss_networkReady s' = ss_networkReady s \<and> ss_systemInfoCache s' = ss_systemInfoCache s \<and>
     ss_env s' = ss_env s \<and> ss_containerCleanupInfos s' = ss_containerCleanupInfos s \<and> f (ss_fs s) = (r, ss_fs s')"
  by (auto simp: onFs_def split: prod.splits)

text \<open>Each key of the system info cache holds values of the type its reader expects.\<close>

definition keyType :: "string \<Rightarrow> cached \<Rightarrow> bool" where
  "keyType key v \<longleftrightarrow> (case v of CVersion _ \<Rightarrow> key = ''docker_version'' | CInfo _ \<Rightarrow> key = ''docker_info''
     | CHandlers _ \<Rightarrow> key = ''docker_info_handlers'')"

definition cacheOk :: "cached cache \<Rightarrow> bool" where
  "cacheOk c \<longleftrightarrow> (\<forall>key e. map_of c key = Some e \<longrightarrow> entryOk (keyType key) e)"

lemma memo_typed:
  assumes "cacheOk (ss_systemInfoCache s)" and f: "\<forall>s v s'. fn s = (Inr v, s') \<longrightarrow> keyType key v"
    and m: "memo ds key fn s = (r, s')"
  shows "cacheOk (ss_systemInfoCache s') \<and> (\<forall>v. r = Inr v \<longrightarrow> (\<exists>w. v = Some w \<and> keyType key w))"
proof -
  obtain c t where M: "Memoize (onEnv (ex_now (svc_ext ds))) key systemInfoCacheMinTTL fn (ss_systemInfoCache s) s = (r, c, t)"
      and s': "s' = t\<lparr>ss_systemInfoCache := c\<rparr>"
    using m by (auto simp: memo_def split: prod.splits)
  have fn: "keyType key v" if "fn s = (Inr v, s')" for s v s' using f that by blast
  have e: "entryOk (keyType k) x" if "map_of (ss_systemInfoCache s) k = Some x" for k x
    using assms(1) that by (auto simp: cacheOk_def)
  have "entryOk (keyType k) x" if "map_of c k = Some x" for k x
  proof (cases "k = key")
    case True
    then show ?thesis using Memoize_entry [OF e fn M] that by simp
  next
    case False
    then show ?thesis using Memoize_frame [OF M] e that by simp
  qed
  moreover have "systemInfoCacheMinTTL \<le> maxDuration" by (simp add: systemInfoCacheMinTTL_def maxDuration_def)
  ultimately show ?thesis using Memoize_value [OF e _ fn, where minTTL = systemInfoCacheMinTTL] M
    by (auto simp: cacheOk_def s')
qed

lemma map_sum_Inr [simp]: "map_sum id f r = Inr v \<longleftrightarrow> (\<exists>x. r = Inr x \<and> v = f x)"
  by (cases r) auto

lemma keyType_cases:
  "keyType ''docker_version'' w \<longleftrightarrow> (\<exists>v. w = CVersion v)" "keyType ''docker_info'' w \<longleftrightarrow> (\<exists>v. w = CInfo v)"
  "keyType ''docker_info_handlers'' w \<longleftrightarrow> (\<exists>v. w = CHandlers v)"
  by (cases w; simp add: keyType_def)+

text \<open>The three readers of the cache: the assertion on the cached value holds, and the cache stays typed.\<close>

lemma getDockerVersion_typed:
  assumes "cacheOk (ss_systemInfoCache s)" and "getDockerVersion ds s = (r, s')"
  shows "cacheOk (ss_systemInfoCache s') \<and> r \<noteq> Inl typeAssertion"
proof -
  let ?fn = "\<lambda>s. case onEnv (dk_Version (svc_client ds)) s of (r, s) \<Rightarrow> (map_sum id CVersion r, s)"
  obtain m s1 where m: "memo ds ''docker_version'' ?fn s = (m, s1)" by fastforce
  have "\<forall>t v t'. ?fn t = (Inr v, t') \<longrightarrow> keyType ''docker_version'' v"
    by (auto simp: keyType_cases split: prod.splits)
  from memo_typed [OF assms(1) this m] assms(2) m show ?thesis
    by (cases m) (auto simp: getDockerVersion_def typeAssertion_def keyType_cases)
qed

lemma getDockerInfo_typed:
  assumes "cacheOk (ss_systemInfoCache s)" and "getDockerInfo ds s = (r, s')"
  shows "cacheOk (ss_systemInfoCache s') \<and> r \<noteq> Inl typeAssertion"
proof -
  let ?fn = "\<lambda>s. case onEnv (dk_Info (svc_client ds)) s of (r, s) \<Rightarrow> (map_sum id CInfo r, s)"
  obtain m s1 where m: "memo ds ''docker_info'' ?fn s = (m, s1)" by fastforce
  have "\<forall>t v t'. ?fn t = (Inr v, t') \<longrightarrow> keyType ''docker_info'' v"
    by (auto simp: keyType_cases split: prod.splits)
  from memo_typed [OF assms(1) this m] assms(2) m show ?thesis
    by (cases m) (auto simp: getDockerInfo_def typeAssertion_def keyType_cases)
qed

lemma getRuntimeHandlers_typed:
  assumes "cacheOk (ss_systemInfoCache s)" and "getRuntimeHandlers ds s = (r, s')"
  shows "cacheOk (ss_systemInfoCache s') \<and> r \<noteq> Inl typeAssertion"
proof -
  obtain i s1 where i: "getDockerInfo ds s = (i, s1)" by fastforce
  note 1 = getDockerInfo_typed [OF assms(1) i]
  show ?thesis
  proof (cases i)
    case (Inl err)
    then show ?thesis using 1 assms(2) i by (auto simp: getRuntimeHandlers_def)
  next
    case (Inr info)
    let ?fn = "\<lambda>s :: 'a svc_state. (map_sum id CHandlers (runtimeHandlers (svc_ext ds) info), s)"
    obtain m s2 where m: "memo ds ''docker_info_handlers'' ?fn s1 = (m, s2)" by fastforce
    have "\<forall>t v t'. ?fn t = (Inr v, t') \<longrightarrow> keyType ''docker_info_handlers'' v"
      by (auto simp: keyType_cases)
    from memo_typed [OF conjunct1 [OF 1] this m] assms(2) i Inr m show ?thesis
      by (cases m) (auto simp: getRuntimeHandlers_def typeAssertion_def keyType_cases)
  qed
qed

text \<open>
  The states of the service as far as the cache goes: it starts empty, the three readers may be
  called in any order, and everything else the service does leaves the cache alone.
\<close>

inductive cacheReach :: "'e docker_service \<Rightarrow> 'e svc_state \<Rightarrow> bool" for ds where
  start: "ss_systemInfoCache s = [] \<Longrightarrow> cacheReach ds s"
| version: "cacheReach ds s \<Longrightarrow> getDockerVersion ds s = (r, s') \<Longrightarrow> cacheReach ds s'"
| info: "cacheReach ds s \<Longrightarrow> getDockerInfo ds s = (r, s') \<Longrightarrow> cacheReach ds s'"
| handlers: "cacheReach ds s \<Longrightarrow> getRuntimeHandlers ds s = (r, s') \<Longrightarrow> cacheReach ds s'"
| other: "cacheReach ds s \<Longrightarrow> ss_systemInfoCache s' = ss_systemInfoCache s \<Longrightarrow> cacheReach ds s'"

lemma cacheReach_ok: "cacheReach ds s \<Longrightarrow> cacheOk (ss_systemInfoCache s)"
proof (induction rule: cacheReach.induct)
  case (start s)
  then show ?case by (simp add: cacheOk_def)
qed (use getDockerVersion_typed getDockerInfo_typed getRuntimeHandlers_typed in \<open>fastforce+\<close>)

text \<open>The handlers that the loop collects, as a multiset: one per runtime, and one more for the default.\<close>

definition rroOf :: "'e externals \<Rightarrow> string option \<Rightarrow> bool option" where
  "rroOf ex status =
     (if ex_kernelSupportsRRO ex then
        (case status of None \<Rightarrow> Some False
         | Some f \<Rightarrow> (case ex_ociMountOptions ex f of Inl _ \<Rightarrow> None | Inr opts \<Rightarrow> Some (''rro'' \<in> set opts)))
      else Some False)"

definition handlersOf :: "'e externals \<Rightarrow> string \<Rightarrow> string \<times> string option \<Rightarrow> RuntimeHandler multiset" where
  "handlersOf ex defaultRuntime r =
     (let h = \<lparr>rh_Name = fst r, rh_RecursiveReadOnlyMounts = the (rroOf ex (snd r))\<rparr> in
      if fst r = defaultRuntime then {#h, h\<lparr>rh_Name := []\<rparr>#} else {#h#})"

lemma runtimeHandlerLoop_spec:
  "case runtimeHandlerLoop ex d rs hs of
     Inl _ \<Rightarrow> \<exists>r \<in> set rs. rroOf ex (snd r) = None
   | Inr hs' \<Rightarrow> (\<forall>r \<in> set rs. rroOf ex (snd r) \<noteq> None) \<and> mset hs' = mset hs + (\<Sum>r \<in># mset rs. handlersOf ex d r)"
proof (induction rs arbitrary: hs)
  case (Cons r rs)
  obtain n st where r: "r = (n, st)" by fastforce
  show ?case
  proof (cases "rroOf ex st")
    case None
    then show ?thesis by (auto simp: r rroOf_def split: option.splits sum.splits if_splits)
  next
    case (Some b)
    define hs' where "hs' = (if n = d then [\<lparr>rh_Name = [], rh_RecursiveReadOnlyMounts = b\<rparr>] else []) @ hs @
       [\<lparr>rh_Name = n, rh_RecursiveReadOnlyMounts = b\<rparr>]"
    have step: "runtimeHandlerLoop ex d (r # rs) hs = runtimeHandlerLoop ex d rs hs'"
      using Some by (auto simp: r rroOf_def hs'_def split: option.splits sum.splits if_splits)
    have m: "mset hs' = mset hs + handlersOf ex d r" by (simp add: handlersOf_def r Some hs'_def)
    show ?thesis unfolding step using Cons.IH [of hs'] Some
      by (cases "runtimeHandlerLoop ex d rs hs'") (simp_all add: r m [unfolded r] add.assoc)
  qed
qed simp

lemma runtimeHandlers_names:
  assumes "distinct (map fst rs)" and "[] \<notin> fst ` set rs" and "h \<in># (\<Sum>r \<in># mset rs. handlersOf ex d r)"
    and "h' \<in># (\<Sum>r \<in># mset rs. handlersOf ex d r)" and "rh_Name h = rh_Name h'"
  shows "h = h'"
proof -
  obtain r r' where r: "r \<in> set rs" "h \<in># handlersOf ex d r" and r': "r' \<in> set rs" "h' \<in># handlersOf ex d r'"
    using assms(3,4) by auto
  have n: "fst r \<noteq> []" "fst r' \<noteq> []" using assms(2) r r' by force+
  have "fst r = fst r'" using r(2) r'(2) assms(5) n by (auto simp: handlersOf_def Let_def split: if_splits)
  then have "r = r'" using assms(1) r(1) r'(1) by (metis distinct_map inj_on_def)
  then show ?thesis using r(2) r'(2) assms(5) n by (auto simp: handlersOf_def Let_def split: if_splits)
qed

text \<open>A service over the fake daemon, with the no-op network plugin and an empty checkpoint store.\<close>

definition exampleExternals :: "fake_docker externals" where
  "exampleExternals =
     \<lparr>ex_now = fakeNow, ex_spew = (\<lambda>d. ''data''), ex_kernelSupportsRRO = True, ex_ociMountOptions = (\<lambda>f. Inr [f]),
      ex_semver_Parse = (\<lambda>v. Inr [1, 42, 0]), ex_semver_Compare = (\<lambda>a b. 0), ex_dnsMarshal = (\<lambda>d. Inr ''{}''),
      ex_keyringLookup = (\<lambda>r. None), ex_ParseNamed = (\<lambda>r. Inr (r, None, None)), ex_InitLabels = (\<lambda>os. Inr []),
      ex_Relabel = (\<lambda>p l sh e. (None, e)), ex_randUint32 = fakeRand,
      ex_seccomp = \<lparr>sj_Unmarshal = (\<lambda>t. Inl (Errorf t)), sj_Marshal = (\<lambda>p. Inr []), sj_Compact = Inr, sj_sha256 = (\<lambda>t. t),
        sj_String = (\<lambda>p. [])\<rparr>\<rparr>"

definition examplePlugin :: "fake_docker network_plugin" where
  "examplePlugin = NoopNetworkPlugin \<lparr>sys_modprobe = (\<lambda>n e. e), sys_GetSysctl = (\<lambda>k e. (Inr 1, e)), sys_SetSysctl = (\<lambda>k v e. (None, e))\<rparr>"

definition exampleService :: "fake_docker docker_service" where
  "exampleService = \<lparr>svc_client = fakeClient, svc_podSandboxImage = [], svc_network = examplePlugin, svc_cgroupDriver = ''cgroupfs'',
     svc_checkpointManager = FileStore (absPath checkpointDir), svc_dockerRootDir = ''/var/lib/docker'', svc_streaming = False,
     svc_ext = exampleExternals\<rparr>"

definition exampleDaemon :: fake_docker where
  "exampleDaemon = NewFakeDockerClient (\<lambda>n. 1700000000 * 10 ^ 9 + int n) (\<lambda>n. 0) 1"

definition exampleState :: "fake_docker svc_state" where
  "exampleState = \<lparr>ss_networkReady = [], ss_containerCleanupInfos = [], ss_systemInfoCache = [], ss_fs = exampleFs, ss_env = exampleDaemon\<rparr>"

text \<open>The facts that evaluate a run of the example service.\<close>

lemmas example_run = exampleService_def exampleExternals_def exampleState_def exampleDaemon_def NewFakeDockerClient_def
  SetFakeContainers_def fakeClient_def onEnv_def memo_def Memoize_def getEntry_def zeroEntry_def timeSub_def maxDuration_def
  systemInfoCacheMinTTL_def fakeNow_def Fake_Version_def Fake_Info_def appendCalled_def popError_def

subsection \<open>Properties\<close>

text \<open>C25. The type assertions on cached values never panic: in every state the service can reach, the
  cached version, info and handler list are read back with the type they were stored with,
  however the reads interleave with each other, with expiry and with errors of the daemon.\<close>

theorem system_info_assertions_hold:
  assumes "cacheReach ds s"
  shows "fst (getDockerVersion ds s) \<noteq> Inl typeAssertion \<and> fst (getDockerInfo ds s) \<noteq> Inl typeAssertion \<and>
     fst (getRuntimeHandlers ds s) \<noteq> Inl typeAssertion"
  using cacheReach_ok [OF assms] getDockerVersion_typed getDockerInfo_typed getRuntimeHandlers_typed
  by (metis prod.collapse)

theorem system_info_assertions_hold_witness:
  "fst (getDockerVersion exampleService (snd (getRuntimeHandlers exampleService exampleState))) \<noteq> Inl typeAssertion"
proof -
  have "cacheReach exampleService exampleState" by (rule cacheReach.start) (simp add: exampleState_def)
  from cacheReach.handlers [OF this surjective_pairing] show ?thesis using system_info_assertions_hold by blast
qed

text \<open>The list of runtime handlers does not depend on the order in which Go ranges over the map of
  runtimes: any two orders give the same list, or both fail.\<close>

lemma runtimeHandlers_order_independent:
  assumes "mset (di_Runtimes i) = mset (di_Runtimes j)" and "di_DefaultRuntime i = di_DefaultRuntime j"
    and "goMapOk (di_Runtimes i)" and "[] \<notin> fst ` set (di_Runtimes i)"
  shows "case (runtimeHandlers ex i, runtimeHandlers ex j) of
     (Inr a, Inr b) \<Rightarrow> a = b | (Inl _, Inl _) \<Rightarrow> True | _ \<Rightarrow> False"
proof -
  let ?d = "di_DefaultRuntime i"
  note a = runtimeHandlerLoop_spec [where ex = ex and d = ?d and rs = "di_Runtimes i" and hs = "[]"]
    and b = runtimeHandlerLoop_spec [where ex = ex and d = ?d and rs = "di_Runtimes j" and hs = "[]"]
  have set_eq: "set (di_Runtimes i) = set (di_Runtimes j)" using assms(1) by (rule mset_eq_setD)
  show ?thesis
  proof (cases "runtimeHandlerLoop ex ?d (di_Runtimes i) []")
    case (Inl e)
    then show ?thesis using a b set_eq assms(2) by (auto simp: runtimeHandlers_def split: sum.splits)
  next
    case (Inr as)
    then obtain bs where bs: "runtimeHandlerLoop ex ?d (di_Runtimes j) [] = Inr bs"
      using a b set_eq by (auto split: sum.splits)
    have m: "mset as = mset bs" "mset as = (\<Sum>r \<in># mset (di_Runtimes i). handlersOf ex ?d r)"
      using a b Inr bs assms(1) by simp_all
    have "inj_on rh_Name (set as)"
    proof (rule inj_onI)
      fix x y
      assume "x \<in> set as" "y \<in> set as" "rh_Name x = rh_Name y"
      then have "x \<in># (\<Sum>r \<in># mset (di_Runtimes i). handlersOf ex ?d r)" "y \<in># (\<Sum>r \<in># mset (di_Runtimes i). handlersOf ex ?d r)"
        using m(2) by (metis set_mset_mset)+
      then show "x = y" using runtimeHandlers_names [OF assms(3,4)] \<open>rh_Name x = rh_Name y\<close> by blast
    qed
    then have "sort_key rh_Name as = sort_key rh_Name bs"
      using m(1) by (intro sort_key_inj_key_eq) simp_all
    then show ?thesis using Inr bs assms(2) by (simp add: runtimeHandlers_def)
  qed
qed

definition exampleInfo :: "(string \<times> string option) list \<Rightarrow> DockerInfo" where
  "exampleInfo rs = \<lparr>di_Runtimes = rs, di_DefaultRuntime = ''runc'', di_LoggingDriver = [], di_CgroupDriver = [], di_DockerRootDir = []\<rparr>"

end
