(* ===== verification/Service_Contract.thy ===== *)
theory Service_Contract
  imports Docker_Service
begin

text \<open>
  What the handlers rely on beyond the daemon contract of \<open>Fake_Docker\<close>: the clock, the random
  source, the network plugin and the relabelling do not change the containers of the daemon. The
  lemmas of the locale say which parts of the service state a call to the environment leaves
  alone; the container and the sandbox handlers build on them. The locale is interpreted on the
  service over the fake client of the repository, with the no-op plugin.
\<close>

text \<open>What is observed of a service state: the daemon's containers and the network-ready map.\<close>

definition obs :: "('e \<Rightarrow> string \<Rightarrow> ContainerJSON option) \<Rightarrow> 'e svc_state \<Rightarrow> (string \<Rightarrow> ContainerJSON option) \<times> (string \<times> bool) list" where
  "obs view s = (view (ss_env s), ss_networkReady s)"

lemma obs_onEnv:
  assumes "onEnv f s = (r, s')" and "\<And>e'. f (ss_env s) = (r, e') \<Longrightarrow> view e' = view (ss_env s)"
  shows "obs view s' = obs view s"
  using assms by (auto simp: onEnv_def obs_def split: prod.splits)

lemma obs_onFs: "onFs f s = (r, s') \<Longrightarrow> obs view s' = obs view s"
  by (auto simp: onFs_def obs_def split: prod.splits)

lemma obs_view: "obs view s' = obs view s \<Longrightarrow> view (ss_env s') = view (ss_env s)"
  by (simp add: obs_def)

lemma getNetworkReady_setNetworkReady [simp]: "getNetworkReady i (setNetworkReady i b s) = (b, True)"
  by (simp add: getNetworkReady_def setNetworkReady_def)

lemma ss_env_setNetworkReady [simp]: "ss_env (setNetworkReady i b s) = ss_env s"
  by (simp add: setNetworkReady_def)

locale service_env = docker_contract dk view
  for dk :: "'e docker_client" and view :: "'e \<Rightarrow> string \<Rightarrow> ContainerJSON option" +
  fixes ds :: "'e docker_service"
  assumes client: "svc_client ds = dk"
    and now_frame: "ex_now (svc_ext ds) e = (t, e') \<Longrightarrow> view e' = view e"
    and rand_frame: "ex_randUint32 (svc_ext ds) e = (w, e') \<Longrightarrow> view e' = view e"
    and relabel_frame: "ex_Relabel (svc_ext ds) p l b e = (x, e') \<Longrightarrow> view e' = view e"
    and setup_frame: "np_SetUpPod (svc_network ds) ns n c an os e = (x, e') \<Longrightarrow> view e' = view e"
    and teardown_frame: "np_TearDownPod (svc_network ds) ns n c e = (x, e') \<Longrightarrow> view e' = view e"
    and netstatus_frame: "np_GetPodNetworkStatus (svc_network ds) ns n c e = (y, e') \<Longrightarrow> view e' = view e"
begin

lemma memo_frame:
  assumes "memo ds key fn s = (r, s')" and fn: "\<And>s r s'. fn s = (r, s') \<Longrightarrow> obs view s' = obs view s"
  shows "obs view s' = obs view s"
proof -
  obtain c t where M: "Memoize (onEnv (ex_now (svc_ext ds))) key systemInfoCacheMinTTL fn (ss_systemInfoCache s) s = (r, c, t)"
    and s': "s' = t\<lparr>ss_systemInfoCache := c\<rparr>" using assms(1) by (auto simp: memo_def split: prod.splits)
  have now: "onEnv (ex_now (svc_ext ds)) a = (x, b) \<Longrightarrow> obs view b = obs view a" for a x b
    by (erule obs_onEnv) (rule now_frame)
  have "obs view t = obs view s" using M
    by (auto simp: Memoize_def split: prod.splits sum.splits if_splits dest!: now fn)
  then show ?thesis by (simp add: s' obs_def)
qed

lemma getDockerVersion_frame:
  assumes "getDockerVersion ds s = (r, s')"
  shows "obs view s' = obs view s"
proof -
  let ?fn = "\<lambda>s. case onEnv (dk_Version (svc_client ds)) s of (r, s) \<Rightarrow> (map_sum id CVersion r, s)"
  obtain m t where m: "memo ds ''docker_version'' ?fn s = (m, t)" by fastforce
  have "obs view t = obs view s"
    by (rule memo_frame [OF m]) (auto simp: client split: prod.splits elim!: obs_onEnv dest: version_frame)
  then show ?thesis using assms by (auto simp: getDockerVersion_def m split: sum.splits option.splits cached.splits)
qed

lemma getDockerInfo_frame:
  assumes "getDockerInfo ds s = (r, s')"
  shows "obs view s' = obs view s"
proof -
  let ?fn = "\<lambda>s. case onEnv (dk_Info (svc_client ds)) s of (r, s) \<Rightarrow> (map_sum id CInfo r, s)"
  obtain m t where m: "memo ds ''docker_info'' ?fn s = (m, t)" by fastforce
  have "obs view t = obs view s"
    by (rule memo_frame [OF m]) (auto simp: client split: prod.splits elim!: obs_onEnv dest: info_frame)
  then show ?thesis using assms by (auto simp: getDockerInfo_def m split: sum.splits option.splits cached.splits)
qed

lemma getRuntimeHandlers_frame:
  assumes "getRuntimeHandlers ds s = (r, s')"
  shows "obs view s' = obs view s"
proof -
  obtain i t where i: "getDockerInfo ds s = (i, t)" by fastforce
  show ?thesis
  proof (cases i)
    case (Inr info)
    let ?fn = "\<lambda>s :: 'e svc_state. (map_sum id CHandlers (runtimeHandlers (svc_ext ds) info), s)"
    obtain m u where m: "memo ds ''docker_info_handlers'' ?fn t = (m, u)" by fastforce
    have "obs view u = obs view t" by (rule memo_frame [OF m]) simp
    then show ?thesis using assms getDockerInfo_frame [OF i]
      by (auto simp: getRuntimeHandlers_def i Inr m split: sum.splits option.splits cached.splits)
  qed (use assms getDockerInfo_frame [OF i] in \<open>simp add: getRuntimeHandlers_def i\<close>)
qed

lemma inspect_obs:
  assumes "onEnv (dk_InspectContainer (svc_client ds) i) s = (r, s')"
  shows "obs view s' = obs view s" and "r = Inr j \<Longrightarrow> view (ss_env s) i = Some j"
  using assms inspect_frame inspect_ok by (auto simp: client onEnv_def obs_def split: prod.splits)

lemma PM_SetUpPod_frame: "PM_SetUpPod (svc_network ds) ns n c an os e = (x, e') \<Longrightarrow> view e' = view e"
  by (auto simp: PM_SetUpPod_def Let_def split: prod.splits option.splits dest: setup_frame)

lemma PM_TearDownPod_frame: "PM_TearDownPod (svc_network ds) ns n c e = (x, e') \<Longrightarrow> view e' = view e"
  by (auto simp: PM_TearDownPod_def Let_def split: prod.splits option.splits dest: teardown_frame)

lemma PM_GetPodNetworkStatus_frame: "PM_GetPodNetworkStatus (svc_network ds) ns n c e = (y, e') \<Longrightarrow> view e' = view e"
  by (auto simp: PM_GetPodNetworkStatus_def Let_def split: prod.splits sum.splits dest: netstatus_frame)

end

interpretation exsvc: service_env fakeClient fakeView exampleService
proof unfold_locales
qed (auto simp: exampleService_def exampleExternals_def examplePlugin_def NoopNetworkPlugin_def fakeView_def dest: fake_map)

end
