(* ===== verification/Convert.thy ===== *)
theory Convert
  imports Checkpoint Labels Libdocker Go_Time
begin

text \<open>
  Conversion between the Docker API types and the CRI types (\<^verbatim>\<open>core/convert.go\<close>, the user parsing of
  \<^verbatim>\<open>core/image.go\<close>, and \<^verbatim>\<open>utils/parsers.go\<close>).
\<close>

subsection \<open>Images\<close>

record Image =
  img_Id :: string
  img_RepoTags :: "string list"
  img_RepoDigests :: "string list"
  img_Size :: "64 word"
  img_Pinned :: bool
  img_Uid :: "int option"
  img_Username :: string

text \<open>\<^verbatim>\<open>strconv.ParseInt(s, 10, 64)\<close>.\<close>

definition strconv_ParseInt64 :: "string \<Rightarrow> int option" where
  "strconv_ParseInt64 s =
     (case s of
        [] \<Rightarrow> None
      | c # cs \<Rightarrow>
          (let neg = (c = CHR ''-''); ds = (if c = CHR ''-'' \<or> c = CHR ''+'' then cs else s) in
           case strconv_ParseUint ds 64 of
             Inl _ \<Rightarrow> None
           | Inr un \<Rightarrow>
               if \<not> neg \<and> un \<ge> 2 ^ 63 then None
               else if neg \<and> un > 2 ^ 63 then None
               else Some (if neg then - int un else int un)))"

definition parseUserFromImageUser :: "string \<Rightarrow> string" where
  "parseUserFromImageUser i =
     (if i = [] then i
      else if strings_Contains i '':'' then hd (strings_Split i (CHR '':''))
      else i)"

definition getUserFromImageUser :: "string \<Rightarrow> int option \<times> string" where
  "getUserFromImageUser imageUser =
     (let user = parseUserFromImageUser imageUser in
      if user = [] then (None, [])
      else (case strconv_ParseInt64 user of None \<Rightarrow> (None, user) | Some uid \<Rightarrow> (Some uid, [])))"

definition imageToRuntimeAPIImage :: "ImageSummary option \<Rightarrow> bool \<Rightarrow> Image result" where
  "imageToRuntimeAPIImage img pinned =
     (case img of
        None \<Rightarrow> Inl (Errorf ''unable to convert a nil pointer to a runtime API image'')
      | Some i \<Rightarrow> Inr \<lparr>img_Id = is_ID i, img_RepoTags = is_RepoTags i, img_RepoDigests = is_RepoDigests i,
                        img_Size = word_of_int (is_Size i), img_Pinned = pinned, img_Uid = None, img_Username = []\<rparr>)"

definition imageInspectToRuntimeAPIImage :: "ImageInspect option \<Rightarrow> bool \<Rightarrow> Image result" where
  "imageInspectToRuntimeAPIImage img pinned =
     (case Option.bind img (\<lambda>i. map_option (Pair i) (ii_Config i)) of
        None \<Rightarrow> Inl (Errorf ''unable to convert a nil pointer to a runtime API image'')
      | Some (i, config) \<Rightarrow>
          (case getUserFromImageUser (dc_User config) of (uid, username) \<Rightarrow>
             Inr \<lparr>img_Id = ii_ID i, img_RepoTags = ii_RepoTags i, img_RepoDigests = ii_RepoDigests i,
                  img_Size = word_of_int (ii_Size i), img_Pinned = pinned, img_Uid = uid, img_Username = username\<rparr>))"

definition toPullableImageID :: "string \<Rightarrow> ImageInspect option \<Rightarrow> string" where
  "toPullableImageID i img =
     (case img of
        None \<Rightarrow> DockerImageIDPrefix @ i
      | Some r \<Rightarrow> if length (ii_RepoDigests r) > 0 then DockerPullableImageIDPrefix @ hd (ii_RepoDigests r)
                   else DockerImageIDPrefix @ i)"

text \<open>
  \<^verbatim>\<open>utils.ParseImageName\<close>. \<open>ParseNamed\<close> is the reference parser: the normalised name with the tag and
  the digest it carries.
\<close>

definition ParseImageName ::
    "(string \<Rightarrow> (string \<times> string option \<times> string option) result) \<Rightarrow> string \<Rightarrow> (string \<times> string \<times> string) result" where
  "ParseImageName ParseNamed img =
     (case ParseNamed img of
        Inl err \<Rightarrow> Inl (Errorf (''couldn't parse image name: '' @ Error err))
      | Inr (repoToPull, tagged, digested) \<Rightarrow>
          (let tag = (case tagged of None \<Rightarrow> [] | Some t \<Rightarrow> t); digest = (case digested of None \<Rightarrow> [] | Some d \<Rightarrow> d);
               tag = (if length tag = 0 \<and> length digest = 0 then ''latest'' else tag)
           in Inr (repoToPull, tag, digest)))"

subsection \<open>Verbose image information\<close>

text \<open>The image history is reversed in place by swapping from both ends.\<close>

function swapLoop :: "nat \<Rightarrow> nat \<Rightarrow> 'a list \<Rightarrow> 'a list" where
  "swapLoop left right xs =
     (if left < right then swapLoop (left + 1) (right - 1) (xs[left := xs ! right, right := xs ! left]) else xs)"
  by pat_completeness auto
termination by (relation "measure (\<lambda>(left, right, _). right - left)") auto

declare swapLoop.simps [simp del]

record History =
  his_Created :: int
  his_CreatedBy :: string
  his_Comment :: string
  his_EmptyLayer :: bool

definition toRuntimeAPIHistory :: "HistoryItem list \<Rightarrow> History list" where
  "toRuntimeAPIHistory history =
     (let r = map (\<lambda>h. \<lparr>his_Created = hi_Created h * 10 ^ 9, his_CreatedBy = hi_CreatedBy h, his_Comment = hi_Comment h,
                        his_EmptyLayer = (hi_Size h = 0)\<rparr>) history
      in swapLoop 0 (length r - 1) r)"

text \<open>JSON objects: a field that is left out when empty, and maps, whose keys are sorted.\<close>

definition optStr :: "string \<Rightarrow> string \<Rightarrow> (string \<times> json) list" where
  "optStr k v = (if v = [] then [] else [(k, JStr v)])"

definition optStrs :: "string \<Rightarrow> string list \<Rightarrow> (string \<times> json) list" where
  "optStrs k vs = (if vs = [] then [] else [(k, JArr (map JStr vs))])"

definition optSet :: "string \<Rightarrow> string list \<Rightarrow> (string \<times> json) list" where
  "optSet k vs = (if vs = [] then [] else [(k, JObj (map (\<lambda>x. (x, JObj [])) (sort vs)))])"

definition optMap :: "string \<Rightarrow> gomap \<Rightarrow> (string \<times> json) list" where
  "optMap k m = (if m = [] then [] else [(k, JObj (map (apsnd JStr) (sort_key fst m)))])"

definition toRuntimeAPIConfig :: "DockerConfig \<Rightarrow> json" where
  "toRuntimeAPIConfig config =
     JObj (optStr ''User'' (dc_User config) @ optSet ''ExposedPorts'' (dc_ExposedPorts config) @ optStrs ''Env'' (dc_Env config) @
       optStrs ''Entrypoint'' (dc_Entrypoint config) @ optStrs ''Cmd'' (dc_Cmd config) @ optSet ''Volumes'' (dc_Volumes config) @
       optStr ''WorkingDir'' (dc_WorkingDir config) @ optMap ''Labels'' (dc_Labels config) @ optStr ''StopSignal'' (dc_StopSignal config))"

definition toRuntimeAPIRootFS :: "ImageInspect \<Rightarrow> json" where
  "toRuntimeAPIRootFS i = JObj [(''type'', JStr (ii_RootFSType i)), (''diff_ids'', JArr (map JStr (ii_RootFSLayers i)))]"

definition historyJson :: "History \<Rightarrow> json" where
  "historyJson h = JObj ([(''created'', JStr (formatRFC3339Nano (his_Created h)))] @ optStr ''created_by'' (his_CreatedBy h) @
     optStr ''comment'' (his_Comment h) @ (if his_EmptyLayer h then [(''empty_layer'', JBool True)] else []))"

definition imageInspectToRuntimeAPIImageInfo :: "ImageInspect \<Rightarrow> HistoryItem list \<Rightarrow> gomap result" where
  "imageInspectToRuntimeAPIImageInfo img history =
     (case ParseDockerTimestamp (ii_Created img) of
        Inl err \<Rightarrow> Inl err
      | Inr createdAt \<Rightarrow>
          (case ii_Config img of
             None \<Rightarrow> Inl nilDereference
           | Some config \<Rightarrow>
               (let h = toRuntimeAPIHistory history;
                    imageSpec = JObj ([(''created'', JStr (formatRFC3339Nano createdAt))] @ optStr ''author'' (ii_Author img) @
                      [(''architecture'', JStr (ii_Architecture img)), (''os'', JStr (ii_Os img)), (''config'', toRuntimeAPIConfig config),
                       (''rootfs'', toRuntimeAPIRootFS img)] @
                      (if h = [] then [] else [(''history'', JArr (map historyJson h))]))
                in Inr [(''info'', json_print (JObj (optMap ''labels'' (dc_Labels config) @ [(''imageSpec'', imageSpec)])))])))"

subsection \<open>Containers and sandboxes\<close>

record Container =
  ctr_Id :: string
  ctr_PodSandboxId :: string
  ctr_Metadata :: ContainerMetadata
  ctr_Image :: string
  ctr_ImageRef :: string
  ctr_State :: ContainerState
  ctr_CreatedAt :: int
  ctr_Labels :: gomap
  ctr_Annotations :: gomap

record PodSandbox =
  psb_Id :: string
  psb_Metadata :: PodSandboxMetadata
  psb_State :: PodSandboxState
  psb_CreatedAt :: int
  psb_Labels :: gomap
  psb_Annotations :: gomap

definition containerInspectToRuntimeAPIContainerInfo :: "ContainerJSON \<Rightarrow> gomap result" where
  "containerInspectToRuntimeAPIContainerInfo container =
     Inr [(''info'', json_print (JObj [(''sandboxID'', JStr (mapGet (dc_Labels (cj_Config container)) sandboxIDLabelKey)),
       (''pid'', JNum (fmt_int (ds_Pid (cj_State container))))]))]"

definition toDockerContainerStatus :: "ContainerState \<Rightarrow> string" where
  "toDockerContainerStatus state =
     (case state of CONTAINER_CREATED \<Rightarrow> ''created'' | CONTAINER_RUNNING \<Rightarrow> ''running'' | CONTAINER_EXITED \<Rightarrow> ''exited''
      | CONTAINER_UNKNOWN \<Rightarrow> ''unknown'')"

definition toRuntimeAPIContainerState :: "string \<Rightarrow> ContainerState" where
  "toRuntimeAPIContainerState state =
     (if strings_HasPrefix state StatusRunningPrefix then CONTAINER_RUNNING
      else if strings_HasPrefix state StatusExitedPrefix then CONTAINER_EXITED
      else if strings_HasPrefix state StatusCreatedPrefix then CONTAINER_CREATED
      else CONTAINER_UNKNOWN)"

definition toRuntimeAPISandboxState :: "string \<Rightarrow> PodSandboxState" where
  "toRuntimeAPISandboxState state =
     (if strings_HasPrefix state StatusRunningPrefix then SANDBOX_READY else SANDBOX_NOTREADY)"

text \<open>\<open>%+v\<close> of the container in the first error is abbreviated to its identifier.\<close>

definition toRuntimeAPIContainer :: "DockerContainer \<Rightarrow> Container result" where
  "toRuntimeAPIContainer c =
     (case dct_Names c of
        [] \<Rightarrow> Inl (Errorf (''unexpected empty container name: '' @ dct_ID c))
      | name # _ \<Rightarrow>
          (case parseContainerName name of
             Inl err \<Rightarrow> Inl err
           | Inr metadata \<Rightarrow>
               (case extractLabels (dct_Labels c) of (labels, annotations) \<Rightarrow>
                 Inr \<lparr>ctr_Id = dct_ID c, ctr_PodSandboxId = mapGet (dct_Labels c) sandboxIDLabelKey, ctr_Metadata = metadata,
                      ctr_Image = dct_Image c, ctr_ImageRef = dct_ImageID c, ctr_State = toRuntimeAPIContainerState (dct_Status c),
                      ctr_CreatedAt = wrap64 (dct_Created c * timeSecond), ctr_Labels = labels, ctr_Annotations = annotations\<rparr>)))"

definition containerToRuntimeAPISandbox :: "DockerContainer \<Rightarrow> PodSandbox result" where
  "containerToRuntimeAPISandbox c =
     (case dct_Names c of
        [] \<Rightarrow> Inl (Errorf (''unexpected empty sandbox name: '' @ dct_ID c))
      | name # _ \<Rightarrow>
          (case parseSandboxName name of
             Inl err \<Rightarrow> Inl err
           | Inr metadata \<Rightarrow>
               (case extractLabels (dct_Labels c) of (labels, annotations) \<Rightarrow>
                 Inr \<lparr>psb_Id = dct_ID c, psb_Metadata = metadata, psb_State = toRuntimeAPISandboxState (dct_Status c),
                      psb_CreatedAt = wrap64 (dct_Created c * timeSecond), psb_Labels = labels, psb_Annotations = annotations\<rparr>)))"

definition checkpointToRuntimeAPISandbox :: "string \<Rightarrow> PodSandboxCheckpoint \<Rightarrow> PodSandbox result" where
  "checkpointToRuntimeAPISandbox i checkpoint =
     (case GetData checkpoint of
        Inl err \<Rightarrow> Inl err
      | Inr (_, name, namespace, _, _) \<Rightarrow>
          Inr \<lparr>psb_Id = i, psb_Metadata = \<lparr>psm_Name = name, psm_Uid = [], psm_Namespace = namespace, psm_Attempt = 0\<rparr>,
               psb_State = SANDBOX_NOTREADY, psb_CreatedAt = 0, psb_Labels = [], psb_Annotations = []\<rparr>)"

subsection \<open>Lemmas\<close>

lemma swapLoop_spec:
  assumes "right < length xs" and "i < length xs"
  shows "swapLoop left right xs ! i = (if left \<le> i \<and> i \<le> right then xs ! (left + right - i) else xs ! i)"
  using assms
proof (induction left right xs rule: swapLoop.induct)
  case (1 left right xs)
  show ?case
  proof (cases "left < right")
    case True
    let ?ys = "xs[left := xs ! right, right := xs ! left]"
    have "swapLoop left right xs ! i = swapLoop (left + 1) (right - 1) ?ys ! i"
      using True by (subst swapLoop.simps) simp
    also have "\<dots> = (if left + 1 \<le> i \<and> i \<le> right - 1 then ?ys ! (left + right - i) else ?ys ! i)"
      using 1 True by simp
    also have "\<dots> = (if left \<le> i \<and> i \<le> right then xs ! (left + right - i) else xs ! i)"
      using True 1(2,3) by (auto simp: nth_list_update)
    finally show ?thesis .
  next
    case False
    then have "left + right - i = i" if "left \<le> i \<and> i \<le> right" using that by linarith
    then show ?thesis using False by (subst swapLoop.simps) simp
  qed
qed

lemma length_swapLoop [simp]: "length (swapLoop left right xs) = length xs"
  by (induction left right xs rule: swapLoop.induct) (subst swapLoop.simps, simp)

lemma swapLoop_rev: "swapLoop 0 (length xs - 1) xs = rev xs"
proof (cases "xs = []")
  case True
  then show ?thesis by (subst swapLoop.simps) simp
next
  case False
  then show ?thesis by (intro nth_equalityI) (auto simp: swapLoop_spec rev_nth)
qed

subsection \<open>Properties\<close>

text \<open>The in-place reversal of the image history terminates and gives the history in the opposite
  order, every entry converted: creation time in nanoseconds, and a layer is empty when its size is 0.\<close>

lemma toRuntimeAPIHistory_reverses:
  "toRuntimeAPIHistory history =
     rev (map (\<lambda>h. \<lparr>his_Created = hi_Created h * 10 ^ 9, his_CreatedBy = hi_CreatedBy h, his_Comment = hi_Comment h,
                    his_EmptyLayer = (hi_Size h = 0)\<rparr>) history)"
  by (simp only: toRuntimeAPIHistory_def Let_def swapLoop_rev)

end
