(* ===== verification/Container_Ops.thy ===== *)
theory Container_Ops
  imports Service_Contract Convert
begin

text \<open>
  The container handlers (\<^verbatim>\<open>core/container_*.go\<close>), with the log links of \<^verbatim>\<open>core/logs.go\<close> and the Linux
  helpers of \<^verbatim>\<open>core/helpers_linux.go\<close>. A handler takes the service, the request and the state and
  returns the response or the error, with the new state.
\<close>

subsection \<open>Regular expressions on daemon errors\<close>

definition inUseBy :: string where "inUseBy = '' is already in use by container ''"

text \<open>What follows the marker: an optional quote, then the identifier.\<close>

definition conflictTail :: "string \<Rightarrow> string option" where
  "conflictTail t =
     (if prefix inUseBy t then
        (let r = drop (length inUseBy) t;
             r = (case r of [] \<Rightarrow> [] | c # cs \<Rightarrow> if c = CHR 0x22 then cs else r);
             i = takeWhile idByte r
         in if i = [] then None else Some i)
      else None)"

text \<open>
  \<^verbatim>\<open>conflictRE\<close> at one position: \<^verbatim>\<open>Conflict\<close>, any byte, a blank, at least one byte (as many as possible,
  within the line), then the marker and the identifier.
\<close>

definition conflictAt :: "string \<Rightarrow> string option" where
  "conflictAt t =
     (if prefix ''Conflict'' t then
        (case drop (length ''Conflict'') t of
           a # b # r \<Rightarrow>
             if a \<noteq> newline \<and> b = CHR '' '' then
               firstSome (\<lambda>k. conflictTail (drop k r)) (rev [1..<Suc (length (takeWhile (\<lambda>c. c \<noteq> newline) r))])
             else None
         | _ \<Rightarrow> None)
      else None)"

definition conflictRE :: "string \<Rightarrow> string option" where
  "conflictRE s = firstSome conflictAt (tails s)"

definition escQuote :: string where "escQuote = [CHR 0x5C, CHR 0x5C, CHR 0x5C, CHR 0x22]"

definition startRE :: "string \<Rightarrow> bool" where
  "startRE s = list_ex (\<lambda>t. prefix escQuote t \<and>
     (let r = drop (length escQuote) t in
      list_ex (\<lambda>k. prefix (escQuote @ '': executable file not found'') (drop k r))
        [0..<Suc (length (takeWhile (\<lambda>c. c \<noteq> newline) r))])) (tails s)"

subsection \<open>Creation conflicts\<close>

definition recoverFromCreationConflictIfNeeded ::
    "'e docker_client \<Rightarrow> ('e \<Rightarrow> 32 word \<times> 'e) \<Rightarrow> ContainerCreateConfig \<Rightarrow> goerror \<Rightarrow> 'e \<Rightarrow> string result \<times> 'e" where
  "recoverFromCreationConflictIfNeeded client rand createConfig err e =
     (case conflictRE (Error err) of
        None \<Rightarrow> (Inl err, e)
      | Some i \<Rightarrow>
          (case dk_RemoveContainer client i \<lparr>ro_RemoveVolumes = True, ro_Force = False\<rparr> e of
             (None, e) \<Rightarrow> (Inl err, e)
           | (Some rmErr, e) \<Rightarrow>
               if \<not> IsContainerNotFoundError rmErr then (Inl err, e)
               else (case rand e of (r, e) \<Rightarrow>
                 dk_CreateContainer client (createConfig\<lparr>ccc_Name := randomizeName r (ccc_Name createConfig)\<rparr>) e)))"

text \<open>Creation with the recovery, as both handlers call it.\<close>

definition createOrRecover :: "'e docker_service \<Rightarrow> ContainerCreateConfig \<Rightarrow> 'e svc_state \<Rightarrow> string result \<times> 'e svc_state" where
  "createOrRecover ds createConfig s =
     (case onEnv (dk_CreateContainer (svc_client ds) createConfig) s of
        (Inl err, s) \<Rightarrow> onEnv (recoverFromCreationConflictIfNeeded (svc_client ds) (ex_randUint32 (svc_ext ds)) createConfig err) s
      | (Inr i, s) \<Rightarrow> (Inr i, s))"

subsection \<open>Platform-specific parts on Linux\<close>

definition DefaultMemorySwap :: int where "DefaultMemorySwap = 0"

definition updateCreateConfig ::
    "'e docker_service \<Rightarrow> ContainerCreateConfig \<Rightarrow> ContainerConfig \<Rightarrow> PodSandboxConfig \<Rightarrow> string \<Rightarrow> char \<Rightarrow> ContainerCreateConfig result" where
  "updateCreateConfig ds createConfig config sandboxConfig podSandboxID securityOptSep =
     (case (case cc_Linux config of
              None \<Rightarrow> Inr createConfig
            | Some lc \<Rightarrow>
                (let hc = ccc_HostConfig createConfig;
                     hc = (case lcc_Resources lc of
                         None \<Rightarrow> hc
                       | Some rOpts \<Rightarrow>
                           hc\<lparr>hc_Resources := zeroResources\<lparr>dr_Memory := lcr_MemoryLimitInBytes rOpts,
                                dr_MemorySwap := lcr_MemoryLimitInBytes rOpts, dr_CPUShares := lcr_CpuShares rOpts,
                                dr_CPUQuota := lcr_CpuQuota rOpts, dr_CPUPeriod := lcr_CpuPeriod rOpts,
                                dr_CpusetCpus := lcr_CpusetCpus rOpts, dr_CpusetMems := lcr_CpusetMems rOpts\<rparr>,
                              hc_OomScoreAdj := lcr_OomScoreAdj rOpts\<rparr>)
                 in case applyContainerSecurityContext (Some lc) podSandboxID (ccc_Config createConfig) hc securityOptSep of
                      Inl err \<Rightarrow> Inl (Errorf (''failed to apply container security context for container '' @
                                   fmt_q (cm_Name (cc_Metadata config)) @ '': '' @ Error err))
                    | Inr (cfg, hc) \<Rightarrow> Inr (createConfig\<lparr>ccc_Config := cfg, ccc_HostConfig := hc\<rparr>))) of
        Inl err \<Rightarrow> Inl err
      | Inr createConfig \<Rightarrow>
          (case psc_Linux sandboxConfig of
             None \<Rightarrow> Inr createConfig
           | Some lc \<Rightarrow>
               (case GenerateExpectedCgroupParent ds (lps_CgroupParent lc) of
                  Inl err \<Rightarrow> Inl (Errorf (''failed to generate cgroup parent in expected syntax for container '' @
                               fmt_q (cm_Name (cc_Metadata config)) @ '': '' @ Error err))
                | Inr cgroupParent \<Rightarrow>
                    Inr (createConfig\<lparr>ccc_HostConfig := (ccc_HostConfig createConfig)\<lparr>hc_CgroupParent := cgroupParent\<rparr>\<rparr>))))"

definition determinePodIPBySandboxID :: "string \<Rightarrow> string list" where
  "determinePodIPBySandboxID uid = []"

definition getNetworkNamespace :: "ContainerJSON \<Rightarrow> string result" where
  "getNetworkNamespace c =
     (if ds_Pid (cj_State c) = 0 then
        Inl (Errorf (''cannot find network namespace for the terminated container '' @ fmt_q (cj_ID c)))
      else Inr (''/proc/'' @ fmt_int (ds_Pid (cj_State c)) @ ''/ns/net''))"

definition applyPlatformSpecificDockerConfig :: "ContainerCreateConfig \<Rightarrow> unit option result" where
  "applyPlatformSpecificDockerConfig createConfig = Inr None"

definition performPlatformSpecificContainerCleanup :: "unit \<Rightarrow> goerror list" where
  "performPlatformSpecificContainerCleanup cleanupInfo = []"

definition performPlatformSpecificContainerCleanupAndLogErrors :: "string \<Rightarrow> unit option \<Rightarrow> goerror list" where
  "performPlatformSpecificContainerCleanupAndLogErrors containerNameOrID cleanupInfo =
     (case cleanupInfo of None \<Rightarrow> [] | Some info \<Rightarrow> performPlatformSpecificContainerCleanup info)"

definition performPlatformSpecificContainerForContainer :: "string \<Rightarrow> 'e svc_state \<Rightarrow> goerror list \<times> 'e svc_state" where
  "performPlatformSpecificContainerForContainer containerID s =
     (case getContainerCleanupInfo containerID s of
        None \<Rightarrow> ([], s)
      | Some cleanupInfo \<Rightarrow>
          (let errors = performPlatformSpecificContainerCleanupAndLogErrors containerID (Some cleanupInfo) in
           (errors, if length errors = 0 then clearContainerCleanupInfo containerID s else s)))"

subsection \<open>Log links\<close>

definition getContainerLogPath :: "'e docker_service \<Rightarrow> string \<Rightarrow> 'e svc_state \<Rightarrow> (string \<times> string) result \<times> 'e svc_state" where
  "getContainerLogPath ds containerID s =
     (case onEnv (dk_InspectContainer (svc_client ds) containerID) s of
        (Inl err, s) \<Rightarrow> (Inl (Errorf (''failed to inspect container '' @ fmt_q containerID @ '': '' @ Error err)), s)
      | (Inr info, s) \<Rightarrow> (Inr (mapGet (dc_Labels (cj_Config info)) containerLogPathLabelKey, cj_LogPath info), s))"

definition criSupportedLogDrivers :: "string list" where "criSupportedLogDrivers = [''json-file'']"

definition IsCRISupportedLogDriver :: "'e docker_service \<Rightarrow> 'e svc_state \<Rightarrow> bool result \<times> 'e svc_state" where
  "IsCRISupportedLogDriver ds s =
     (case getDockerInfo ds s of
        (Inl err, s) \<Rightarrow> (Inl (Errorf (''failed to get docker info: '' @ Error err)), s)
      | (Inr info, s) \<Rightarrow> (Inr (di_LoggingDriver info \<in> set criSupportedLogDrivers), s))"

definition createContainerLogSymlink :: "'e docker_service \<Rightarrow> string \<Rightarrow> 'e svc_state \<Rightarrow> goerror option \<times> 'e svc_state" where
  "createContainerLogSymlink ds containerID s =
     (case getContainerLogPath ds containerID s of
        (Inl err, s) \<Rightarrow> (Some (Errorf (''failed to get container '' @ fmt_q containerID @ '' log path: '' @ Error err)), s)
      | (Inr (p, realPath), s) \<Rightarrow>
          if p = [] then (None, s)
          else if realPath \<noteq> [] then
            (case onFs (fs_Remove p) s of (_, s) \<Rightarrow>
             (case onFs (os_Symlink realPath p) s of
                (Some err, s) \<Rightarrow>
                  (Some (Errorf (''failed to create symbolic link '' @ fmt_q p @ '' to the container log file '' @ fmt_q realPath @
                     '' for container '' @ fmt_q containerID @ '': '' @ Error err)), s)
              | (None, s) \<Rightarrow> (None, s)))
          else (case IsCRISupportedLogDriver ds s of (_, s) \<Rightarrow> (None, s)))"

definition removeContainerLogSymlink :: "'e docker_service \<Rightarrow> string \<Rightarrow> 'e svc_state \<Rightarrow> goerror option \<times> 'e svc_state" where
  "removeContainerLogSymlink ds containerID s =
     (case getContainerLogPath ds containerID s of
        (Inl err, s) \<Rightarrow> (Some (Errorf (''failed to get container '' @ fmt_q containerID @ '' log path: '' @ Error err)), s)
      | (Inr (p, _), s) \<Rightarrow>
          if p \<noteq> [] then
            (case onFs (fs_Remove p) s of
               (Some err, s) \<Rightarrow>
                 (if \<not> os_IsNotExist err then
                    Some (Errorf (''failed to remove container '' @ fmt_q containerID @ '' log symlink '' @ fmt_q p @ '': '' @ Error err))
                  else None, s)
             | (None, s) \<Rightarrow> (None, s))
          else (None, s))"

subsection \<open>CreateContainer\<close>

record CreateContainerRequest =
  ccr_PodSandboxId :: string
  ccr_Config :: "ContainerConfig option"
  ccr_SandboxConfig :: "PodSandboxConfig option"

definition securityOptSeparator :: char where "securityOptSeparator = CHR ''=''"

text \<open>The mounts with \<^verbatim>\<open>SelinuxRelabel\<close> are relabelled in order, up to the first failure.\<close>

fun relabelLoop :: "(string \<Rightarrow> string \<Rightarrow> bool \<Rightarrow> 'e \<Rightarrow> goerror option \<times> 'e) \<Rightarrow> string \<Rightarrow> Mount list \<Rightarrow> 'e \<Rightarrow> goerror option \<times> 'e" where
  "relabelLoop Relabel mountLabel [] e = (None, e)"
| "relabelLoop Relabel mountLabel (m # ms) e =
     (if mnt_SelinuxRelabel m then
        (case Relabel (mnt_HostPath m) mountLabel False e of
           (Some err, e) \<Rightarrow>
             (Some (Errorf (''unable to relabel '' @ fmt_q (mnt_HostPath m) @ '' with '' @ fmt_q mountLabel @ '': '' @ Error err)), e)
         | (None, e) \<Rightarrow> relabelLoop Relabel mountLabel ms e)
      else relabelLoop Relabel mountLabel ms e)"

definition relabelMounts :: "'e docker_service \<Rightarrow> ContainerConfig \<Rightarrow> 'e svc_state \<Rightarrow> goerror option \<times> 'e svc_state" where
  "relabelMounts ds config s =
     (case Option.bind (Option.bind (cc_Linux config) lcc_SecurityContext) lsc_SelinuxOptions of
        None \<Rightarrow> (None, s)
      | Some selinuxOpts \<Rightarrow>
          (case selinuxMountLabel (ex_InitLabels (svc_ext ds)) (Some selinuxOpts) of
             Inl err \<Rightarrow> (Some (Errorf (''unable to generate SELinux mount label: '' @ Error err)), s)
           | Inr mountLabel \<Rightarrow>
               if mountLabel \<noteq> [] then onEnv (relabelLoop (ex_Relabel (svc_ext ds)) mountLabel (cc_Mounts config)) s
               else (None, s)))"

text \<open>The configuration before the platform and security options are applied.\<close>

definition baseCreateConfig ::
    "PodSandboxConfig \<Rightarrow> ContainerConfig \<Rightarrow> string \<Rightarrow> DockerMount list \<Rightarrow> string \<Rightarrow> ContainerCreateConfig" where
  "baseCreateConfig sandboxConfig config podSandboxID binds runtime =
     \<lparr>ccc_Name = makeContainerName sandboxConfig config,
      ccc_Config = zeroConfig\<lparr>dc_Entrypoint := cc_Command config, dc_Cmd := cc_Args config,
        dc_Env := GenerateEnvList (cc_Envs config),
        dc_Image := (case cc_Image config of None \<Rightarrow> [] | Some i \<Rightarrow> i), dc_WorkingDir := cc_WorkingDir config,
        dc_Labels := containerDockerLabels sandboxConfig config podSandboxID, dc_OpenStdin := cc_Stdin config,
        dc_StdinOnce := cc_StdinOnce config, dc_Tty := cc_Tty config, dc_Healthcheck := Some [''NONE'']\<rparr>,
      ccc_HostConfig = zeroHostConfig\<lparr>hc_Mounts := binds, hc_RestartPolicy := ''no'', hc_Runtime := runtime\<rparr>\<rparr>"

definition addDevices :: "ContainerConfig \<Rightarrow> ContainerCreateConfig \<Rightarrow> ContainerCreateConfig" where
  "addDevices config createConfig =
     (let hc = ccc_HostConfig createConfig; r = hc_Resources hc;
          r = r\<lparr>dr_Devices := map (\<lambda>d. \<lparr>dvm_PathOnHost = dev_HostPath d, dvm_PathInContainer = dev_ContainerPath d,
                 dvm_CgroupPermissions = dev_Permissions d\<rparr>) (cc_Devices config),
                dr_DeviceRequests := dr_DeviceRequests r @ map (\<lambda>n. (''cdi'', [n])) (cc_CDIDevices config)\<rparr>
      in createConfig\<lparr>ccc_HostConfig := hc\<lparr>hc_Resources := r\<rparr>\<rparr>)"

definition containerSecurityOpts :: "'e docker_service \<Rightarrow> ContainerConfig \<Rightarrow> 'e svc_state \<Rightarrow> string list result \<times> 'e svc_state" where
  "containerSecurityOpts ds config s =
     (case Option.bind (cc_Linux config) lcc_SecurityContext of
        None \<Rightarrow> (Inr [], s)
      | Some sc \<Rightarrow>
          (case onFs (getSecurityOpts (ex_seccomp (svc_ext ds)) (lsc_Seccomp sc) (lsc_Privileged sc) securityOptSeparator) s of
             (Inl err, s) \<Rightarrow>
               (Inl (Errorf (''failed to generate security options for container '' @ fmt_q (cm_Name (cc_Metadata config)) @
                  '': '' @ Error err)), s)
           | (Inr opts, s) \<Rightarrow> (Inr opts, s)))"

text \<open>From the mount bindings to the finished configuration.\<close>

definition finishCreateConfig ::
    "'e docker_service \<Rightarrow> string \<Rightarrow> PodSandboxConfig \<Rightarrow> ContainerConfig \<Rightarrow> ContainerCreateConfig \<Rightarrow> 'e svc_state
      \<Rightarrow> ContainerCreateConfig result \<times> 'e svc_state" where
  "finishCreateConfig ds podSandboxID sandboxConfig config createConfig s =
     (case relabelMounts ds config s of
        (Some err, s) \<Rightarrow> (Inl err, s)
      | (None, s) \<Rightarrow>
          (case updateCreateConfig ds createConfig config sandboxConfig podSandboxID securityOptSeparator of
             Inl err \<Rightarrow> (Inl (Errorf (''failed to update container create config: '' @ Error err)), s)
           | Inr createConfig \<Rightarrow>
               (let createConfig = addDevices config createConfig in
                case containerSecurityOpts ds config s of
                  (Inl err, s) \<Rightarrow> (Inl err, s)
                | (Inr securityOpts, s) \<Rightarrow>
                    (let hc = ccc_HostConfig createConfig in
                     (Inr (createConfig\<lparr>ccc_HostConfig := hc\<lparr>hc_SecurityOpt := hc_SecurityOpt hc @ securityOpts\<rparr>\<rparr>), s)))))"

text \<open>The configuration of a request, with the daemon calls that building it takes.\<close>

definition makeContainerCreateConfig ::
    "'e docker_service \<Rightarrow> string \<Rightarrow> PodSandboxConfig \<Rightarrow> ContainerConfig \<Rightarrow> 'e svc_state \<Rightarrow> ContainerCreateConfig result \<times> 'e svc_state" where
  "makeContainerCreateConfig ds podSandboxID sandboxConfig config s =
     (case getDockerAPIVersion ds s of
        (Inl err, s) \<Rightarrow> (Inl (Errorf (''unable to get the docker API version: '' @ Error err)), s)
      | (Inr apiVersion, s) \<Rightarrow>
          (case onEnv (dk_InspectContainer (svc_client ds) podSandboxID) s of
             (Inl err, s) \<Rightarrow> (Inl (Errorf (''unable to get container's sandbox ID: '' @ Error err)), s)
           | (Inr sandboxInfo, s) \<Rightarrow>
               (case getRuntimeHandlers ds s of
                  (Inl err, s) \<Rightarrow> (Inl (Errorf (''unable to get container's runtime handlers: '' @ Error err)), s)
                | (Inr rtHandlers, s) \<Rightarrow>
                    (let runtime = hc_Runtime (cj_HostConfig sandboxInfo);
                         rtHandler = find (\<lambda>h. rh_Name h = runtime) rtHandlers
                     in case GenerateMountBindings (cc_Mounts config) rtHandler of
                          Inl err \<Rightarrow> (Inl err, s)
                        | Inr binds \<Rightarrow>
                            finishCreateConfig ds podSandboxID sandboxConfig config
                              (baseCreateConfig sandboxConfig config podSandboxID binds runtime) s))))"

definition CreateContainer :: "'e docker_service \<Rightarrow> CreateContainerRequest \<Rightarrow> 'e svc_state \<Rightarrow> string result \<times> 'e svc_state" where
  "CreateContainer ds r s =
     (case ccr_Config r of
        None \<Rightarrow> (Inl (Errorf ''container config is nil''), s)
      | Some config \<Rightarrow>
          (case ccr_SandboxConfig r of
             None \<Rightarrow> (Inl (Errorf (''sandbox config is nil for container '' @ fmt_q (cm_Name (cc_Metadata config)))), s)
           | Some sandboxConfig \<Rightarrow>
               (case makeContainerCreateConfig ds (ccr_PodSandboxId r) sandboxConfig config s of
                  (Inl err, s) \<Rightarrow> (Inl err, s)
                | (Inr createConfig, s) \<Rightarrow>
                    (case applyPlatformSpecificDockerConfig createConfig of
                       Inl err \<Rightarrow> (Inl err, s)
                     | Inr cleanupInfo \<Rightarrow>
                         (case createOrRecover ds createConfig s of
                            (Inr containerID, s) \<Rightarrow>
                              (Inr containerID, case cleanupInfo of None \<Rightarrow> s | Some info \<Rightarrow> setContainerCleanupInfo containerID info s)
                          | (Inl createErr, s) \<Rightarrow> (Inl createErr, s))))))"

subsection \<open>Start, stop, remove, update\<close>

definition transformStartContainerError :: "goerror \<Rightarrow> goerror" where
  "transformStartContainerError err = (if startRE (Error err) then Errorf ''executable not found in $PATH'' else err)"

definition StartContainer :: "'e docker_service \<Rightarrow> string \<Rightarrow> 'e svc_state \<Rightarrow> goerror option \<times> 'e svc_state" where
  "StartContainer ds containerId s =
     (case onEnv (dk_StartContainer (svc_client ds) containerId) s of (err, s) \<Rightarrow>
      (case createContainerLogSymlink ds containerId s of
         (Some linkError, s) \<Rightarrow> (Some linkError, s)
       | (None, s) \<Rightarrow>
           (case err of
              Some err \<Rightarrow>
                (Some (Errorf (''failed to start container '' @ fmt_q containerId @ '': '' @ Error (transformStartContainerError err))), s)
            | None \<Rightarrow> (None, s))))"

text \<open>\<^verbatim>\<open>codes.NotFound\<close> is 5. The timeout is a \<^verbatim>\<open>time.Duration\<close>, so the product wraps at 64 bits.\<close>

definition StopContainer :: "'e docker_service \<Rightarrow> string \<Rightarrow> int \<Rightarrow> 'e svc_state \<Rightarrow> goerror option \<times> 'e svc_state" where
  "StopContainer ds containerId timeout s =
     (case onEnv (dk_StopContainer (svc_client ds) containerId (wrap64 (timeout * timeSecond))) s of
        (Some err, s) \<Rightarrow> (Some (if IsContainerNotFoundError err then StatusError 5 (Error err) else err), s)
      | (None, s) \<Rightarrow> (None, s))"

definition RemoveContainer :: "'e docker_service \<Rightarrow> string \<Rightarrow> 'e svc_state \<Rightarrow> goerror option \<times> 'e svc_state" where
  "RemoveContainer ds containerId s =
     (case removeContainerLogSymlink ds containerId s of
        (Some err, s) \<Rightarrow> (Some err, s)
      | (None, s) \<Rightarrow>
          (case performPlatformSpecificContainerForContainer containerId s of (errors, s) \<Rightarrow>
             if length errors \<noteq> 0 then
               (Some (Errorf (''failed to run platform-specific clean ups for container '' @ fmt_q containerId @ '': '' @
                  ''['' @ strings_Join (map Error errors) '' '' @ '']'')), s)
             else
               (case onEnv (dk_RemoveContainer (svc_client ds) containerId \<lparr>ro_RemoveVolumes = True, ro_Force = True\<rparr>) s of
                  (Some err, s) \<Rightarrow> (Some (Errorf (''failed to remove container '' @ fmt_q containerId @ '': '' @ Error err)), s)
                | (None, s) \<Rightarrow> (None, s))))"

definition UpdateContainerResources ::
    "'e docker_service \<Rightarrow> string \<Rightarrow> LinuxContainerResources \<Rightarrow> 'e svc_state \<Rightarrow> goerror option \<times> 'e svc_state" where
  "UpdateContainerResources ds containerId resources s =
     (let updateConfig = zeroResources\<lparr>dr_CPUPeriod := lcr_CpuPeriod resources, dr_CPUQuota := lcr_CpuQuota resources,
            dr_CPUShares := lcr_CpuShares resources, dr_Memory := lcr_MemoryLimitInBytes resources,
            dr_MemorySwap := lcr_MemoryLimitInBytes resources, dr_CpusetCpus := lcr_CpusetCpus resources,
            dr_CpusetMems := lcr_CpusetMems resources\<rparr>
      in case onEnv (dk_UpdateContainerResources (svc_client ds) containerId updateConfig) s of
           (Some err, s) \<Rightarrow> (Some (Errorf (''failed to update container '' @ fmt_q containerId @ '': '' @ Error err)), s)
         | (None, s) \<Rightarrow> (None, s))"

subsection \<open>Status and list\<close>

record ContainerStatusData =
  cst_Id :: string
  cst_Metadata :: ContainerMetadata
  cst_Image :: string
  cst_ImageRef :: string
  cst_Mounts :: "(string \<times> string \<times> bool) list"
  cst_ExitCode :: "32 word"
  cst_State :: ContainerState
  cst_CreatedAt :: int
  cst_StartedAt :: int
  cst_FinishedAt :: int
  cst_Reason :: string
  cst_Message :: string
  cst_Labels :: gomap
  cst_Annotations :: gomap
  cst_LogPath :: string

definition getContainerTimestamps :: "ContainerJSON \<Rightarrow> (int \<times> int \<times> int) result" where
  "getContainerTimestamps r =
     (case ParseDockerTimestamp (cj_Created r) of
        Inl err \<Rightarrow> Inl err
      | Inr createdAt \<Rightarrow>
          (case ParseDockerTimestamp (ds_StartedAt (cj_State r)) of
             Inl err \<Rightarrow> Inl err
           | Inr startedAt \<Rightarrow>
               (case ParseDockerTimestamp (ds_FinishedAt (cj_State r)) of
                  Inl err \<Rightarrow> Inl err
                | Inr finishedAt \<Rightarrow> Inr (createdAt, startedAt, finishedAt))))"

text \<open>The state, the reason, the message, and the start and finish times that are reported.\<close>

definition interpretState :: "DockerState \<Rightarrow> int \<Rightarrow> int \<Rightarrow> int \<Rightarrow> ContainerState \<times> string \<times> string \<times> int \<times> int" where
  "interpretState st createdAt startedAt finishedAt =
     (if ds_Running st then (CONTAINER_RUNNING, [], [], startedAt, finishedAt)
      else if \<not> IsZero finishedAt then
        (CONTAINER_EXITED,
         if ds_OOMKilled st then ''OOMKilled'' else if ds_ExitCode st = 0 then ''Completed'' else ''Error'',
         ds_Error st, startedAt, finishedAt)
      else if ds_ExitCode st \<noteq> 0 then (CONTAINER_EXITED, ''ContainerCannotRun'', ds_Error st, createdAt, createdAt)
      else (CONTAINER_CREATED, [], ds_Error st, startedAt, finishedAt))"

definition inspectImageOf :: "'e docker_service \<Rightarrow> ContainerJSON \<Rightarrow> string \<Rightarrow> 'e svc_state \<Rightarrow> ImageInspect option result \<times> 'e svc_state" where
  "inspectImageOf ds r containerID s =
     (case onEnv (dk_InspectImageByID (svc_client ds) (cj_Image r)) s of
        (Inl err, s) \<Rightarrow>
          (if \<not> IsImageNotFoundError err then
             Inl (Errorf (''unable to inspect docker image '' @ fmt_q (cj_Image r) @ '' while inspecting docker container '' @
               fmt_q containerID @ '': '' @ Error err))
           else Inr None, s)
      | (Inr ir, s) \<Rightarrow> (Inr (Some ir), s))"

definition ContainerStatus ::
    "'e docker_service \<Rightarrow> string \<Rightarrow> bool \<Rightarrow> 'e svc_state \<Rightarrow> (ContainerStatusData \<times> gomap option) result \<times> 'e svc_state" where
  "ContainerStatus ds containerID verbose s =
     (case onEnv (dk_InspectContainer (svc_client ds) containerID) s of
        (Inl err, s) \<Rightarrow> (Inl err, s)
      | (Inr r, s) \<Rightarrow>
          (case getContainerTimestamps r of
             Inl err \<Rightarrow> (Inl (Errorf (''failed to parse timestamp for container '' @ fmt_q containerID @ '': '' @ Error err)), s)
           | Inr (createdAt, startedAt, finishedAt) \<Rightarrow>
               (case inspectImageOf ds r containerID s of
                  (Inl err, s) \<Rightarrow> (Inl err, s)
                | (Inr ir, s) \<Rightarrow>
                    (case interpretState (cj_State r) createdAt startedAt finishedAt of (state, reason, message, startedAt, finishedAt) \<Rightarrow>
                     (case parseContainerName (cj_Name r) of
                        Inl err \<Rightarrow> (Inl err, s)
                      | Inr metadata \<Rightarrow>
                          (case extractLabels (dc_Labels (cj_Config r)) of (labels, annotations) \<Rightarrow>
                           (let status = \<lparr>cst_Id = cj_ID r, cst_Metadata = metadata,
                                  cst_Image = (case ir of Some i \<Rightarrow> if length (ii_RepoTags i) > 0 then hd (ii_RepoTags i) else dc_Image (cj_Config r)
                                               | None \<Rightarrow> dc_Image (cj_Config r)),
                                  cst_ImageRef = toPullableImageID (cj_Image r) ir,
                                  cst_Mounts = map (\<lambda>m. (mp_Source m, mp_Destination m, \<not> mp_RW m)) (cj_Mounts r),
                                  cst_ExitCode = word_of_int (ds_ExitCode (cj_State r)), cst_State = state,
                                  cst_CreatedAt = UnixNano createdAt, cst_StartedAt = UnixNano startedAt,
                                  cst_FinishedAt = UnixNano finishedAt, cst_Reason = reason, cst_Message = message,
                                  cst_Labels = labels, cst_Annotations = annotations,
                                  cst_LogPath = mapGet (dc_Labels (cj_Config r)) containerLogPathLabelKey\<rparr>
                            in if verbose then
                                 (case containerInspectToRuntimeAPIContainerInfo r of
                                    Inl err \<Rightarrow> (Inl err, s) | Inr info \<Rightarrow> (Inr (status, Some info), s))
                               else (Inr (status, None), s))))))))"

record ContainerFilter =
  cf_Id :: string
  cf_State :: "ContainerState option"
  cf_PodSandboxId :: string
  cf_LabelSelector :: gomap

definition containerListOptions :: "ContainerFilter option \<Rightarrow> ListOptions" where
  "containerListOptions f =
     (let fs = AddLabel [] containerTypeLabelKey containerTypeLabelContainer in
      case f of
        None \<Rightarrow> \<lparr>lo_All = True, lo_Filters = fs\<rparr>
      | Some f \<Rightarrow>
          (let fs = (if cf_Id f \<noteq> [] then filterAdd fs ''id'' (cf_Id f) else fs);
               fs = (case cf_State f of None \<Rightarrow> fs | Some st \<Rightarrow> filterAdd fs ''status'' (toDockerContainerStatus st));
               fs = (if cf_PodSandboxId f \<noteq> [] then AddLabel fs sandboxIDLabelKey (cf_PodSandboxId f) else fs);
               fs = foldl (\<lambda>fs (k, v). AddLabel fs k v) fs (cf_LabelSelector f)
           in \<lparr>lo_All = True, lo_Filters = fs\<rparr>))"

text \<open>The containers that can be converted; the others are skipped.\<close>

definition convertAll :: "('a \<Rightarrow> 'b result) \<Rightarrow> 'a list \<Rightarrow> 'b list" where
  "convertAll f xs = concat (map (\<lambda>x. case f x of Inl _ \<Rightarrow> [] | Inr y \<Rightarrow> [y]) xs)"

definition ListContainers :: "'e docker_service \<Rightarrow> ContainerFilter option \<Rightarrow> 'e svc_state \<Rightarrow> Container list result \<times> 'e svc_state" where
  "ListContainers ds f s =
     (case onEnv (dk_ListContainers (svc_client ds) (containerListOptions f)) s of
        ((containers, err), s) \<Rightarrow>
          (case err of
             Some e \<Rightarrow> if \<not> IsContainerNotFoundError e then (Inl e, s) else (Inr (convertAll toRuntimeAPIContainer containers), s)
           | None \<Rightarrow> (Inr (convertAll toRuntimeAPIContainer containers), s)))"

subsection \<open>The conflict message\<close>

text \<open>No suffix of the text starts with the marker.\<close>

definition noMarker :: "string \<Rightarrow> bool" where
  "noMarker s \<longleftrightarrow> list_all (\<lambda>t. \<not> prefix inUseBy t) (tails s)"

text \<open>The greedy search over the line finds the last marker.\<close>

lemma firstSome_greedy:
  assumes "f k = Some y" and "1 \<le> k" and "k \<le> n" and "\<And>k'. \<lbrakk>k < k'; k' \<le> n\<rbrakk> \<Longrightarrow> f k' = None"
  shows "firstSome f (rev [1..<Suc n]) = Some y"
proof -
  have "[1..<Suc n] = [1..<k] @ k # [Suc k..<Suc n]"
    using assms(2,3) by (metis le_SucI less_Suc_eq_le upt_add_eq_append upt_conv_Cons le_add_diff_inverse)
  moreover have "firstSome f (rev [Suc k..<Suc n]) = None" by (rule firstSome_None) (use assms(4) in auto)
  ultimately show ?thesis by (simp add: firstSome_append assms(1) del: upt_Suc)
qed

lemma noMarker_Cons: "noMarker (c # cs) \<longleftrightarrow> \<not> prefix inUseBy (c # cs) \<and> noMarker cs"
  by (simp add: noMarker_def)

lemma noMarker_ids: "list_all idByte i \<Longrightarrow> noMarker s \<Longrightarrow> noMarker (i @ s)"
proof (induction i)
  case (Cons c i)
  then have "c \<noteq> CHR '' ''" by (auto simp: idByte_def)
  with Cons show ?case by (simp add: noMarker_Cons) (simp add: inUseBy_def)
qed simp

lemma noMarker_drop: "noMarker s \<Longrightarrow> conflictTail (drop k s) = None"
proof (induction s arbitrary: k)
  case (Cons c s)
  then show ?case by (cases k) (auto simp: noMarker_Cons conflictTail_def)
qed (simp add: conflictTail_def inUseBy_def)

lemma noMarker_after:
  assumes "list_all idByte i" and "noMarker post"
  shows "noMarker (tl inUseBy @ CHR 0x22 # i @ post)"
proof -
  have i: "noMarker (CHR 0x22 # i @ post)" using noMarker_ids [OF assms] by (simp add: noMarker_Cons inUseBy_def)
  have e: "tl inUseBy = ''is already in use by container ''" by (simp add: inUseBy_def)
  show ?thesis using i unfolding e by (simp add: noMarker_Cons inUseBy_def)
qed

text \<open>The message of the daemon on a name conflict, with the holder of the name quoted.\<close>

definition conflictMessage :: "string \<Rightarrow> string \<Rightarrow> string \<Rightarrow> string" where
  "conflictMessage mid i post =
     ''Error response from daemon: Conflict. '' @ mid @ inUseBy @ [CHR 0x22] @ i @ [CHR 0x22] @ post"

lemma takeWhile_idByte: "list_all idByte i \<Longrightarrow> takeWhile idByte (i @ CHR 0x22 # post) = i"
  by (induction i) (simp_all add: idByte_def)

lemma conflictRE_message:
  assumes "mid \<noteq> []" and "newline \<notin> set mid" and "i \<noteq> []" and "list_all idByte i" and "noMarker post" 
  shows "conflictRE (conflictMessage mid i post) = Some i"
proof -
  define r where "r = mid @ inUseBy @ CHR 0x22 # i @ CHR 0x22 # post"
  have p': "noMarker (CHR 0x22 # post)" using assms(5) by (simp add: noMarker_Cons inUseBy_def)
  have at: "conflictTail (drop (length mid) r) = Some i"
    using assms(3) by (simp add: r_def conflictTail_def takeWhile_idByte [OF assms(4)])
  define t where "t = tl inUseBy @ CHR 0x22 # i @ CHR 0x22 # post"
  have r': "r = mid @ CHR '' '' # t" by (simp add: r_def t_def inUseBy_def)
  have later: "conflictTail (drop k r) = None" if k: "length mid < k" for k
  proof -
    obtain d where "k = Suc (length mid + d)" using less_imp_Suc_add [OF k] by blast
    then have "drop k r = drop d t" by (simp add: r')
    then show ?thesis using noMarker_drop [OF noMarker_after [OF assms(4) p']] by (simp add: t_def)
  qed
  define n where "n = length (takeWhile (\<lambda>c. c \<noteq> newline) r)"
  have n: "length mid \<le> n" using assms(2)
    by (auto simp: n_def r_def takeWhile_append intro: le_trans [rotated])
  have "firstSome (\<lambda>k. conflictTail (drop k r)) (rev [1..<Suc n]) = Some i"
    by (rule firstSome_greedy [of _ "length mid"]) (use assms(1) at later n in \<open>auto simp: Suc_le_eq\<close>)
  then have "conflictAt (''Conflict. '' @ r) = Some i"
    by (simp add: conflictAt_def n_def newline_def)
  moreover have "conflictMessage mid i post = ''Error response from daemon: '' @ (''Conflict. '' @ r)"
    by (simp add: conflictMessage_def r_def)
  ultimately show ?thesis by (simp add: conflictRE_def conflictAt_def)
qed

subsection \<open>What the handlers keep and create\<close>

lemma updateCreateConfig_keeps:
  assumes "updateCreateConfig ds cc c sc i sep = Inr cc'"
  shows "ccc_Name cc' = ccc_Name cc \<and> dc_Labels (ccc_Config cc') = dc_Labels (ccc_Config cc) \<and>
     (cc_Linux c \<noteq> None \<longrightarrow> hc_NetworkMode (ccc_HostConfig cc') = ''container:'' @ i)"
  using assms
  by (auto simp: updateCreateConfig_def applyContainerSecurityContext_def Let_def
      split: option.splits sum.splits prod.splits dest!: modifyContainerConfig_frame)

context service_env
begin

lemma relabelLoop_frame: "relabelLoop (ex_Relabel (svc_ext ds)) l ms e = (r, e') \<Longrightarrow> view e' = view e"
proof (induction ms arbitrary: e)
  case (Cons m ms)
  show ?case
  proof (cases "mnt_SelinuxRelabel m")
    case True
    obtain x e1 where R: "ex_Relabel (svc_ext ds) (mnt_HostPath m) l False e = (x, e1)" by fastforce
    then show ?thesis using Cons True relabel_frame [OF R] by (cases x) auto
  qed (use Cons in simp)
qed simp

lemma relabelMounts_frame: "relabelMounts ds c s = (r, s') \<Longrightarrow> obs view s' = obs view s"
  by (auto simp: relabelMounts_def split: option.splits sum.splits if_splits
      elim!: obs_onEnv intro: relabelLoop_frame)

lemma containerSecurityOpts_frame: "containerSecurityOpts ds c s = (r, s') \<Longrightarrow> obs view s' = obs view s"
  by (auto simp: containerSecurityOpts_def split: option.splits prod.splits sum.splits dest: obs_onFs)

lemma finishCreateConfig_spec:
  assumes "finishCreateConfig ds i sc c cc s = (r, s')"
  shows "obs view s' = obs view s \<and> (\<forall>cc'. r = Inr cc' \<longrightarrow> ccc_Name cc' = ccc_Name cc \<and>
     dc_Labels (ccc_Config cc') = dc_Labels (ccc_Config cc) \<and>
     (cc_Linux c \<noteq> None \<longrightarrow> hc_NetworkMode (ccc_HostConfig cc') = ''container:'' @ i))"
  using assms
  by (auto simp: finishCreateConfig_def addDevices_def Let_def split: prod.splits option.splits sum.splits
      dest!: relabelMounts_frame containerSecurityOpts_frame updateCreateConfig_keeps)

lemma makeContainerCreateConfig_spec:
  assumes "makeContainerCreateConfig ds i sc c s = (r, s')"
  shows "obs view s' = obs view s \<and> (\<forall>cc. r = Inr cc \<longrightarrow> ccc_Name cc = makeContainerName sc c \<and>
     dc_Labels (ccc_Config cc) = containerDockerLabels sc c i \<and>
     (cc_Linux c \<noteq> None \<longrightarrow> hc_NetworkMode (ccc_HostConfig cc) = ''container:'' @ i))"
proof -
  have v: "getDockerAPIVersion ds t = (x, t') \<Longrightarrow> obs view t' = obs view t" for t x t'
    by (auto simp: getDockerAPIVersion_def split: prod.splits sum.splits dest: getDockerVersion_frame)
  show ?thesis using assms
    by (auto simp: makeContainerCreateConfig_def Let_def baseCreateConfig_def split: prod.splits sum.splits
        dest!: v getRuntimeHandlers_frame inspect_obs(1) finishCreateConfig_spec)
qed

lemma createOrRecover_created:
  assumes "createOrRecover ds cc s = (Inr i, s')"
  shows "ss_networkReady s' = ss_networkReady s \<and>
    (\<exists>n j. (n = ccc_Name cc \<or> (\<exists>w. n = randomizeName w (ccc_Name cc))) \<and> view (ss_env s') i = Some j \<and> cj_ID j = i \<and>
       createdAs (cc\<lparr>ccc_Name := n\<rparr>) j)"
proof -
  obtain r e1 where c: "dk_CreateContainer dk cc (ss_env s) = (r, e1)" by fastforce
  show ?thesis
  proof (cases r)
    case (Inr k)
    then show ?thesis using assms c create_ok [of cc "ss_env s" i e1]
      by (auto simp: createOrRecover_def onEnv_def client intro!: exI [where x = "ccc_Name cc"])
  next
    case (Inl err)
    then obtain w e2 e3 where c2: "dk_CreateContainer dk (cc\<lparr>ccc_Name := randomizeName w (ccc_Name cc)\<rparr>) e2 = (Inr i, e3)"
      and s': "s' = s\<lparr>ss_env := e3\<rparr>" using assms c
      by (auto simp: createOrRecover_def onEnv_def client recoverFromCreationConflictIfNeeded_def
          split: prod.splits option.splits if_splits)
    from create_ok [OF c2] show ?thesis by (auto simp: s' intro!: exI [where x = "randomizeName w (ccc_Name cc)"])
  qed
qed

end

definition containerLabelsOk :: "ContainerConfig \<Rightarrow> bool" where
  "containerLabelsOk c \<longleftrightarrow> goMapOk (cc_Labels c) \<and> goMapOk (cc_Annotations c) \<and>
     list_all (\<lambda>(k, v). k \<notin> set internalLabelKeys \<and> \<not> strings_HasPrefix k annotationPrefix) (cc_Labels c)"

context service_env
begin

lemma CreateContainer_created:
  assumes "CreateContainer ds r s = (Inr i, s')" and "ccr_Config r = Some c" and "ccr_SandboxConfig r = Some sc"
  shows "\<exists>n j. (n = makeContainerName sc c \<or> (\<exists>w. n = randomizeName w (makeContainerName sc c))) \<and>
     view (ss_env s') i = Some j \<and> cj_ID j = i \<and> cj_Name j = ''/'' @ n \<and> \<not> ds_Running (cj_State j) \<and>
     goMapOk (dc_Labels (cj_Config j)) \<and> map_of (containerDockerLabels sc c (ccr_PodSandboxId r)) \<subseteq>\<^sub>m map_of (dc_Labels (cj_Config j))"
proof -
  obtain x t where m: "makeContainerCreateConfig ds (ccr_PodSandboxId r) sc c s = (x, t)" by fastforce
  then obtain cc where x: "x = Inr cc" using assms by (cases x) (auto simp: CreateContainer_def)
  have c: "createOrRecover ds cc t = (Inr i, s')" using assms m x
    by (auto simp: CreateContainer_def applyPlatformSpecificDockerConfig_def split: prod.splits sum.splits)
  obtain n j where j: "n = ccc_Name cc \<or> (\<exists>w. n = randomizeName w (ccc_Name cc))" "view (ss_env s') i = Some j" "cj_ID j = i"
    "createdAs (cc\<lparr>ccc_Name := n\<rparr>) j"
    using createOrRecover_created [OF c] by blast
  have "goMapOk (containerDockerLabels sc c (ccr_PodSandboxId r))" by (simp add: containerDockerLabels_def Let_def)
  then show ?thesis using makeContainerCreateConfig_spec [OF m] x j by (auto simp: createdAs_def)
qed

lemma createOrRecover_frame:
  assumes "dk_CreateContainer dk cc (ss_env s) = (Inl err, e)" and "conflictRE (Error err) = Some h"
  shows "case createOrRecover ds cc s of
     (Inl err', s') \<Rightarrow> view (ss_env s') = (view (ss_env s))(h := None) \<and> err' = err \<or> view (ss_env s') = view (ss_env s)
   | (Inr i, s') \<Rightarrow> \<exists>j. view (ss_env s') = (view (ss_env s))(i \<mapsto> j)"
proof -
  obtain x e1 where r: "dk_RemoveContainer dk h \<lparr>ro_RemoveVolumes = True, ro_Force = False\<rparr> e = (x, e1)" by fastforce
  obtain w e2 where w: "ex_randUint32 (svc_ext ds) e1 = (w, e2)" by fastforce
  obtain y e3 where c: "dk_CreateContainer dk (cc\<lparr>ccc_Name := randomizeName w (ccc_Name cc)\<rparr>) e2 = (y, e3)" by fastforce
  note run = createOrRecover_def recoverFromCreationConflictIfNeeded_def onEnv_def client assms r w c
  have e: "view e = view (ss_env s)" by (rule create_err [OF assms(1)])
  show ?thesis
  proof (cases x)
    case None
    then show ?thesis using e remove_ok [OF r [unfolded None]] by (simp add: run)
  next
    case (Some rmErr)
    have e1: "view e1 = view (ss_env s)" using e remove_err [OF r [unfolded Some]] by simp
    then have e2: "view e2 = view (ss_env s)" using rand_frame [OF w] by simp
    show ?thesis
    proof (cases y)
      case (Inl x')
      then show ?thesis using e1 e2 create_err [OF c [unfolded Inl]] by (simp add: run Some)
    next
      case (Inr i)
      then show ?thesis using e1 e2 create_ok [OF c [unfolded Inr]] by (auto simp: run Some)
    qed
  qed
qed

text \<open>The answer of \<open>ContainerStatus\<close> for a container of the daemon whose name and labels are those of a request.\<close>

lemma ContainerStatus_answer:
  assumes "view (ss_env s) i = Some j" and "parseContainerName (cj_Name j) = Inr md"
  shows "case fst (ContainerStatus ds i False s) of
     Inr (st, info) \<Rightarrow> cst_Id st = cj_ID j \<and> cst_Metadata st = md \<and>
        (cst_State st = CONTAINER_RUNNING \<longleftrightarrow> ds_Running (cj_State j)) \<and>
        (cst_Labels st, cst_Annotations st) = extractLabels (dc_Labels (cj_Config j)) \<and>
        cst_LogPath st = mapGet (dc_Labels (cj_Config j)) containerLogPathLabelKey
   | Inl err \<Rightarrow> (\<exists>e. dk_InspectContainer dk i (ss_env s) = (Inl err, e)) \<or> (\<exists>x. getContainerTimestamps j = Inl x) \<or>
        (\<exists>x e e'. dk_InspectImageByID dk (cj_Image j) e = (Inl x, e') \<and> \<not> IsImageNotFoundError x)"
proof -
  obtain r t where r: "onEnv (dk_InspectContainer (svc_client ds) i) s = (r, t)" by fastforce
  show ?thesis
  proof (cases r)
    case (Inl err)
    then show ?thesis using r by (auto simp: ContainerStatus_def onEnv_def client split: prod.splits)
  next
    case (Inr j')
    then have j: "r = Inr j" using inspect_obs(2) [OF r Inr] assms(1) by simp
    obtain m u where im: "inspectImageOf ds j i t = (m, u)" by fastforce
    have im': "(\<exists>err. m = Inl err) \<longrightarrow> (\<exists>x e e'. dk_InspectImageByID dk (cj_Image j) e = (Inl x, e') \<and> \<not> IsImageNotFoundError x)"
      using im by (auto simp: inspectImageOf_def onEnv_def client split: prod.splits sum.splits if_splits)
    show ?thesis using im'
      by (cases "getContainerTimestamps j"; cases m)
        (auto simp: ContainerStatus_def r j im assms(2) Let_def interpretState_def split: prod.splits)
  qed
qed

end

subsection \<open>Properties\<close>

text \<open>C2. What a container was created with is in what its status reports: after \<open>CreateContainer\<close> answers
  with an id, also when a name conflict made it retry under another name, \<open>ContainerStatus\<close> for that
  id reports the metadata and the log path of the request, every label and annotation of the request with its value (the image may
  add others), and a container that is not running. It fails only if the daemon does: its inspection, a timestamp it gives, or
  its image store. The daemon is any that keeps the labels it is asked for.\<close>

theorem CreateContainer_then_status:
  assumes "service_env dk view ds" and "CreateContainer ds r s = (Inr i, s')"
    and "ccr_Config r = Some c" and "ccr_SandboxConfig r = Some sc"
    and "sandboxMetadataOk (psc_Metadata sc)" and "delimiterFree (cm_Name (cc_Metadata c))" and "containerLabelsOk c"
  shows "case fst (ContainerStatus ds i False s') of
     Inr (st, info) \<Rightarrow> cst_Id st = i \<and> cst_Metadata st = cc_Metadata c \<and> cst_State st \<noteq> CONTAINER_RUNNING \<and>
        map_of (cc_Labels c) \<subseteq>\<^sub>m map_of (cst_Labels st) \<and> map_of (cc_Annotations c) \<subseteq>\<^sub>m map_of (cst_Annotations st) \<and>
        cst_LogPath st = filepath_Join [psc_LogDirectory sc, cc_LogPath c]
   | Inl err \<Rightarrow> (\<exists>e. dk_InspectContainer dk i (ss_env s') = (Inl err, e)) \<or>
        (\<exists>j x. view (ss_env s') i = Some j \<and> getContainerTimestamps j = Inl x) \<or>
        (\<exists>j x e e'. view (ss_env s') i = Some j \<and> dk_InspectImageByID dk (cj_Image j) e = (Inl x, e') \<and> \<not> IsImageNotFoundError x)"
proof -
  let ?L = "containerDockerLabels sc c (ccr_PodSandboxId r)"
  from service_env.CreateContainer_created [OF assms(1-4)] obtain n j w
    where n: "n = makeContainerName sc c \<or> n = randomizeName w (makeContainerName sc c)"
    and j: "view (ss_env s') i = Some j" "cj_ID j = i" "cj_Name j = ''/'' @ n" "\<not> ds_Running (cj_State j)"
      "goMapOk (dc_Labels (cj_Config j))" "map_of ?L \<subseteq>\<^sub>m map_of (dc_Labels (cj_Config j))"
    by blast
  have p: "parseContainerName (cj_Name j) = Inr (cc_Metadata c)" unfolding j(3)
    by (rule parse_makeContainerName [OF assms(5,6) _ n]) simp
  have L: "map_of (fst (extractLabels ?L)) = map_of (cc_Labels c) \<and> map_of (snd (extractLabels ?L)) = map_of (cc_Annotations c)"
    using container_labels_roundtrip [of c sc "ccr_PodSandboxId r"] assms(7) by (fastforce simp: containerLabelsOk_def list_all_iff)
  have ok: "goMapOk ?L" "map_of ?L containerTypeLabelKey \<noteq> None"
    "map_of ?L containerLogPathLabelKey = Some (filepath_Join [psc_LogDirectory sc, cc_LogPath c])"
    by (simp_all add: containerDockerLabels_def Let_def label_consts)
  note M = extractLabels_mono [OF ok(1) j(5,6) ok(2), unfolded L [THEN conjunct1] L [THEN conjunct2]]
  have "mapGet (dc_Labels (cj_Config j)) containerLogPathLabelKey = filepath_Join [psc_LogDirectory sc, cc_LogPath c]"
    using ok(3) j(6) by (metis domI map_le_def mapGet_def option.case(2))
  with service_env.ContainerStatus_answer [OF assms(1) j(1) p] j(1,2,4) M show ?thesis
    by (cases "fst (ContainerStatus ds i False s')") (auto simp: prod_eq_iff split: prod.splits)
qed

definition exampleRequest :: CreateContainerRequest where
  "exampleRequest = \<lparr>ccr_PodSandboxId = ''s1'', ccr_Config = Some (exampleContainerConfig\<lparr>cc_Labels := [(''app'', ''web'')]\<rparr>),
     ccr_SandboxConfig = Some exampleSandboxConfig\<rparr>"

definition exampleWithSandbox :: "fake_docker svc_state" where
  "exampleWithSandbox = exampleState\<lparr>ss_env := SetFakeContainers
     [zeroFakeContainer\<lparr>fc_ID := ''s1'', fc_Name := ''/s1'', fc_Running := True\<rparr>] exampleDaemon\<rparr>"

theorem CreateContainer_then_status_witness:
  "\<exists>i s'. CreateContainer exampleService exampleRequest exampleWithSandbox = (Inr i, s') \<and>
     (case fst (ContainerStatus exampleService i False s') of
        Inr (st, info) \<Rightarrow> cst_Metadata st = \<lparr>cm_Name = ''nginx'', cm_Attempt = 3\<rparr> \<and> map_of (cst_Labels st) ''app'' = Some ''web''
      | Inl err \<Rightarrow> (\<exists>e. Fake_InspectContainer i (ss_env s') = (Inl err, e)) \<or>
          (\<exists>j x. fakeView (ss_env s') i = Some j \<and> getContainerTimestamps j = Inl x) \<or>
          (\<exists>j x e e'. fakeView (ss_env s') i = Some j \<and> Fake_InspectImageByID (cj_Image j) e = (Inl x, e') \<and> \<not> IsImageNotFoundError x))"
proof -
  let ?c = "exampleContainerConfig\<lparr>cc_Labels := [(''app'', ''web'')]\<rparr>"
  have "\<exists>s. CreateContainer exampleService exampleRequest exampleWithSandbox =
      (Inr (GetFakeContainerID (''/'' @ makeContainerName exampleSandboxConfig exampleContainerConfig)), s)"
    by (simp add: exampleRequest_def CreateContainer_def makeContainerCreateConfig_def getDockerAPIVersion_def getDockerVersion_def
        exampleWithSandbox_def example_run Fake_InspectContainer_def getRuntimeHandlers_def getDockerInfo_def
        runtimeHandlers_def convertFakeContainer_def zeroFakeContainer_def exampleContainerConfig_def exampleSandboxConfig_def
        GenerateMountBindings_def finishCreateConfig_def relabelMounts_def updateCreateConfig_def baseCreateConfig_def
        containerSecurityOpts_def applyPlatformSpecificDockerConfig_def createOrRecover_def Fake_CreateContainer_def
        makeContainerName_def addDevices_def dockerNamePrefix_def Let_def)
  then obtain i s' where c: "CreateContainer exampleService exampleRequest exampleWithSandbox = (Inr i, s')" by blast
  have req: "ccr_Config exampleRequest = Some ?c" "ccr_SandboxConfig exampleRequest = Some exampleSandboxConfig"
    by (simp_all add: exampleRequest_def)
  have ok: "sandboxMetadataOk (psc_Metadata exampleSandboxConfig)" "delimiterFree (cm_Name (cc_Metadata ?c))" "containerLabelsOk ?c"
    by (simp_all add: exampleSandboxConfig_def exampleContainerConfig_def sandboxMetadataOk_def delimiterFree_def containerLabelsOk_def
        internalLabelKeys_def label_consts strings_HasPrefix_def)
  have lab: "map_of (cc_Labels ?c) \<subseteq>\<^sub>m m \<Longrightarrow> m ''app'' = Some ''web''" for m by (simp add: map_le_def)
  have md: "cc_Metadata ?c = \<lparr>cm_Name = ''nginx'', cm_Attempt = 3\<rparr>" by (simp add: exampleContainerConfig_def)
  have ops: "dk_InspectContainer fakeClient = Fake_InspectContainer" "dk_InspectImageByID fakeClient = Fake_InspectImageByID"
    by (simp_all add: fakeClient_def)
  note st = CreateContainer_then_status [OF exsvc.service_env_axioms c req ok, unfolded ops md]
  have "case fst (ContainerStatus exampleService i False s') of
        Inr (st, info) \<Rightarrow> cst_Metadata st = \<lparr>cm_Name = ''nginx'', cm_Attempt = 3\<rparr> \<and> map_of (cst_Labels st) ''app'' = Some ''web''
      | Inl err \<Rightarrow> (\<exists>e. Fake_InspectContainer i (ss_env s') = (Inl err, e)) \<or>
          (\<exists>j x. fakeView (ss_env s') i = Some j \<and> getContainerTimestamps j = Inl x) \<or>
          (\<exists>j x e e'. fakeView (ss_env s') i = Some j \<and> Fake_InspectImageByID (cj_Image j) e = (Inl x, e') \<and> \<not> IsImageNotFoundError x)"
  proof (cases "fst (ContainerStatus exampleService i False s')")
    case (Inl err)
    then show ?thesis using st by simp
  next
    case (Inr b)
    obtain x y where b: "b = (x, y)" by (cases b)
    show ?thesis using st lab [of "map_of (cst_Labels x)"] by (simp only: Inr b sum.case prod.case)
  qed
  then show ?thesis using c by blast
qed

text \<open>C17. Recovery from a name conflict touches only the container that the daemon names: if creation is
  refused with docker's conflict message, the shim either removes exactly the container quoted in
  the message and reports the refusal, or changes nothing and reports it, or has created one new
  container. The pattern finds the quoted id even if the name in the message imitates the message.\<close>

theorem conflict_recovery_frame:
  assumes "service_env dk view ds" and "dk_CreateContainer dk cc (ss_env s) = (Inl err, e)"
    and "Error err = conflictMessage mid h post" and "mid \<noteq> []" and "newline \<notin> set mid" and "h \<noteq> []" and "list_all idByte h"
    and "noMarker post"
  shows "case createOrRecover ds cc s of
     (Inl err', s') \<Rightarrow> view (ss_env s') = (view (ss_env s))(h := None) \<and> err' = err \<or> view (ss_env s') = view (ss_env s)
   | (Inr i, s') \<Rightarrow> \<exists>j. view (ss_env s') = (view (ss_env s))(i \<mapsto> j)"
proof -
  have h: "conflictRE (Error err) = Some h" unfolding assms(3) by (rule conflictRE_message [OF assms(4-)])
  show ?thesis by (rule service_env.createOrRecover_frame [OF assms(1,2) h])
qed

text \<open>A daemon that refuses the next creation because the container \<^verbatim>\<open>beef\<close> holds the name.\<close>

definition exampleConflict :: string where
  "exampleConflict = conflictMessage ''The container name'' ''beef'' ''. You have to remove (or rename) that container to be able to reuse that name.''"

definition exampleWithConflict :: "fake_docker svc_state" where
  "exampleWithConflict = exampleWithSandbox\<lparr>ss_env := InjectError ''create'' (Some (Errorf exampleConflict)) (ss_env exampleWithSandbox)\<rparr>"

theorem conflict_recovery_frame_witness:
  "case createOrRecover exampleService (baseCreateConfig exampleSandboxConfig exampleContainerConfig ''s1'' [] []) exampleWithConflict of
     (Inl err, s') \<Rightarrow> fakeView (ss_env s') ''s1'' = fakeView (ss_env exampleWithConflict) ''s1''
   | (Inr i, s') \<Rightarrow> \<exists>j. fakeView (ss_env s') = (fakeView (ss_env exampleWithConflict))(i \<mapsto> j)"
proof -
  let ?cc = "baseCreateConfig exampleSandboxConfig exampleContainerConfig ''s1'' [] []"
  obtain e where c: "dk_CreateContainer fakeClient ?cc (ss_env exampleWithConflict) = (Inl (Errorf exampleConflict), e)"
    by (simp add: exampleWithConflict_def exampleWithSandbox_def example_run Fake_CreateContainer_def InjectError_def)
  have n: "noMarker ''. You have to remove (or rename) that container to be able to reuse that name.''"
    by (simp add: noMarker_def inUseBy_def)
  have "case createOrRecover exampleService ?cc exampleWithConflict of
     (Inl err', s') \<Rightarrow> fakeView (ss_env s') = (fakeView (ss_env exampleWithConflict))(''beef'' := None) \<and> err' = Errorf exampleConflict \<or>
       fakeView (ss_env s') = fakeView (ss_env exampleWithConflict)
   | (Inr i, s') \<Rightarrow> \<exists>j. fakeView (ss_env s') = (fakeView (ss_env exampleWithConflict))(i \<mapsto> j)"
    by (rule conflict_recovery_frame [OF exsvc.service_env_axioms c, where mid = "''The container name''" and h = "''beef''"
          and post = "''. You have to remove (or rename) that container to be able to reuse that name.''"])
      (simp_all add: exampleConflict_def n newline_def idByte_def)
  then show ?thesis by (auto split: prod.splits sum.splits)
qed

end
