(* ===== verification/Go_Hash.thy ===== *)
theory Go_Hash
  imports Cri_Prelude
begin

text \<open>
  What the sources use of \<^verbatim>\<open>crypto/sha256\<close> and \<^verbatim>\<open>encoding/base32\<close>: the digest of a byte string
  and its text in the standard alphabet, from which the port manager makes the names of its
  chains. The digest is computed on 32-bit words as FIPS 180-4 describes it, with additions
  that wrap.
\<close>

unbundle bit_operations_syntax

subsection \<open>SHA-256\<close>

definition rotr32 :: "nat \<Rightarrow> 32 word \<Rightarrow> 32 word" where
  "rotr32 n x = drop_bit n x OR push_bit (32 - n) x"

text \<open>
  The constants of the standard are the first 32 bits of the fractional parts of the cube roots
  of the first 64 primes and of the square roots of the first eight. The roots are computed bit by
  bit: \<open>rootBits d k n\<close> is the largest number below \<open>2 ^ k\<close> whose power \<open>d\<close> is at most \<open>n\<close>.
\<close>

fun primesFrom :: "int \<Rightarrow> int list \<Rightarrow> nat \<Rightarrow> int list" where
  "primesFrom k ps 0 = ps"
| "primesFrom k ps (Suc fuel) =
     primesFrom (k + 1) (if list_all (\<lambda>p. k mod p \<noteq> 0) ps then ps @ [k] else ps) fuel"

definition firstPrimes :: "int list" where
  "firstPrimes = primesFrom 2 [] 310"

definition rootBits :: "nat \<Rightarrow> nat \<Rightarrow> int \<Rightarrow> int" where
  "rootBits d k n = foldl (\<lambda>r i. if (r + 2 ^ i) ^ d \<le> n then r + 2 ^ i else r) 0 (rev [0..<k])"

definition sha256_K :: "32 word list" where
  "sha256_K = map (\<lambda>p. word_of_int (rootBits 3 36 (p * 2 ^ 96))) firstPrimes"

definition sha256_init :: "32 word list" where
  "sha256_init = map (\<lambda>p. word_of_int (rootBits 2 36 (p * 2 ^ 64))) (take 8 firstPrimes)"

text \<open>Big-endian bytes of a word, and the padded message: a bit 1, zeros, and the length in bits.\<close>

definition bytesBE :: "nat \<Rightarrow> 'a::len word \<Rightarrow> 8 word list" where
  "bytesBE k w = map (\<lambda>i. ucast (drop_bit (8 * (k - 1 - i)) w)) [0..<k]"

definition sha256_pad :: "string \<Rightarrow> 8 word list" where
  "sha256_pad s =
     map of_char s @ [0x80] @ replicate ((119 - length s mod 64) mod 64) 0 @
     bytesBE 8 (of_nat (8 * length s) :: 64 word)"

definition word32BE :: "8 word list \<Rightarrow> 32 word" where
  "word32BE bs = foldl (\<lambda>n b. push_bit 8 n OR ucast b) 0 bs"

fun chunksOf :: "nat \<Rightarrow> 'a list \<Rightarrow> 'a list list" where
  "chunksOf n [] = []"
| "chunksOf n (x # xs) =
     (if n = 0 then [x # xs] else take n (x # xs) # chunksOf n (drop n (x # xs)))"

text \<open>
  The message schedule: the sixteen words of the block and forty-eight more, each made from
  four of the last sixteen.
\<close>

definition scheduleNext :: "32 word list \<Rightarrow> 32 word list" where
  "scheduleNext w =
     (let i = length w;
          v1 = w ! (i - 2); t1 = rotr32 17 v1 XOR rotr32 19 v1 XOR drop_bit 10 v1;
          v2 = w ! (i - 15); t2 = rotr32 7 v2 XOR rotr32 18 v2 XOR drop_bit 3 v2
      in w @ [t1 + w ! (i - 7) + t2 + w ! (i - 16)])"

definition sha256_schedule :: "8 word list \<Rightarrow> 32 word list" where
  "sha256_schedule block = (scheduleNext ^^ 48) (map word32BE (chunksOf 4 block))"

fun sha256_round :: "32 word list \<Rightarrow> 32 word \<times> 32 word \<Rightarrow> 32 word list" where
  "sha256_round [a, b, c, d, e, f, g, h] (k, w) =
     (let t1 = h + (rotr32 6 e XOR rotr32 11 e XOR rotr32 25 e) + ((e AND f) XOR ((NOT e) AND g)) + k + w;
          t2 = (rotr32 2 a XOR rotr32 13 a XOR rotr32 22 a) + ((a AND b) XOR (a AND c) XOR (b AND c))
      in [t1 + t2, a, b, c, d + t1, e, f, g])"
| "sha256_round st kw = st"

definition sha256_block :: "32 word list \<Rightarrow> 8 word list \<Rightarrow> 32 word list" where
  "sha256_block h block =
     map2 (+) h (foldl sha256_round h (zip sha256_K (sha256_schedule block)))"

definition sha256_Sum256 :: "string \<Rightarrow> 8 word list" where
  "sha256_Sum256 s =
     concat (map (bytesBE 4) (foldl sha256_block sha256_init (chunksOf 64 (sha256_pad s))))"

subsection \<open>Base 32\<close>

definition base32Alphabet :: string where
  "base32Alphabet = ''ABCDEFGHIJKLMNOPQRSTUVWXYZ234567''"

definition bitsBE :: "8 word \<Rightarrow> bool list" where
  "bitsBE w = map (\<lambda>i. bit w (7 - i)) [0..<8]"

definition base32Digit :: "bool list \<Rightarrow> char" where
  "base32Digit bs = base32Alphabet ! foldl (\<lambda>n b. 2 * n + (if b then 1 else 0)) 0 (bs @ replicate (5 - length bs) False)"

text \<open>Groups of five bits, the last filled with zeros, and \<^verbatim>\<open>=\<close> up to a multiple of eight.\<close>

definition base32_EncodeToString :: "8 word list \<Rightarrow> string" where
  "base32_EncodeToString bytes =
     (let ds = map base32Digit (chunksOf 5 (concat (map bitsBE bytes)))
      in ds @ replicate ((8 - length ds mod 8) mod 8) (CHR ''=''))"

end
