(* ===== verification/Hostport.thy ===== *)
theory Hostport
  imports Go_Errors Go_Net Go_Hash
begin

text \<open>
  Host ports (\<^verbatim>\<open>network/hostport/hostport.go\<close> and \<^verbatim>\<open>hostport_manager.go\<close>). A manager of one address
  family holds a socket on every host port of a pod, and writes the rules that forward the port
  into the nat table. \<^verbatim>\<open>iptables\<close> is an interface (\<open>iptables\<close>), as is the opener of sockets; both
  work on a state \<open>'e\<close>. The calls are serialised by the manager's mutex.
\<close>

subsection \<open>Types\<close>

definition kubeHostportsChain :: string where "kubeHostportsChain = ''KUBE-HOSTPORTS''"

definition kubeHostportChainPrefix :: string where "kubeHostportChainPrefix = ''KUBE-HP-''"

definition kubeMarkMasqChain :: string where "kubeMarkMasqChain = ''KUBE-MARK-MASQ''"

definition TableNAT :: string where "TableNAT = ''nat''"

definition ProtocolUDP :: string where "ProtocolUDP = ''UDP''"

definition ProtocolSCTP :: string where "ProtocolSCTP = ''SCTP''"

record hostport_mapping =
  hpm_HostPort :: int
  hpm_ContainerPort :: int
  hpm_Protocol :: string
  hpm_HostIP :: string

record PodPortMapping =
  ppm_Namespace :: string
  ppm_Name :: string
  ppm_PortMappings :: "hostport_mapping list"
  ppm_HostNetwork :: bool
  ppm_IP :: IP

record hostport =
  hp_ipFamily :: string
  hp_ip :: string
  hp_port :: int
  hp_protocol :: string

text \<open>
  \<open>ipt_SaveInto\<close> gives what is written to the buffer. The flags of \<^verbatim>\<open>RestoreAll\<close> are the two
  boolean types of the package \<^verbatim>\<open>iptables\<close>.
\<close>

record 'e iptables =
  ipt_EnsureChain :: "string \<Rightarrow> string \<Rightarrow> 'e \<Rightarrow> (bool \<times> goerror option) \<times> 'e"
  ipt_EnsureRule :: "string \<Rightarrow> string \<Rightarrow> string \<Rightarrow> string list \<Rightarrow> 'e \<Rightarrow> (bool \<times> goerror option) \<times> 'e"
  ipt_IsIPv6 :: "'e \<Rightarrow> bool"
  ipt_SaveInto :: "string \<Rightarrow> 'e \<Rightarrow> (string \<times> goerror option) \<times> 'e"
  ipt_RestoreAll :: "string \<Rightarrow> bool \<Rightarrow> bool \<Rightarrow> 'e \<Rightarrow> goerror option \<times> 'e"

definition posPrepend :: string where "posPrepend = ''-I''"

definition posAppend :: string where "posAppend = ''-A''"

definition NoFlushTables :: bool where "NoFlushTables = False"

definition RestoreCounters :: bool where "RestoreCounters = True"

text \<open>
  The manager. A socket is a number, \<open>hmg_close\<close> is its method \<^verbatim>\<open>Close\<close>. \<open>hmg_clearEntries\<close> is
  \<^verbatim>\<open>conntrack.ClearEntriesForPort\<close> for UDP. The map of open sockets is the field \<open>hps_map\<close> of the
  state.
\<close>

record 'e hostportManager =
  hmg_execer :: bool
  hmg_conntrackFound :: bool
  hmg_iptables :: "'e iptables"
  hmg_portOpener :: "hostport \<Rightarrow> 'e \<Rightarrow> nat result \<times> 'e"
  hmg_close :: "nat \<Rightarrow> 'e \<Rightarrow> goerror option \<times> 'e"
  hmg_clearEntries :: "int \<Rightarrow> bool \<Rightarrow> 'e \<Rightarrow> goerror option \<times> 'e"

record 'e hp_state =
  hps_env :: 'e
  hps_map :: "(hostport \<times> nat) list"

definition hpEnv :: "('e \<Rightarrow> 'a \<times> 'e) \<Rightarrow> 'e hp_state \<Rightarrow> 'a \<times> 'e hp_state" where
  "hpEnv f s = (case f (hps_env s) of (a, e) \<Rightarrow> (a, s\<lparr>hps_env := e\<rparr>))"

subsection \<open>\<^verbatim>\<open>hostport.go\<close>\<close>

text \<open>The calls into the network stack that \<^verbatim>\<open>openLocalPort\<close> makes.\<close>

record 'e net_stack =
  ns_Listen :: "string \<Rightarrow> string \<Rightarrow> 'e \<Rightarrow> nat result \<times> 'e"
  ns_ResolveUDPAddr :: "string \<Rightarrow> string \<Rightarrow> 'e \<Rightarrow> string result \<times> 'e"
  ns_ListenUDP :: "string \<Rightarrow> string \<Rightarrow> 'e \<Rightarrow> nat result \<times> 'e"

definition openLocalPort :: "'e net_stack \<Rightarrow> hostport \<Rightarrow> 'e \<Rightarrow> nat result \<times> 'e" where
  "openLocalPort ns hp e =
     (let address = net_JoinHostPort (hp_ip hp) (fmt_int (hp_port hp)) in
      if hp_protocol hp = ''tcp'' then ns_Listen ns (''tcp'' @ hp_ipFamily hp) address e
      else if hp_protocol hp = ''udp'' then
        let network = ''udp'' @ hp_ipFamily hp in
        (case ns_ResolveUDPAddr ns network address e of
           (Inl err, e) \<Rightarrow> (Inl err, e)
         | (Inr addr, e) \<Rightarrow> ns_ListenUDP ns network addr e)
      else (Inl (Errorf (''unknown protocol '' @ fmt_q (hp_protocol hp))), e))"

definition portMappingToHostport :: "hostport_mapping \<Rightarrow> string \<Rightarrow> hostport" where
  "portMappingToHostport portMapping family =
     \<lparr>hp_ipFamily = family, hp_ip = hpm_HostIP portMapping, hp_port = hpm_HostPort portMapping,
      hp_protocol = strings_ToLower (hpm_Protocol portMapping)\<rparr>"

fun ensureJumps :: "'e iptables \<Rightarrow> string list \<Rightarrow> (string \<times> string) list \<Rightarrow> 'e \<Rightarrow> goerror option \<times> 'e" where
  "ensureJumps ipt args [] e = (None, e)"
| "ensureJumps ipt args ((table, chain) # tcs) e =
     (case ipt_EnsureRule ipt posAppend table chain args e of
        ((_, Some err), e) \<Rightarrow>
          (Some (Errorf (''failed to ensure that '' @ table @ '' chain '' @ chain @ '' jumps to '' @
                   kubeHostportsChain @ '': '' @ Error err)), e)
      | ((_, None), e) \<Rightarrow> ensureJumps ipt args tcs e)"

definition jumpArgs :: "string list" where
  "jumpArgs = [''-m'', ''comment'', ''--comment'', ''kube hostport portals'',
     ''-m'', ''addrtype'', ''--dst-type'', ''LOCAL'', ''-j'', kubeHostportsChain]"

definition masqArgs :: "string \<Rightarrow> string \<Rightarrow> string list" where
  "masqArgs natInterfaceName localhost =
     [''-m'', ''comment'', ''--comment'', ''SNAT for localhost access to hostports'',
      ''-o'', natInterfaceName, ''-s'', localhost, ''-j'', ''MASQUERADE'']"

definition ensureKubeHostportChains :: "'e iptables \<Rightarrow> string \<Rightarrow> 'e \<Rightarrow> goerror option \<times> 'e" where
  "ensureKubeHostportChains ipt natInterfaceName e =
     (case ipt_EnsureChain ipt TableNAT kubeHostportsChain e of
        ((_, Some err), e) \<Rightarrow>
          (Some (Errorf (''failed to ensure that '' @ TableNAT @ '' chain '' @ kubeHostportsChain @
                   '' exists: '' @ Error err)), e)
      | ((_, None), e) \<Rightarrow>
          (case ensureJumps ipt jumpArgs [(TableNAT, ''OUTPUT''), (TableNAT, ''PREROUTING'')] e of
             (Some err, e) \<Rightarrow> (Some err, e)
           | (None, e) \<Rightarrow>
               if natInterfaceName \<noteq> [] \<and> natInterfaceName \<noteq> ''lo'' then
                 let localhost = (if ipt_IsIPv6 ipt e then ''::1/128'' else ''127.0.0.0/8'') in
                 (case ipt_EnsureRule ipt posAppend TableNAT ''POSTROUTING'' (masqArgs natInterfaceName localhost) e of
                    ((_, Some err), e) \<Rightarrow>
                      (Some (Errorf (''failed to ensure that '' @ TableNAT @ '' chain POSTROUTING jumps to MASQUERADE: '' @
                               Error err)), e)
                  | ((_, None), e) \<Rightarrow> (None, e))
               else (None, e)))"

subsection \<open>Chains and rules\<close>

text \<open>\<^verbatim>\<open>utiliptables.MakeChainLine\<close> and \<^verbatim>\<open>GetChainsFromTable\<close> of the vendored package.\<close>

definition MakeChainLine :: "string \<Rightarrow> string" where
  "MakeChainLine chain = '':'' @ chain @ '' - [0:0]''"

definition sliceOutOfRange :: goerror where
  "sliceOutOfRange = Errorf ''runtime error: slice bounds out of range [:-1]''"

text \<open>
  Every text after a newline and a colon, up to the next space, names a chain. The function
  panics where no space follows, since it tests the wrong variable.
\<close>

function GetChainsFromTable :: "string \<Rightarrow> string list result" where
  "GetChainsFromTable [] = Inr []"
| "GetChainsFromTable [c] = Inr []"
| "GetChainsFromTable (c # d # save) =
     (if c = newline \<and> d = CHR '':'' then
        if CHR '' '' \<notin> set save then Inl sliceOutOfRange
        else
          let chain = takeWhile (\<lambda>x. x \<noteq> CHR '' '') save in
          (case GetChainsFromTable (dropWhile (\<lambda>x. x \<noteq> CHR '' '') save) of
             Inl err \<Rightarrow> Inl err
           | Inr rest \<Rightarrow> Inr (List.insert chain rest))
      else GetChainsFromTable (d # save))"
  by pat_completeness auto

termination GetChainsFromTable
  by (relation "measure length") (auto simp: less_Suc_eq_le intro: le_SucI length_dropWhile_le)

text \<open>\<^verbatim>\<open>json.Marshal\<close> of the value of type \<^verbatim>\<open>struct{}\<close> that the map holds for every chain.\<close>

definition emptyStructJson :: string where "emptyStructJson = ''{}''"

definition isHostportChain :: "string \<Rightarrow> bool" where
  "isHostportChain chain \<longleftrightarrow>
     strings_HasPrefix chain kubeHostportsChain \<or> strings_HasPrefix chain kubeHostportChainPrefix"

definition getExistingHostportIPTablesRules ::
    "'e iptables \<Rightarrow> 'e \<Rightarrow> ((string \<times> string) list \<times> string list) result \<times> 'e" where
  "getExistingHostportIPTablesRules ipt e =
     (case ipt_SaveInto ipt TableNAT e of
        ((_, Some err), e) \<Rightarrow> (Inl (Errorf (''failed to execute iptables-save: '' @ Error err)), e)
      | ((iptablesData, None), e) \<Rightarrow>
          (case GetChainsFromTable iptablesData of
             Inl err \<Rightarrow> (Inl err, e)
           | Inr existingNATChains \<Rightarrow>
               (Inr (map (\<lambda>chain. (chain, emptyStructJson)) (filter isHostportChain existingNATChains),
                     filter (\<lambda>line. strings_HasPrefix line (''-A '' @ kubeHostportChainPrefix) \<or>
                                    strings_HasPrefix line (''-A '' @ kubeHostportsChain))
                       (strings_Split iptablesData newline)), e)))"

definition filterRules :: "string list \<Rightarrow> string list \<Rightarrow> string list" where
  "filterRules rules filters = filter (\<lambda>rule. \<not> list_ex (strings_Contains rule) filters) rules"

definition filterChains :: "(string \<times> string) list \<Rightarrow> string list \<Rightarrow> (string \<times> string) list" where
  "filterChains cs filters = foldl (\<lambda>m chain. AList.delete chain m) cs filters"

definition getPodFullName :: "PodPortMapping \<Rightarrow> string" where
  "getPodFullName pod = ppm_Name pod @ ''_'' @ ppm_Namespace pod"

definition writeLine :: "string \<Rightarrow> string list \<Rightarrow> string" where
  "writeLine buf words = buf @ strings_Join words '' '' @ [newline]"

definition hostport_String :: "hostport \<Rightarrow> string" where
  "hostport_String hp = hp_protocol hp @ '':'' @ fmt_int (hp_port hp)"

definition getHostportChain :: "string \<Rightarrow> hostport_mapping \<Rightarrow> string" where
  "getHostportChain podID pm =
     (let hash = sha256_Sum256 (podID @ fmt_int (hpm_HostPort pm) @ hpm_Protocol pm @ hpm_HostIP pm);
          encoded = base32_EncodeToString hash
      in kubeHostportChainPrefix @ take 16 encoded)"

definition gatherHostportMappings :: "PodPortMapping \<Rightarrow> bool \<Rightarrow> hostport_mapping list" where
  "gatherHostportMappings podPortMapping isIPv6 =
     filter (\<lambda>pm. \<not> hpm_HostPort pm \<le> 0 \<and> \<not> (hpm_HostIP pm \<noteq> [] \<and> IsIPv6String (hpm_HostIP pm) \<noteq> isIPv6))
       (ppm_PortMappings podPortMapping)"

subsection \<open>Sockets\<close>

text \<open>\<^verbatim>\<open>utilerrors\<close> here is the package of \<^verbatim>\<open>k8s.io/apimachinery\<close>, whose type this program does not own.\<close>

definition api_NewAggregate :: "goerror option list \<Rightarrow> goerror option" where
  "api_NewAggregate errlist =
     (case NewAggregate errlist of
        Some (Aggregate es) \<Rightarrow> Some (ForeignAggregate (Error (Aggregate es)) es)
      | r \<Rightarrow> r)"

definition getIPFamily :: "'e hostportManager \<Rightarrow> 'e \<Rightarrow> string" where
  "getIPFamily hm e = (if ipt_IsIPv6 (hmg_iptables hm) e then ''6'' else ''4'')"

text \<open>Which mappings the loop of \<^verbatim>\<open>openHostports\<close> does not skip.\<close>

definition opensSocket :: "bool \<Rightarrow> hostport_mapping \<Rightarrow> bool" where
  "opensSocket isIPv6 pm \<longleftrightarrow>
     \<not> hpm_HostPort pm \<le> 0 \<and> hpm_Protocol pm \<noteq> ProtocolSCTP \<and>
     \<not> (hpm_HostIP pm \<noteq> [] \<and> IsIPv6String (hpm_HostIP pm) \<noteq> isIPv6)"

fun openLoop :: "'e hostportManager \<Rightarrow> string \<Rightarrow> (hostport \<times> nat) list \<Rightarrow> hostport_mapping list \<Rightarrow> 'e \<Rightarrow>
    (goerror option \<times> (hostport \<times> nat) list) \<times> 'e" where
  "openLoop hm pod ports [] e = ((None, ports), e)"
| "openLoop hm pod ports (pm # pms) e =
     (if \<not> opensSocket (ipt_IsIPv6 (hmg_iptables hm) e) pm then openLoop hm pod ports pms e
      else
        let hp = portMappingToHostport pm (getIPFamily hm e) in
        (case hmg_portOpener hm hp e of
           (Inl err, e) \<Rightarrow>
             ((Some (Errorf (''cannot open hostport '' @ fmt_int (hpm_HostPort pm) @ '' for pod '' @ pod @ '': '' @
                       Error err)), ports), e)
         | (Inr socket, e) \<Rightarrow> openLoop hm pod (mapSet ports hp socket) pms e))"

fun closeAll :: "'e hostportManager \<Rightarrow> (hostport \<times> nat) list \<Rightarrow> 'e \<Rightarrow> 'e" where
  "closeAll hm [] e = e"
| "closeAll hm ((hp, socket) # ports) e = closeAll hm ports (snd (hmg_close hm socket e))"

definition openHostports :: "'e hostportManager \<Rightarrow> PodPortMapping \<Rightarrow> 'e \<Rightarrow> (hostport \<times> nat) list result \<times> 'e" where
  "openHostports hm podPortMapping e =
     (case openLoop hm (getPodFullName podPortMapping) [] (ppm_PortMappings podPortMapping) e of
        ((Some retErr, ports), e) \<Rightarrow> (Inl retErr, closeAll hm ports e)
      | ((None, ports), e) \<Rightarrow> (Inr ports, e))"

fun closeLoop :: "'e hostportManager \<Rightarrow> hostport_mapping list \<Rightarrow> 'e hp_state \<Rightarrow> goerror list \<times> 'e hp_state" where
  "closeLoop hm [] s = ([], s)"
| "closeLoop hm (pm # pms) s =
     (let hp = portMappingToHostport pm (getIPFamily hm (hps_env s)) in
      case map_of (hps_map s) hp of
        Some socket \<Rightarrow>
          (case hpEnv (hmg_close hm socket) s of
             (Some err, s) \<Rightarrow>
               (case closeLoop hm pms s of (errs, s) \<Rightarrow>
                  (Errorf (''failed to close host port '' @ hostport_String hp @ '': '' @ Error err) # errs, s))
           | (None, s) \<Rightarrow> closeLoop hm pms (s\<lparr>hps_map := AList.delete hp (hps_map s)\<rparr>))
      | None \<Rightarrow> closeLoop hm pms s)"

definition closeHostports :: "'e hostportManager \<Rightarrow> hostport_mapping list \<Rightarrow> 'e hp_state \<Rightarrow> goerror option \<times> 'e hp_state" where
  "closeHostports hm hostportMappings s =
     (case closeLoop hm hostportMappings s of (errList, s) \<Rightarrow> (api_NewAggregate (map Some errList), s))"

definition syncIPTables :: "'e hostportManager \<Rightarrow> string \<Rightarrow> 'e hp_state \<Rightarrow> goerror option \<times> 'e hp_state" where
  "syncIPTables hm lines s =
     (case hpEnv (ipt_RestoreAll (hmg_iptables hm) lines NoFlushTables RestoreCounters) s of
        (Some err, s) \<Rightarrow> (Some (Errorf (''failed to execute iptables-restore: '' @ Error err)), s)
      | (None, s) \<Rightarrow> (None, s))"

subsection \<open>\<open>Add\<close> and \<open>Remove\<close>\<close>

definition NewHostportManager ::
    "'e iptables \<Rightarrow> 'e net_stack \<Rightarrow> (nat \<Rightarrow> 'e \<Rightarrow> goerror option \<times> 'e) \<Rightarrow> (int \<Rightarrow> bool \<Rightarrow> 'e \<Rightarrow> goerror option \<times> 'e) \<Rightarrow>
     'e \<Rightarrow> 'e hostportManager \<times> 'e hp_state" where
  "NewHostportManager ipt ns cl clearEntries e =
     (\<lparr>hmg_execer = True, hmg_conntrackFound = False, hmg_iptables = ipt, hmg_portOpener = openLocalPort ns,
       hmg_close = cl, hmg_clearEntries = clearEntries\<rparr>, \<lparr>hps_env = e, hps_map = []\<rparr>)"

definition hostportComment :: "string \<Rightarrow> hostport_mapping \<Rightarrow> string" where
  "hostportComment podFullName pm = [CHR 0x22] @ podFullName @ '' hostport '' @ fmt_int (hpm_HostPort pm) @ [CHR 0x22]"

text \<open>The body of the loop of \<^verbatim>\<open>Add\<close>: the text of the chains and of the rules, and the two lists.\<close>

fun addMapping :: "string \<Rightarrow> string \<Rightarrow> string \<Rightarrow> string \<times> string \<times> string list \<times> int list \<Rightarrow> hostport_mapping \<Rightarrow>
    string \<times> string \<times> string list \<times> int list" where
  "addMapping podID podFullName podIP (natChains, natRules, newChains, conntrackPortsToRemove) pm =
     (let protocol = strings_ToLower (hpm_Protocol pm);
          chain = getHostportChain podID pm;
          newChains = newChains @ [chain];
          conntrackPortsToRemove =
            (if hpm_Protocol pm = ProtocolUDP then conntrackPortsToRemove @ [hpm_HostPort pm] else conntrackPortsToRemove);
          natChains = writeLine natChains [MakeChainLine chain];
          comment = [''-m'', ''comment'', ''--comment'', hostportComment podFullName pm];
          natRules = writeLine natRules
            ([''-I'', kubeHostportsChain] @ comment @
             [''-m'', protocol, ''-p'', protocol, ''--dport'', fmt_int (hpm_HostPort pm), ''-j'', chain]);
          natRules = writeLine natRules
            ([''-A'', chain] @ comment @ [''-s'', podIP, ''-j'', kubeMarkMasqChain]);
          hostPortBinding = net_JoinHostPort podIP (fmt_int (hpm_ContainerPort pm));
          natRules =
            (if hpm_HostIP pm = [] \<or> hpm_HostIP pm = ''0.0.0.0'' \<or> hpm_HostIP pm = ''::'' then
               writeLine natRules
                 ([''-A'', chain] @ comment @
                  [''-m'', protocol, ''-p'', protocol, ''-j'', ''DNAT'', ''--to-destination='' @ hostPortBinding])
             else
               writeLine natRules
                 ([''-A'', chain] @ comment @
                  [''-m'', protocol, ''-p'', protocol, ''-d'', hpm_HostIP pm, ''-j'', ''DNAT'',
                   ''--to-destination='' @ hostPortBinding]))
      in (natChains, natRules, newChains, conntrackPortsToRemove))"

definition addRestoreInput :: "string \<Rightarrow> string \<Rightarrow> string \<Rightarrow> (string \<times> string) list \<Rightarrow> string list \<Rightarrow> hostport_mapping list \<Rightarrow>
    string \<times> int list" where
  "addRestoreInput podID podFullName podIP existingChains existingRules hostportMappings =
     (case foldl (addMapping podID podFullName podIP) (writeLine [] [''*nat''], [], [], []) hostportMappings of
        (natChains, natRules, newChains, conntrackPortsToRemove) \<Rightarrow>
          (let existingChains = filterChains existingChains newChains;
               existingRules = filterRules existingRules newChains;
               natChains = foldl (\<lambda>buf chain. writeLine buf [snd chain]) natChains existingChains;
               natRules = foldl (\<lambda>buf rule. writeLine buf [rule]) natRules existingRules;
               natRules = writeLine natRules [''COMMIT'']
           in (natChains @ natRules, conntrackPortsToRemove)))"

definition clearConntrack :: "'e hostportManager \<Rightarrow> bool \<Rightarrow> int list \<Rightarrow> 'e \<Rightarrow> 'e" where
  "clearConntrack hm isIPv6 ports e =
     (if hmg_execer hm \<and> hmg_conntrackFound hm
      then foldl (\<lambda>e port. snd (hmg_clearEntries hm port isIPv6 e)) e ports else e)"

text \<open>\<open>Add\<close> after the sockets are open. A panic leaves it at once; an error closes the sockets.\<close>

definition addRules :: "'e hostportManager \<Rightarrow> string \<Rightarrow> PodPortMapping \<Rightarrow> bool \<Rightarrow> hostport_mapping list \<Rightarrow> 'e hp_state \<Rightarrow>
    goerror option \<times> 'e hp_state" where
  "addRules hm podID podPortMapping isIPv6 hostportMappings s =
     (case hpEnv (getExistingHostportIPTablesRules (hmg_iptables hm)) s of
        (Inl err, s) \<Rightarrow>
          if err = sliceOutOfRange then (Some err, s)
          else (case closeHostports hm hostportMappings s of (errc, s) \<Rightarrow> (api_NewAggregate [Some err, errc], s))
      | (Inr (existingChains, existingRules), s) \<Rightarrow>
          (case addRestoreInput podID (getPodFullName podPortMapping) (IP_String (ppm_IP podPortMapping))
                  existingChains existingRules hostportMappings of
             (lines, conntrackPortsToRemove) \<Rightarrow>
               (case syncIPTables hm lines s of
                  (Some err, s) \<Rightarrow>
                    (case closeHostports hm hostportMappings s of (errc, s) \<Rightarrow> (api_NewAggregate [Some err, errc], s))
                | (None, s) \<Rightarrow> (None, s\<lparr>hps_env := clearConntrack hm isIPv6 conntrackPortsToRemove (hps_env s)\<rparr>))))"

definition hostport_Add :: "'e hostportManager \<Rightarrow> string \<Rightarrow> PodPortMapping option \<Rightarrow> string \<Rightarrow> 'e hp_state \<Rightarrow>
    goerror option \<times> 'e hp_state" where
  "hostport_Add hm podID podPortMapping natInterfaceName s =
     (case podPortMapping of
        None \<Rightarrow> (None, s)
      | Some pod \<Rightarrow>
          if ppm_HostNetwork pod then (None, s)
          else if IP_To16 (ppm_IP pod) = [] then
            (Some (Errorf (''invalid or missing IP of pod '' @ getPodFullName pod)), s)
          else
            let isIPv6 = IsIPv6 (ppm_IP pod);
                hostportMappings = gatherHostportMappings pod isIPv6
            in if length hostportMappings = 0 then (None, s)
               else if isIPv6 \<noteq> ipt_IsIPv6 (hmg_iptables hm) (hps_env s) then
                 (Some (Errorf (''HostPortManager IP family mismatch: '' @ IP_String (ppm_IP pod) @ '', isIPv6 - '' @
                          (if isIPv6 then ''true'' else ''false''))), s)
               else
                 (case hpEnv (ensureKubeHostportChains (hmg_iptables hm) natInterfaceName) s of
                    (Some err, s) \<Rightarrow> (Some err, s)
                  | (None, s) \<Rightarrow>
                      (case hpEnv (openHostports hm pod) s of
                         (Inl err, s) \<Rightarrow> (Some err, s)
                       | (Inr ports, s) \<Rightarrow>
                           addRules hm podID pod isIPv6 hostportMappings
                             (s\<lparr>hps_map := foldl (\<lambda>m (hp, socket). mapSet m hp socket) (hps_map s) ports\<rparr>))))"

definition removeRestoreInput :: "(string \<times> string) list \<Rightarrow> string list \<Rightarrow> string list \<Rightarrow> string" where
  "removeRestoreInput existingChains remainingRules existingChainsToRemove =
     (let natChains = foldl (\<lambda>buf chain. writeLine buf [snd chain]) (writeLine [] [''*nat'']) existingChains;
          natRules = foldl (\<lambda>buf rule. writeLine buf [rule]) [] remainingRules;
          natRules = foldl (\<lambda>buf chain. writeLine buf [''-X'', chain]) natRules existingChainsToRemove;
          natRules = writeLine natRules [''COMMIT'']
      in natChains @ natRules)"

definition hostport_Remove :: "'e hostportManager \<Rightarrow> string \<Rightarrow> PodPortMapping option \<Rightarrow> 'e hp_state \<Rightarrow> goerror option \<times> 'e hp_state" where
  "hostport_Remove hm podID podPortMapping s =
     (case podPortMapping of
        None \<Rightarrow> (None, s)
      | Some pod \<Rightarrow>
          if ppm_HostNetwork pod then (None, s)
          else
            let hostportMappings = gatherHostportMappings pod (ipt_IsIPv6 (hmg_iptables hm) (hps_env s))
            in if length hostportMappings = 0 then (None, s)
               else
                 (case hpEnv (getExistingHostportIPTablesRules (hmg_iptables hm)) s of
                    (Inl err, s) \<Rightarrow> (Some err, s)
                  | (Inr (existingChains, existingRules), s) \<Rightarrow>
                      let chainsToRemove = map (getHostportChain podID) hostportMappings;
                          remainingRules = filterRules existingRules chainsToRemove;
                          existingChainsToRemove = filter (\<lambda>chain. map_of existingChains chain \<noteq> None) chainsToRemove
                      in if length existingChainsToRemove = 0 then closeHostports hm hostportMappings s
                         else
                           (case syncIPTables hm (removeRestoreInput existingChains remainingRules existingChainsToRemove) s of
                              (Some err, s) \<Rightarrow> (Some err, s)
                            | (None, s) \<Rightarrow> closeHostports hm hostportMappings s)))"

end
