(* ===== verification/Pod_Sandbox.thy ===== *)
theory Pod_Sandbox
  imports Container_Ops Hostport
begin

text \<open>
  The pod sandbox handlers (\<^verbatim>\<open>core/sandbox_*.go\<close>): run, stop, remove, status and list, with their
  helpers. \<open>RunPodSandbox\<close> keeps the value of the Go variable \<^verbatim>\<open>err\<close> that its deferred function reads
  apart from the error it returns, since the two differ on some paths.
\<close>

definition defaultSandboxCPUshares :: int where "defaultSandboxCPUshares = 2"

definition defaultSandboxOOMAdj :: int where "defaultSandboxOOMAdj = - 998"

definition defaultSandboxGracePeriod :: int where "defaultSandboxGracePeriod = 10 * 10 ^ 9"

subsection \<open>Namespaces, addresses, details\<close>

definition networkNamespaceMode :: "ContainerJSON option \<Rightarrow> NamespaceMode" where
  "networkNamespaceMode container =
     (case container of
        None \<Rightarrow> NS_POD
      | Some c \<Rightarrow> if hc_NetworkMode (cj_HostConfig c) = namespaceModeHost then NS_NODE else NS_POD)"

definition pidNamespaceMode :: "ContainerJSON option \<Rightarrow> NamespaceMode" where
  "pidNamespaceMode container =
     (case container of
        None \<Rightarrow> NS_CONTAINER
      | Some c \<Rightarrow> if hc_PidMode (cj_HostConfig c) = namespaceModeHost then NS_NODE else NS_CONTAINER)"

definition ipcNamespaceMode :: "ContainerJSON option \<Rightarrow> NamespaceMode" where
  "ipcNamespaceMode container =
     (case container of
        None \<Rightarrow> NS_POD
      | Some c \<Rightarrow> if hc_IpcMode (cj_HostConfig c) = namespaceModeHost then NS_NODE else NS_POD)"

definition getIPsFromPlugin :: "'e docker_service \<Rightarrow> ContainerJSON \<Rightarrow> 'e svc_state \<Rightarrow> string list result \<times> 'e svc_state" where
  "getIPsFromPlugin ds sandbox s =
     (case parseSandboxName (cj_Name sandbox) of
        Inl err \<Rightarrow> (Inl err, s)
      | Inr metadata \<Rightarrow>
          (case onEnv (PM_GetPodNetworkStatus (svc_network ds) (psm_Namespace metadata) (psm_Name metadata)
                  (BuildContainerID runtimeName (cj_ID sandbox))) s of
             (Inl err, s) \<Rightarrow> (Inl err, s)
           | (Inr None, s) \<Rightarrow>
               (Inl (Errorf (''Couldn't find network status for '' @ psm_Namespace metadata @ ''/'' @ psm_Name metadata @
                  '' through plugin: invalid network status for'')), s)
           | (Inr (Some networkStatus), s) \<Rightarrow>
               (Inr (if length (pns_IPs networkStatus) = 0 then [pns_IP networkStatus] else pns_IPs networkStatus), s)))"

definition getIPs :: "'e docker_service \<Rightarrow> string \<Rightarrow> ContainerJSON \<Rightarrow> 'e svc_state \<Rightarrow> string list \<times> 'e svc_state" where
  "getIPs ds podSandboxID sandbox s =
     (case cj_NetworkSettings sandbox of
        None \<Rightarrow> ([], s)
      | Some settings \<Rightarrow>
          if networkNamespaceMode (Some sandbox) = NS_NODE then ([], s)
          else (case getNetworkReady podSandboxID s of (ready, ok) \<Rightarrow>
            if ok \<and> \<not> ready then ([], s)
            else (case getIPsFromPlugin ds sandbox s of
                    (Inr ips, s) \<Rightarrow> (ips, s)
                  | (Inl err, s) \<Rightarrow>
                      ((if nst_IPAddress settings \<noteq> [] then [nst_IPAddress settings] else []) @
                       (if nst_GlobalIPv6Address settings \<noteq> [] then [nst_GlobalIPv6Address settings] else []), s))))"

definition getPodSandboxDetails ::
    "'e docker_service \<Rightarrow> string \<Rightarrow> 'e svc_state \<Rightarrow> (ContainerJSON \<times> PodSandboxMetadata) result \<times> 'e svc_state" where
  "getPodSandboxDetails ds podSandboxID s =
     (case onEnv (dk_InspectContainer (svc_client ds) podSandboxID) s of
        (Inl err, s) \<Rightarrow> (Inl err, s)
      | (Inr resp, s) \<Rightarrow>
          (case parseSandboxName (cj_Name resp) of
             Inl err \<Rightarrow> (Inl err, s)
           | Inr metadata \<Rightarrow> (Inr (resp, metadata), s)))"

subsection \<open>The configuration of the sandbox container\<close>

definition applySandboxLinuxOptions ::
    "'e docker_service \<Rightarrow> LinuxPodSandboxConfig option \<Rightarrow> ContainerCreateConfig \<Rightarrow> char \<Rightarrow> ContainerCreateConfig result" where
  "applySandboxLinuxOptions ds lc createConfig separator =
     (case lc of
        None \<Rightarrow> Inr createConfig
      | Some l \<Rightarrow>
          (case applySandboxSecurityContext lc (ccc_Config createConfig) (ccc_HostConfig createConfig)
                  (Some (np_Name (svc_network ds))) separator of
             Inl err \<Rightarrow> Inl err
           | Inr (config, hc) \<Rightarrow>
               Inr (createConfig\<lparr>ccc_Config := config, ccc_HostConfig := hc\<lparr>hc_Sysctls := lps_Sysctls l\<rparr>\<rparr>)))"

definition applySandboxResources :: "'e docker_service \<Rightarrow> HostConfig \<Rightarrow> LinuxPodSandboxConfig option \<Rightarrow> HostConfig result" where
  "applySandboxResources ds hc lc =
     (let hc = hc\<lparr>hc_Resources := zeroResources\<lparr>dr_MemorySwap := DefaultMemorySwap, dr_CPUShares := defaultSandboxCPUshares\<rparr>\<rparr> in
      case lc of
        None \<Rightarrow> Inr hc
      | Some l \<Rightarrow>
          (case GenerateExpectedCgroupParent ds (lps_CgroupParent l) of
             Inl err \<Rightarrow> Inl err
           | Inr cgroupParent \<Rightarrow> Inr (hc\<lparr>hc_CgroupParent := cgroupParent\<rparr>)))"

definition makeSandboxDockerConfig :: "'e docker_service \<Rightarrow> PodSandboxConfig \<Rightarrow> string \<Rightarrow> ContainerCreateConfig result" where
  "makeSandboxDockerConfig ds c img =
     (let createConfig = \<lparr>ccc_Name = makeSandboxName c,
            ccc_Config = zeroConfig\<lparr>dc_Hostname := psc_Hostname c, dc_Image := img, dc_Labels := sandboxDockerLabels c\<rparr>,
            ccc_HostConfig = zeroHostConfig\<lparr>hc_IpcMode := ''shareable''\<rparr>\<rparr>
      in case applySandboxLinuxOptions ds (psc_Linux c) createConfig securityOptSeparator of
           Inl err \<Rightarrow> Inl err
         | Inr createConfig \<Rightarrow>
             (case MakePortsAndBindings (psc_PortMappings c) of (exposedPorts, portBindings) \<Rightarrow>
              (let hc = (ccc_HostConfig createConfig)\<lparr>hc_PortBindings := portBindings, hc_OomScoreAdj := defaultSandboxOOMAdj\<rparr> in
               case applySandboxResources ds hc (psc_Linux c) of
                 Inl err \<Rightarrow> Inl err
               | Inr hc \<Rightarrow>
                   Inr (createConfig\<lparr>ccc_Config := (ccc_Config createConfig)\<lparr>dc_ExposedPorts := exposedPorts\<rparr>,
                     ccc_HostConfig := hc\<lparr>hc_SecurityOpt := hc_SecurityOpt hc @ getSandBoxSecurityOpts securityOptSeparator\<rparr>\<rparr>))))"

subsection \<open>The sandbox image\<close>

fun pullWithCreds :: "'e docker_client \<Rightarrow> string \<Rightarrow> AuthConfig list \<Rightarrow> goerror list \<Rightarrow> 'e \<Rightarrow> goerror option \<times> 'e" where
  "pullWithCreds client img [] pullErrs e = (NewAggregate (map Some pullErrs), e)"
| "pullWithCreds client img (currentCreds # creds) pullErrs e =
     (case dk_PullImage client img currentCreds e of
        (None, e) \<Rightarrow> (None, e)
      | (Some err, e) \<Rightarrow> pullWithCreds client img creds (pullErrs @ [err]) e)"

definition ensureSandboxImageExists :: "'e externals \<Rightarrow> 'e docker_client \<Rightarrow> string \<Rightarrow> 'e \<Rightarrow> goerror option \<times> 'e" where
  "ensureSandboxImageExists ex client img e =
     (case dk_InspectImageByRef client img e of
        (Inr _, e) \<Rightarrow> (None, e)
      | (Inl err, e) \<Rightarrow>
          if \<not> IsImageNotFoundError err then
            (Some (Errorf (''failed to inspect sandbox image '' @ fmt_q img @ '': '' @ Error err)), e)
          else
            (case ParseImageName (ex_ParseNamed ex) img of
               Inl err \<Rightarrow> (Some err, e)
             | Inr (repoToPull, _, _) \<Rightarrow>
                 (case ex_keyringLookup ex repoToPull of
                    None \<Rightarrow>
                      (case dk_PullImage client img zeroAuth e of
                         (Some err, e) \<Rightarrow> (Some (Errorf (''failed pulling image '' @ fmt_q img @ '': '' @ Error err)), e)
                       | (None, e) \<Rightarrow> (None, e))
                  | Some creds \<Rightarrow> pullWithCreds client img creds [] e)))"

subsection \<open>The resolver configuration\<close>

text \<open>The file is truncated, written and closed; an error of the close is ignored.\<close>

definition rewriteFile :: "string \<Rightarrow> string \<Rightarrow> osfs \<Rightarrow> goerror option \<times> osfs" where
  "rewriteFile filePath stringToWrite fs =
     (case os_OpenTrunc filePath fs of
        (Some err, fs) \<Rightarrow> (Some err, fs)
      | (None, fs) \<Rightarrow> (case file_Write filePath stringToWrite fs of (err, fs) \<Rightarrow> (err, snd (file_Close fs))))"

definition resolvFileContent :: "string list \<Rightarrow> string list \<Rightarrow> string list \<Rightarrow> string list" where
  "resolvFileContent dns dnsSearch dnsOptions =
     map (\<lambda>srv. ''nameserver '' @ srv) dns @
     (if length dnsSearch > 0 then [''search '' @ strings_Join dnsSearch '' ''] else []) @
     (if length dnsOptions > 0 then [''options '' @ strings_Join dnsOptions '' ''] else [])"

definition rewriteResolvFile :: "string \<Rightarrow> string list \<Rightarrow> string list \<Rightarrow> string list \<Rightarrow> osfs \<Rightarrow> goerror option \<times> osfs" where
  "rewriteResolvFile resolvFilePath dns dnsSearch dnsOptions fs =
     (if length resolvFilePath = 0 then (None, fs)
      else (case fs_Stat resolvFilePath fs of (err, fs) \<Rightarrow>
        if (case err of Some e \<Rightarrow> os_IsNotExist e | None \<Rightarrow> False) then
          (Some (Errorf (''ResolvConfPath '' @ fmt_q resolvFilePath @ '' does not exist'')), fs)
        else
          (let content = resolvFileContent dns dnsSearch dnsOptions in
           if length content > 0 then rewriteFile resolvFilePath (strings_Join content [newline] @ [newline]) fs
           else (None, fs))))"

subsection \<open>RunPodSandbox\<close>

record RunPodSandboxRequest =
  rpr_Config :: PodSandboxConfig
  rpr_RuntimeHandler :: string

text \<open>The image, the configuration and the runtime handler, up to the call that creates the container.\<close>

definition prepareSandbox :: "'e docker_service \<Rightarrow> RunPodSandboxRequest \<Rightarrow> 'e svc_state \<Rightarrow> ContainerCreateConfig result \<times> 'e svc_state" where
  "prepareSandbox ds r s =
     (let c = rpr_Config r; img = sandboxImage ds in
      case onEnv (ensureSandboxImageExists (svc_ext ds) (svc_client ds) img) s of
        (Some err, s) \<Rightarrow> (Inl err, s)
      | (None, s) \<Rightarrow>
          (case makeSandboxDockerConfig ds c img of
             Inl err \<Rightarrow> (Inl (Errorf (''failed to make sandbox docker config for pod '' @ fmt_q (psm_Name (psc_Metadata c)) @ '': '' @ Error err)), s)
           | Inr createConfig \<Rightarrow>
               if rpr_RuntimeHandler r \<noteq> [] \<and> rpr_RuntimeHandler r \<noteq> runtimeName then
                 (case IsRuntimeConfigured ds (rpr_RuntimeHandler r) s of
                    (Some err, s) \<Rightarrow> (Inl (Errorf (''failed to get sandbox runtime: '' @ Error err)), s)
                  | (None, s) \<Rightarrow>
                      (Inr (createConfig\<lparr>ccc_HostConfig := (ccc_HostConfig createConfig)\<lparr>hc_Runtime := rpr_RuntimeHandler r\<rparr>\<rparr>), s))
               else (Inr createConfig, s)))"

text \<open>
  The steps after the container exists. The result is the response and the error that are
  returned, and the value of the variable \<^verbatim>\<open>err\<close> of the enclosing function at that point.
\<close>

type_synonym run_outcome = "(string option \<times> goerror option) \<times> goerror option"

definition setupSandboxNetwork :: "'e docker_service \<Rightarrow> PodSandboxConfig \<Rightarrow> string \<Rightarrow> 'e svc_state \<Rightarrow> run_outcome \<times> 'e svc_state" where
  "setupSandboxNetwork ds c i s =
     (let cID = BuildContainerID runtimeName i; md = psc_Metadata c in
      case (case psc_DnsConfig c of
              None \<Rightarrow> Inr []
            | Some dnsConfig \<Rightarrow> map_sum id (\<lambda>dnsOption. [(''dns'', dnsOption)]) (ex_dnsMarshal (svc_ext ds) dnsConfig)) of
        Inl err \<Rightarrow> (((None, Some (Errorf (''failed to marshal dns config for pod '' @ fmt_q (psm_Name md) @ '': '' @ Error err))), None), s)
      | Inr networkOptions \<Rightarrow>
          (case onEnv (PM_SetUpPod (svc_network ds) (psm_Namespace md) (psm_Name md) cID (psc_Annotations c) networkOptions) s of
             (None, s) \<Rightarrow> (((Some i, None), None), s)
           | (Some err, s) \<Rightarrow>
               (let errList = [Errorf (''failed to set up sandbox container '' @ fmt_q i @ '' network for pod '' @ fmt_q (psm_Name md) @ '': '' @ Error err)] in
                case onEnv (PM_TearDownPod (svc_network ds) (psm_Namespace md) (psm_Name md) cID) s of (err, s) \<Rightarrow>
                (let errList = errList @ (case err of None \<Rightarrow> []
                       | Some e \<Rightarrow> [Errorf (''failed to clean up sandbox container '' @ fmt_q i @ '' network for pod '' @ fmt_q (psm_Name md) @ '': '' @ Error e)]) in
                 case onEnv (dk_StopContainer (svc_client ds) i defaultSandboxGracePeriod) s of (err, s) \<Rightarrow>
                 (let errList = errList @ (case err of None \<Rightarrow> []
                        | Some e \<Rightarrow> [Errorf (''failed to stop sandbox container '' @ fmt_q i @ '' for pod '' @ fmt_q (psm_Name md) @ '': '' @ Error e)]) in
                  (((Some i, NewAggregate (map Some errList)), err), s))))))"

definition rewriteSandboxDns :: "'e docker_service \<Rightarrow> PodSandboxConfig \<Rightarrow> string \<Rightarrow> 'e svc_state \<Rightarrow> goerror option \<times> 'e svc_state" where
  "rewriteSandboxDns ds c i s =
     (case psc_DnsConfig c of
        None \<Rightarrow> (None, s)
      | Some dnsConfig \<Rightarrow>
          (case onEnv (dk_InspectContainer (svc_client ds) i) s of
             (Inl err, s) \<Rightarrow>
               (Some (Errorf (''failed to inspect sandbox container for pod '' @ fmt_q (psm_Name (psc_Metadata c)) @ '': '' @ Error err)), s)
           | (Inr containerInfo, s) \<Rightarrow>
               (case onFs (rewriteResolvFile (cj_ResolvConfPath containerInfo) (dns_Servers dnsConfig) (dns_Searches dnsConfig) (dns_Options dnsConfig)) s of
                  (Some err, s) \<Rightarrow>
                    (Some (Errorf (''rewrite resolv.conf failed for pod '' @ fmt_q (psm_Name (psc_Metadata c)) @ '': '' @ Error err)), s)
                | (None, s) \<Rightarrow> (None, s))))"

definition runSandboxSteps :: "'e docker_service \<Rightarrow> PodSandboxConfig \<Rightarrow> string \<Rightarrow> 'e svc_state \<Rightarrow> run_outcome \<times> 'e svc_state" where
  "runSandboxSteps ds c i s =
     (case onFs (CreateCheckpoint (sandboxCheckpoint (ex_spew (svc_ext ds))) (svc_checkpointManager ds) i (constructPodSandboxCheckpoint c)) s of
        (Some err, s) \<Rightarrow> (((None, Some err), Some err), s)
      | (None, s) \<Rightarrow>
          (case onEnv (dk_StartContainer (svc_client ds) i) s of
             (Some err, s) \<Rightarrow>
               (((None, Some (Errorf (''failed to start sandbox container for pod '' @ fmt_q (psm_Name (psc_Metadata c)) @ '': '' @ Error err))), Some err), s)
           | (None, s) \<Rightarrow>
               (case rewriteSandboxDns ds c i s of
                  (Some err, s) \<Rightarrow> (((None, Some err), None), s)
                | (None, s) \<Rightarrow>
                    if GetNetwork (sandboxNsOptions c) = NS_NODE then (((Some i, None), None), s)
                    else setupSandboxNetwork ds c i s)))"

definition RunPodSandbox :: "'e docker_service \<Rightarrow> RunPodSandboxRequest \<Rightarrow> 'e svc_state \<Rightarrow> (string option \<times> goerror option) \<times> 'e svc_state" where
  "RunPodSandbox ds r s =
     (case prepareSandbox ds r s of
        (Inl err, s) \<Rightarrow> ((None, Some err), s)
      | (Inr createConfig, s) \<Rightarrow>
          (case createOrRecover ds createConfig s of
             (Inl err, s) \<Rightarrow>
               ((None, Some (WrapErr (''failed to create a sandbox for pod '' @ fmt_q (psm_Name (psc_Metadata (rpr_Config r))) @ '': '') err [])), s)
           | (Inr i, s) \<Rightarrow>
               (case runSandboxSteps ds (rpr_Config r) i (setNetworkReady i False s) of
                  ((ret, errVar), s) \<Rightarrow> (ret, if errVar = None then setNetworkReady i True s else s))))"

subsection \<open>StopPodSandbox\<close>

definition getSandboxCheckpoint :: "'e docker_service \<Rightarrow> string \<Rightarrow> 'e svc_state \<Rightarrow> PodSandboxCheckpoint result \<times> 'e svc_state" where
  "getSandboxCheckpoint ds i s = onFs (GetCheckpoint (sandboxCheckpoint (ex_spew (svc_ext ds))) (svc_checkpointManager ds) i) s"

definition removeSandboxCheckpoint :: "'e docker_service \<Rightarrow> string \<Rightarrow> 'e svc_state \<Rightarrow> goerror option \<times> 'e svc_state" where
  "removeSandboxCheckpoint ds i s = onFs (RemoveCheckpoint (svc_checkpointManager ds) i) s"

text \<open>The namespace and name of the pod and whether it uses the host network, from the daemon or the checkpoint.\<close>

definition stopSandboxInfo :: "'e docker_service \<Rightarrow> string \<Rightarrow> 'e svc_state \<Rightarrow> (string \<times> string \<times> bool) result \<times> 'e svc_state" where
  "stopSandboxInfo ds podSandboxID s =
     (case getPodSandboxDetails ds podSandboxID s of
        (Inr (inspectResult, metadata), s) \<Rightarrow>
          (Inr (psm_Namespace metadata, psm_Name metadata, networkNamespaceMode (Some inspectResult) = NS_NODE), s)
      | (Inl statusErr, s) \<Rightarrow>
          (case getSandboxCheckpoint ds podSandboxID s of
             (Inr checkpoint, s) \<Rightarrow>
               (case GetData checkpoint of
                  Inl err \<Rightarrow> (Inl err, s)
                | Inr (_, name, namespace, _, hostNetwork) \<Rightarrow> (Inr (namespace, name, hostNetwork), s))
           | (Inl checkpointErr, s) \<Rightarrow>
               if checkpointErr = nilDereference then (Inl nilDereference, s) else
               (let s = (if checkpointErr \<noteq> Sentinel ErrCheckpointNotFound then snd (removeSandboxCheckpoint ds podSandboxID s) else s) in
                if IsContainerNotFoundError statusErr then (Inr ([], [], False), s)
                else
                  (case NewAggregate
                      [Some (Errorf (''failed to get checkpoint for sandbox '' @ fmt_q podSandboxID @ '': '' @ Error checkpointErr)),
                       Some (Errorf (''failed to get sandbox status: '' @ Error statusErr))] of
                     Some agg \<Rightarrow> (Inl agg, s)
                   | None \<Rightarrow> (Inr ([], [], False), s)))))"

definition stopTearDown :: "'e docker_service \<Rightarrow> string \<Rightarrow> string \<Rightarrow> string \<Rightarrow> bool \<Rightarrow> 'e svc_state \<Rightarrow> goerror list \<times> 'e svc_state" where
  "stopTearDown ds podSandboxID namespace name hostNetwork s =
     (case getNetworkReady podSandboxID s of (ready, ok) \<Rightarrow>
        if \<not> hostNetwork \<and> (ready \<or> \<not> ok) then
          (case onEnv (PM_TearDownPod (svc_network ds) namespace name (BuildContainerID runtimeName podSandboxID)) s of
             (None, s) \<Rightarrow> ([], setNetworkReady podSandboxID False s)
           | (Some err, s) \<Rightarrow> ([err], s))
        else ([], s))"

definition StopPodSandbox :: "'e docker_service \<Rightarrow> string \<Rightarrow> 'e svc_state \<Rightarrow> goerror option \<times> 'e svc_state" where
  "StopPodSandbox ds podSandboxID s =
     (case stopSandboxInfo ds podSandboxID s of
        (Inl err, s) \<Rightarrow> (Some err, s)
      | (Inr (namespace, name, hostNetwork), s) \<Rightarrow>
          (case stopTearDown ds podSandboxID namespace name hostNetwork s of (errList, s) \<Rightarrow>
           (case onEnv (dk_StopContainer (svc_client ds) podSandboxID defaultSandboxGracePeriod) s of
              (None, s) \<Rightarrow> (NewAggregate (map Some errList), s)
            | (Some err, s) \<Rightarrow>
                if \<not> IsContainerNotFoundError err then (NewAggregate (map Some (errList @ [err])), s)
                else (NewAggregate (map Some errList), snd (removeSandboxCheckpoint ds podSandboxID s)))))"

subsection \<open>RemovePodSandbox\<close>

fun removeContainersLoop :: "'e docker_service \<Rightarrow> DockerContainer list \<Rightarrow> goerror list \<Rightarrow> 'e svc_state \<Rightarrow> goerror list \<times> 'e svc_state" where
  "removeContainersLoop ds [] errs s = (errs, s)"
| "removeContainersLoop ds (c # cs) errs s =
     (case RemoveContainer ds (dct_ID c) s of
        (Some err, s) \<Rightarrow> removeContainersLoop ds cs (if \<not> IsContainerNotFoundError err then errs @ [err] else errs) s
      | (None, s) \<Rightarrow> removeContainersLoop ds cs errs s)"

definition RemovePodSandbox :: "'e docker_service \<Rightarrow> string \<Rightarrow> 'e svc_state \<Rightarrow> goerror option \<times> 'e svc_state" where
  "RemovePodSandbox ds podSandboxID s =
     (case onEnv (dk_ListContainers (svc_client ds) \<lparr>lo_All = True, lo_Filters = AddLabel [] sandboxIDLabelKey podSandboxID\<rparr>) s of
        ((containers, err), s) \<Rightarrow>
      (case removeContainersLoop ds containers (case err of None \<Rightarrow> [] | Some e \<Rightarrow> [e]) s of (errs, s) \<Rightarrow>
       (case onEnv (dk_RemoveContainer (svc_client ds) podSandboxID \<lparr>ro_RemoveVolumes = True, ro_Force = True\<rparr>) s of (err, s) \<Rightarrow>
        (let (errs, s) = (case err of
               None \<Rightarrow> (errs, clearNetworkReady podSandboxID s)
             | Some e \<Rightarrow> if IsContainerNotFoundError e then (errs, clearNetworkReady podSandboxID s) else (errs @ [e], s)) in
         case removeSandboxCheckpoint ds podSandboxID s of
           (Some e, s) \<Rightarrow> (NewAggregate (map Some (errs @ [e])), s)
         | (None, s) \<Rightarrow> (NewAggregate (map Some errs), s)))))"

subsection \<open>Status\<close>

record PodSandboxStatusData =
  pss_Id :: string
  pss_State :: PodSandboxState
  pss_CreatedAt :: int
  pss_Metadata :: PodSandboxMetadata
  pss_Labels :: gomap
  pss_Annotations :: gomap
  pss_Ip :: string
  pss_AdditionalIps :: "string list"
  pss_Network :: NamespaceMode
  pss_Pid :: NamespaceMode
  pss_Ipc :: NamespaceMode
  pss_RuntimeHandler :: string

definition PodSandboxStatus :: "'e docker_service \<Rightarrow> string \<Rightarrow> 'e svc_state \<Rightarrow> PodSandboxStatusData result \<times> 'e svc_state" where
  "PodSandboxStatus ds podSandboxID s =
     (case getPodSandboxDetails ds podSandboxID s of
        (Inl err, s) \<Rightarrow> (Inl err, s)
      | (Inr (r, metadata), s) \<Rightarrow>
          (case getContainerTimestamps r of
             Inl err \<Rightarrow> (Inl (Errorf (''failed to parse timestamp for container '' @ fmt_q podSandboxID @ '': '' @ Error err)), s)
           | Inr (createdAt, _, _) \<Rightarrow>
               (let ips = determinePodIPBySandboxID podSandboxID in
                case (if length ips = 0 then getIPs ds podSandboxID r s else (ips, s)) of (ips, s) \<Rightarrow>
                (case extractLabels (dc_Labels (cj_Config r)) of (labels, annotations) \<Rightarrow>
                  (Inr \<lparr>pss_Id = cj_ID r, pss_State = (if ds_Running (cj_State r) then SANDBOX_READY else SANDBOX_NOTREADY),
                        pss_CreatedAt = UnixNano createdAt, pss_Metadata = metadata, pss_Labels = labels, pss_Annotations = annotations,
                        pss_Ip = (case ips of [] \<Rightarrow> [] | ip # _ \<Rightarrow> ip), pss_AdditionalIps = tl ips,
                        pss_Network = networkNamespaceMode (Some r), pss_Pid = pidNamespaceMode (Some r), pss_Ipc = ipcNamespaceMode (Some r),
                        pss_RuntimeHandler = hc_Runtime (cj_HostConfig r)\<rparr>, s)))))"

subsection \<open>List\<close>

record PodSandboxFilter =
  psf_Id :: string
  psf_State :: "PodSandboxState option"
  psf_LabelSelector :: gomap

text \<open>The options for the daemon, and whether ready sandboxes are to be filtered out afterwards.\<close>

definition sandboxListOptions :: "PodSandboxFilter option \<Rightarrow> ListOptions \<times> bool" where
  "sandboxListOptions f =
     (let fs = AddLabel [] containerTypeLabelKey containerTypeLabelSandbox in
      case f of
        None \<Rightarrow> (\<lparr>lo_All = True, lo_Filters = fs\<rparr>, False)
      | Some f \<Rightarrow>
          (let fs = (if psf_Id f \<noteq> [] then filterAdd fs ''id'' (psf_Id f) else fs);
               fs = foldl (\<lambda>fs (k, v). AddLabel fs k v) fs (psf_LabelSelector f)
           in (\<lparr>lo_All = (psf_State f \<noteq> Some SANDBOX_READY), lo_Filters = fs\<rparr>, psf_State f = Some SANDBOX_NOTREADY)))"

text \<open>
  The sandboxes known only by their checkpoint. A checkpoint whose \<^verbatim>\<open>Data\<close> pointer is nil panics,
  which ends the loop.
\<close>

fun checkpointLoop :: "'e docker_service \<Rightarrow> string list \<Rightarrow> string list \<Rightarrow> 'e svc_state \<Rightarrow> PodSandbox list result \<times> 'e svc_state" where
  "checkpointLoop ds sandboxIDs [] s = (Inr [], s)"
| "checkpointLoop ds sandboxIDs (i # rest) s =
     (if i \<in> set sandboxIDs then checkpointLoop ds sandboxIDs rest s
      else (case getSandboxCheckpoint ds i s of
          (Inl err, s) \<Rightarrow>
            if err = nilDereference then (Inl nilDereference, s)
            else checkpointLoop ds sandboxIDs rest
              (if err = Sentinel ErrCorruptCheckpoint then snd (removeSandboxCheckpoint ds i s) else s)
        | (Inr checkpoint, s) \<Rightarrow>
            (case checkpointToRuntimeAPISandbox i checkpoint of
               Inl err \<Rightarrow> (Inl err, s)
             | Inr sb \<Rightarrow> (case checkpointLoop ds sandboxIDs rest s of (r, s) \<Rightarrow> (map_sum id ((#) sb) r, s)))))"

text \<open>The second half of the handler, from the containers the daemon lists.\<close>

definition listSandboxes ::
    "'e docker_service \<Rightarrow> bool \<Rightarrow> string list \<Rightarrow> DockerContainer list \<Rightarrow> 'e svc_state \<Rightarrow> PodSandbox list result \<times> 'e svc_state" where
  "listSandboxes ds filterOutReadySandboxes checkpoints containers s =
     (let result = filter (\<lambda>sb. \<not> (filterOutReadySandboxes \<and> psb_State sb = SANDBOX_READY))
            (convertAll containerToRuntimeAPISandbox containers)
      in case checkpointLoop ds (map psb_Id result) checkpoints s of (extra, s) \<Rightarrow> (map_sum id ((@) result) extra, s))"

definition ListPodSandbox :: "'e docker_service \<Rightarrow> PodSandboxFilter option \<Rightarrow> 'e svc_state \<Rightarrow> PodSandbox list result \<times> 'e svc_state" where
  "ListPodSandbox ds f s =
     (case sandboxListOptions f of (opts, filterOutReadySandboxes) \<Rightarrow>
      (case (if f = None then onFs (ListCheckpoints (svc_checkpointManager ds)) s else (Inr [], s)) of (cks, s) \<Rightarrow>
       (let checkpoints = (case cks of Inl _ \<Rightarrow> [] | Inr ks \<Rightarrow> ks) in
        case onEnv (dk_ListContainers (svc_client ds) opts) s of ((containers, err), s) \<Rightarrow>
        (case err of
           Some e \<Rightarrow>
             if \<not> IsContainerNotFoundError e then (Inl e, s)
             else listSandboxes ds filterOutReadySandboxes checkpoints containers s
         | None \<Rightarrow> listSandboxes ds filterOutReadySandboxes checkpoints containers s))))"

subsection \<open>What the network plugin asks the service for\<close>

definition GetNetNS :: "'e docker_service \<Rightarrow> string \<Rightarrow> 'e svc_state \<Rightarrow> string result \<times> 'e svc_state" where
  "GetNetNS ds podSandboxID s =
     (case onEnv (dk_InspectContainer (svc_client ds) podSandboxID) s of
        (Inl err, s) \<Rightarrow> (Inl err, s)
      | (Inr r, s) \<Rightarrow> (getNetworkNamespace r, s))"

fun toHostportMappings :: "ck_port_mapping option list \<Rightarrow> hostport_mapping list result" where
  "toHostportMappings [] = Inr []"
| "toHostportMappings (pm # pms) =
     (case Option.bind pm (\<lambda>p. Option.bind (ckp_HostPort p) (\<lambda>h. Option.bind (ckp_ContainerPort p) (\<lambda>c.
              map_option (\<lambda>pr. \<lparr>hpm_HostPort = h, hpm_ContainerPort = c, hpm_Protocol = pr, hpm_HostIP = ckp_HostIP p\<rparr>) (ckp_Protocol p)))) of
        None \<Rightarrow> Inl nilDereference
      | Some m \<Rightarrow> map_sum id ((#) m) (toHostportMappings pms))"

definition GetPodPortMappings :: "'e docker_service \<Rightarrow> string \<Rightarrow> 'e svc_state \<Rightarrow> hostport_mapping list result \<times> 'e svc_state" where
  "GetPodPortMappings ds podSandboxID s =
     (case getSandboxCheckpoint ds podSandboxID s of
        (Inl err, s) \<Rightarrow>
          if err = nilDereference then (Inl nilDereference, s)
          else if err = Sentinel ErrCheckpointNotFound then (Inr [], s)
          else (Inl err, snd (removeSandboxCheckpoint ds podSandboxID s))
      | (Inr checkpoint, s) \<Rightarrow>
          (case GetData checkpoint of
             Inl err \<Rightarrow> (Inl err, s)
           | Inr (_, _, _, checkpointedPortMappings, _) \<Rightarrow> (toHostportMappings checkpointedPortMappings, s)))"

subsection \<open>Lemmas\<close>

lemma applySandboxSecurityContext_spec:
  assumes "applySandboxSecurityContext lc cfg hc net sep = Inr (cfg', hc')"
    and "hc_NetworkMode hc \<noteq> namespaceModeHost" and "hc_PidMode hc \<noteq> namespaceModeHost" and "hc_IpcMode hc \<noteq> namespaceModeHost"
  shows "dc_Labels cfg' = dc_Labels cfg \<and> hc_Runtime hc' = hc_Runtime hc \<and>
     (let ns = Option.bind (Option.bind lc lps_SecurityContext) lss_NamespaceOptions in
      (hc_NetworkMode hc' = namespaceModeHost \<longleftrightarrow> GetNetwork ns = NS_NODE) \<and>
      (hc_PidMode hc' = namespaceModeHost \<longleftrightarrow> GetPid ns = NS_NODE) \<and>
      (hc_IpcMode hc' = namespaceModeHost \<longleftrightarrow> GetIpc ns = NS_NODE))"
proof (cases lc)
  case None
  then show ?thesis using assms by (auto simp: applySandboxSecurityContext_def GetNetwork_def GetPid_def GetIpc_def)
next
  case (Some l)
  have ns: "Option.bind (map_option g (lps_SecurityContext l)) lsc_NamespaceOptions =
      Option.bind (lps_SecurityContext l) lss_NamespaceOptions" if "\<And>s. lsc_NamespaceOptions (g s) = lss_NamespaceOptions s" for g
    using that by (cases "lps_SecurityContext l") simp_all
  show ?thesis using assms
    by (auto simp: Some applySandboxSecurityContext_def Let_def ns modifySandboxNamespaceOptions_modes split: sum.splits
        dest!: modifyContainerConfig_frame modifyHostConfig_frame)
qed

text \<open>What the host options of a sandbox container say about the namespaces of the pod.\<close>

definition sandboxModes :: "PodSandboxConfig \<Rightarrow> HostConfig \<Rightarrow> bool" where
  "sandboxModes c hc \<longleftrightarrow>
     (hc_NetworkMode hc = namespaceModeHost \<longleftrightarrow> GetNetwork (sandboxNsOptions c) = NS_NODE) \<and>
     (hc_PidMode hc = namespaceModeHost \<longleftrightarrow> GetPid (sandboxNsOptions c) = NS_NODE) \<and>
     (hc_IpcMode hc = namespaceModeHost \<longleftrightarrow> GetIpc (sandboxNsOptions c) = NS_NODE)"

definition requestedRuntime :: "RunPodSandboxRequest \<Rightarrow> string" where
  "requestedRuntime r = (if rpr_RuntimeHandler r \<noteq> [] \<and> rpr_RuntimeHandler r \<noteq> runtimeName then rpr_RuntimeHandler r else [])"

lemma makeSandboxDockerConfig_spec:
  assumes "makeSandboxDockerConfig ds c img = Inr cc"
  shows "ccc_Name cc = makeSandboxName c \<and> dc_Labels (ccc_Config cc) = sandboxDockerLabels c \<and> hc_Runtime (ccc_HostConfig cc) = [] \<and> sandboxModes c (ccc_HostConfig cc)"
proof -
  define cc0 where "cc0 = \<lparr>ccc_Name = makeSandboxName c,
            ccc_Config = zeroConfig\<lparr>dc_Hostname := psc_Hostname c, dc_Image := img, dc_Labels := sandboxDockerLabels c\<rparr>,
            ccc_HostConfig = zeroHostConfig\<lparr>hc_IpcMode := ''shareable''\<rparr>\<rparr>"
  have z: "hc_NetworkMode (ccc_HostConfig cc0) \<noteq> namespaceModeHost" "hc_PidMode (ccc_HostConfig cc0) \<noteq> namespaceModeHost"
    "hc_IpcMode (ccc_HostConfig cc0) \<noteq> namespaceModeHost" "hc_Runtime (ccc_HostConfig cc0) = []"
    by (simp_all add: cc0_def zeroHostConfig_def namespaceModeHost_def)
  obtain cc1 where cc1: "applySandboxLinuxOptions ds (psc_Linux c) cc0 securityOptSeparator = Inr cc1"
    using assms unfolding makeSandboxDockerConfig_def Let_def cc0_def [symmetric] by (auto split: sum.splits)
  have 1: "ccc_Name cc1 = makeSandboxName c \<and> dc_Labels (ccc_Config cc1) = sandboxDockerLabels c \<and> hc_Runtime (ccc_HostConfig cc1) = [] \<and> sandboxModes c (ccc_HostConfig cc1)"
  proof (cases "psc_Linux c")
    case None
    then show ?thesis using cc1 z by (auto simp: applySandboxLinuxOptions_def sandboxNsOptions_def cc0_def sandboxModes_def GetNetwork_def GetPid_def GetIpc_def)
  next
    case (Some l)
    then obtain cfg hc where a: "applySandboxSecurityContext (psc_Linux c) (ccc_Config cc0) (ccc_HostConfig cc0) (Some (np_Name (svc_network ds)))
        securityOptSeparator = Inr (cfg, hc)" and cc1': "cc1 = cc0\<lparr>ccc_Config := cfg, ccc_HostConfig := hc\<lparr>hc_Sysctls := lps_Sysctls l\<rparr>\<rparr>"
      using cc1 by (auto simp: applySandboxLinuxOptions_def split: sum.splits)
    show ?thesis using applySandboxSecurityContext_spec [OF a z(1-3)] z(4)
      by (simp add: cc1' Let_def sandboxNsOptions_def sandboxModes_def) (simp add: cc0_def)
  qed
  have "\<exists>hc ep. cc = cc1\<lparr>ccc_Config := (ccc_Config cc1)\<lparr>dc_ExposedPorts := ep\<rparr>, ccc_HostConfig := hc\<rparr> \<and>
     hc_Runtime hc = hc_Runtime (ccc_HostConfig cc1) \<and> hc_NetworkMode hc = hc_NetworkMode (ccc_HostConfig cc1) \<and>
     hc_PidMode hc = hc_PidMode (ccc_HostConfig cc1) \<and> hc_IpcMode hc = hc_IpcMode (ccc_HostConfig cc1)"
    using assms cc1 unfolding makeSandboxDockerConfig_def Let_def cc0_def [symmetric]
    by (auto simp: applySandboxResources_def Let_def split: prod.splits sum.splits option.splits)
  then show ?thesis using 1 by (auto simp: sandboxModes_def)
qed


definition sandboxLabelsOk :: "PodSandboxConfig \<Rightarrow> bool" where
  "sandboxLabelsOk c \<longleftrightarrow> goMapOk (psc_Labels c) \<and> goMapOk (psc_Annotations c) \<and>
     list_all (\<lambda>(k, v). k \<notin> set internalLabelKeys \<and> k \<noteq> KubernetesContainerNameLabel \<and> \<not> strings_HasPrefix k annotationPrefix)
       (psc_Labels c)"

context service_env
begin

lemma pullWithCreds_frame: "pullWithCreds dk img creds errs e = (r, e') \<Longrightarrow> view e' = view e"
proof (induction creds arbitrary: errs e)
  case (Cons a creds)
  obtain x e1 where p: "dk_PullImage dk img a e = (x, e1)" by fastforce
  then show ?case using Cons pull_frame [OF p] by (cases x) auto
qed simp

lemma ensureSandboxImageExists_frame:
  assumes "ensureSandboxImageExists ex dk img e = (r, e')"
  shows "view e' = view e"
  using assms
  by (auto simp: ensureSandboxImageExists_def split: prod.splits sum.splits option.splits if_splits
      dest!: image_frame pull_frame pullWithCreds_frame)

lemma prepareSandbox_spec:
  assumes "prepareSandbox ds r s = (Inr cc, s')"
  shows "obs view s' = obs view s \<and> ccc_Name cc = makeSandboxName (rpr_Config r) \<and>
     dc_Labels (ccc_Config cc) = sandboxDockerLabels (rpr_Config r) \<and> hc_Runtime (ccc_HostConfig cc) = requestedRuntime r \<and>
     sandboxModes (rpr_Config r) (ccc_HostConfig cc)"
proof -
  obtain x t where x: "onEnv (ensureSandboxImageExists (svc_ext ds) (svc_client ds) (sandboxImage ds)) s = (x, t)" by fastforce
  have t: "obs view t = obs view s" by (rule obs_onEnv [OF x]) (simp add: client ensureSandboxImageExists_frame)
  obtain cc0 where cc0: "makeSandboxDockerConfig ds (rpr_Config r) (sandboxImage ds) = Inr cc0"
    using assms x by (cases "makeSandboxDockerConfig ds (rpr_Config r) (sandboxImage ds)") (auto simp: prepareSandbox_def Let_def split: option.splits)
  have x': "x = None" using assms x by (cases x) (auto simp: prepareSandbox_def Let_def)
  note spec = makeSandboxDockerConfig_spec [OF cc0]
  show ?thesis
  proof (cases "rpr_RuntimeHandler r \<noteq> [] \<and> rpr_RuntimeHandler r \<noteq> runtimeName")
    case True
    obtain y u where y: "IsRuntimeConfigured ds (rpr_RuntimeHandler r) t = (y, u)" by fastforce
    have "obs view u = obs view t"
      using y by (auto simp: IsRuntimeConfigured_def split: prod.splits sum.splits dest: getDockerInfo_frame)
    moreover have "s' = u" "cc = cc0\<lparr>ccc_HostConfig := (ccc_HostConfig cc0)\<lparr>hc_Runtime := rpr_RuntimeHandler r\<rparr>\<rparr>"
      using assms True by (cases y; simp add: prepareSandbox_def Let_def x x' cc0 y)+
    ultimately show ?thesis using True t spec by (simp add: requestedRuntime_def sandboxModes_def)
  next
    case False
    then have "s' = t" "cc = cc0" using assms by (auto simp: prepareSandbox_def Let_def x x' cc0)
    then show ?thesis using False t spec by (auto simp: requestedRuntime_def)
  qed
qed

text \<open>The steps after creation keep the containers, except that the sandbox is now running.\<close>

lemma rewriteSandboxDns_frame: "rewriteSandboxDns ds c i s = (r, s') \<Longrightarrow> obs view s' = obs view s"
  by (auto simp: rewriteSandboxDns_def split: option.splits prod.splits sum.splits dest!: inspect_obs(1) obs_onFs [where view = view])

lemma setupSandboxNetwork_ok:
  assumes "setupSandboxNetwork ds c i s = (((Some k, None), v), s')"
  shows "k = i \<and> v = None \<and> obs view s' = obs view s"
proof -
  have "NewAggregate (Some x # xs) \<noteq> None" for x xs by (simp add: NewAggregate_def)
  then show ?thesis using assms
    by (auto simp: setupSandboxNetwork_def Let_def split: prod.splits sum.splits option.splits
        elim!: obs_onEnv intro: PM_SetUpPod_frame)
qed

lemma runSandboxSteps_ok:
  assumes "runSandboxSteps ds c i s = (((Some k, None), v), s')"
  shows "k = i \<and> v = None \<and> (\<exists>j j'. view (ss_env s) i = Some j \<and> sameContainer j j' \<and> ds_Running (cj_State j') \<and>
     view (ss_env s') = (view (ss_env s))(i \<mapsto> j'))"
proof -
  obtain x t where ck: "onFs (CreateCheckpoint (sandboxCheckpoint (ex_spew (svc_ext ds))) (svc_checkpointManager ds) i (constructPodSandboxCheckpoint c)) s = (x, t)"
    by fastforce
  obtain y u where st: "onEnv (dk_StartContainer (svc_client ds) i) t = (y, u)" by fastforce
  obtain z w where dns: "rewriteSandboxDns ds c i u = (z, w)" by fastforce
  have xyz: "x = None" "y = None" "z = None"
    using assms by (auto simp: runSandboxSteps_def ck st dns split: option.splits)
  have rest: "k = i \<and> v = None \<and> obs view s' = obs view w"
    using assms setupSandboxNetwork_ok [of c i w k v s'] by (auto simp: runSandboxSteps_def ck st dns xyz split: if_splits)
  have "dk_StartContainer dk i (ss_env t) = (None, ss_env u)"
    using st by (auto simp: xyz onEnv_def client split: prod.splits)
  from start_ok [OF this] rest rewriteSandboxDns_frame [OF dns] obs_onFs [OF ck, of view]
  show ?thesis by (auto simp: obs_def)
qed

lemma RunPodSandbox_ok:
  assumes "RunPodSandbox ds r s = ((Some i, None), s')"
  shows "getNetworkReady i s' = (True, True) \<and> (\<exists>n j.
     (n = makeSandboxName (rpr_Config r) \<or> (\<exists>w. n = randomizeName w (makeSandboxName (rpr_Config r)))) \<and>
     view (ss_env s') i = Some j \<and> cj_ID j = i \<and> cj_Name j = ''/'' @ n \<and> ds_Running (cj_State j) \<and>
     goMapOk (dc_Labels (cj_Config j)) \<and> map_of (sandboxDockerLabels (rpr_Config r)) \<subseteq>\<^sub>m map_of (dc_Labels (cj_Config j)) \<and>
     (requestedRuntime r \<noteq> [] \<longrightarrow> hc_Runtime (cj_HostConfig j) = requestedRuntime r) \<and> sandboxModes (rpr_Config r) (cj_HostConfig j))"
proof -
  obtain cc t where p: "prepareSandbox ds r s = (Inr cc, t)"
    using assms by (cases "prepareSandbox ds r s"; cases "fst (prepareSandbox ds r s)") (auto simp: RunPodSandbox_def)
  obtain k u where c: "createOrRecover ds cc t = (Inr k, u)"
    using assms p by (cases "createOrRecover ds cc t"; cases "fst (createOrRecover ds cc t)") (auto simp: RunPodSandbox_def)
  obtain v w where st: "runSandboxSteps ds (rpr_Config r) k (setNetworkReady k False u) = (((Some i, None), v), w)"
    and s': "s' = (if v = None then setNetworkReady k True w else w)"
    using assms p c by (auto simp: RunPodSandbox_def split: prod.splits)
  note ok = runSandboxSteps_ok [OF st]
  obtain n j where j: "n = ccc_Name cc \<or> (\<exists>w. n = randomizeName w (ccc_Name cc))" "view (ss_env u) k = Some j" "cj_ID j = k"
    "createdAs (cc\<lparr>ccc_Name := n\<rparr>) j"
    using createOrRecover_created [OF c] by blast
  note prep = prepareSandbox_spec [OF p]
  have "goMapOk (sandboxDockerLabels (rpr_Config r))" by (simp add: sandboxDockerLabels_def Let_def)
  then have "goMapOk (dc_Labels (cj_Config j))" "map_of (sandboxDockerLabels (rpr_Config r)) \<subseteq>\<^sub>m map_of (dc_Labels (cj_Config j))"
      "requestedRuntime r \<noteq> [] \<longrightarrow> hc_Runtime (cj_HostConfig j) = requestedRuntime r" "sandboxModes (rpr_Config r) (cj_HostConfig j)"
      "cj_Name j = ''/'' @ n"
    using prep j(4) by (auto simp: createdAs_def sameHostModes_def sandboxModes_def namespaceModeHost_def)
  then show ?thesis using prep j(1-3) ok by (auto simp: s' sameContainer_def)
qed

text \<open>The answer of \<open>PodSandboxStatus\<close> for a container of the daemon.\<close>

lemma PodSandboxStatus_answer:
  assumes "view (ss_env s) i = Some j" and "parseSandboxName (cj_Name j) = Inr md"
  shows "case fst (PodSandboxStatus ds i s) of
     Inr st \<Rightarrow> pss_Id st = cj_ID j \<and> pss_Metadata st = md \<and> (pss_State st = SANDBOX_READY \<longleftrightarrow> ds_Running (cj_State j)) \<and>
        (pss_Labels st, pss_Annotations st) = extractLabels (dc_Labels (cj_Config j)) \<and>
        pss_RuntimeHandler st = hc_Runtime (cj_HostConfig j) \<and> pss_Network st = networkNamespaceMode (Some j) \<and>
        pss_Pid st = pidNamespaceMode (Some j) \<and> pss_Ipc st = ipcNamespaceMode (Some j)
   | Inl err \<Rightarrow> (\<exists>e. dk_InspectContainer dk i (ss_env s) = (Inl err, e)) \<or> (\<exists>x. getContainerTimestamps j = Inl x)"
proof -
  obtain r t where r: "onEnv (dk_InspectContainer (svc_client ds) i) s = (r, t)" by fastforce
  show ?thesis
  proof (cases r)
    case (Inl err)
    then show ?thesis using r by (auto simp: PodSandboxStatus_def getPodSandboxDetails_def onEnv_def client split: prod.splits)
  next
    case (Inr j')
    then have j: "r = Inr j" using inspect_obs(2) [OF r Inr] assms(1) by simp
    have d: "getPodSandboxDetails ds i s = (Inr (j, md), t)" by (simp add: getPodSandboxDetails_def r j assms(2))
    show ?thesis
      by (cases "getContainerTimestamps j") (auto simp: PodSandboxStatus_def d Let_def split: prod.splits)
  qed
qed

text \<open>A response with an error comes only from a failing network setup.\<close>

lemma setupSandboxNetwork_failed:
  assumes "setupSandboxNetwork ds c i s = (((Some k, Some err), v), s')"
  shows "k = i \<and> (v = None \<or> obs view s' = obs view s)"
proof -
  let ?id = "BuildContainerID runtimeName i" and ?md = "psc_Metadata c"
  obtain os where os: "(case psc_DnsConfig c of None \<Rightarrow> Inr []
      | Some d \<Rightarrow> map_sum id (\<lambda>o'. [(''dns'', o')]) (ex_dnsMarshal (svc_ext ds) d)) = Inr os"
    using assms by (auto simp: setupSandboxNetwork_def Let_def split: sum.splits)
  obtain x t where up: "onEnv (PM_SetUpPod (svc_network ds) (psm_Namespace ?md) (psm_Name ?md) ?id (psc_Annotations c) os) s = (x, t)"
    by fastforce
  obtain y u where down: "onEnv (PM_TearDownPod (svc_network ds) (psm_Namespace ?md) (psm_Name ?md) ?id) t = (y, u)" by fastforce
  obtain z w where stop: "onEnv (dk_StopContainer (svc_client ds) i defaultSandboxGracePeriod) u = (z, w)" by fastforce
  have "k = i" "v = z" "s' = w"
    using assms by (cases x; simp add: setupSandboxNetwork_def Let_def os up down stop)+
  moreover have "obs view t = obs view s" by (rule obs_onEnv [OF up PM_SetUpPod_frame])
  moreover have "obs view u = obs view t" by (rule obs_onEnv [OF down PM_TearDownPod_frame])
  moreover have "z \<noteq> None \<Longrightarrow> obs view w = obs view u"
    by (rule obs_onEnv [OF stop]) (auto simp: client dest: stop_err)
  ultimately show ?thesis by (cases z) auto
qed

lemma RunPodSandbox_failed:
  assumes "RunPodSandbox ds r s = ((Some i, Some err), s')" and "view (ss_env s') i = Some j" and "\<not> ds_Running (cj_State j)"
  shows "getNetworkReady i s' = (True, True)"
proof -
  obtain cc t where p: "prepareSandbox ds r s = (Inr cc, t)"
    using assms by (cases "prepareSandbox ds r s"; cases "fst (prepareSandbox ds r s)") (auto simp: RunPodSandbox_def)
  obtain k u where c: "createOrRecover ds cc t = (Inr k, u)"
    using assms p by (cases "createOrRecover ds cc t"; cases "fst (createOrRecover ds cc t)") (auto simp: RunPodSandbox_def)
  obtain v w where st: "runSandboxSteps ds (rpr_Config r) k (setNetworkReady k False u) = (((Some i, Some err), v), w)"
    and s': "s' = (if v = None then setNetworkReady k True w else w)"
    using assms p c by (auto simp: RunPodSandbox_def split: prod.splits)
  let ?u = "setNetworkReady k False u"
  obtain x t1 where ck: "onFs (CreateCheckpoint (sandboxCheckpoint (ex_spew (svc_ext ds))) (svc_checkpointManager ds) k (constructPodSandboxCheckpoint (rpr_Config r))) ?u = (x, t1)"
    by fastforce
  obtain y t2 where sc: "onEnv (dk_StartContainer (svc_client ds) k) t1 = (y, t2)" by fastforce
  obtain z t3 where dns: "rewriteSandboxDns ds (rpr_Config r) k t2 = (z, t3)" by fastforce
  have xyz: "x = None" "y = None" "z = None"
    using st by (auto simp: runSandboxSteps_def ck sc dns split: option.splits)
  have set: "setupSandboxNetwork ds (rpr_Config r) k t3 = (((Some i, Some err), v), w)"
    using st by (auto simp: runSandboxSteps_def ck sc dns xyz split: if_splits)
  have "dk_StartContainer dk k (ss_env t1) = (None, ss_env t2)"
    using sc by (auto simp: xyz onEnv_def client split: prod.splits)
  from start_ok [OF this] rewriteSandboxDns_frame [OF dns] obtain j' where "view (ss_env t3) k = Some j'" "ds_Running (cj_State j')"
    by (auto simp: obs_def)
  then have "v = None" using setupSandboxNetwork_failed [OF set] assms(2,3) by (auto simp: s' obs_def split: if_splits)
  then show ?thesis using setupSandboxNetwork_failed [OF set] by (simp add: s')
qed

end

text \<open>Reading checkpoints changes no checkpoint, and never gives the sentinel for a corrupt one.\<close>

lemma FileStore_Read_plain:
  "FileStore_Read p k fs = (Inl e, fs') \<Longrightarrow> plainError e \<or> e = Sentinel ErrKeyNotFound"
  by (auto simp: FileStore_Read_def ValidateKey_def fs_ReadFile_def noSuchFile_def split: option.splits if_splits prod.splits sum.splits)

lemma getSandboxCheckpoint_not_corrupt:
  assumes "svc_checkpointManager ds = FileStore p" and "getSandboxCheckpoint ds i s = (r, s')"
  shows "r \<noteq> Inl (Sentinel ErrCorruptCheckpoint) \<and> storeContent es (ss_fs s') = storeContent es (ss_fs s)"
proof -
  obtain x fs where rd: "FileStore_Read p i (ss_fs s) = (x, fs)" by fastforce
  have c: "storeContent es fs = storeContent es (ss_fs s)" using FileStore_Read_frame [of es p i "ss_fs s"] rd by simp
  show ?thesis
  proof (cases x)
    case (Inl e)
    then show ?thesis using assms c FileStore_Read_plain [OF rd [unfolded Inl]]
      by (auto simp: getSandboxCheckpoint_def GetCheckpoint_def onFs_def rd plainError_def split: if_splits)
  next
    case (Inr blob)
    then show ?thesis using assms c
      by (auto simp: getSandboxCheckpoint_def GetCheckpoint_def onFs_def rd sandboxCheckpoint_def VerifyChecksum_def Checksum_Verify_def
          nilDereference_def plainError_def split: sum.splits option.splits if_splits dest!: UnmarshalCheckpoint_plain)
  qed
qed

lemma checkpointLoop_keeps:
  assumes "svc_checkpointManager ds = FileStore p"
  shows "checkpointLoop ds known ks s = (r, s') \<Longrightarrow> storeContent es (ss_fs s') = storeContent es (ss_fs s)"
proof (induction ks arbitrary: r s)
  case (Cons k ks)
  obtain x t where g: "getSandboxCheckpoint ds k s = (x, t)" by fastforce
  note get = getSandboxCheckpoint_not_corrupt [OF assms g, of es]
  show ?case
  proof (cases x)
    case (Inl err)
    then show ?thesis using Cons.prems Cons.IH get by (auto simp: g split: if_splits)
  next
    case (Inr cp)
    then show ?thesis using Cons.prems Cons.IH get by (auto simp: g split: if_splits sum.splits prod.splits)
  qed
qed simp

end
