(* ===== verification/Sandbox_Props.thy ===== *)
theory Sandbox_Props
  imports Pod_Sandbox
begin

text \<open>
  The properties of the pod sandbox handlers. The first part shows that a run on the fake daemon of
  the repository gets to its end when nothing is made to fail; the witnesses use it.
\<close>

subsection \<open>Progress on the fake daemon\<close>

lemma digitChar_keyChar: "d < 16 \<Longrightarrow> keyChar (digitChar d)"
  by (auto simp: keyChar_def digitChar_def)

lemma fmt_hex_keyChars: "list_all keyChar (fmt_nat 16 n)"
proof (induction n rule: less_induct)
  case (less n)
  show ?case
    by (subst fmt_nat.simps) (use less [of "n div 16"] in \<open>auto simp: digitChar_keyChar\<close>)
qed

lemma fmt_hex_length: "n < 16 ^ k \<Longrightarrow> length (fmt_nat 16 n) \<le> Suc k"
proof (induction k arbitrary: n)
  case 0
  then show ?case by (subst fmt_nat.simps) simp
next
  case (Suc k)
  then have "n div 16 < 16 ^ k" by (simp add: less_mult_imp_div_less mult.commute)
  with Suc.IH [of "n div 16"] show ?case by (subst fmt_nat.simps) simp
qed

lemma ValidateKey_GetFakeContainerID [simp]: "ValidateKey (GetFakeContainerID name) = None"
proof -
  let ?k = "GetFakeContainerID name"
  have h: "list_all keyChar ?k" by (simp add: GetFakeContainerID_def fmt_hex_keyChars)
  have ne: "?k \<noteq> []" by (simp add: GetFakeContainerID_def)
  have "unat (fnv64a name) < 16 ^ 16" using unsigned_less [of "fnv64a name"] by simp
  then have "length ?k \<le> 17" using fmt_hex_length [of "unat (fnv64a name)" 16] by (simp add: GetFakeContainerID_def)
  moreover have "keyChar (hd ?k)" "keyChar (last ?k)" using h ne by (simp_all add: list_all_iff)
  moreover have "list_all keyExtChar ?k" using h by (auto simp: list_all_iff keyExtChar_def)
  ultimately show ?thesis using ne by (simp add: ValidateKey_iff Suc_le_eq)
qed


text \<open>A daemon without injected errors and private images, and a store on a device that does not fail.\<close>

definition calm :: "fake_docker svc_state \<Rightarrow> bool" where
  "calm s \<longleftrightarrow> fk_Errors (ss_env s) = [] \<and> fk_ImageIDsNeedingAuth (ss_env s) = [] \<and>
     storeHealthy checkpointDir (ss_fs s) \<and> absPath checkpointDir \<in> set (os_dirs (ss_fs s))"

lemma popError_calm: "fk_Errors f = [] \<Longrightarrow> popError op f = (None, f)"
  by (simp add: popError_def)

lemma fake_keeps [simp]:
  "fk_Errors (appendCalled n a f) = fk_Errors f" "fk_ImageIDsNeedingAuth (appendCalled n a f) = fk_ImageIDsNeedingAuth f"
  "fk_Errors (appendPulled x f) = fk_Errors f" "fk_ImageIDsNeedingAuth (appendPulled x f) = fk_ImageIDsNeedingAuth f"
  "fk_Errors (appendContainerTrace c n f) = fk_Errors f"
  "fk_ImageIDsNeedingAuth (appendContainerTrace c n f) = fk_ImageIDsNeedingAuth f"
  "fk_Errors (updateContainerStatus i st f) = fk_Errors f"
  "fk_ImageIDsNeedingAuth (updateContainerStatus i st f) = fk_ImageIDsNeedingAuth f"
  "fk_Information (appendCalled n a f) = fk_Information f" "fk_Information (appendPulled x f) = fk_Information f"
  by (simp_all add: appendCalled_def appendPulled_def appendContainerTrace_def updateContainerStatus_def)

lemma ensureSandboxImageExists_calm:
  assumes "fk_Errors f = []" and "fk_ImageIDsNeedingAuth f = []" and "ex_ParseNamed ex img = Inr n"
    and "\<forall>repo creds. ex_keyringLookup ex repo = Some creds \<longrightarrow> creds \<noteq> []"
  shows "\<exists>f'. ensureSandboxImageExists ex fakeClient img f = (None, f') \<and> fk_Errors f' = [] \<and> fk_ImageIDsNeedingAuth f' = [] \<and>
     fk_Information f' = fk_Information f"
proof -
  have pull: "\<exists>f'. Fake_PullImage img a (appendCalled ''inspect_image'' [] f) = (None, f') \<and> fk_Errors f' = [] \<and> fk_ImageIDsNeedingAuth f' = [] \<and>
      fk_Information f' = fk_Information f" for a
    using assms(1,2) by (simp add: Fake_PullImage_def popError_calm isAuthorizedForImage_def Let_def)
  obtain repo t d where pn: "ParseImageName (ex_ParseNamed ex) img = Inr (repo, t, d)"
    by (cases n) (auto simp: ParseImageName_def assms(3) Let_def)
  show ?thesis
  proof (cases "map_of (fk_ImageInspects f) img")
    case None
    then show ?thesis
    proof (cases "ex_keyringLookup ex repo")
      case None
      then show ?thesis using pull [of zeroAuth] assms(1) \<open>map_of (fk_ImageInspects f) img = None\<close>
        by (auto simp: ensureSandboxImageExists_def fakeClient_def Fake_InspectImageByRef_def popError_calm pn IsImageNotFoundError_def appendCalled_def)
    next
      case (Some creds)
      then obtain c cs where "creds = c # cs" using assms(4) by (cases creds) auto
      then show ?thesis using Some pull [of c] assms(1) \<open>map_of (fk_ImageInspects f) img = None\<close>
        by (auto simp: ensureSandboxImageExists_def fakeClient_def Fake_InspectImageByRef_def popError_calm pn IsImageNotFoundError_def appendCalled_def)
    qed
  next
    case (Some r)
    then show ?thesis using assms(1,2)
      by (simp add: ensureSandboxImageExists_def fakeClient_def Fake_InspectImageByRef_def popError_calm appendCalled_def)
  qed
qed

lemma Fake_Create_calm:
  assumes "fk_Errors f = []" and "fk_ImageIDsNeedingAuth f = []"
  shows "\<exists>f' j. Fake_CreateContainer cc f = (Inr (GetFakeContainerID (''/'' @ ccc_Name cc)), f') \<and> fk_Errors f' = [] \<and>
     fk_ImageIDsNeedingAuth f' = [] \<and> fakeView f' (GetFakeContainerID (''/'' @ ccc_Name cc)) = Some j \<and> cj_HostConfig j = ccc_HostConfig cc \<and>
     cj_ResolvConfPath j = []"
  using assms
  by (auto simp: Fake_CreateContainer_def popError_calm Let_def dockerNamePrefix_def fakeNow_def fakeView_def convertFakeContainer_def
      zeroFakeContainer_def)

lemma Fake_Start_calm:
  assumes "fk_Errors f = []" and "fk_ImageIDsNeedingAuth f = []" and "fakeView f i = Some j"
    and "connectedContainer (hc_NetworkMode (cj_HostConfig j)) = None" and "cj_ResolvConfPath j = []"
  shows "\<exists>f' k. Fake_StartContainer i f = (None, f') \<and> fk_Errors f' = [] \<and> fakeView f' i = Some k \<and> cj_ResolvConfPath k = []"
  using assms
  by (simp add: Fake_StartContainer_def popError_calm Let_def fakeView_def fakeStarted_def fakeNow_def fakeRand_def)


lemma makeSandboxDockerConfig_network:
  assumes "makeSandboxDockerConfig ds c img = Inr cc"
  shows "connectedContainer (hc_NetworkMode (ccc_HostConfig cc)) = None"
proof -
  have "hc_NetworkMode (ccc_HostConfig cc) \<in> {[], ''host'', ''default'', ''none''}"
    using assms
    by (auto simp: makeSandboxDockerConfig_def applySandboxLinuxOptions_def applySandboxSecurityContext_def applySandboxResources_def
        Let_def zeroHostConfig_def modifySandboxNamespaceOptions_def modifyHostOptionsForSandbox_def namespaceModeHost_def
        split: sum.splits option.splits prod.splits if_splits)
  then show ?thesis by (auto simp: connectedContainer_def strings_HasPrefix_def)
qed

text \<open>The runtime of a request is the default one or one that the daemon reports, as far as the cache of the service holds its report.\<close>

definition infoCached :: "DockerInfo \<Rightarrow> cached cache \<Rightarrow> bool" where
  "infoCached info c \<longleftrightarrow> (case map_of c ''docker_info'' of None \<Rightarrow> True | Some e \<Rightarrow> ce_value e = Some (CInfo info))"

definition runtimeKnown :: "RunPodSandboxRequest \<Rightarrow> fake_docker svc_state \<Rightarrow> bool" where
  "runtimeKnown r s \<longleftrightarrow> rpr_RuntimeHandler r = [] \<or> rpr_RuntimeHandler r = ''docker'' \<or>
     rpr_RuntimeHandler r \<in> fst ` set (di_Runtimes (fk_Information (ss_env s))) \<and> infoCached (fk_Information (ss_env s)) (ss_systemInfoCache s)"

lemma getDockerInfo_calm:
  assumes "svc_client ds = fakeClient" and "ex_now (svc_ext ds) = fakeNow" and "infoCached (fk_Information (ss_env s)) (ss_systemInfoCache s)"
  shows "\<exists>f c. getDockerInfo ds s = (Inr (fk_Information (ss_env s)), s\<lparr>ss_env := f, ss_systemInfoCache := c\<rparr>) \<and>
     fk_Errors f = fk_Errors (ss_env s) \<and> fk_ImageIDsNeedingAuth f = fk_ImageIDsNeedingAuth (ss_env s)"
proof -
  obtain r t where g: "getDockerInfo ds s = (r, t)" by fastforce
  have "r = Inr (fk_Information (ss_env s)) \<and> t = s\<lparr>ss_env := ss_env t, ss_systemInfoCache := ss_systemInfoCache t\<rparr> \<and>
      fk_Errors (ss_env t) = fk_Errors (ss_env s) \<and> fk_ImageIDsNeedingAuth (ss_env t) = fk_ImageIDsNeedingAuth (ss_env s)"
    using g assms(3)
    by (cases "map_of (ss_systemInfoCache s) ''docker_info''")
      (auto simp: infoCached_def getDockerInfo_def memo_def Memoize_def getEntry_def zeroEntry_def timeSub_def [of _ None] maxDuration_def
        systemInfoCacheMinTTL_def assms(1,2) onEnv_def fakeNow_def fakeClient_def Fake_Info_def split: if_splits)
  then show ?thesis using g by metis
qed

lemma prepareSandbox_calm:
  assumes "fk_Errors (ss_env s) = []" and "fk_ImageIDsNeedingAuth (ss_env s) = []"
    and ds: "svc_client ds = fakeClient" "ex_now (svc_ext ds) = fakeNow"
    and "ex_ParseNamed (svc_ext ds) (sandboxImage ds) = Inr n"
    and "\<forall>repo creds. ex_keyringLookup (svc_ext ds) repo = Some creds \<longrightarrow> creds \<noteq> []"
    and cc: "makeSandboxDockerConfig ds (rpr_Config r) (sandboxImage ds) = Inr cc" and "runtimeKnown r s"
  shows "\<exists>cc' f c. prepareSandbox ds r s = (Inr cc', s\<lparr>ss_env := f, ss_systemInfoCache := c\<rparr>) \<and> fk_Errors f = [] \<and> fk_ImageIDsNeedingAuth f = [] \<and>
     hc_NetworkMode (ccc_HostConfig cc') = hc_NetworkMode (ccc_HostConfig cc)"
proof -
  obtain f1 where f1: "ensureSandboxImageExists (svc_ext ds) fakeClient (sandboxImage ds) (ss_env s) = (None, f1)"
    "fk_Errors f1 = []" "fk_ImageIDsNeedingAuth f1 = []" "fk_Information f1 = fk_Information (ss_env s)"
    using ensureSandboxImageExists_calm [OF assms(1,2,5,6)] by blast
  show ?thesis
  proof (cases "rpr_RuntimeHandler r \<noteq> [] \<and> rpr_RuntimeHandler r \<noteq> runtimeName")
    case True
    then have known: "rpr_RuntimeHandler r \<in> fst ` set (di_Runtimes (fk_Information f1))"
      "infoCached (fk_Information f1) (ss_systemInfoCache s)"
      using assms(8) by (auto simp: runtimeKnown_def runtimeName_def f1(4))
    obtain f c where i: "getDockerInfo ds (s\<lparr>ss_env := f1\<rparr>) = (Inr (fk_Information f1), s\<lparr>ss_env := f, ss_systemInfoCache := c\<rparr>)"
      "fk_Errors f = []" "fk_ImageIDsNeedingAuth f = []"
      using getDockerInfo_calm [OF ds, of "s\<lparr>ss_env := f1\<rparr>"] known(2) f1(2,3) by auto
    have "IsRuntimeConfigured ds (rpr_RuntimeHandler r) (s\<lparr>ss_env := f1\<rparr>) = (None, s\<lparr>ss_env := f, ss_systemInfoCache := c\<rparr>)"
      by (simp add: IsRuntimeConfigured_def i(1) known(1))
    then show ?thesis using True i(2,3) by (auto simp: prepareSandbox_def Let_def onEnv_def ds f1(1) cc)
  next
    case False
    then have "prepareSandbox ds r s = (Inr cc, s\<lparr>ss_env := f1, ss_systemInfoCache := ss_systemInfoCache s\<rparr>)"
      by (auto simp: prepareSandbox_def Let_def onEnv_def ds f1(1) cc)
    then show ?thesis using f1(2,3) by blast
  qed
qed

text \<open>On a calm state the run reaches the network plugin, or its end for a pod on the host network.\<close>

lemma RunPodSandbox_reaches_network:
  assumes "calm s" and ds: "svc_client ds = fakeClient" "ex_now (svc_ext ds) = fakeNow" "svc_checkpointManager ds = FileStore (absPath checkpointDir)"
    and "ex_ParseNamed (svc_ext ds) (sandboxImage ds) = Inr n"
    and "\<forall>repo creds. ex_keyringLookup (svc_ext ds) repo = Some creds \<longrightarrow> creds \<noteq> []"
    and cc: "makeSandboxDockerConfig ds (rpr_Config r) (sandboxImage ds) = Inr cc" and "runtimeKnown r s"
  shows "\<exists>i t. fk_Errors (ss_env t) = [] \<and> RunPodSandbox ds r s =
    (case (if GetNetwork (sandboxNsOptions (rpr_Config r)) = NS_NODE then (((Some i, None), None), t)
           else setupSandboxNetwork ds (rpr_Config r) i t) of
       ((ret, v), s) \<Rightarrow> (ret, if v = None then setNetworkReady i True s else s))"
proof -
  have cs: "fk_Errors (ss_env s) = []" "fk_ImageIDsNeedingAuth (ss_env s) = []" "storeHealthy checkpointDir (ss_fs s)"
    "absPath checkpointDir \<in> set (os_dirs (ss_fs s))" using assms(1) by (auto simp: calm_def)
  obtain cc' f1 c where prep: "prepareSandbox ds r s = (Inr cc', s\<lparr>ss_env := f1, ss_systemInfoCache := c\<rparr>)" "fk_Errors f1 = []"
    "fk_ImageIDsNeedingAuth f1 = []" "hc_NetworkMode (ccc_HostConfig cc') = hc_NetworkMode (ccc_HostConfig cc)"
    using prepareSandbox_calm [OF cs(1,2) ds(1,2) assms(5,6) cc assms(8)] by blast
  define i where "i = GetFakeContainerID (''/'' @ ccc_Name cc')"
  obtain f2 j where f2: "Fake_CreateContainer cc' f1 = (Inr i, f2)" "fk_Errors f2 = []" "fk_ImageIDsNeedingAuth f2 = []"
    "fakeView f2 i = Some j" "cj_HostConfig j = ccc_HostConfig cc'" "cj_ResolvConfPath j = []"
    using Fake_Create_calm [OF prep(2,3), of cc'] by (auto simp: i_def)
  obtain f3 k where f3: "Fake_StartContainer i f2 = (None, f3)" "fk_Errors f3 = []" "fakeView f3 i = Some k" "cj_ResolvConfPath k = []"
    using Fake_Start_calm [OF f2(2,3,4)] makeSandboxDockerConfig_network [OF cc] f2(5,6) prep(4) by auto
  let ?s = "s\<lparr>ss_env := f2, ss_systemInfoCache := c\<rparr>"
  let ?ck = "CreateCheckpoint (sandboxCheckpoint (ex_spew (svc_ext ds))) (FileStore (absPath checkpointDir)) i
     (constructPodSandboxCheckpoint (rpr_Config r)) (ss_fs s)"
  have "fst ?ck = None"
    using FileStore_Write_ok [OF dirOk_checkpointDir cs(3) _ cs(4)]
    by (auto simp: CreateCheckpoint_def sandboxCheckpoint_def MarshalCheckpoint_def constructPodSandboxCheckpoint_def
        NewPodSandboxCheckpoint_def i_def)
  then obtain fs where ck: "?ck = (None, fs)" by (cases ?ck) auto
  have cr: "createOrRecover ds cc' (s\<lparr>ss_env := f1, ss_systemInfoCache := c\<rparr>) = (Inr i, ?s)"
    by (simp add: createOrRecover_def onEnv_def ds fakeClient_def f2)
  let ?u = "(setNetworkReady i False ?s)\<lparr>ss_fs := fs, ss_env := f3\<rparr>"
  obtain t where t: "rewriteSandboxDns ds (rpr_Config r) i ?u = (None, t)" "fk_Errors (ss_env t) = []"
    using f3(2-4)
    by (cases "psc_DnsConfig (rpr_Config r)")
      (auto simp: rewriteSandboxDns_def rewriteResolvFile_def onEnv_def onFs_def ds fakeClient_def Fake_InspectContainer_def popError_calm fakeView_def)
  have st: "runSandboxSteps ds (rpr_Config r) i (setNetworkReady i False ?s) =
    (if GetNetwork (sandboxNsOptions (rpr_Config r)) = NS_NODE then (((Some i, None), None), t)
     else setupSandboxNetwork ds (rpr_Config r) i t)"
    using t(1) by (simp add: runSandboxSteps_def onFs_def onEnv_def ds ck setNetworkReady_def fakeClient_def f3(1))
  show ?thesis
    by (rule exI [of _ i], rule exI [of _ t]) (simp add: RunPodSandbox_def prep(1) cr st t(2) del: if_split)
qed

lemma RunPodSandbox_calm:
  assumes "calm s" and "svc_client ds = fakeClient" and "ex_now (svc_ext ds) = fakeNow" and "svc_checkpointManager ds = FileStore (absPath checkpointDir)"
    and "svc_network ds = NoopNetworkPlugin sys"
    and "ex_ParseNamed (svc_ext ds) (sandboxImage ds) = Inr n"
    and "\<forall>repo creds. ex_keyringLookup (svc_ext ds) repo = Some creds \<longrightarrow> creds \<noteq> []"
    and "\<forall>d. psc_DnsConfig (rpr_Config r) = Some d \<longrightarrow> (\<exists>text. ex_dnsMarshal (svc_ext ds) d = Inr text)"
    and "makeSandboxDockerConfig ds (rpr_Config r) (sandboxImage ds) = Inr cc" and "runtimeKnown r s"
  shows "\<exists>i s'. RunPodSandbox ds r s = ((Some i, None), s') \<and> getNetworkReady i s' = (True, True)"
proof -
  from RunPodSandbox_reaches_network [OF assms(1-4,6,7,9,10)] obtain i t where r: "RunPodSandbox ds r s =
    (case (if GetNetwork (sandboxNsOptions (rpr_Config r)) = NS_NODE then (((Some i, None), None), t)
           else setupSandboxNetwork ds (rpr_Config r) i t) of
       ((ret, v), s) \<Rightarrow> (ret, if v = None then setNetworkReady i True s else s))" by blast
  have "setupSandboxNetwork ds (rpr_Config r) i t = (((Some i, None), None), t)"
    using assms(8)
    by (cases "psc_DnsConfig (rpr_Config r)")
      (auto simp: setupSandboxNetwork_def Let_def assms(5) onEnv_def PM_SetUpPod_def NoopNetworkPlugin_def)
  then show ?thesis by (simp add: r)
qed

definition exampleRun :: RunPodSandboxRequest where
  "exampleRun = \<lparr>rpr_Config = examplePodConfig, rpr_RuntimeHandler = []\<rparr>"

lemma calm_exampleState [simp]: "calm exampleState"
  by (auto simp: calm_def exampleState_def exampleDaemon_def NewFakeDockerClient_def storeHealthy_def exampleFs_def checkpointDir_def absPath_def)

lemma exampleRun_accepted: "\<exists>cc. makeSandboxDockerConfig ds (rpr_Config exampleRun) img = Inr cc"
  by (simp add: makeSandboxDockerConfig_def exampleRun_def examplePodConfig_def exampleSandboxConfig_def applySandboxLinuxOptions_def
      applySandboxResources_def Let_def split: prod.splits)

subsection \<open>Properties\<close>

text \<open>C1. A sandbox that \<open>RunPodSandbox\<close> reports as started is what its status says: \<open>PodSandboxStatus\<close> for
  the returned id gives a ready sandbox with the metadata of the request and every label and annotation of the request with its value (the image
  may add others), also when a name conflict forced another name. If the request names a runtime handler other than
  \<^verbatim>\<open>docker\<close>, the status names it; otherwise it names the runtime the daemon chose. The network and the IPC
  namespace are reported as those of the node if the request asks for that and as those of the pod otherwise; the PID namespace is reported as that of
  the node or else as the container's, also for a request that asks for one of the pod. The status fails only if the inspection by the daemon
  or one of its timestamps does. The network is recorded as ready. The daemon is any that keeps the labels, the host namespaces and the runtime it
  is asked for.\<close>

theorem RunPodSandbox_then_status:
  assumes "service_env dk view ds" and "RunPodSandbox ds r s = ((Some i, None), s')"
    and "sandboxMetadataOk (psc_Metadata (rpr_Config r))" and "sandboxLabelsOk (rpr_Config r)"
  shows "getNetworkReady i s' = (True, True) \<and>
    (case fst (PodSandboxStatus ds i s') of
       Inr st \<Rightarrow> pss_Id st = i \<and> pss_State st = SANDBOX_READY \<and> pss_Metadata st = psc_Metadata (rpr_Config r) \<and>
         map_of (psc_Labels (rpr_Config r)) \<subseteq>\<^sub>m map_of (pss_Labels st) \<and>
         map_of (psc_Annotations (rpr_Config r)) \<subseteq>\<^sub>m map_of (pss_Annotations st) \<and>
         (rpr_RuntimeHandler r \<noteq> [] \<and> rpr_RuntimeHandler r \<noteq> ''docker'' \<longrightarrow> pss_RuntimeHandler st = rpr_RuntimeHandler r) \<and>
         pss_Network st = (if GetNetwork (sandboxNsOptions (rpr_Config r)) = NS_NODE then NS_NODE else NS_POD) \<and>
         pss_Ipc st = (if GetIpc (sandboxNsOptions (rpr_Config r)) = NS_NODE then NS_NODE else NS_POD) \<and>
         pss_Pid st = (if GetPid (sandboxNsOptions (rpr_Config r)) = NS_NODE then NS_NODE else NS_CONTAINER)
     | Inl err \<Rightarrow> (\<exists>e. dk_InspectContainer dk i (ss_env s') = (Inl err, e)) \<or>
         (\<exists>j x. view (ss_env s') i = Some j \<and> getContainerTimestamps j = Inl x))"
proof -
  let ?c = "rpr_Config r" let ?L = "sandboxDockerLabels ?c"
  from service_env.RunPodSandbox_ok [OF assms(1,2)] obtain n j w where ready: "getNetworkReady i s' = (True, True)"
    and n: "n = makeSandboxName ?c \<or> n = randomizeName w (makeSandboxName ?c)"
    and j: "view (ss_env s') i = Some j" "cj_ID j = i" "cj_Name j = ''/'' @ n" "ds_Running (cj_State j)"
      "goMapOk (dc_Labels (cj_Config j))" "map_of ?L \<subseteq>\<^sub>m map_of (dc_Labels (cj_Config j))"
      "requestedRuntime r \<noteq> [] \<longrightarrow> hc_Runtime (cj_HostConfig j) = requestedRuntime r" "sandboxModes ?c (cj_HostConfig j)"
    by blast
  have p: "parseSandboxName (cj_Name j) = Inr (psc_Metadata ?c)" unfolding j(3)
    by (rule parse_makeSandboxName [OF assms(3) _ n]) simp
  have L: "map_of (fst (extractLabels ?L)) = map_of (psc_Labels ?c) \<and> map_of (snd (extractLabels ?L)) = map_of (psc_Annotations ?c)"
    using sandbox_labels_roundtrip [of ?c] assms(4) by (fastforce simp: sandboxLabelsOk_def list_all_iff)
  have ok: "goMapOk ?L" "map_of ?L containerTypeLabelKey \<noteq> None"
    by (simp_all add: sandboxDockerLabels_def Let_def label_consts)
  note M = extractLabels_mono [OF ok(1) j(5,6) ok(2), unfolded L [THEN conjunct1] L [THEN conjunct2]]
  have rt: "rpr_RuntimeHandler r \<noteq> [] \<and> rpr_RuntimeHandler r \<noteq> ''docker'' \<longrightarrow> hc_Runtime (cj_HostConfig j) = rpr_RuntimeHandler r"
    using j(7) by (auto simp: requestedRuntime_def runtimeName_def)
  have modes: "networkNamespaceMode (Some j) = (if GetNetwork (sandboxNsOptions ?c) = NS_NODE then NS_NODE else NS_POD)"
      "ipcNamespaceMode (Some j) = (if GetIpc (sandboxNsOptions ?c) = NS_NODE then NS_NODE else NS_POD)"
      "pidNamespaceMode (Some j) = (if GetPid (sandboxNsOptions ?c) = NS_NODE then NS_NODE else NS_CONTAINER)"
    using j(8) by (simp_all add: sandboxModes_def networkNamespaceMode_def pidNamespaceMode_def ipcNamespaceMode_def)
  from service_env.PodSandboxStatus_answer [OF assms(1) j(1) p] j(1,2,4) M rt ready show ?thesis
    unfolding modes by (cases "fst (PodSandboxStatus ds i s')") (auto simp: prod_eq_iff)
qed

theorem RunPodSandbox_then_status_witness:
  "\<exists>i s'. RunPodSandbox exampleService exampleRun exampleState = ((Some i, None), s') \<and> getNetworkReady i s' = (True, True) \<and>
    (case fst (PodSandboxStatus exampleService i s') of
       Inr st \<Rightarrow> pss_Id st = i \<and> pss_State st = SANDBOX_READY \<and> pss_Metadata st = psc_Metadata exampleSandboxConfig
     | Inl err \<Rightarrow> (\<exists>e. Fake_InspectContainer i (ss_env s') = (Inl err, e)) \<or>
         (\<exists>j x. fakeView (ss_env s') i = Some j \<and> getContainerTimestamps j = Inl x))"
proof -
  obtain cc where "makeSandboxDockerConfig exampleService (rpr_Config exampleRun) (sandboxImage exampleService) = Inr cc"
    using exampleRun_accepted by blast
  then have "\<exists>i s'. RunPodSandbox exampleService exampleRun exampleState = ((Some i, None), s') \<and> getNetworkReady i s' = (True, True)"
    by (intro RunPodSandbox_calm [OF calm_exampleState])
      (simp_all add: runtimeKnown_def exampleService_def exampleExternals_def exampleRun_def examplePodConfig_def exampleSandboxConfig_def examplePlugin_def)
  then obtain i s' where run: "RunPodSandbox exampleService exampleRun exampleState = ((Some i, None), s')" by blast
  have "sandboxMetadataOk (psc_Metadata (rpr_Config exampleRun))" "sandboxLabelsOk (rpr_Config exampleRun)"
    "psc_Metadata (rpr_Config exampleRun) = psc_Metadata exampleSandboxConfig"
    by (simp_all add: exampleRun_def examplePodConfig_def exampleSandboxConfig_def sandboxMetadataOk_def delimiterFree_def sandboxLabelsOk_def)
  with RunPodSandbox_then_status [OF exsvc.service_env_axioms run] run show ?thesis
    by (fastforce simp: fakeClient_def split: sum.splits)
qed

text \<open>C31. A failing network setup leaves the network marked as ready. The deferred function of \<open>RunPodSandbox\<close>
  reads the variable \<^verbatim>\<open>err\<close>, which by then holds the result of stopping the container, not the error
  that is returned: whenever the sandbox was stopped after its network could not be set up, the
  call returns an error and the sandbox is recorded as having a working network.\<close>

theorem failed_network_setup_marked_ready:
  assumes "service_env dk view ds" and "RunPodSandbox ds r s = ((Some i, Some err), s')"
    and "view (ss_env s') i = Some j" and "\<not> ds_Running (cj_State j)"
  shows "getNetworkReady i s' = (True, True)"
  by (rule service_env.RunPodSandbox_failed [OF assms])

text \<open>A plugin that cannot set up a pod.\<close>

definition exampleBroken :: "fake_docker docker_service" where
  "exampleBroken = exampleService\<lparr>svc_network := examplePlugin\<lparr>np_SetUpPod := (\<lambda>ns n i a os e. (Some (Errorf ''no address left''), e))\<rparr>\<rparr>"

interpretation broken: service_env fakeClient fakeView exampleBroken
proof unfold_locales
qed (auto simp: exampleBroken_def exampleService_def exampleExternals_def examplePlugin_def NoopNetworkPlugin_def fakeView_def dest: fake_map)

theorem failed_network_setup_marked_ready_witness:
  "\<exists>i err s'. RunPodSandbox exampleBroken exampleRun exampleState = ((Some i, Some err), s') \<and> getNetworkReady i s' = (True, True)"
proof -
  obtain cc where cc: "makeSandboxDockerConfig exampleBroken (rpr_Config exampleRun) (sandboxImage exampleBroken) = Inr cc"
    using exampleRun_accepted by blast
  have "\<exists>i t. fk_Errors (ss_env t) = [] \<and> RunPodSandbox exampleBroken exampleRun exampleState =
    (case (if GetNetwork (sandboxNsOptions (rpr_Config exampleRun)) = NS_NODE then (((Some i, None), None), t)
           else setupSandboxNetwork exampleBroken (rpr_Config exampleRun) i t) of
       ((ret, v), s) \<Rightarrow> (ret, if v = None then setNetworkReady i True s else s))"
    by (rule RunPodSandbox_reaches_network [OF calm_exampleState _ _ _ _ _ cc])
      (simp_all add: runtimeKnown_def exampleBroken_def exampleService_def exampleExternals_def exampleRun_def examplePodConfig_def exampleSandboxConfig_def)
  then obtain i t where t: "fk_Errors (ss_env t) = []" and run: "RunPodSandbox exampleBroken exampleRun exampleState =
    (case setupSandboxNetwork exampleBroken (rpr_Config exampleRun) i t of
       ((ret, v), s) \<Rightarrow> (ret, if v = None then setNetworkReady i True s else s))"
    by (auto simp: exampleRun_def examplePodConfig_def exampleSandboxConfig_def sandboxNsOptions_def GetNetwork_def)
  obtain x f where stop: "Fake_StopContainer i defaultSandboxGracePeriod (ss_env t) = (x, f)" by fastforce
  have x: "x = None" using stop t
    by (auto simp: Fake_StopContainer_def popError_calm Let_def fakeNow_def split: option.splits)
  then obtain j where j: "fakeView f i = Some j" "\<not> ds_Running (cj_State j)"
    using fake.stop_ok [of i defaultSandboxGracePeriod "ss_env t" f] stop by (auto simp: fakeClient_def)
  have "\<exists>err. setupSandboxNetwork exampleBroken (rpr_Config exampleRun) i t = (((Some i, Some err), None), t\<lparr>ss_env := f\<rparr>)"
    by (simp add: setupSandboxNetwork_def Let_def exampleRun_def examplePodConfig_def exampleSandboxConfig_def exampleBroken_def
        exampleService_def examplePlugin_def NoopNetworkPlugin_def onEnv_def PM_SetUpPod_def PM_TearDownPod_def fakeClient_def stop x
        NewAggregate_def)
  then obtain err where r: "RunPodSandbox exampleBroken exampleRun exampleState = ((Some i, Some err), setNetworkReady i True (t\<lparr>ss_env := f\<rparr>))"
    by (auto simp: run)
  have "getNetworkReady i (setNetworkReady i True (t\<lparr>ss_env := f\<rparr>)) = (True, True)"
    by (rule failed_network_setup_marked_ready [OF broken.service_env_axioms r, of j]) (use j in simp_all)
  with r show ?thesis by blast
qed

text \<open>C13. The network of a pod is torn down once: after \<open>StopPodSandbox\<close> has succeeded for a sandbox with a
  network of its own, stopping it again calls the plugin no more, whatever the daemon or the
  checkpoint then says about the pod.\<close>

theorem StopPodSandbox_tears_down_once:
  assumes "dk_InspectContainer (svc_client ds) i (ss_env s) = (Inr j, e)" and "parseSandboxName (cj_Name j) = Inr md"
    and "networkNamespaceMode (Some j) = NS_POD" and "StopPodSandbox ds i s = (None, s')"
  shows "stopTearDown ds i namespace name hostNetwork s' = ([], s')"
proof -
  have info: "stopSandboxInfo ds i s = (Inr (psm_Namespace md, psm_Name md, False), s\<lparr>ss_env := e\<rparr>)"
    by (simp add: stopSandboxInfo_def getPodSandboxDetails_def onEnv_def assms(1-3))
  obtain errs t where td: "stopTearDown ds i (psm_Namespace md) (psm_Name md) False (s\<lparr>ss_env := e\<rparr>) = (errs, t)" by fastforce
  obtain x u where st: "onEnv (dk_StopContainer (svc_client ds) i defaultSandboxGracePeriod) t = (x, u)" by fastforce
  have errs: "errs = []" and keep: "ss_networkReady s' = ss_networkReady t"
    using assms(4) st by (auto simp: StopPodSandbox_def info td onEnv_def onFs_def removeSandboxCheckpoint_def
        split: option.splits prod.splits if_splits)
  have "getNetworkReady i t = (False, True)" using td errs
    by (auto simp: stopTearDown_def split: prod.splits option.splits if_splits)
  then have "getNetworkReady i s' = (False, True)" using keep by (simp add: getNetworkReady_def)
  then show ?thesis by (simp add: stopTearDown_def)
qed

definition exampleStopped :: "bool \<Rightarrow> fake_docker svc_state" where
  "exampleStopped running = exampleState\<lparr>ss_env := SetFakeContainers
     [zeroFakeContainer\<lparr>fc_ID := ''s1'', fc_Name := ''/'' @ makeSandboxName exampleSandboxConfig, fc_Running := running\<rparr>] exampleDaemon\<rparr>"

theorem StopPodSandbox_tears_down_once_witness:
  "stopTearDown exampleService ''s1'' ''default'' ''web-0'' False (snd (StopPodSandbox exampleService ''s1'' (exampleStopped True))) =
     ([], snd (StopPodSandbox exampleService ''s1'' (exampleStopped True)))"
proof -
  let ?s = "exampleStopped True"
  have p: "parseSandboxName (''/'' @ makeSandboxName exampleSandboxConfig) = Inr (psc_Metadata exampleSandboxConfig)"
    by (rule parse_makeSandboxName [where r = 0]) (simp_all add: exampleSandboxConfig_def sandboxMetadataOk_def delimiterFree_def)
  obtain j e where i: "dk_InspectContainer (svc_client exampleService) ''s1'' (ss_env ?s) = (Inr j, e)"
    and j: "cj_Name j = ''/'' @ makeSandboxName exampleSandboxConfig" "cj_HostConfig j = zeroHostConfig"
    by (simp add: exampleStopped_def example_run Fake_InspectContainer_def convertFakeContainer_def zeroFakeContainer_def)
  have n: "networkNamespaceMode (Some j) = NS_POD" by (simp add: networkNamespaceMode_def j zeroHostConfig_def namespaceModeHost_def)
  have "fst (StopPodSandbox exampleService ''s1'' ?s) = None"
    by (simp add: StopPodSandbox_def stopSandboxInfo_def getPodSandboxDetails_def exampleStopped_def example_run Fake_InspectContainer_def
        convertFakeContainer_def zeroFakeContainer_def p [simplified] networkNamespaceMode_def zeroHostConfig_def namespaceModeHost_def stopTearDown_def
        getNetworkReady_def setNetworkReady_def PM_TearDownPod_def examplePlugin_def NoopNetworkPlugin_def Fake_StopContainer_def
        updateContainerStatus_def appendContainerTrace_def Let_def NewAggregate_def)
  then have "StopPodSandbox exampleService ''s1'' ?s = (None, snd (StopPodSandbox exampleService ''s1'' ?s))"
    by (metis prod.collapse)
  from StopPodSandbox_tears_down_once [OF i _ n this] p j show ?thesis by simp
qed

text \<open>C16. A removed sandbox leaves nothing behind: when \<open>RemovePodSandbox\<close> succeeds, its checkpoint is gone from
  the store and its entry from the network-ready map.\<close>

theorem RemovePodSandbox_forgets:
  assumes "svc_checkpointManager ds = FileStore (absPath checkpointDir)" and "RemovePodSandbox ds i s = (None, s')"
  shows "getNetworkReady i s' = (False, False) \<and> storeContent checkpointDir (ss_fs s') i = None"
proof -
  have "\<exists>t0. removeSandboxCheckpoint ds i (clearNetworkReady i t0) = (None, s')"
    using assms(2) by (auto simp: RemovePodSandbox_def Let_def split: prod.splits option.splits if_splits)
  then obtain t where rm: "removeSandboxCheckpoint ds i t = (None, s')" and ready: "getNetworkReady i t = (False, False)"
    by (auto simp: getNetworkReady_def clearNetworkReady_def delete_conv)
  then show ?thesis using fstore.delete_ok [of i "ss_fs t" "ss_fs s'"]
    by (auto simp: removeSandboxCheckpoint_def RemoveCheckpoint_def assms(1) onFs_def getNetworkReady_def split: prod.splits)
qed

theorem RemovePodSandbox_forgets_witness:
  "getNetworkReady ''s1'' (snd (RemovePodSandbox exampleService ''s1'' (exampleStopped False))) = (False, False)"
proof -
  let ?s = "exampleStopped False"
  have split: "strings_Split (sandboxIDLabelKey @ ''=s1'') (CHR ''='') = [sandboxIDLabelKey, ''s1'']" by code_simp
  have list: "Fake_ListContainers \<lparr>lo_All = True, lo_Filters = AddLabel [] sandboxIDLabelKey ''s1''\<rparr> (ss_env ?s) =
      (([], None), appendCalled ''list'' [] (ss_env ?s))"
    by (simp add: exampleStopped_def example_run Fake_ListContainers_def AddLabel_def filterAdd_def filtersGet_def split
        zeroFakeContainer_def zeroDockerContainer_def mapGet_def Let_def)
  have rm: "\<exists>f. Fake_RemoveContainer ''s1'' opts (appendCalled ''list'' [] (ss_env ?s)) = (None, f)" for opts
    by (simp add: exampleStopped_def example_run Fake_RemoveContainer_def zeroFakeContainer_def zeroDockerContainer_def)
  obtain f where f: "Fake_RemoveContainer ''s1'' \<lparr>ro_RemoveVolumes = True, ro_Force = True\<rparr> (appendCalled ''list'' [] (ss_env ?s)) = (None, f)"
    using rm by blast
  have "storeHealthy checkpointDir (ss_fs ?s)" "ss_fs ?s = exampleFs"
    using calm_exampleState by (simp_all add: calm_def exampleStopped_def exampleState_def)
  moreover have "ValidateKey ''s1'' = None" by code_simp
  ultimately have ck: "fst (FileStore_Delete (absPath checkpointDir) ''s1'' exampleFs) = None"
    using FileStore_Delete_content(2) [OF dirOk_checkpointDir] by (metis prod.collapse)
  have "fst (RemovePodSandbox exampleService ''s1'' ?s) = None" using ck \<open>ss_fs ?s = exampleFs\<close>
    by (auto simp: RemovePodSandbox_def exampleService_def onEnv_def fakeClient_def list f clearNetworkReady_def
        removeSandboxCheckpoint_def RemoveCheckpoint_def onFs_def NewAggregate_def split: prod.splits)
  then have "RemovePodSandbox exampleService ''s1'' (exampleStopped False) = (None, snd (RemovePodSandbox exampleService ''s1'' (exampleStopped False)))"
    by (metis prod.collapse)
  from RemovePodSandbox_forgets [OF _ this] show ?thesis by (simp add: exampleService_def)
qed

text \<open>C15. \<open>RunPodSandbox\<close> makes progress on the daemon of the fake client and its clock, with no injected error, a store on a device that
  does not fail and the no-op plugin. Every request ends with a sandbox id, no error, and the network recorded as ready, with or without DNS
  settings and on any network, if its configuration is accepted, its runtime handler is the default one or one of the runtimes the daemon reports
  (and any report in the cache is the daemon's), the name of the sandbox image parses, the DNS settings can be encoded, and a repository for which the keyring
  has an entry has a credential in it. The image may have to be pulled first.\<close>

theorem RunPodSandbox_succeeds:
  assumes "calm s" and "svc_client ds = fakeClient" and "ex_now (svc_ext ds) = fakeNow" and "svc_checkpointManager ds = FileStore (absPath checkpointDir)"
    and "svc_network ds = NoopNetworkPlugin sys"
    and "ex_ParseNamed (svc_ext ds) (sandboxImage ds) = Inr n"
    and "\<forall>repo creds. ex_keyringLookup (svc_ext ds) repo = Some creds \<longrightarrow> creds \<noteq> []"
    and "\<forall>d. psc_DnsConfig (rpr_Config r) = Some d \<longrightarrow> (\<exists>text. ex_dnsMarshal (svc_ext ds) d = Inr text)"
    and "makeSandboxDockerConfig ds (rpr_Config r) (sandboxImage ds) = Inr cc" and "runtimeKnown r s"
  shows "\<exists>i s'. RunPodSandbox ds r s = ((Some i, None), s') \<and> getNetworkReady i s' = (True, True)"
  by (rule RunPodSandbox_calm [OF assms])

text \<open>A request with DNS settings for the runtime that the fake daemon reports.\<close>

definition exampleDnsRun :: RunPodSandboxRequest where
  "exampleDnsRun = \<lparr>rpr_Config = examplePodConfig\<lparr>psc_DnsConfig := Some \<lparr>dns_Servers = [''10.0.0.10''], dns_Searches = [''svc.local''], dns_Options = []\<rparr>\<rparr>,
     rpr_RuntimeHandler = ''runc''\<rparr>"

theorem RunPodSandbox_succeeds_witness:
  "\<exists>i s'. RunPodSandbox exampleService exampleDnsRun exampleState = ((Some i, None), s') \<and> getNetworkReady i s' = (True, True)"
proof -
  have "\<exists>cc. makeSandboxDockerConfig exampleService (rpr_Config exampleDnsRun) (sandboxImage exampleService) = Inr cc"
    by (simp add: makeSandboxDockerConfig_def exampleDnsRun_def examplePodConfig_def exampleSandboxConfig_def applySandboxLinuxOptions_def
        applySandboxResources_def Let_def split: prod.splits)
  then obtain cc where cc: "makeSandboxDockerConfig exampleService (rpr_Config exampleDnsRun) (sandboxImage exampleService) = Inr cc" by blast
  have "runtimeKnown exampleDnsRun exampleState"
    by (simp add: runtimeKnown_def infoCached_def exampleDnsRun_def exampleState_def exampleDaemon_def NewFakeDockerClient_def)
  then show ?thesis
    by (intro RunPodSandbox_succeeds [OF calm_exampleState _ _ _ _ _ _ _ cc])
      (simp_all add: exampleService_def exampleExternals_def examplePlugin_def)
qed

text \<open>C32. Listing never deletes: whatever bytes the checkpoint files hold and whatever call of the file
  system fails, \<open>ListPodSandbox\<close> leaves every checkpoint as it is. In particular the branch that is meant to
  remove a corrupt checkpoint is never taken, since the checksum test returns a fresh error and not
  the sentinel that the branch compares with.\<close>

theorem ListPodSandbox_keeps_checkpoints:
  assumes "svc_checkpointManager ds = FileStore (absPath es)"
  shows "storeContent es (ss_fs (snd (ListPodSandbox ds f s))) = storeContent es (ss_fs s)"
proof -
  obtain ks t where l: "(if f = None then onFs (ListCheckpoints (svc_checkpointManager ds)) s else (Inr [], s)) = (ks, t)" by fastforce
  have t: "storeContent es (ss_fs t) = storeContent es (ss_fs s)" using l assms
    by (auto simp: ListCheckpoints_def FileStore_List_def fs_ReadDir_def onFs_def storeContent_def fun_eq_iff nextFault_def
        split: if_splits prod.splits sum.splits option.splits list.splits)
  have loop: "storeContent es (ss_fs (snd (listSandboxes ds b cs containers u))) = storeContent es (ss_fs u)" for b cs containers u
    using checkpointLoop_keeps [OF assms] by (auto simp: listSandboxes_def Let_def split: prod.splits)
  show ?thesis using t
    by (auto simp: ListPodSandbox_def l loop onEnv_def Let_def split: prod.splits option.splits)
qed

definition exampleCorrupt :: "fake_docker svc_state" where
  "exampleCorrupt = exampleState\<lparr>ss_fs := exampleFs\<lparr>os_files := [(''/var/lib/cri-dockerd/sandbox/ab12'', ''{'')]\<rparr>\<rparr>"

theorem ListPodSandbox_keeps_checkpoints_witness:
  "storeContent checkpointDir (ss_fs (snd (ListPodSandbox exampleService None exampleCorrupt))) ''ab12'' = Some ''{''"
proof -
  have "svc_checkpointManager exampleService = FileStore (absPath checkpointDir)" by (simp add: exampleService_def)
  moreover have "storeContent checkpointDir (ss_fs exampleCorrupt) ''ab12'' = Some ''{''"
    by (simp add: storeContent_def exampleCorrupt_def checkpointDir_def absPath_def ValidateKey_def keyMaxLength_def keyRegexMatch_def
        keyChar_def keyExtChar_def)
  ultimately show ?thesis using ListPodSandbox_keeps_checkpoints by metis
qed

end
