(* ===== verification/Images.thy ===== *)
theory Images
  imports Convert Docker_Service
begin

text \<open>
  The image handlers (\<^verbatim>\<open>core/image.go\<close>): listing, status, pulling and removal of images through the
  daemon. A request whose image is nil is the argument \<open>None\<close> where the source dereferences it.
\<close>

fun isPinned :: "string \<Rightarrow> string list \<Rightarrow> bool" where
  "isPinned img [] = False"
| "isPinned img (tag # tags) = (if tag = img then True else isPinned img tags)"

text \<open>A conversion that fails is logged and the image is left out of the list.\<close>

fun listImagesLoop :: "string \<Rightarrow> ImageSummary list \<Rightarrow> Image list" where
  "listImagesLoop img [] = []"
| "listImagesLoop img (i # is) =
     (case imageToRuntimeAPIImage (Some i) (isPinned img (is_RepoTags i)) of
        Inl err \<Rightarrow> listImagesLoop img is
      | Inr apiImage \<Rightarrow> apiImage # listImagesLoop img is)"

definition ListImages :: "'e docker_service \<Rightarrow> string option \<Rightarrow> 'e svc_state \<Rightarrow> Image list result \<times> 'e svc_state" where
  "ListImages ds f s =
     (let opts = \<lparr>ilo_All = False, ilo_SharedSize = False,
                  ilo_Filters = (case f of None \<Rightarrow> [] | Some img \<Rightarrow> if img \<noteq> [] then [(''reference'', img)] else [])\<rparr>
      in case onEnv (dk_ListImages (svc_client ds) opts) s of
           (Inl err, s) \<Rightarrow> (Inl err, s)
         | (Inr images, s) \<Rightarrow> (Inr (listImagesLoop (sandboxImage ds) images), s))"

record ImageStatusResponse =
  isr_Image :: "Image option"
  isr_Info :: gomap

text \<open>The two lookups: by reference, and by identifier when that finds nothing.\<close>

definition inspectImageAnyway :: "'e docker_client \<Rightarrow> string \<Rightarrow> 'e \<Rightarrow> ImageInspect option result \<times> 'e" where
  "inspectImageAnyway client img e =
     (case dk_InspectImageByRef client img e of
        (Inr i, e) \<Rightarrow> (Inr (Some i), e)
      | (Inl err, e) \<Rightarrow>
          if \<not> IsImageNotFoundError err then (Inl err, e)
          else (case dk_InspectImageByID client img e of
                  (Inr i, e) \<Rightarrow> (Inr (Some i), e)
                | (Inl err, e) \<Rightarrow> if IsImageNotFoundError err then (Inr None, e) else (Inl err, e)))"

definition ImageStatus ::
    "'e docker_service \<Rightarrow> string option \<Rightarrow> bool \<Rightarrow> 'e svc_state \<Rightarrow> ImageStatusResponse result \<times> 'e svc_state" where
  "ImageStatus ds img verbose s =
     (case img of
        None \<Rightarrow> (Inl nilDereference, s)
      | Some img \<Rightarrow>
          (case onEnv (inspectImageAnyway (svc_client ds) img) s of
             (Inl err, s) \<Rightarrow> (Inl err, s)
           | (Inr None, s) \<Rightarrow> (Inr \<lparr>isr_Image = None, isr_Info = []\<rparr>, s)
           | (Inr (Some imageInspect), s) \<Rightarrow>
               (case imageInspectToRuntimeAPIImage (Some imageInspect) (isPinned (sandboxImage ds) (ii_RepoTags imageInspect)) of
                  Inl err \<Rightarrow> (Inl err, s)
                | Inr imageStatus \<Rightarrow>
                    if \<not> verbose then (Inr \<lparr>isr_Image = Some imageStatus, isr_Info = []\<rparr>, s)
                    else (case onEnv (dk_ImageHistory (svc_client ds) (ii_ID imageInspect)) s of
                            (Inl err, s) \<Rightarrow> (Inl err, s)
                          | (Inr imageHistory, s) \<Rightarrow>
                              (case imageInspectToRuntimeAPIImageInfo imageInspect imageHistory of
                                 Inl err \<Rightarrow> (Inl err, s)
                               | Inr imageInfo \<Rightarrow> (Inr \<lparr>isr_Image = Some imageStatus, isr_Info = imageInfo\<rparr>, s))))))"

text \<open>The bad gateway, unavailable and gateway timeout codes.\<close>

definition filterHTTPError :: "goerror \<Rightarrow> string \<Rightarrow> goerror" where
  "filterHTTPError err img =
     (case err of
        JSONError code msg \<Rightarrow>
          if code = 502 \<or> code = 503 \<or> code = 504 then Errorf (''RegistryUnavailable: '' @ Error err) else err
      | _ \<Rightarrow> err)"

definition getImageRef :: "'e docker_client \<Rightarrow> string \<Rightarrow> 'e \<Rightarrow> string result \<times> 'e" where
  "getImageRef client img e =
     (case dk_InspectImageByRef client img e of
        (Inl err, e) \<Rightarrow> (Inl err, e)
      | (Inr i, e) \<Rightarrow> (Inr (case ii_RepoDigests i of [] \<Rightarrow> ii_ID i | d # _ \<Rightarrow> d), e))"

text \<open>The credentials of the request are copied field by field; no credentials are the zero value.\<close>

definition PullImage ::
    "'e docker_service \<Rightarrow> string option \<Rightarrow> AuthConfig option \<Rightarrow> 'e svc_state \<Rightarrow> string result \<times> 'e svc_state" where
  "PullImage ds img auth s =
     (case img of
        None \<Rightarrow> (Inl nilDereference, s)
      | Some img \<Rightarrow>
          (let authConfig =
             (case auth of
                None \<Rightarrow> zeroAuth
              | Some a \<Rightarrow> \<lparr>au_Username = au_Username a, au_Password = au_Password a, au_ServerAddress = au_ServerAddress a,
                  au_IdentityToken = au_IdentityToken a, au_RegistryToken = au_RegistryToken a\<rparr>)
           in case onEnv (dk_PullImage (svc_client ds) img authConfig) s of
                (Some err, s) \<Rightarrow> (Inl (filterHTTPError err img), s)
              | (None, s) \<Rightarrow> onEnv (getImageRef (svc_client ds) img) s))"

fun removeImageRefs :: "'e docker_client \<Rightarrow> string list \<Rightarrow> 'e \<Rightarrow> goerror option \<times> 'e" where
  "removeImageRefs client [] e = (None, e)"
| "removeImageRefs client (img # images) e =
     (case dk_RemoveImage client img e of
        (Some err, e) \<Rightarrow> if \<not> IsImageNotFoundError err then (Some err, e) else removeImageRefs client images e
      | (None, e) \<Rightarrow> removeImageRefs client images e)"

definition RemoveImage :: "'e docker_service \<Rightarrow> string option \<Rightarrow> 'e svc_state \<Rightarrow> goerror option \<times> 'e svc_state" where
  "RemoveImage ds img s =
     (case img of
        None \<Rightarrow> (Some nilDereference, s)
      | Some img \<Rightarrow>
          (case onEnv (dk_InspectImageByID (svc_client ds) img) s of
             (Inl err, s) \<Rightarrow> if \<not> IsImageNotFoundError err then (Some err, s) else (None, s)
           | (Inr imageInspect, s) \<Rightarrow>
               onEnv (removeImageRefs (svc_client ds) (ii_RepoTags imageInspect @ ii_RepoDigests imageInspect @ [img])) s))"

end
