(* ===== verification/Stats.thy ===== *)
theory Stats
  imports Container_Ops
begin

text \<open>
  Container statistics (\<^verbatim>\<open>core/stats.go\<close>, \<^verbatim>\<open>core/stats_linux.go\<close>). Inspecting the size of a container's
  writable layer is slow, so a collector per container does it in the background: a list request
  hands the containers it saw to the collection loop, which starts a collector for every new
  one and stops those that are gone.

  The goroutines are part of the state. A \<open>cstats\<close> object is an index into \<open>st_objects\<close> (it may be
  used by its collector after it left the map), \<open>st_collectors\<close> are the running \<^verbatim>\<open>startCollect\<close> loops
  with their backoff, \<open>st_stopping\<close> the \<^verbatim>\<open>stopCollect\<close> calls that wait for their collector to take the
  stop message, and \<open>st_clist\<close> the channel of capacity one. Every section under a lock is one step.
\<close>

subsection \<open>The cache\<close>

record cstats =
  cs_containerID :: string
  cs_rwLayerSize :: "64 word"
  cs_initialized :: bool

record 'e stats_service =
  st_svc :: "'e svc_state"
  st_objects :: "cstats list"
  st_stats :: "(string \<times> nat) list"
  st_clist :: "Container list list"
  st_collectors :: "(nat \<times> int) list"
  st_stopping :: "nat list"

definition newCstats :: "string \<Rightarrow> cstats" where
  "newCstats cid = \<lparr>cs_containerID = cid, cs_rwLayerSize = 0, cs_initialized = False\<rparr>"

definition newContainerStatsCache :: "'e svc_state \<Rightarrow> 'e stats_service" where
  "newContainerStatsCache s =
     \<lparr>st_svc = s, st_objects = [], st_stats = [], st_clist = [], st_collectors = [], st_stopping = []\<rparr>"

definition maxBackoffDuration :: int where "maxBackoffDuration = 20 * 60 * 10 ^ 9"

definition minCollectInterval :: int where "minCollectInterval = 60 * 10 ^ 9"

text \<open>A call to the daemon or the clock.\<close>

definition onSvc :: "('e svc_state \<Rightarrow> 'a \<times> 'e svc_state) \<Rightarrow> 'e stats_service \<Rightarrow> 'a \<times> 'e stats_service" where
  "onSvc f st = (case f (st_svc st) of (r, s) \<Rightarrow> (r, st\<lparr>st_svc := s\<rparr>))"

text \<open>
  One round of \<^verbatim>\<open>startCollect\<close>, up to its select statement: the updated object, the backoff and the time to
  sleep. A size that is absent is dereferenced all the same.
\<close>

definition collectRound :: "'e docker_client \<Rightarrow> cstats \<Rightarrow> int \<Rightarrow> 'e \<Rightarrow> (cstats \<times> int \<times> int) result \<times> 'e" where
  "collectRound client cs backoffDuration e =
     (case dk_InspectContainerWithSize client (cs_containerID cs) e of
        (Inl err, e) \<Rightarrow>
          (let backoffDuration =
             (if errors_Is err ContextCanceled \<or> errors_Is err DeadlineExceeded then
                (if backoffDuration * 2 \<ge> maxBackoffDuration then maxBackoffDuration else backoffDuration * 2)
              else backoffDuration)
           in (Inr (cs, backoffDuration, backoffDuration), e))
      | (Inr containerJSON, e) \<Rightarrow>
          (case cj_SizeRw containerJSON of
             None \<Rightarrow> (Inl nilDereference, e)
           | Some sz \<Rightarrow>
               (Inr (cs\<lparr>cs_rwLayerSize := word_of_int sz, cs_initialized := True\<rparr>, minCollectInterval, minCollectInterval), e)))"

definition startCollect :: "nat \<Rightarrow> 'e stats_service \<Rightarrow> 'e stats_service" where
  "startCollect p st = st\<lparr>st_collectors := st_collectors st @ [(p, minCollectInterval)]\<rparr>"

definition stopCollect :: "nat \<Rightarrow> 'e stats_service \<Rightarrow> 'e stats_service" where
  "stopCollect p st = st\<lparr>st_stopping := st_stopping st @ [p]\<rparr>"

definition getWriteableLayer :: "'e stats_service \<Rightarrow> 64 word" where
  "getWriteableLayer st = foldl (\<lambda>totalLayerSize stat. totalLayerSize + cs_rwLayerSize (st_objects st ! snd stat)) 0 (st_stats st)"

definition getStats :: "string \<Rightarrow> 'e stats_service \<Rightarrow> cstats option" where
  "getStats containerID st = map_option ((!) (st_objects st)) (map_of (st_stats st) containerID)"

subsection \<open>The collection loop\<close>

definition addCollector :: "string \<Rightarrow> 'e stats_service \<Rightarrow> 'e stats_service" where
  "addCollector cid st =
     (case map_of (st_stats st) cid of
        Some _ \<Rightarrow> st
      | None \<Rightarrow>
          (let cs = length (st_objects st) in
           startCollect cs (st\<lparr>st_objects := st_objects st @ [newCstats cid], st_stats := mapSet (st_stats st) cid cs\<rparr>)))"

text \<open>The second loop of \<^verbatim>\<open>startStatsCollection\<close>: it ranges over the entries of the map and deletes from it.\<close>

fun dropCollectors :: "string list \<Rightarrow> (string \<times> nat) list \<Rightarrow> 'e stats_service \<Rightarrow> 'e stats_service" where
  "dropCollectors containerIDs [] st = st"
| "dropCollectors containerIDs ((k, cs) # rest) st =
     dropCollectors containerIDs rest
       (if k \<notin> set containerIDs then stopCollect cs (st\<lparr>st_stats := AList.delete k (st_stats st)\<rparr>) else st)"

text \<open>The body of the loop of \<^verbatim>\<open>startStatsCollection\<close>, for one list received from the channel.\<close>

definition collectionStep :: "Container list \<Rightarrow> 'e stats_service \<Rightarrow> 'e stats_service" where
  "collectionStep clist st =
     (let ids = map ctr_Id clist; st = foldl (\<lambda>st cid. addCollector cid st) st ids
      in dropCollectors ids (st_stats st) st)"

subsection \<open>The handlers\<close>

record FilesystemUsage =
  fu_Timestamp :: int
  fu_Mountpoint :: string
  fu_UsedBytes :: "64 word"
  fu_InodesUsed :: "64 word option"

record ContainerStatsData =
  cst_Id :: string
  cst_Metadata :: ContainerMetadata
  cst_Labels :: gomap
  cst_Annotations :: gomap
  cst_Timestamp :: int
  cst_UsageCoreNanoSeconds :: "64 word"
  cst_WorkingSetBytes :: "64 word"
  cst_WritableLayer :: "FilesystemUsage option"

text \<open>The result is a pointer, which on Linux is never nil.\<close>

definition getContainerStats ::
    "'e docker_service \<Rightarrow> Container \<Rightarrow> 'e stats_service \<Rightarrow> ContainerStatsData option result \<times> 'e stats_service" where
  "getContainerStats ds container st =
     (let containerID = ctr_Id container in
      case onSvc (onEnv (dk_GetContainerStats (svc_client ds) containerID)) st of
        (Inl err, st) \<Rightarrow> (Inl err, st)
      | (Inr dockerStats, st) \<Rightarrow>
          (case onSvc (onEnv (ex_now (svc_ext ds))) st of (t, st) \<Rightarrow>
             (Inr (Some
                \<lparr>cst_Id = containerID, cst_Metadata = ctr_Metadata container, cst_Labels = ctr_Labels container,
                 cst_Annotations = ctr_Annotations container, cst_Timestamp = UnixNano t,
                 cst_UsageCoreNanoSeconds = sr_CPUTotalUsage dockerStats, cst_WorkingSetBytes = sr_MemoryUsage dockerStats,
                 cst_WritableLayer =
                   (case getStats containerID st of
                      None \<Rightarrow> None
                    | Some cstat \<Rightarrow>
                        if cs_initialized cstat
                        then Some \<lparr>fu_Timestamp = UnixNano t, fu_Mountpoint = svc_dockerRootDir ds,
                                   fu_UsedBytes = cs_rwLayerSize cstat, fu_InodesUsed = None\<rparr>
                        else None)\<rparr>), st)))"

definition ContainerStats ::
    "'e docker_service \<Rightarrow> string \<Rightarrow> 'e stats_service \<Rightarrow> ContainerStatsData result \<times> 'e stats_service" where
  "ContainerStats ds containerID st =
     (case onSvc (ListContainers ds (Some \<lparr>cf_Id = containerID, cf_State = None, cf_PodSandboxId = [], cf_LabelSelector = []\<rparr>)) st of
        (Inl err, st) \<Rightarrow> (Inl err, st)
      | (Inr containers, st) \<Rightarrow>
          (case containers of
             [c] \<Rightarrow>
               (case getContainerStats ds c st of
                  (Inl err, st) \<Rightarrow> (Inl err, st)
                | (Inr None, st) \<Rightarrow> (Inl (Errorf (''stats for container with id '' @ containerID @ '' not available'')), st)
                | (Inr (Some stats), st) \<Rightarrow> (Inr stats, st))
           | _ \<Rightarrow> (Inl (Errorf (''container with id '' @ containerID @ '' not found'')), st)))"

text \<open>
  The workers of \<^verbatim>\<open>ListContainerStats\<close>, in the order in which they take the lock of the results; \<open>ctxErr\<close>
  gives what the context reports to each of them. The group returns the first error.
\<close>

fun statsWorkers ::
    "'e docker_service \<Rightarrow> (string \<Rightarrow> goerror option) \<Rightarrow> Container list \<Rightarrow> goerror option \<Rightarrow> ContainerStatsData list \<Rightarrow> 'e stats_service
      \<Rightarrow> (goerror option \<times> ContainerStatsData list) \<times> 'e stats_service" where
  "statsWorkers ds ctxErr [] err results st = ((err, results), st)"
| "statsWorkers ds ctxErr (c # cs) err results st =
     (case ctxErr (ctr_Id c) of
        Some e \<Rightarrow> statsWorkers ds ctxErr cs (if err = None then Some e else err) results st
      | None \<Rightarrow>
          (case getContainerStats ds c st of
             (Inr (Some stats), st) \<Rightarrow> statsWorkers ds ctxErr cs err (results @ [stats]) st
           | (_, st) \<Rightarrow> statsWorkers ds ctxErr cs err results st))"

record ContainerStatsFilter =
  csf_Id :: string
  csf_PodSandboxId :: string
  csf_LabelSelector :: gomap

text \<open>
  The handler blocks while the channel is full, so it runs in a state where the channel is
  empty. \<open>sched\<close> is the order of the workers.
\<close>

definition ListContainerStats ::
    "'e docker_service \<Rightarrow> (Container list \<Rightarrow> Container list) \<Rightarrow> (string \<Rightarrow> goerror option) \<Rightarrow> ContainerStatsFilter option \<Rightarrow>
      'e stats_service \<Rightarrow> ContainerStatsData list result \<times> 'e stats_service" where
  "ListContainerStats ds sched ctxErr f st =
     (let flt = (case f of
                   None \<Rightarrow> \<lparr>cf_Id = [], cf_State = None, cf_PodSandboxId = [], cf_LabelSelector = []\<rparr>
                 | Some f \<Rightarrow> \<lparr>cf_Id = csf_Id f, cf_State = None, cf_PodSandboxId = csf_PodSandboxId f,
                              cf_LabelSelector = csf_LabelSelector f\<rparr>)
      in case onSvc (ListContainers ds (Some flt)) st of
           (Inl err, st) \<Rightarrow> (Inl err, st)
         | (Inr containers, st) \<Rightarrow>
             (let st = st\<lparr>st_clist := st_clist st @ [containers]\<rparr> in
              if length containers = 0 then (Inr [], st)
              else (case statsWorkers ds ctxErr (sched containers) None [] st of
                      ((Some err, _), st) \<Rightarrow> (Inl err, st)
                    | ((None, results), st) \<Rightarrow> (Inr results, st))))"

subsection \<open>Interleavings\<close>

text \<open>
  A step of the service: a list request, a turn of the collection loop, a round of a collector, or a
  collector taking its stop message. Requests wait until the channel is free.
\<close>

inductive stats_step :: "'e docker_service \<Rightarrow> 'e stats_service \<Rightarrow> 'e stats_service \<Rightarrow> bool" for ds where
  request: "st_clist st = [] \<Longrightarrow> ListContainerStats ds sched ctxErr f st = (r, st') \<Longrightarrow> stats_step ds st st'"
| single: "ContainerStats ds i st = (r, st') \<Longrightarrow> stats_step ds st st'"
| collection: "st_clist st = cs # rest \<Longrightarrow> stats_step ds st (collectionStep cs (st\<lparr>st_clist := rest\<rparr>))"
| round: "(p, b) \<in> set (st_collectors st) \<Longrightarrow>
    onSvc (onEnv (collectRound (svc_client ds) (st_objects st ! p) b)) st = (Inr (cs, b', sleepTime), st') \<Longrightarrow>
    stats_step ds st (st'\<lparr>st_objects := (st_objects st)[p := cs], st_collectors := mapSet (st_collectors st) p b'\<rparr>)"
| stopped: "p \<in> set (st_stopping st) \<Longrightarrow> map_of (st_collectors st) p \<noteq> None \<Longrightarrow>
    stats_step ds st (st\<lparr>st_collectors := AList.delete p (st_collectors st), st_stopping := remove1 p (st_stopping st)\<rparr>)"

inductive stats_reach :: "'e docker_service \<Rightarrow> 'e stats_service \<Rightarrow> bool" for ds where
  start: "stats_reach ds (newContainerStatsCache s)"
| step: "stats_reach ds st \<Longrightarrow> stats_step ds st st' \<Longrightarrow> stats_reach ds st'"

text \<open>
  The invariant: each entry of the map points to its own object with its own identifier, the running
  collectors are those of the map and those about to stop, once each, and every backoff is
  between the two bounds.
\<close>

definition entriesOk :: "cstats list \<Rightarrow> (string \<times> nat) list \<Rightarrow> bool" where
  "entriesOk objs m \<longleftrightarrow> distinct (map fst m) \<and> distinct (map snd m) \<and>
     (\<forall>(k, p) \<in> set m. p < length objs \<and> cs_containerID (objs ! p) = k)"

definition collectorsOk :: "(string \<times> nat) list \<Rightarrow> (nat \<times> int) list \<Rightarrow> nat list \<Rightarrow> bool" where
  "collectorsOk m cs stopping \<longleftrightarrow> distinct (map fst cs) \<and> mset (map fst cs) = mset (map snd m) + mset stopping \<and>
     (\<forall>(p, b) \<in> set cs. minCollectInterval \<le> b \<and> b \<le> maxBackoffDuration)"

definition statsOk :: "'e stats_service \<Rightarrow> bool" where
  "statsOk st \<longleftrightarrow> entriesOk (st_objects st) (st_stats st) \<and>
     collectorsOk (st_stats st) (st_collectors st) (st_stopping st) \<and>
     (\<forall>p \<in> fst ` set (st_collectors st). p < length (st_objects st))"

text \<open>The part of the state that the handlers leave alone.\<close>

definition cacheOf :: "'e stats_service \<Rightarrow> cstats list \<times> (string \<times> nat) list \<times> (nat \<times> int) list \<times> nat list" where
  "cacheOf st = (st_objects st, st_stats st, st_collectors st, st_stopping st)"

lemma statsOk_cacheOf: "cacheOf st = cacheOf st' \<Longrightarrow> statsOk st = statsOk st'"
  by (simp add: statsOk_def cacheOf_def)

lemma onSvc_frame: "onSvc f st = (r, st') \<Longrightarrow> cacheOf st' = cacheOf st \<and> st_clist st' = st_clist st"
  by (auto simp: onSvc_def cacheOf_def split: prod.splits)

lemma getContainerStats_frame:
  "getContainerStats ds c st = (r, st') \<Longrightarrow> cacheOf st' = cacheOf st \<and> st_clist st' = st_clist st"
  by (auto simp: getContainerStats_def Let_def split: prod.splits sum.splits dest!: onSvc_frame)

lemma statsWorkers_frame:
  "statsWorkers ds ctxErr cs err results st = (r, st') \<Longrightarrow> cacheOf st' = cacheOf st \<and> st_clist st' = st_clist st"
proof (induction cs arbitrary: err results st)
  case Nil
  then show ?case by simp
next
  case (Cons c cs)
  obtain x st1 where g: "getContainerStats ds c st = (x, st1)" by (metis prod.exhaust)
  from getContainerStats_frame [OF g] Cons.prems show ?case
    by (auto simp: g split: option.splits sum.splits if_splits dest!: Cons.IH)
qed

lemma ListContainerStats_frame:
  "ListContainerStats ds sched ctxErr f st = (r, st') \<Longrightarrow> cacheOf st' = cacheOf st"
proof -
  assume a: "ListContainerStats ds sched ctxErr f st = (r, st')"
  have c: "cacheOf (st1\<lparr>st_clist := x\<rparr>) = cacheOf st1" for st1 :: "'a stats_service" and x by (simp add: cacheOf_def)
  from a show ?thesis unfolding ListContainerStats_def Let_def
    by (auto simp: c split: prod.splits sum.splits if_splits option.splits dest!: onSvc_frame statsWorkers_frame)
qed

lemma ContainerStats_frame: "ContainerStats ds i st = (r, st') \<Longrightarrow> cacheOf st' = cacheOf st"
  unfolding ContainerStats_def
  by (auto split: prod.splits sum.splits list.splits option.splits dest!: onSvc_frame getContainerStats_frame)

subsection \<open>The collection loop keeps the invariant\<close>

lemma update_mem: "x \<in> set (mapSet m k v) \<Longrightarrow> x = (k, v) \<or> x \<in> set m"
  by (induction m) (auto split: if_splits)

lemma delete_entry:
  "(k, p) \<in> set m \<Longrightarrow> distinct (map fst m) \<Longrightarrow>
     mset (map snd m) = add_mset p (mset (map snd (AList.delete k m))) \<and> set (AList.delete k m) = set m - {(k, p)}"
proof (induction m)
  case (Cons x m)
  show ?case
  proof (cases "fst x = k")
    case True
    then have "k \<notin> fst ` set m" using Cons.prems by auto
    moreover have "x = (k, p)" using True Cons.prems by (cases x) force
    ultimately show ?thesis by (force simp: delete_idem)
  next
    case False
    then show ?thesis using Cons by (cases x) auto
  qed
qed simp

lemma delete_keys:
  "(k, p) \<in> set m \<Longrightarrow> distinct (map fst m) \<Longrightarrow> mset (map fst m) = add_mset k (mset (map fst (AList.delete k m)))"
proof (induction m)
  case (Cons x m)
  then show ?case by (cases x) (auto simp: delete_idem image_iff)
qed simp

lemma addCollector_ok:
  assumes "statsOk st"
  shows "statsOk (addCollector cid st) \<and> set (map fst (st_stats (addCollector cid st))) = insert cid (set (map fst (st_stats st)))"
proof (cases "map_of (st_stats st) cid")
  case None
  then have n: "cid \<notin> fst ` set (st_stats st)" by (simp add: map_of_eq_None_iff)
  have u: "mapSet (st_stats st) cid p = st_stats st @ [(cid, p)]" for p using n by (rule update_new)
  show ?thesis using assms n
    by (force simp: addCollector_def None statsOk_def entriesOk_def collectorsOk_def startCollect_def u nth_append newCstats_def
        minCollectInterval_def maxBackoffDuration_def Let_def)
next
  case (Some p)
  then have "cid \<in> fst ` set (st_stats st)" by (metis image_eqI fst_conv map_of_SomeD)
  then show ?thesis using assms by (auto simp: addCollector_def Some)
qed

lemma addCollectors_ok:
  "statsOk st \<Longrightarrow> statsOk (foldl (\<lambda>st cid. addCollector cid st) st ids) \<and>
     set (map fst (st_stats (foldl (\<lambda>st cid. addCollector cid st) st ids))) = set ids \<union> set (map fst (st_stats st))"
proof (induction ids arbitrary: st)
  case (Cons cid ids)
  from Cons.IH [of "addCollector cid st"] addCollector_ok [OF Cons.prems] show ?case by auto
qed simp

lemma dropCollector_ok:
  assumes "statsOk st" and "(k, p) \<in> set (st_stats st)"
  shows "statsOk (stopCollect p (st\<lparr>st_stats := AList.delete k (st_stats st)\<rparr>))"
proof -
  have e: "entriesOk (st_objects st) (st_stats st)" using assms(1) by (simp add: statsOk_def)
  note d = delete_entry [OF assms(2)]
  have "distinct (map fst (AList.delete k (st_stats st)))" using e by (simp add: entriesOk_def distinct_delete)
  moreover have "distinct (map snd (AList.delete k (st_stats st)))"
    using e by (simp add: entriesOk_def AList.delete_eq distinct_map_filter)
  ultimately show ?thesis using assms(1) d e
    by (auto simp: statsOk_def entriesOk_def collectorsOk_def stopCollect_def)
qed

lemma dropCollectors_ok:
  "statsOk st \<Longrightarrow> distinct (map fst rest) \<Longrightarrow> set rest \<subseteq> set (st_stats st) \<Longrightarrow>
     statsOk (dropCollectors ids rest st) \<and>
     set (st_stats (dropCollectors ids rest st)) = set (st_stats st) - {(k, p) \<in> set rest. k \<notin> set ids}"
proof (induction rest arbitrary: st)
  case (Cons x rest)
  obtain k p where x: "x = (k, p)" by (cases x)
  show ?case
  proof (cases "k \<in> set ids")
    case True
    then show ?thesis using Cons by (auto simp: x)
  next
    case False
    let ?st = "stopCollect p (st\<lparr>st_stats := AList.delete k (st_stats st)\<rparr>)"
    have m: "(k, p) \<in> set (st_stats st)" "distinct (map fst (st_stats st))"
      using Cons.prems by (auto simp: x statsOk_def entriesOk_def)
    have "set rest \<subseteq> set (st_stats ?st)"
      using Cons.prems delete_entry [OF m] by (force simp: x stopCollect_def)
    from Cons.IH [OF dropCollector_ok [OF Cons.prems(1) m(1)] _ this] Cons.prems(2) show ?thesis
      using False delete_entry [OF m] by (auto simp: x stopCollect_def)
  qed
qed simp

lemma collectionStep_ok:
  assumes "statsOk st"
  shows "statsOk (collectionStep cs st) \<and> fst ` set (st_stats (collectionStep cs st)) = ctr_Id ` set cs"
proof -
  define st1 where "st1 = foldl (\<lambda>st cid. addCollector cid st) st (map ctr_Id cs)"
  have a: "statsOk st1" "set (map fst (st_stats st1)) = ctr_Id ` set cs \<union> set (map fst (st_stats st))"
    using addCollectors_ok [OF assms, of "map ctr_Id cs"] by (simp_all add: st1_def)
  moreover have "distinct (map fst (st_stats st1))" using a(1) by (simp add: statsOk_def entriesOk_def)
  ultimately have "statsOk (dropCollectors (map ctr_Id cs) (st_stats st1) st1)"
    "set (st_stats (dropCollectors (map ctr_Id cs) (st_stats st1) st1)) = {(k, p) \<in> set (st_stats st1). k \<in> ctr_Id ` set cs}"
    using dropCollectors_ok [of st1 "st_stats st1" "map ctr_Id cs"] by auto
  moreover have "ctr_Id ` set cs \<subseteq> fst ` set (st_stats st1)" using a(2) by auto
  ultimately show ?thesis by (force simp: collectionStep_def st1_def [symmetric] Let_def)
qed

subsection \<open>The collectors keep the invariant\<close>

lemma collectRound_spec:
  assumes "collectRound client cs b e = (Inr (cs', b', sleepTime), e')"
    and "minCollectInterval \<le> b" and "b \<le> maxBackoffDuration"
  shows "cs_containerID cs' = cs_containerID cs \<and> sleepTime = b' \<and> minCollectInterval \<le> b' \<and> b' \<le> maxBackoffDuration"
  using assms
  by (auto simp: collectRound_def minCollectInterval_def maxBackoffDuration_def Let_def
      split: prod.splits sum.splits option.splits if_splits)

lemma stats_step_ok: "stats_step ds st st' \<Longrightarrow> statsOk st \<Longrightarrow> statsOk st'"
proof (induction rule: stats_step.induct)
  case (request st sched ctxErr f r st')
  then show ?case using ListContainerStats_frame statsOk_cacheOf by metis
next
  case (single i st r st')
  then show ?case using ContainerStats_frame statsOk_cacheOf by metis
next
  case (collection st cs rest)
  have "statsOk (st\<lparr>st_clist := rest\<rparr>)" using collection.prems by (simp add: statsOk_def)
  then show ?case using collectionStep_ok by blast
next
  case (round p b st cs b' sleepTime st')
  have c: "distinct (map fst (st_collectors st))" "minCollectInterval \<le> b" "b \<le> maxBackoffDuration" "p < length (st_objects st)"
    using round.hyps(1) round.prems by (force simp: statsOk_def collectorsOk_def)+
  obtain e' where r: "collectRound (svc_client ds) (st_objects st ! p) b (ss_env (st_svc st)) = (Inr (cs, b', sleepTime), e')"
    using round.hyps(2) by (auto simp: onSvc_def onEnv_def split: prod.splits)
  note spec = collectRound_spec [OF r c(2,3)]
  have f: "cacheOf st' = cacheOf st" using onSvc_frame [OF round.hyps(2)] by simp
  have "p \<in> set (map fst (st_collectors st))" using round.hyps(1) by force
  then have u: "map fst (mapSet (st_collectors st) p b') = map fst (st_collectors st)" by (simp add: AList.update_keys)
  have "cs_containerID ((st_objects st)[p := cs] ! q) = cs_containerID (st_objects st ! q)" for q
    using spec c(4) by (cases "q = p") simp_all
  then have e: "entriesOk ((st_objects st)[p := cs]) (st_stats st)"
    using round.prems by (simp add: statsOk_def entriesOk_def)
  have k: "collectorsOk (st_stats st) (mapSet (st_collectors st) p b') (st_stopping st)"
    using round.prems spec update_mem [of _ p b' "st_collectors st"] unfolding statsOk_def collectorsOk_def u by blast
  have "\<forall>q \<in> fst ` set (mapSet (st_collectors st) p b'). q < length (st_objects st)"
    using round.prems u by (metis statsOk_def set_map)
  then show ?case using f e k by (simp add: statsOk_def cacheOf_def)
next
  case (stopped p st)
  obtain b where b: "(p, b) \<in> set (st_collectors st)" using stopped.hyps(2) map_of_SomeD by fast
  have d: "distinct (map fst (st_collectors st))" using stopped.prems by (simp add: statsOk_def collectorsOk_def)
  have "add_mset p (mset (map fst (AList.delete p (st_collectors st)))) = mset (map fst (st_collectors st))"
    using delete_keys [OF b d] by simp
  moreover have "\<exists>Z. mset (st_stopping st) = add_mset p Z \<and> mset (remove1 p (st_stopping st)) = Z"
    using stopped.hyps(1) by simp
  ultimately have "collectorsOk (st_stats st) (AList.delete p (st_collectors st)) (remove1 p (st_stopping st))"
    using stopped.prems d delete_entry [OF b d] by (auto simp: statsOk_def collectorsOk_def distinct_delete simp del: mset_remove1)
  moreover have "fst ` set (AList.delete p (st_collectors st)) \<subseteq> fst ` set (st_collectors st)"
    using delete_entry [OF b d] by auto
  ultimately show ?case using stopped.prems by (fastforce simp: statsOk_def)
qed

lemma stats_reach_ok: "stats_reach ds st \<Longrightarrow> statsOk st"
proof (induction rule: stats_reach.induct)
  case (start s)
  show ?case by (simp add: newContainerStatsCache_def statsOk_def entriesOk_def collectorsOk_def)
next
  case (step st st')
  then show ?case using stats_step_ok by blast
qed

lemma ListContainerStats_sends:
  assumes "ListContainerStats ds sched ctxErr (Some f) st = (Inr r, st')" and "st_clist st = []"
  obtains cs where "st_clist st' = [cs]" and "cacheOf st' = cacheOf st"
    and "fst (ListContainers ds (Some \<lparr>cf_Id = csf_Id f, cf_State = None, cf_PodSandboxId = csf_PodSandboxId f,
       cf_LabelSelector = csf_LabelSelector f\<rparr>) (st_svc st)) = Inr cs"
proof -
  let ?flt = "\<lparr>cf_Id = csf_Id f, cf_State = None, cf_PodSandboxId = csf_PodSandboxId f, cf_LabelSelector = csf_LabelSelector f\<rparr>"
  obtain x s1 where l: "ListContainers ds (Some ?flt) (st_svc st) = (x, s1)" by (metis prod.exhaust)
  show ?thesis
  proof (cases x)
    case (Inl a)
    then show ?thesis using assms(1) by (simp add: ListContainerStats_def onSvc_def l)
  next
    case (Inr cs)
    have "st_clist st' = [cs]" using assms
      by (auto simp: ListContainerStats_def onSvc_def l Inr Let_def split: if_splits prod.splits option.splits dest!: statsWorkers_frame)
    then show ?thesis using that ListContainerStats_frame [OF assms(1)] l Inr by simp
  qed
qed

subsection \<open>An example\<close>

text \<open>A daemon with two containers; the service after a request for all of them and a turn of the loop.\<close>

definition exampleContainer :: "string \<Rightarrow> DockerContainer" where
  "exampleContainer i = zeroDockerContainer\<lparr>dct_ID := i, dct_Names := [''/k8s_'' @ i @ ''_pod_ns_uid_0''],
     dct_Labels := [(containerTypeLabelKey, containerTypeLabelContainer)]\<rparr>"

definition exampleStats :: "fake_docker stats_service" where
  "exampleStats = newContainerStatsCache
     (exampleState\<lparr>ss_env := exampleDaemon\<lparr>fk_RunningContainerList := [exampleContainer ''a'', exampleContainer ''b'']\<rparr>\<rparr>)"

definition twoContainers :: "fake_docker svc_state \<Rightarrow> bool" where
  "twoContainers s \<longleftrightarrow> fk_RunningContainerList (ss_env s) = [exampleContainer ''a'', exampleContainer ''b''] \<and>
     fk_ExitedContainerList (ss_env s) = [] \<and> fk_Errors (ss_env s) = []"

lemma ctr_Id_convert: "toRuntimeAPIContainer c = Inr c' \<Longrightarrow> ctr_Id c' = dct_ID c"
  by (auto simp: toRuntimeAPIContainer_def split: list.splits sum.splits prod.splits)

lemma exampleContainer_converts:
  assumes "i = ''a'' \<or> i = ''b''"
  shows "\<exists>c. toRuntimeAPIContainer (exampleContainer i) = Inr c \<and> ctr_Id c = i"
proof -
  obtain m where m: "parseContainerName (''/k8s_'' @ i @ ''_pod_ns_uid_0'') = Inr m"
    using assms by (auto simp: parseContainerName_def strings_TrimPrefix_def kubePrefix_def parseUint32_def strconv_ParseUint_def go_defs)
  have "\<exists>c. toRuntimeAPIContainer (exampleContainer i) = Inr c"
    using m [simplified] by (simp add: toRuntimeAPIContainer_def exampleContainer_def split: prod.splits)
  then show ?thesis using ctr_Id_convert by (fastforce simp: exampleContainer_def)
qed

lemma exampleContainer_type: "mapGet (dct_Labels (exampleContainer i)) ''io.kubernetes.docker.type'' = ''container''"
  by (simp add: exampleContainer_def containerTypeLabelKey_def containerTypeLabelContainer_def go_defs)

lemma typeFilter: "AddLabel [] containerTypeLabelKey containerTypeLabelContainer = [(''label'', ''io.kubernetes.docker.type=container'')]"
  by (simp add: AddLabel_def filterAdd_def containerTypeLabelKey_def containerTypeLabelContainer_def go_defs)

lemma exampleList:
  assumes "twoContainers s" and "i = [] \<or> i = ''a''"
  shows "\<exists>cs s'. ListContainers exampleService (Some \<lparr>cf_Id = i, cf_State = None, cf_PodSandboxId = [], cf_LabelSelector = []\<rparr>) s = (Inr cs, s') \<and>
     map ctr_Id cs = (if i = [] then [''a'', ''b''] else [''a'']) \<and> twoContainers s'"
proof -
  obtain a b where c: "toRuntimeAPIContainer (exampleContainer ''a'') = Inr a" "ctr_Id a = ''a''"
    "toRuntimeAPIContainer (exampleContainer ''b'') = Inr b" "ctr_Id b = ''b''"
    using exampleContainer_converts by metis
  have "dct_ID (exampleContainer x) = x" for x by (simp add: exampleContainer_def)
  then show ?thesis using assms
    by (auto simp: ListContainers_def exampleService_def fakeClient_def onEnv_def Fake_ListContainers_def popError_def appendCalled_def
        twoContainers_def containerListOptions_def typeFilter filterAdd_def filtersGet_def exampleContainer_type convertAll_def c Let_def)
qed

lemma getContainerStats_keeps:
  "twoContainers (st_svc st) \<Longrightarrow> getContainerStats exampleService c st = (r, st') \<Longrightarrow> twoContainers (st_svc st')"
  by (auto simp: getContainerStats_def onSvc_def onEnv_def twoContainers_def exampleService_def exampleExternals_def fakeClient_def
      Fake_GetContainerStats_def fakeNow_def appendCalled_def Let_def split: prod.splits sum.splits option.splits)

lemma statsWorkers_ok:
  "twoContainers (st_svc st) \<Longrightarrow> \<exists>res st'. statsWorkers exampleService (\<lambda>_. None) cs None results st = ((None, res), st') \<and> twoContainers (st_svc st')"
proof (induction cs arbitrary: results st)
  case (Cons c cs)
  obtain r st1 where g: "getContainerStats exampleService c st = (r, st1)" by (metis prod.exhaust)
  from Cons.IH [OF getContainerStats_keeps [OF Cons.prems g]] show ?case
    by (auto simp: g split: sum.splits option.splits)
qed simp

lemma exampleRequest:
  assumes "twoContainers (st_svc st)" and "st_clist st = []" and "i = [] \<or> i = ''a''"
  shows "\<exists>r st' cs. ListContainerStats exampleService id (\<lambda>_. None) (Some \<lparr>csf_Id = i, csf_PodSandboxId = [], csf_LabelSelector = []\<rparr>) st
     = (Inr r, st') \<and> st_clist st' = [cs] \<and> map ctr_Id cs = (if i = [] then [''a'', ''b''] else [''a'']) \<and>
     twoContainers (st_svc st') \<and> cacheOf st' = cacheOf st"
proof -
  obtain cs s' where l: "ListContainers exampleService (Some \<lparr>cf_Id = i, cf_State = None, cf_PodSandboxId = [], cf_LabelSelector = []\<rparr>) (st_svc st)
     = (Inr cs, s')" "map ctr_Id cs = (if i = [] then [''a'', ''b''] else [''a''])" "twoContainers s'"
    using exampleList [OF assms(1,3)] by blast
  let ?st = "st\<lparr>st_svc := s', st_clist := [cs]\<rparr>"
  obtain res st' where w: "statsWorkers exampleService (\<lambda>_. None) cs None [] ?st = ((None, res), st')" "twoContainers (st_svc st')"
    using statsWorkers_ok [of ?st cs "[]"] l(3) by auto
  have "cs \<noteq> []" using l(2) by (auto split: if_splits)
  then have "ListContainerStats exampleService id (\<lambda>_. None) (Some \<lparr>csf_Id = i, csf_PodSandboxId = [], csf_LabelSelector = []\<rparr>) st = (Inr res, st')"
    using w(1) assms(2) by (simp add: ListContainerStats_def onSvc_def l(1) Let_def)
  moreover have "st_clist st' = [cs]" "cacheOf st' = cacheOf ?st" using statsWorkers_frame [OF w(1)] by simp_all
  ultimately show ?thesis using w(2) l(2) by (auto simp: cacheOf_def)
qed

lemma collectionStep_frame: "st_svc (collectionStep cs st) = st_svc st \<and> st_clist (collectionStep cs st) = st_clist st"
proof -
  have "st_svc (addCollector i st) = st_svc st \<and> st_clist (addCollector i st) = st_clist st" for i and st :: "'a stats_service"
    by (simp add: addCollector_def startCollect_def Let_def split: option.splits)
  then have "st_svc (foldl (\<lambda>st cid. addCollector cid st) st ids) = st_svc st \<and>
      st_clist (foldl (\<lambda>st cid. addCollector cid st) st ids) = st_clist st" for ids
    by (induction ids arbitrary: st) simp_all
  moreover have "st_svc (dropCollectors ids rest st) = st_svc st \<and> st_clist (dropCollectors ids rest st) = st_clist st"
    for ids rest and st :: "'a stats_service"
    by (induction ids rest st rule: dropCollectors.induct) (simp_all add: stopCollect_def)
  ultimately show ?thesis by (simp add: collectionStep_def Let_def)
qed

lemma exampleListed:
  "\<exists>st. stats_reach exampleService st \<and> st_clist st = [] \<and> twoContainers (st_svc st) \<and> fst ` set (st_stats st) = {''a'', ''b''}"
proof -
  have t: "twoContainers (st_svc exampleStats)" "st_clist exampleStats = []"
    by (simp_all add: twoContainers_def exampleStats_def newContainerStatsCache_def exampleState_def exampleDaemon_def NewFakeDockerClient_def)
  obtain r st cs where l: "ListContainerStats exampleService id (\<lambda>_. None) (Some \<lparr>csf_Id = [], csf_PodSandboxId = [], csf_LabelSelector = []\<rparr>)
      exampleStats = (Inr r, st)" "st_clist st = [cs]" "map ctr_Id cs = [''a'', ''b'']" "twoContainers (st_svc st)"
    using exampleRequest [OF t, of "[]"] by auto
  have r: "stats_reach exampleService st"
    by (rule stats_reach.step [OF _ stats_step.request [OF t(2) l(1)]]) (simp add: exampleStats_def stats_reach.start)
  have s: "stats_step exampleService st (collectionStep cs (st\<lparr>st_clist := []\<rparr>))" using l(2) by (intro stats_step.collection) simp
  have "statsOk (st\<lparr>st_clist := []\<rparr>)" using stats_reach_ok [OF r] by (simp add: statsOk_def)
  from collectionStep_ok [OF this, of cs] have "fst ` set (st_stats (collectionStep cs (st\<lparr>st_clist := []\<rparr>))) = set (map ctr_Id cs)" by simp
  then show ?thesis using stats_reach.step [OF r s] collectionStep_frame [of cs "st\<lparr>st_clist := []\<rparr>"] l(3,4)
    by (intro exI [of _ "collectionStep cs (st\<lparr>st_clist := []\<rparr>)"]) simp
qed

subsection \<open>Properties\<close>

text \<open>C11. However list requests, the collection loop, the collectors and their stop messages interleave:
  every container in the cache has exactly one running collector, working on the object of that
  container; every other running collector has its stop message pending; and a collector
  waits at least one and at most twenty minutes between two inspections.\<close>

theorem stats_collectors_invariant:
  assumes "stats_reach ds st"
  shows "distinct (map fst (st_collectors st)) \<and>
     mset (map fst (st_collectors st)) = mset (map snd (st_stats st)) + mset (st_stopping st) \<and>
     (\<forall>(k, p) \<in> set (st_stats st). cs_containerID (st_objects st ! p) = k) \<and>
     (\<forall>(p, b) \<in> set (st_collectors st). minCollectInterval \<le> b \<and> b \<le> maxBackoffDuration)"
  using stats_reach_ok [OF assms] by (auto simp: statsOk_def entriesOk_def collectorsOk_def)

theorem stats_collectors_invariant_witness:
  "\<exists>st. fst ` set (st_stats st) = {''a'', ''b''} \<and> stats_reach exampleService st \<and>
     mset (map fst (st_collectors st)) = mset (map snd (st_stats st)) + mset (st_stopping st)"
proof -
  obtain st where st: "stats_reach exampleService st" "fst ` set (st_stats st) = {''a'', ''b''}" using exampleListed by auto
  from stats_collectors_invariant [OF st(1)] st show ?thesis by blast
qed

text \<open>C34. A list request with a filter makes the service forget the statistics of every container that the
  filter leaves out: the loop takes the filtered list for the list of all containers.\<close>

theorem filtered_list_drops_the_rest:
  assumes "stats_reach ds st" and "st_clist st = []" and "ListContainerStats ds sched ctxErr (Some f) st = (Inr r, st')"
  shows "\<exists>cs. fst (ListContainers ds (Some \<lparr>cf_Id = csf_Id f, cf_State = None, cf_PodSandboxId = csf_PodSandboxId f,
         cf_LabelSelector = csf_LabelSelector f\<rparr>) (st_svc st)) = Inr cs \<and>
       st_clist st' = [cs] \<and> (\<forall>i. getStats i (collectionStep cs (st'\<lparr>st_clist := []\<rparr>)) \<noteq> None \<longleftrightarrow> i \<in> ctr_Id ` set cs)"
proof -
  obtain cs where cs: "st_clist st' = [cs]" "cacheOf st' = cacheOf st"
    "fst (ListContainers ds (Some \<lparr>cf_Id = csf_Id f, cf_State = None, cf_PodSandboxId = csf_PodSandboxId f,
       cf_LabelSelector = csf_LabelSelector f\<rparr>) (st_svc st)) = Inr cs"
    using ListContainerStats_sends [OF assms(3,2)] by blast
  have "statsOk (st'\<lparr>st_clist := []\<rparr>)"
    using stats_reach_ok [OF assms(1)] cs(2) by (simp add: statsOk_def cacheOf_def)
  from collectionStep_ok [OF this, of cs]
  have "map_of (st_stats (collectionStep cs (st'\<lparr>st_clist := []\<rparr>))) i \<noteq> None \<longleftrightarrow> i \<in> ctr_Id ` set cs" for i
    by (metis map_of_eq_None_iff)
  then show ?thesis using cs by (auto simp: getStats_def)
qed

theorem filtered_list_drops_the_rest_witness:
  "\<exists>st r st' cs. stats_reach exampleService st \<and> getStats ''b'' st \<noteq> None \<and>
     ListContainerStats exampleService id (\<lambda>_. None) (Some \<lparr>csf_Id = ''a'', csf_PodSandboxId = [], csf_LabelSelector = []\<rparr>) st = (Inr r, st') \<and>
     st_clist st' = [cs] \<and> getStats ''b'' (collectionStep cs (st'\<lparr>st_clist := []\<rparr>)) = None"
proof -
  obtain st where st: "stats_reach exampleService st" "st_clist st = []" "twoContainers (st_svc st)" "fst ` set (st_stats st) = {''a'', ''b''}"
    using exampleListed by blast
  obtain r st' cs where l: "ListContainerStats exampleService id (\<lambda>_. None) (Some \<lparr>csf_Id = ''a'', csf_PodSandboxId = [], csf_LabelSelector = []\<rparr>) st
      = (Inr r, st')" "st_clist st' = [cs]" "map ctr_Id cs = [''a'']"
    using exampleRequest [OF st(3,2), of "''a''"] by auto
  have "''b'' \<notin> ctr_Id ` set cs" using l(3) by (simp flip: set_map)
  moreover have "getStats ''b'' (collectionStep cs (st'\<lparr>st_clist := []\<rparr>)) \<noteq> None \<longleftrightarrow> ''b'' \<in> ctr_Id ` set cs"
    using filtered_list_drops_the_rest [OF st(1,2) l(1)] l(2) by (elim exE conjE) (simp only: list.inject simp_thms)
  moreover have "getStats ''b'' st \<noteq> None" using st(4) by (simp add: getStats_def map_of_eq_None_iff)
  ultimately show ?thesis using st(1) l(1,2) by (intro exI conjI) simp_all
qed

end
