(* ===== verification/Image_Fs.thy ===== *)
theory Image_Fs
  imports Stats Images
begin

text \<open>
  The usage of the image file system (\<^verbatim>\<open>core/imagefs.go\<close>, \<^verbatim>\<open>core/imagefs_linux.go\<close>), behind a cache of its
  own. \<open>statfs\<close> is the system call: its result for the docker root directory.
\<close>

record statfs_t =
  sf_Blocks :: "64 word"
  sf_Bfree :: "64 word"
  sf_Bsize :: int
  sf_Files :: "64 word"
  sf_Ffree :: "64 word"

record ImageFsInfoResponse =
  ifr_ImageFilesystems :: "FilesystemUsage list"
  ifr_ContainerFilesystems :: "FilesystemUsage list"

definition imageFsStatsMinTTL :: int where "imageFsStatsMinTTL = 30 * 10 ^ 9"

text \<open>The loop over the images: the total so far and the map whose keys are the shared sizes.\<close>

definition imageSizeStep :: "64 word \<times> (int \<times> unit) list \<Rightarrow> ImageSummary \<Rightarrow> 64 word \<times> (int \<times> unit) list" where
  "imageSizeStep acc i =
     (case acc of (totalImageSize, sharedSizeMap) \<Rightarrow>
        if is_SharedSize i = -1 then (totalImageSize + word_of_int (is_Size i), sharedSizeMap)
        else (totalImageSize + (word_of_int (is_Size i) - word_of_int (is_SharedSize i)), mapSet sharedSizeMap (is_SharedSize i) ()))"

definition sumImageSizes :: "ImageSummary list \<Rightarrow> 64 word" where
  "sumImageSizes images =
     (case foldl imageSizeStep (0, []) images of
        (totalImageSize, sharedSizeMap) \<Rightarrow> foldl (\<lambda>t (k, _). t + word_of_int k) totalImageSize sharedSizeMap)"

definition imageFsInfo ::
    "'e docker_service \<Rightarrow> (string \<Rightarrow> statfs_t result) \<Rightarrow> 'e stats_service \<Rightarrow> ImageFsInfoResponse result \<times> 'e stats_service" where
  "imageFsInfo ds statfs st =
     (case statfs (svc_dockerRootDir ds) of
        Inl err \<Rightarrow> (Inl err, st)
      | Inr stat \<Rightarrow>
          (let iNodesUsed = sf_Files stat - sf_Ffree stat in
           case onSvc (onEnv (dk_ListImages (svc_client ds) \<lparr>ilo_All = True, ilo_SharedSize = True, ilo_Filters = []\<rparr>)) st of
             (Inl err, st) \<Rightarrow> (Inl err, st)
           | (Inr images, st) \<Rightarrow>
               (case onSvc (onEnv (ex_now (svc_ext ds))) st of (t1, st) \<Rightarrow>
                (case onSvc (onEnv (ex_now (svc_ext ds))) st of (t2, st) \<Rightarrow>
                  (Inr \<lparr>ifr_ImageFilesystems =
                          [\<lparr>fu_Timestamp = UnixNano t1, fu_Mountpoint = svc_dockerRootDir ds,
                            fu_UsedBytes = sumImageSizes images, fu_InodesUsed = Some iNodesUsed\<rparr>],
                        ifr_ContainerFilesystems =
                          [\<lparr>fu_Timestamp = UnixNano t2, fu_Mountpoint = svc_dockerRootDir ds,
                            fu_UsedBytes = getWriteableLayer st, fu_InodesUsed = None\<rparr>]\<rparr>, st)))))"

text \<open>The type assertion on the cached value fails on the nil value of an entry that was never filled.\<close>

definition ImageFsInfo ::
    "'e docker_service \<Rightarrow> (string \<Rightarrow> statfs_t result) \<Rightarrow> ImageFsInfoResponse cache \<Rightarrow> 'e stats_service \<Rightarrow>
      ImageFsInfoResponse result \<times> ImageFsInfoResponse cache \<times> 'e stats_service" where
  "ImageFsInfo ds statfs ImageFsStatsCache st =
     (case Memoize (onSvc (onEnv (ex_now (svc_ext ds)))) ''imagefs'' imageFsStatsMinTTL (imageFsInfo ds statfs) ImageFsStatsCache st of
        (Inl err, c, st) \<Rightarrow> (Inl err, c, st)
      | (Inr None, c, st) \<Rightarrow> (Inl typeAssertion, c, st)
      | (Inr (Some stats), c, st) \<Rightarrow> (Inr stats, c, st))"

subsection \<open>The sum of the image sizes\<close>

text \<open>
  What the loop computes, modulo \<open>2 ^ 64\<close>: the sizes of all images less the shared part of those that
  report one, plus each distinct shared size once.
\<close>

definition imageSizesSpec :: "ImageSummary list \<Rightarrow> int" where
  "imageSizesSpec images =
     (\<Sum>i\<leftarrow>images. is_Size i - (if is_SharedSize i = -1 then 0 else is_SharedSize i)) + \<Sum>(is_SharedSize ` set images - {-1})"

lemma foldl_add_keys: "foldl (\<lambda>t (k, _). t + word_of_int k) t m = t + word_of_int (\<Sum>x\<leftarrow>m. fst x)" for m :: "(int \<times> unit) list"
  by (induction m arbitrary: t) (auto simp: algebra_simps)

lemma sum_list_distinct: "distinct (map fst m) \<Longrightarrow> (\<Sum>x\<leftarrow>m. fst x) = \<Sum>(fst ` set m)" for m :: "(int \<times> unit) list"
  by (induction m) auto

lemma imageSizeStep_fold:
  "distinct (map fst m) \<Longrightarrow> \<exists>m'. foldl imageSizeStep (t, m) images =
      (t + word_of_int (\<Sum>i\<leftarrow>images. is_Size i - (if is_SharedSize i = -1 then 0 else is_SharedSize i)), m') \<and>
      distinct (map fst m') \<and> fst ` set m' = fst ` set m \<union> (is_SharedSize ` set images - {-1})"
proof (induction images arbitrary: t m)
  case (Cons i images)
  show ?case
  proof (cases "is_SharedSize i = -1")
    case True
    from Cons.IH [OF Cons.prems, of "t + word_of_int (is_Size i)"] show ?thesis
      using True by (auto simp: imageSizeStep_def algebra_simps)
  next
    case False
    have d: "distinct (map fst (mapSet m (is_SharedSize i) ()))" using Cons.prems by (rule distinct_update)
    have "fst ` set (mapSet m (is_SharedSize i) ()) = insert (is_SharedSize i) (fst ` set m)"
      by (auto simp: dom_map_of_conv_image_fst [symmetric] dom_def split: if_splits)
    with Cons.IH [OF d, of "t + (word_of_int (is_Size i) - word_of_int (is_SharedSize i))"] show ?thesis
      using False by (auto simp: imageSizeStep_def algebra_simps)
  qed
qed simp

lemma sumImageSizes_spec: "sumImageSizes images = word_of_int (imageSizesSpec images)"
proof -
  obtain m where "foldl imageSizeStep (0, []) images =
      (word_of_int (\<Sum>i\<leftarrow>images. is_Size i - (if is_SharedSize i = -1 then 0 else is_SharedSize i)), m)"
    "distinct (map fst m)" "fst ` set m = is_SharedSize ` set images - {-1}"
    using imageSizeStep_fold [of "[]" 0 images] by auto
  then show ?thesis
    by (simp add: sumImageSizes_def imageSizesSpec_def foldl_add_keys sum_list_distinct)
qed

lemma imageSizesSpec_order:
  assumes "mset xs = mset ys"
  shows "imageSizesSpec xs = imageSizesSpec ys"
proof -
  let ?g = "\<lambda>i. is_Size i - (if is_SharedSize i = -1 then 0 else is_SharedSize i)"
  have "sum_mset (image_mset ?g (mset xs)) = sum_mset (image_mset ?g (mset ys))" by (simp only: assms)
  then have "sum_list (map ?g xs) = sum_list (map ?g ys)" by (simp only: mset_map [symmetric] sum_mset_sum_list)
  then show ?thesis unfolding imageSizesSpec_def by (simp only: mset_eq_setD [OF assms])
qed

subsection \<open>Properties\<close>

text \<open>C40. The bytes reported as used by images do not depend on the order in which the daemon lists them or in
  which the shared sizes are visited. Up to wrap-around at 64 bits they are the sizes of all images less
  what each shares, plus each distinct shared size once.\<close>

theorem imageFsInfo_used_bytes:
  assumes "fst (dk_ListImages (svc_client ds) \<lparr>ilo_All = True, ilo_SharedSize = True, ilo_Filters = []\<rparr> (ss_env (st_svc st))) = Inr images"
    and "statfs (svc_dockerRootDir ds) = Inr stat" and "mset listing = mset images"
  shows "\<exists>r u. fst (imageFsInfo ds statfs st) = Inr r \<and> ifr_ImageFilesystems r = [u] \<and>
     uint (fu_UsedBytes u) = imageSizesSpec listing mod 2 ^ 64 \<and> fu_UsedBytes u = sumImageSizes listing"
proof -
  have "imageSizesSpec listing = imageSizesSpec images" by (rule imageSizesSpec_order [OF assms(3)])
  then have "sumImageSizes listing = sumImageSizes images" by (simp only: sumImageSizes_spec)
  then show ?thesis using assms(1,2) \<open>imageSizesSpec listing = imageSizesSpec images\<close>
    by (auto simp: imageFsInfo_def onSvc_def onEnv_def sumImageSizes_spec uint_word_of_int Let_def split: prod.splits)
qed

definition exampleImage :: "int \<Rightarrow> int \<Rightarrow> ImageSummary" where
  "exampleImage sz sh = \<lparr>is_ID = [], is_RepoTags = [], is_RepoDigests = [], is_Size = sz, is_SharedSize = sh\<rparr>"

definition exampleStat :: statfs_t where
  "exampleStat = \<lparr>sf_Blocks = 8, sf_Bfree = 2, sf_Bsize = 4096, sf_Files = 9, sf_Ffree = 4\<rparr>"

theorem imageFsInfo_used_bytes_witness:
  "\<exists>r u. fst (imageFsInfo exampleService (\<lambda>d. Inr exampleStat) (newContainerStatsCache
       (exampleState\<lparr>ss_env := InjectImages [exampleImage 10 4, exampleImage 7 4, exampleImage 5 (-1)] exampleDaemon\<rparr>))) = Inr r \<and>
     ifr_ImageFilesystems r = [u] \<and> uint (fu_UsedBytes u) = 18"
proof -
  let ?is = "[exampleImage 10 4, exampleImage 7 4, exampleImage 5 (-1)]"
  let ?js = "[exampleImage 5 (-1), exampleImage 7 4, exampleImage 10 4]"
  let ?st = "newContainerStatsCache (exampleState\<lparr>ss_env := InjectImages ?is exampleDaemon\<rparr>)"
  have l: "fst (dk_ListImages (svc_client exampleService) \<lparr>ilo_All = True, ilo_SharedSize = True, ilo_Filters = []\<rparr> (ss_env (st_svc ?st))) = Inr ?is"
    by (simp add: example_run newContainerStatsCache_def InjectImages_def Fake_ListImages_def)
  have "imageSizesSpec ?js = 18" by (simp add: imageSizesSpec_def exampleImage_def)
  with imageFsInfo_used_bytes [where statfs = "\<lambda>d. Inr exampleStat" and stat = exampleStat and listing = ?js, OF l]
  show ?thesis by auto
qed

end
