(* ===== verification/Exec_Runtime.thy ===== *)
theory Exec_Runtime
  imports Docker_Service
begin

text \<open>
  Running commands in containers: \<^verbatim>\<open>core/exec.go\<close>, \<^verbatim>\<open>core/container_exec.go\<close>, and the runtime behind the streaming
  server (\<^verbatim>\<open>streaming/streaming.go\<close>, \<^verbatim>\<open>streaming/streaming_others.go\<close>).

  The loop of \<^verbatim>\<open>ExecInContainer\<close> has no bound of its own, so it is a partial function, and \<open>None\<close> is a call that
  never returns. \<^verbatim>\<open>StartExec\<close> blocks until the command ends, which it may never do; it runs in a goroutine that races
  with the context, and the race is an argument: when the command ends, when the context of the
  caller ends and with which error, which of two events at the same time is taken, and
  what the goroutines have done when the context ends first. Times are nanoseconds from the start of the command. The
  other calls of the client have a deadline and return. Terminal sizes that arrive while the command runs are the list
  \<open>resize\<close>. A variable that a writer fills is a location in the state, given by its read and write functions.
\<close>

subsection \<open>Streams\<close>

record 'e buffer_ptr =
  buf_load :: "'e \<Rightarrow> string \<times> int"
  buf_store :: "string \<times> int \<Rightarrow> 'e \<Rightarrow> 'e"

text \<open>A limited writer on a byte buffer in that location, behind the wrapper that adds \<^verbatim>\<open>Close\<close>.\<close>

definition limitedBuffer :: "'e buffer_ptr \<Rightarrow> 'e writer" where
  "limitedBuffer b p e =
     (case writeCloserWrapper_Write (LimitedWriter_Write Buffer_Write) p (buf_load b e) of (r, v) \<Rightarrow> (r, buf_store b v e))"

fun resizeLoop :: "(nat \<times> nat) list \<Rightarrow> (nat \<times> nat \<Rightarrow> 'e \<Rightarrow> 'e) \<Rightarrow> 'e \<Rightarrow> 'e" where
  "resizeLoop [] resizeFunc e = e"
| "resizeLoop ((height, width) # sizes) resizeFunc e =
     (if height < 1 \<or> width < 1 then resizeLoop sizes resizeFunc e
      else resizeLoop sizes resizeFunc (resizeFunc (height, width) e))"

definition handleResizing :: "(nat \<times> nat) list option \<Rightarrow> (nat \<times> nat \<Rightarrow> 'e \<Rightarrow> 'e) \<Rightarrow> 'e \<Rightarrow> 'e" where
  "handleResizing resize resizeFunc e =
     (case resize of None \<Rightarrow> e | Some sizes \<Rightarrow> resizeLoop sizes resizeFunc e)"

subsection \<open>Exec\<close>

definition maxRetries :: nat where "maxRetries = 5"

partial_function (option) inspectExecLoop :: "'e docker_client \<Rightarrow> string \<Rightarrow> nat \<Rightarrow> 'e \<Rightarrow> (goerror option \<times> 'e) option" where
  [code]: "inspectExecLoop client i retries e =
     (case dk_InspectExec client i e of
        (Inl err, e) \<Rightarrow> Some (Some err, e)
      | (Inr inspect, e) \<Rightarrow>
          if \<not> ei_Running inspect then
            Some (if ei_ExitCode inspect \<noteq> 0 then Some (DockerExitError (ei_ExitCode inspect)) else None, e)
          else if Suc retries = maxRetries then Some (None, e)
          else inspectExecLoop client i (Suc retries) e)"

record 'e exec_race =
  race_execEnd :: "string \<Rightarrow> 'e \<Rightarrow> nat option"
  race_ctxEnd :: "(nat \<times> goerror) option"
  race_ctxFirst :: bool
  race_until :: "string \<Rightarrow> 'e \<Rightarrow> 'e"

text \<open>The context under which the command runs: \<^verbatim>\<open>context.WithTimeout\<close> ends with its parent or at the deadline.\<close>

definition execContext :: "int \<Rightarrow> (nat \<times> goerror) option \<Rightarrow> (nat \<times> goerror) option" where
  "execContext timeout ctxEnd =
     (if timeout > 0 then
        (case ctxEnd of
           Some (t, err) \<Rightarrow> if int t < timeout then Some (t, err) else Some (nat timeout, Sentinel DeadlineExceeded)
         | None \<Rightarrow> Some (nat timeout, Sentinel DeadlineExceeded))
      else ctxEnd)"

text \<open>The \<^verbatim>\<open>select\<close>: \<open>None\<close> when neither event ever comes, \<open>Some (Some err)\<close> when the context ends first.\<close>

definition execSelect :: "bool \<Rightarrow> nat option \<Rightarrow> (nat \<times> goerror) option \<Rightarrow> goerror option option" where
  "execSelect ctxFirst execEnd ctxEnd =
     (case (execEnd, ctxEnd) of
        (None, None) \<Rightarrow> None
      | (Some _, None) \<Rightarrow> Some None
      | (None, Some (_, err)) \<Rightarrow> Some (Some err)
      | (Some t, Some (u, err)) \<Rightarrow> Some (if u < t \<or> (u = t \<and> ctxFirst) then Some err else None))"

definition ExecInContainer ::
    "'e exec_race \<Rightarrow> 'e docker_client \<Rightarrow> ContainerJSON \<Rightarrow> string list \<Rightarrow> bool \<Rightarrow> 'e writer option \<Rightarrow> 'e writer option \<Rightarrow>
      bool \<Rightarrow> (nat \<times> nat) list option \<Rightarrow> int \<Rightarrow> 'e \<Rightarrow> (goerror option \<times> 'e) option" where
  "ExecInContainer race client container cmd stdin stdout stderr tty resize timeout e =
     (case dk_CreateExec client (cj_ID container)
             \<lparr>eo_Cmd = cmd, eo_AttachStdin = stdin, eo_AttachStdout = (stdout \<noteq> None), eo_AttachStderr = (stderr \<noteq> None), eo_Tty = tty\<rparr> e of
        (Inl err, e) \<Rightarrow> Some (Some (Errorf (''failed to exec in container - Exec setup failed - '' @ Error err)), e)
      | (Inr execID, e) \<Rightarrow>
          (case execSelect (race_ctxFirst race) (race_execEnd race execID e) (execContext timeout (race_ctxEnd race)) of
             None \<Rightarrow> None
           | Some (Some err) \<Rightarrow> Some (Some err, race_until race execID e)
           | Some None \<Rightarrow>
               (case dk_StartExec client execID False tty
                       \<lparr>so_RawTerminal = tty, so_InputStream = stdin, so_OutputStream = stdout, so_ErrorStream = stderr\<rparr> e of
                  (execErr, e) \<Rightarrow>
                    (let e = handleResizing resize (\<lambda>(h, w) e. snd (dk_ResizeExecTTY client execID h w e)) e in
                     case execErr of
                       Some err \<Rightarrow> Some (Some err, e)
                     | None \<Rightarrow> inspectExecLoop client execID 0 e))))"

definition ExecWithContext ::
    "'e exec_race \<Rightarrow> 'e docker_client \<Rightarrow> string \<Rightarrow> string list \<Rightarrow> bool \<Rightarrow> 'e writer option \<Rightarrow> 'e writer option \<Rightarrow>
      bool \<Rightarrow> (nat \<times> nat) list option \<Rightarrow> int \<Rightarrow> 'e \<Rightarrow> (goerror option \<times> 'e) option" where
  "ExecWithContext race client containerID cmd stdin out errw tty resize timeout e =
     (case CheckContainerStatus client containerID e of
        (Inl err, e) \<Rightarrow> Some (Some err, e)
      | (Inr container, e) \<Rightarrow> ExecInContainer race client container cmd stdin out errw tty resize timeout e)"

text \<open>\<^verbatim>\<open>Exec\<close> replaces the context of its caller by the empty one, which never ends.\<close>

definition StreamingRuntime_Exec ::
    "'e exec_race \<Rightarrow> 'e docker_client \<Rightarrow> string \<Rightarrow> string list \<Rightarrow> bool \<Rightarrow> 'e writer option \<Rightarrow> 'e writer option \<Rightarrow>
      bool \<Rightarrow> (nat \<times> nat) list option \<Rightarrow> 'e \<Rightarrow> (goerror option \<times> 'e) option" where
  "StreamingRuntime_Exec race client containerID cmd stdin out errw tty resize e =
     ExecWithContext (race\<lparr>race_ctxEnd := None\<rparr>) client containerID cmd stdin out errw tty resize 0 e"

subsection \<open>ExecSync\<close>

definition maxMsgSize :: int where "maxMsgSize = 1024 * 1024 * 16"

definition int32 :: "int \<Rightarrow> int" where "int32 i = sint (word_of_int i :: 32 word)"

record ExecSyncResponse =
  esr_Stdout :: string
  esr_Stderr :: string
  esr_ExitCode :: int

text \<open>The status code of an expired deadline.\<close>

definition codesDeadlineExceeded :: nat where "codesDeadlineExceeded = 4"

definition execSyncResult :: "'e buffer_ptr \<Rightarrow> 'e buffer_ptr \<Rightarrow> goerror option \<times> 'e \<Rightarrow> ExecSyncResponse result \<times> 'e" where
  "execSyncResult stdoutBuffer stderrBuffer r =
     (case r of (err, e) \<Rightarrow>
      (let response = (\<lambda>exitCode. Inr \<lparr>esr_Stdout = fst (buf_load stdoutBuffer e), esr_Stderr = fst (buf_load stderrBuffer e),
             esr_ExitCode = exitCode\<rparr>)
       in case err of
            None \<Rightarrow> (response 0, e)
          | Some err \<Rightarrow>
              if errors_Is err DeadlineExceeded then (Inl (StatusError codesDeadlineExceeded (Error err)), e)
              else (case err of
                      DockerExitError code \<Rightarrow> (response (int32 code), e)
                    | _ \<Rightarrow> (Inl err, e))))"

definition ExecSync ::
    "'e exec_race \<Rightarrow> 'e docker_client \<Rightarrow> 'e buffer_ptr \<Rightarrow> 'e buffer_ptr \<Rightarrow> string \<Rightarrow> string list \<Rightarrow> int \<Rightarrow> 'e
      \<Rightarrow> (ExecSyncResponse result \<times> 'e) option" where
  "ExecSync race client stdoutBuffer stderrBuffer containerID cmd timeoutSeconds e =
     (let timeout = wrap64 (timeoutSeconds * timeSecond);
          e = buf_store stdoutBuffer (LimitWriter [] maxMsgSize) e;
          e = buf_store stderrBuffer (LimitWriter [] maxMsgSize) e
      in case ExecWithContext race client containerID cmd False (Some (limitedBuffer stdoutBuffer)) (Some (limitedBuffer stderrBuffer))
                False None timeout e of
           None \<Rightarrow> None
         | Some r \<Rightarrow> Some (execSyncResult stdoutBuffer stderrBuffer r))"

subsection \<open>Attach and port forwarding\<close>

definition attachContainer ::
    "'e docker_client \<Rightarrow> string \<Rightarrow> bool \<Rightarrow> 'e writer option \<Rightarrow> 'e writer option \<Rightarrow> bool \<Rightarrow> (nat \<times> nat) list option \<Rightarrow> 'e
      \<Rightarrow> goerror option \<times> 'e" where
  "attachContainer client containerID stdin stdout stderr tty resize e =
     (let e = handleResizing resize (\<lambda>(h, w) e. snd (dk_ResizeContainerTTY client containerID h w e)) e in
      dk_AttachToContainer client containerID stdin
        \<lparr>so_RawTerminal = tty, so_InputStream = stdin, so_OutputStream = stdout, so_ErrorStream = stderr\<rparr> e)"

definition StreamingRuntime_Attach ::
    "'e docker_client \<Rightarrow> string \<Rightarrow> bool \<Rightarrow> 'e writer option \<Rightarrow> 'e writer option \<Rightarrow> bool \<Rightarrow> (nat \<times> nat) list option \<Rightarrow> 'e
      \<Rightarrow> goerror option \<times> 'e" where
  "StreamingRuntime_Attach client containerID stdin out errw tty resize e =
     (case CheckContainerStatus client containerID e of
        (Inl err, e) \<Rightarrow> (Some err, e)
      | (Inr _, e) \<Rightarrow> attachContainer client containerID stdin out errw tty resize e)"

text \<open>
  Port forwarding runs \<^verbatim>\<open>socat\<close> inside the network namespace of the sandbox. \<open>lookPath\<close> and \<open>run\<close> are what the host
  offers: the search for an executable, and a command with its standard error as a second result.
\<close>

record 'e command_iface =
  cmd_LookPath :: "string \<Rightarrow> string result"
  cmd_StdinPipe :: "string list \<Rightarrow> goerror option"
  cmd_Run :: "string list \<Rightarrow> 'e \<Rightarrow> (goerror option \<times> string) \<times> 'e"

definition portForward :: "'e docker_client \<Rightarrow> 'e command_iface \<Rightarrow> string \<Rightarrow> int \<Rightarrow> 'e \<Rightarrow> goerror option \<times> 'e" where
  "portForward client host podSandboxID port e =
     (case dk_InspectContainer client podSandboxID e of
        (Inl err, e) \<Rightarrow> (Some err, e)
      | (Inr container, e) \<Rightarrow>
          if \<not> ds_Running (cj_State container) then (Some (Errorf (''container not running ('' @ cj_ID container @ '')'')), e)
          else (case cmd_LookPath host ''socat'' of
             Inl _ \<Rightarrow> (Some (Errorf ''unable to do port forwarding: socat not found''), e)
           | Inr socatPath \<Rightarrow>
               (case cmd_LookPath host ''nsenter'' of
                  Inl _ \<Rightarrow> (Some (Errorf ''unable to do port forwarding: nsenter not found''), e)
                | Inr nsenterPath \<Rightarrow>
                    (let command = [nsenterPath, ''-t'', fmt_int (ds_Pid (cj_State container)), ''-n'', socatPath, ''-'',
                                    ''TCP4:localhost:'' @ fmt_int port]
                     in case cmd_StdinPipe host command of
                          Some err \<Rightarrow> (Some (Errorf (''unable to do port forwarding: error creating stdin pipe: '' @ Error err)), e)
                        | None \<Rightarrow>
                            (case cmd_Run host command e of
                               ((Some err, stderr), e) \<Rightarrow> (Some (Errorf (Error err @ '': '' @ stderr)), e)
                             | ((None, _), e) \<Rightarrow> (None, e))))))"

definition StreamingRuntime_PortForward ::
    "'e docker_client \<Rightarrow> 'e command_iface \<Rightarrow> string \<Rightarrow> int \<Rightarrow> 'e \<Rightarrow> goerror option \<times> 'e" where
  "StreamingRuntime_PortForward client host podSandboxID port e =
     (if port < 0 \<or> port > 65535 then (Some (Errorf (''invalid port '' @ fmt_int port)), e)
      else portForward client host podSandboxID port e)"

subsection \<open>The polling loop\<close>

text \<open>
  The answers of \<open>n\<close> inspections in a row, each with the state after it; an answer that ends the loop; and
  what the loop makes of it.
\<close>

fun pollTrace :: "'e docker_client \<Rightarrow> string \<Rightarrow> nat \<Rightarrow> 'e \<Rightarrow> (ExecInspect result \<times> 'e) list" where
  "pollTrace client i 0 e = []"
| "pollTrace client i (Suc n) e = (let a = dk_InspectExec client i e in a # pollTrace client i n (snd a))"

definition decisive :: "ExecInspect result \<times> 'e \<Rightarrow> bool" where
  "decisive a = (case fst a of Inl _ \<Rightarrow> True | Inr inspect \<Rightarrow> \<not> ei_Running inspect)"

definition verdict :: "ExecInspect result \<Rightarrow> goerror option" where
  "verdict a = (case a of Inl err \<Rightarrow> Some err
     | Inr inspect \<Rightarrow> if ei_ExitCode inspect \<noteq> 0 then Some (DockerExitError (ei_ExitCode inspect)) else None)"

definition pollResult :: "(ExecInspect result \<times> 'e) list \<Rightarrow> goerror option \<times> 'e" where
  "pollResult tr = (case find decisive tr of Some (r, e) \<Rightarrow> (verdict r, e) | None \<Rightarrow> (None, snd (last tr)))"

lemma inspectExecLoop_polls:
  "0 < n \<Longrightarrow> retries + n = maxRetries \<Longrightarrow> inspectExecLoop client i retries e = Some (pollResult (pollTrace client i n e))"
proof (induction n arbitrary: retries e)
  case (Suc n)
  obtain a e' where a: "dk_InspectExec client i e = (a, e')" by (metis prod.exhaust)
  show ?case
  proof (cases "decisive (a, e')")
    case True
    then show ?thesis
      by (cases a) (auto simp: inspectExecLoop.simps [of client i retries] a pollResult_def decisive_def verdict_def)
  next
    case False
    then obtain inspect where i: "a = Inr inspect" "ei_Running inspect" by (auto simp: decisive_def split: sum.splits)
    show ?thesis
    proof (cases "n = 0")
      case True
      then show ?thesis using Suc.prems False by (simp add: inspectExecLoop.simps [of client i retries] a i pollResult_def)
    next
      case n: False
      then have "inspectExecLoop client i (Suc retries) e' = Some (pollResult (pollTrace client i n e'))" using Suc by simp
      moreover have "pollTrace client i n e' \<noteq> []" using n by (cases n) (simp_all add: Let_def)
      ultimately show ?thesis using Suc.prems False n
        by (simp add: inspectExecLoop.simps [of client i retries] a i pollResult_def split: option.splits)
    qed
  qed
qed simp

subsection \<open>Properties\<close>

text \<open>The part of \<^verbatim>\<open>ExecSync\<close> before the command runs: the container is checked and the exec is created.\<close>

definition execCreated :: "'e docker_client \<Rightarrow> 'e buffer_ptr \<Rightarrow> 'e buffer_ptr \<Rightarrow> string \<Rightarrow> string list \<Rightarrow> 'e \<Rightarrow> (goerror \<times> 'e) + (string \<times> 'e)" where
  "execCreated client so se containerID cmd e =
     (case CheckContainerStatus client containerID (buf_store se ([], maxMsgSize) (buf_store so ([], maxMsgSize) e)) of
        (Inl err, e) \<Rightarrow> Inl (err, e)
      | (Inr container, e) \<Rightarrow>
          (case dk_CreateExec client (cj_ID container)
                  \<lparr>eo_Cmd = cmd, eo_AttachStdin = False, eo_AttachStdout = True, eo_AttachStderr = True, eo_Tty = False\<rparr> e of
             (Inl err, e) \<Rightarrow> Inl (Errorf (''failed to exec in container - Exec setup failed - '' @ Error err), e)
           | (Inr execID, e) \<Rightarrow> Inr (execID, e)))"

definition execStreams :: "'e buffer_ptr \<Rightarrow> 'e buffer_ptr \<Rightarrow> 'e StreamOptions" where
  "execStreams so se = \<lparr>so_RawTerminal = False, so_InputStream = False,
     so_OutputStream = Some (limitedBuffer so), so_ErrorStream = Some (limitedBuffer se)\<rparr>"

lemma inspectExecLoop_five: "inspectExecLoop client i 0 e = Some (pollResult (pollTrace client i 5 e))"
  by (rule inspectExecLoop_polls) (simp_all add: maxRetries_def)

lemma ExecSync_failed:
  "execCreated client so se containerID cmd e = Inl (err, e1) \<Longrightarrow>
   ExecSync race client so se containerID cmd timeout e = Some (execSyncResult so se (Some err, e1))"
  by (auto simp: execCreated_def ExecSync_def ExecWithContext_def ExecInContainer_def LimitWriter_def split: prod.splits sum.splits)

lemma ExecSync_created:
  "execCreated client so se containerID cmd e = Inr (execID, e1) \<Longrightarrow>
   ExecSync race client so se containerID cmd timeout e =
     map_option (execSyncResult so se)
       (case execSelect (race_ctxFirst race) (race_execEnd race execID e1) (execContext (wrap64 (timeout * timeSecond)) (race_ctxEnd race)) of
          None \<Rightarrow> None
        | Some (Some err) \<Rightarrow> Some (Some err, race_until race execID e1)
        | Some None \<Rightarrow> (case dk_StartExec client execID False False (execStreams so se) e1 of
            (Some err, e2) \<Rightarrow> Some (Some err, e2)
          | (None, e2) \<Rightarrow> Some (pollResult (pollTrace client execID 5 e2))))"
  by (auto simp: execCreated_def execStreams_def ExecSync_def ExecWithContext_def ExecInContainer_def LimitWriter_def inspectExecLoop_five
      handleResizing_def split: prod.splits sum.splits option.splits)

lemma execSelect_None: "execSelect b x y = None \<longleftrightarrow> x = None \<and> y = None"
  by (auto simp: execSelect_def split: option.splits prod.splits)

lemma execContext_None: "execContext timeout ctxEnd = None \<longleftrightarrow> ctxEnd = None \<and> timeout \<le> 0"
  by (auto simp: execContext_def split: option.splits)

lemma wrap64_small: "0 \<le> i \<Longrightarrow> i < 2 ^ 63 \<Longrightarrow> wrap64 i = i"
  by (simp add: wrap64_def int_word_sint)

text \<open>C21. When a synchronous exec returns, and with what. If the container cannot be inspected, does not run, or the
  exec cannot be created, \<^verbatim>\<open>ExecSync\<close> returns that error. Once the exec is created, it fails to return exactly when the command never ends,
  the context of the caller never ends and the request has no positive timeout: a timeout of 0 waits for ever.
  A command that does not end before a positive timeout (of a number of nanoseconds that fits 64 bits) gives the status code of an expired deadline, if the
  context of the caller does not end first; if that ends before the command and the timeout, its error is the answer.
  A command that ends before the context and the timeout, if there are any, gives what the polling makes of at most five inspections: the first error or
  finished process decides, and after five answers that the process runs the exec is a success.\<close>

theorem ExecSync_returns:
  "case execCreated client so se containerID cmd e of
     Inl (err, e1) \<Rightarrow> ExecSync race client so se containerID cmd timeout e = Some (execSyncResult so se (Some err, e1))
   | Inr (execID, e1) \<Rightarrow>
       (ExecSync race client so se containerID cmd timeout e = None \<longleftrightarrow>
          race_execEnd race execID e1 = None \<and> race_ctxEnd race = None \<and> wrap64 (timeout * timeSecond) \<le> 0) \<and>
       (0 < timeout \<and> timeout * timeSecond < 2 ^ 63 \<and> (\<forall>u err. race_ctxEnd race = Some (u, err) \<longrightarrow> timeout * timeSecond \<le> int u) \<and>
          (\<forall>t. race_execEnd race execID e1 = Some t \<longrightarrow> timeout * timeSecond < int t) \<longrightarrow>
          ExecSync race client so se containerID cmd timeout e =
            Some (Inl (StatusError codesDeadlineExceeded (Error (Sentinel DeadlineExceeded))), race_until race execID e1)) \<and>
       (\<forall>u err. race_ctxEnd race = Some (u, err) \<and> (timeout = 0 \<or> int u < timeout * timeSecond \<and> timeout * timeSecond < 2 ^ 63) \<and>
          (\<forall>t. race_execEnd race execID e1 = Some t \<longrightarrow> u < t) \<longrightarrow>
          ExecSync race client so se containerID cmd timeout e = Some (execSyncResult so se (Some err, race_until race execID e1))) \<and>
       (\<forall>t e2. race_execEnd race execID e1 = Some t \<and> (\<forall>u err. race_ctxEnd race = Some (u, err) \<longrightarrow> t < u) \<and>
          (timeout = 0 \<or> int t < timeout * timeSecond \<and> timeout * timeSecond < 2 ^ 63) \<and>
          dk_StartExec client execID False False (execStreams so se) e1 = (None, e2) \<longrightarrow>
          ExecSync race client so se containerID cmd timeout e =
            Some (execSyncResult so se (pollResult (pollTrace client execID 5 e2))))"
proof (cases "execCreated client so se containerID cmd e")
  case (Inl a)
  then show ?thesis by (cases a) (simp add: ExecSync_failed)
next
  case (Inr a)
  obtain execID e1 where a: "a = (execID, e1)" by (cases a)
  note c = ExecSync_created [OF Inr [unfolded a], of race timeout]
  let ?x = "race_execEnd race execID e1" and ?T = "timeout * timeSecond"
  have "execSelect (race_ctxFirst race) ?x (execContext (wrap64 ?T) (race_ctxEnd race)) = None \<longleftrightarrow> ?x = None \<and> race_ctxEnd race = None \<and> wrap64 ?T \<le> 0"
    by (simp add: execSelect_None execContext_None)
  moreover have "ExecSync race client so se containerID cmd timeout e = None \<longleftrightarrow>
      execSelect (race_ctxFirst race) ?x (execContext (wrap64 ?T) (race_ctxEnd race)) = None"
    unfolding c by (auto split: option.splits prod.splits)
  ultimately have 1: "ExecSync race client so se containerID cmd timeout e = None \<longleftrightarrow> ?x = None \<and> race_ctxEnd race = None \<and> wrap64 ?T \<le> 0"
    by (rule trans [rotated])
  have 2: "ExecSync race client so se containerID cmd timeout e =
      Some (Inl (StatusError codesDeadlineExceeded (Error (Sentinel DeadlineExceeded))), race_until race execID e1)"
    if h: "0 < timeout" "?T < 2 ^ 63" "\<forall>u err. race_ctxEnd race = Some (u, err) \<longrightarrow> ?T \<le> int u" "\<forall>t. ?x = Some t \<longrightarrow> ?T < int t"
  proof -
    have "0 < ?T" using h(1) by (simp add: timeSecond_def)
    then have "execContext (wrap64 ?T) (race_ctxEnd race) = Some (nat ?T, Sentinel DeadlineExceeded)"
      using h(2,3) by (auto simp: wrap64_small execContext_def split: option.splits)
    moreover have "execSelect (race_ctxFirst race) ?x (Some (nat ?T, Sentinel DeadlineExceeded)) = Some (Some (Sentinel DeadlineExceeded))"
      using h(4) \<open>0 < ?T\<close> by (auto simp: execSelect_def nat_less_iff split: option.splits)
    ultimately show ?thesis by (simp add: c execSyncResult_def)
  qed
  have small: "wrap64 ?T = ?T" if "timeout = 0 \<or> int t < ?T \<and> ?T < 2 ^ 63" for t
    using that by (auto intro: wrap64_small)
  have 3: "ExecSync race client so se containerID cmd timeout e = Some (execSyncResult so se (Some err, race_until race execID e1))"
    if h: "race_ctxEnd race = Some (u, err)" "timeout = 0 \<or> int u < ?T \<and> ?T < 2 ^ 63" "\<forall>t. ?x = Some t \<longrightarrow> u < t" for u err
  proof -
    have "execContext ?T (race_ctxEnd race) = Some (u, err)" using h(1,2) by (auto simp: execContext_def)
    then have "execSelect (race_ctxFirst race) ?x (execContext (wrap64 ?T) (race_ctxEnd race)) = Some (Some err)"
      using h(3) small [OF h(2)] by (auto simp: execSelect_def split: option.splits)
    then show ?thesis by (simp add: c)
  qed
  have 4: "ExecSync race client so se containerID cmd timeout e = Some (execSyncResult so se (pollResult (pollTrace client execID 5 e2)))"
    if h: "?x = Some t" "\<forall>u err. race_ctxEnd race = Some (u, err) \<longrightarrow> t < u" "timeout = 0 \<or> int t < ?T \<and> ?T < 2 ^ 63"
      "dk_StartExec client execID False False (execStreams so se) e1 = (None, e2)" for t e2
  proof -
    have "case execContext ?T (race_ctxEnd race) of None \<Rightarrow> True | Some (u, err) \<Rightarrow> t < u"
      using h(2,3) by (auto simp: execContext_def split: option.splits)
    then have "execSelect (race_ctxFirst race) ?x (execContext (wrap64 ?T) (race_ctxEnd race)) = Some None"
      using h(1) small [OF h(3)] by (auto simp: execSelect_def split: option.splits)
    then show ?thesis by (simp add: c h(4))
  qed
  show ?thesis using 1 2 3 4 by (simp only: Inr a sum.case prod.case) blast
qed

text \<open>The repository's fake daemon with one running container. Its exec writes nothing, so the buffers are never filled.\<close>

definition emptyBuffer :: "fake_docker buffer_ptr" where
  "emptyBuffer = \<lparr>buf_load = (\<lambda>e. ([], maxMsgSize)), buf_store = (\<lambda>v e. e)\<rparr>"

definition execDaemon :: fake_docker where
  "execDaemon = exampleDaemon\<lparr>fk_ContainerMap := [(''c1'', convertFakeContainer (zeroFakeContainer\<lparr>fc_ID := ''c1'', fc_Running := True\<rparr>))]\<rparr>"

definition execRace :: "nat option \<Rightarrow> fake_docker exec_race" where
  "execRace t = \<lparr>race_execEnd = (\<lambda>_ _. t), race_ctxEnd = None, race_ctxFirst = False, race_until = (\<lambda>_ e. e)\<rparr>"

lemma execCreated_example:
  "execCreated fakeClient emptyBuffer emptyBuffer ''c1'' [''ls''] execDaemon =
     Inr (''12345678'', appendCalled ''create_exec'' [] ((appendCalled ''inspect_container'' [] execDaemon)\<lparr>fk_execCmd := [''ls'']\<rparr>))"
  by (simp add: execCreated_def emptyBuffer_def CheckContainerStatus_def fakeClient_def Fake_InspectContainer_def popError_def appendCalled_def
      execDaemon_def exampleDaemon_def NewFakeDockerClient_def convertFakeContainer_def zeroFakeContainer_def Fake_CreateExec_def)

lemma execStart_example:
  "dk_StartExec fakeClient i False False sopts f = (None, appendCalled ''start_exec'' [] f)"
  by (simp add: fakeClient_def Fake_StartExec_def)

theorem ExecSync_returns_witness:
  "ExecSync (execRace None) fakeClient emptyBuffer emptyBuffer ''c1'' [''ls''] 0 execDaemon = None \<and>
   map_option fst (ExecSync (execRace None) fakeClient emptyBuffer emptyBuffer ''c1'' [''ls''] 5 execDaemon) =
     Some (Inl (StatusError 4 ''context deadline exceeded'')) \<and>
   map_option fst (ExecSync (execRace (Some 7)) fakeClient emptyBuffer emptyBuffer ''c1'' [''ls''] 5 execDaemon) =
     Some (Inr \<lparr>esr_Stdout = [], esr_Stderr = [], esr_ExitCode = 0\<rparr>)"
proof (intro conjI)
  note r = ExecSync_returns [where client = fakeClient and so = emptyBuffer and se = emptyBuffer and containerID = "''c1''" and cmd = "[''ls'']" and e = execDaemon,
    unfolded execCreated_example sum.case prod.case]
  show "ExecSync (execRace None) fakeClient emptyBuffer emptyBuffer ''c1'' [''ls''] 0 execDaemon = None"
    using r [where race = "execRace None" and timeout = 0] by (simp add: execRace_def wrap64_def)
  show "map_option fst (ExecSync (execRace None) fakeClient emptyBuffer emptyBuffer ''c1'' [''ls''] 5 execDaemon) =
     Some (Inl (StatusError 4 ''context deadline exceeded''))"
    using r [where race = "execRace None" and timeout = 5] by (simp add: execRace_def timeSecond_def codesDeadlineExceeded_def)
  show "map_option fst (ExecSync (execRace (Some 7)) fakeClient emptyBuffer emptyBuffer ''c1'' [''ls''] 5 execDaemon) =
     Some (Inr \<lparr>esr_Stdout = [], esr_Stderr = [], esr_ExitCode = 0\<rparr>)"
    using r [where race = "execRace (Some 7)" and timeout = 5]
    by (simp add: execRace_def timeSecond_def execStart_example)
      (simp add: fakeClient_def Fake_InspectExec_def popError_def appendCalled_def execDaemon_def exampleDaemon_def NewFakeDockerClient_def
        pollResult_def decisive_def verdict_def execSyncResult_def emptyBuffer_def Let_def eval_nat_numeral)
qed

end
