(* ===== verification/Container_Logs.thy ===== *)
theory Container_Logs
  imports Docker_Service
begin

text \<open>
  Reading container logs from the daemon (\<^verbatim>\<open>core/logs.go\<close>). The limit that standard output and standard error share is
  a location in the state. The circular buffer is a third-party package: a function that makes a writer
  and a reader for a given size.
\<close>

definition ReopenContainerLog :: goerror where
  "ReopenContainerLog = Errorf ''docker does not support reopening container log files''"

record PodLogOptions =
  plo_SinceSeconds :: "int option"
  plo_SinceTime :: "int option"
  plo_Timestamps :: bool
  plo_Follow :: bool
  plo_TailLines :: "int option"
  plo_LimitBytes :: "int option"

text \<open>The start of the log: relative to the clock, or absolute, which wins.\<close>

definition sinceOf :: "('e \<Rightarrow> int \<times> 'e) \<Rightarrow> PodLogOptions \<Rightarrow> 'e \<Rightarrow> int \<times> 'e" where
  "sinceOf now logOptions e =
     (case (case plo_SinceSeconds logOptions of
              None \<Rightarrow> (0, e)
            | Some secs \<Rightarrow> (case now e of (t, e) \<Rightarrow> (Unix (t + wrap64 (wrap64 (- secs) * timeSecond)), e))) of
        (since, e) \<Rightarrow> (case plo_SinceTime logOptions of None \<Rightarrow> (since, e) | Some t \<Rightarrow> (Unix t, e)))"

definition GetContainerLogs ::
    "'e docker_service \<Rightarrow> 'e int_ptr \<Rightarrow> string \<Rightarrow> PodLogOptions \<Rightarrow> 'e writer option \<Rightarrow> 'e writer option \<Rightarrow> 'e \<Rightarrow> goerror option \<times> 'e" where
  "GetContainerLogs ds maxp containerID logOptions stdout stderr e =
     (case dk_InspectContainer (svc_client ds) containerID e of
        (Inl err, e) \<Rightarrow> (Some err, e)
      | (Inr container, e) \<Rightarrow>
          (case sinceOf (ex_now (svc_ext ds)) logOptions e of (since, e) \<Rightarrow>
             (let opts = \<lparr>lgo_ShowStdout = True, lgo_ShowStderr = True, lgo_Since = fmt_int since,
                          lgo_Timestamps = plo_Timestamps logOptions, lgo_Follow = plo_Follow logOptions,
                          lgo_Tail = (case plo_TailLines logOptions of None \<Rightarrow> [] | Some n \<Rightarrow> fmt_int n)\<rparr>;
                  (stdout, stderr, e) =
                    (case plo_LimitBytes logOptions of
                       None \<Rightarrow> (stdout, stderr, e)
                     | Some limit \<Rightarrow> (SharedLimitWriter stdout maxp, SharedLimitWriter stderr maxp, ptr_store maxp limit e));
                  sopts = \<lparr>so_RawTerminal = dc_Tty (cj_Config container), so_InputStream = False, so_OutputStream = stdout, so_ErrorStream = stderr\<rparr>
              in case dk_Logs (svc_client ds) containerID opts sopts e of
                   (None, e) \<Rightarrow> (None, e)
                 | (Some err, e) \<Rightarrow>
                     if errors_Is err ErrMaximumWrite
                     then (case plo_LimitBytes logOptions of None \<Rightarrow> (Some nilDereference, e) | Some _ \<Rightarrow> (None, e))
                     else (Some err, e))))"

definition MaxContainerTerminationMessageLogLength :: int where "MaxContainerTerminationMessageLogLength = 1024 * 2"

definition MaxContainerTerminationMessageLogLines :: int where "MaxContainerTerminationMessageLogLines = 80"

definition GetContainerLogTail ::
    "'e docker_service \<Rightarrow> (int \<Rightarrow> 'e writer \<times> ('e \<Rightarrow> string)) \<Rightarrow> 'e int_ptr \<Rightarrow> string \<Rightarrow> 'e \<Rightarrow> string result \<times> 'e" where
  "GetContainerLogTail ds newBuffer maxp containerID e =
     (let (buf, bufString) = newBuffer MaxContainerTerminationMessageLogLength;
          logOptions = \<lparr>plo_SinceSeconds = None, plo_SinceTime = None, plo_Timestamps = False, plo_Follow = False,
                        plo_TailLines = Some MaxContainerTerminationMessageLogLines, plo_LimitBytes = None\<rparr>
      in case GetContainerLogs ds maxp containerID logOptions (Some buf) (Some buf) e of
           (Some err, e) \<Rightarrow> (Inl err, e)
         | (None, e) \<Rightarrow> (Inr (bufString e), e))"

end
