(* ===== verification/Request_Cache.thy ===== *)
theory Request_Cache
  imports Go_Errors
begin

text \<open>
  The cache of streaming requests (\<^verbatim>\<open>streaming/request_cache.go\<close>). Elements of the linked list are indices into
  \<open>rc_elems\<close>, which only grows; \<open>rc_ll\<close> is the list from front to back and \<open>rc_tokens\<close> the map to its elements.
  Every method holds the lock from start to end, so it is one step. The clock readings of a
  method and the answers of the random source are its arguments.
\<close>

record ExecRequest =
  er_ContainerId :: string
  er_Cmd :: "string list"
  er_Tty :: bool
  er_Stdin :: bool
  er_Stdout :: bool
  er_Stderr :: bool

record AttachRequest =
  ar_ContainerId :: string
  ar_Stdin :: bool
  ar_Tty :: bool
  ar_Stdout :: bool
  ar_Stderr :: bool

record PortForwardRequest =
  pfr_PodSandboxId :: string
  pfr_Port :: "int list"

datatype request = ReqExec ExecRequest | ReqAttach AttachRequest | ReqPortForward PortForwardRequest

definition cacheTTL :: int where "cacheTTL = 60 * 10 ^ 9"

definition maxInFlight :: nat where "maxInFlight = 1000"

definition tokenLen :: nat where "tokenLen = 8"

record cacheEntry =
  rce_token :: string
  rce_req :: request
  rce_expireTime :: int

record requestCache =
  rc_elems :: "cacheEntry list"
  rc_ll :: "nat list"
  rc_tokens :: "(string \<times> nat) list"

definition newRequestCache :: requestCache where
  "newRequestCache = \<lparr>rc_elems = [], rc_ll = [], rc_tokens = []\<rparr>"

subsection \<open>Errors\<close>

definition codesInvalidArgument :: nat where "codesInvalidArgument = 3"

definition codesNotFound :: nat where "codesNotFound = 5"

definition codesResourceExhausted :: nat where "codesResourceExhausted = 8"

definition NewErrorStreamingDisabled :: "string \<Rightarrow> goerror" where
  "NewErrorStreamingDisabled meth = StatusError codesNotFound (''streaming method '' @ meth @ '' disabled'')"

definition NewErrorTooManyInFlight :: goerror where
  "NewErrorTooManyInFlight = StatusError codesResourceExhausted ''maximum number of in-flight requests exceeded''"

text \<open>The HTTP status, the headers and the body; \<open>code\<close> is the status code that the grpc library finds in the error.\<close>

definition WriteError :: "(goerror \<Rightarrow> nat) \<Rightarrow> goerror \<Rightarrow> nat \<times> gomap \<times> string" where
  "WriteError code err =
     (if code err = codesNotFound then (404, [], Error err)
      else if code err = codesResourceExhausted then (429, [(''Retry-After'', fmt_int (cacheTTL div 10 ^ 9))], Error err)
      else (500, [], Error err))"

subsection \<open>Tokens\<close>

text \<open>\<^verbatim>\<open>base64.RawURLEncoding\<close>: six bits per character, no padding.\<close>

definition base64Char :: "nat \<Rightarrow> char" where
  "base64Char n = (if n < 26 then char_of (65 + n) else if n < 52 then char_of (71 + n) else if n < 62 then char_of (n - 4)
     else if n = 62 then CHR ''-'' else CHR ''_'')"

fun base64URL :: "nat list \<Rightarrow> string" where
  "base64URL [] = []"
| "base64URL [a] = [base64Char (a div 4), base64Char (a mod 4 * 16)]"
| "base64URL [a, b] = [base64Char (a div 4), base64Char (a mod 4 * 16 + b div 16), base64Char (b mod 16 * 4)]"
| "base64URL (a # b # c # rest) =
     base64Char (a div 4) # base64Char (a mod 4 * 16 + b div 16) # base64Char (b mod 16 * 4 + c div 64) # base64Char (c mod 64) # base64URL rest"

text \<open>The number of bytes to read, \<open>tokenLen * 6 / 8\<close> rounded up.\<close>

definition tokenSize :: nat where "tokenSize = (tokenLen * 6 + 7) div 8"

text \<open>\<open>rand i n\<close> is the outcome of the \<open>i\<close>-th read of \<open>n\<close> bytes.\<close>

fun uniqueTokenLoop :: "(nat \<Rightarrow> nat \<Rightarrow> nat list result) \<Rightarrow> nat list \<Rightarrow> requestCache \<Rightarrow> string result" where
  "uniqueTokenLoop rand [] c = Inl (Errorf ''failed to generate unique token'')"
| "uniqueTokenLoop rand (i # is) c =
     (case rand i tokenSize of
        Inl err \<Rightarrow> Inl err
      | Inr rawToken \<Rightarrow>
          (let encoded = base64URL rawToken; token = take tokenLen encoded in
           if map_of (rc_tokens c) encoded = None then Inr token else uniqueTokenLoop rand is c))"

definition uniqueToken :: "(nat \<Rightarrow> nat \<Rightarrow> nat list result) \<Rightarrow> requestCache \<Rightarrow> string result" where
  "uniqueToken rand c = uniqueTokenLoop rand [0..<10] c"

subsection \<open>The operations\<close>

function gc :: "int \<Rightarrow> requestCache \<Rightarrow> requestCache" where
  "gc now c =
     (if rc_ll c = [] then c
      else
        (let oldest = last (rc_ll c); entry = rc_elems c ! oldest in
         if \<not> now > rce_expireTime entry then c
         else gc now (c\<lparr>rc_ll := removeAll oldest (rc_ll c), rc_tokens := AList.delete (rce_token entry) (rc_tokens c)\<rparr>)))"
  by auto

termination
  by (relation "measure (\<lambda>(now, c). length (rc_ll c))") (simp_all add: length_removeAll_less)

declare gc.simps [simp del]

definition Insert :: "(nat \<Rightarrow> nat \<Rightarrow> nat list result) \<Rightarrow> int \<Rightarrow> int \<Rightarrow> request \<Rightarrow> requestCache \<Rightarrow> string result \<times> requestCache" where
  "Insert rand now1 now2 req c =
     (let c = gc now1 c in
      if length (rc_ll c) = maxInFlight then (Inl NewErrorTooManyInFlight, c)
      else (case uniqueToken rand c of
              Inl err \<Rightarrow> (Inl err, c)
            | Inr token \<Rightarrow>
                (let ele = length (rc_elems c) in
                 (Inr token,
                  c\<lparr>rc_elems := rc_elems c @ [\<lparr>rce_token = token, rce_req = req, rce_expireTime = now2 + cacheTTL\<rparr>],
                    rc_ll := ele # rc_ll c, rc_tokens := mapSet (rc_tokens c) token ele\<rparr>))))"

definition Consume :: "int \<Rightarrow> string \<Rightarrow> requestCache \<Rightarrow> request option \<times> requestCache" where
  "Consume now token c =
     (case map_of (rc_tokens c) token of
        None \<Rightarrow> (None, c)
      | Some ele \<Rightarrow>
          (let c = c\<lparr>rc_ll := removeAll ele (rc_ll c), rc_tokens := AList.delete token (rc_tokens c)\<rparr>; entry = rc_elems c ! ele in
           (if now > rce_expireTime entry then None else Some (rce_req entry), c)))"

subsection \<open>The abstract cache\<close>

text \<open>
  What the cache promises: a partial map from tokens to a request and its expiry. Inserting drops the expired
  entries and adds one under a fresh token; consuming removes the entry and returns its request if it
  has not expired.
\<close>

type_synonym abs_cache = "string \<Rightarrow> (request \<times> int) option"

definition live :: "int \<Rightarrow> abs_cache \<Rightarrow> abs_cache" where
  "live now m token = (case m token of None \<Rightarrow> None | Some (req, expire) \<Rightarrow> if now > expire then None else Some (req, expire))"

definition specConsume :: "int \<Rightarrow> string \<Rightarrow> abs_cache \<Rightarrow> request option \<times> abs_cache" where
  "specConsume now token m = (map_option fst (live now m token), m(token := None))"

definition specInsert :: "int \<Rightarrow> int \<Rightarrow> request \<Rightarrow> abs_cache \<Rightarrow> string result \<Rightarrow> abs_cache \<Rightarrow> bool" where
  "specInsert now1 now2 req m r m' \<longleftrightarrow>
     (case r of
        Inl err \<Rightarrow> m' = live now1 m
      | Inr token \<Rightarrow> card (dom (live now1 m)) < maxInFlight \<and> live now1 m token = None \<and>
          length token = tokenLen \<and> m' = (live now1 m)(token \<mapsto> (req, now2 + cacheTTL)))"

definition absCache :: "requestCache \<Rightarrow> abs_cache" where
  "absCache c token = map_option (\<lambda>p. (rce_req (rc_elems c ! p), rce_expireTime (rc_elems c ! p))) (map_of (rc_tokens c) token)"

text \<open>The sequences of operations on one cache, with a clock that does not run backwards.\<close>

definition randOk :: "(nat \<Rightarrow> nat \<Rightarrow> nat list result) \<Rightarrow> bool" where
  "randOk rand \<longleftrightarrow> (\<forall>i n raw. rand i n = Inr raw \<longrightarrow> length raw = n)"

inductive cache_run :: "string set \<Rightarrow> int \<times> requestCache \<Rightarrow> int \<times> requestCache \<Rightarrow> bool" for keep where
  stay: "cache_run keep s s"
| insert: "cache_run keep s (t, c) \<Longrightarrow> t \<le> now1 \<Longrightarrow> now1 \<le> now2 \<Longrightarrow> randOk rand \<Longrightarrow> Insert rand now1 now2 req c = (r, c') \<Longrightarrow>
    cache_run keep s (now2, c')"
| consume: "cache_run keep s (t, c) \<Longrightarrow> t \<le> now \<Longrightarrow> token \<notin> keep \<Longrightarrow> Consume now token c = (r, c') \<Longrightarrow>
    cache_run keep s (now, c')"

subsection \<open>The invariant\<close>

definition cacheInv :: "int \<Rightarrow> requestCache \<Rightarrow> bool" where
  "cacheInv t c \<longleftrightarrow> distinct (rc_ll c) \<and> (\<forall>p \<in> set (rc_ll c). p < length (rc_elems c)) \<and> goMapOk (rc_tokens c) \<and>
     set (rc_tokens c) = (\<lambda>p. (rce_token (rc_elems c ! p), p)) ` set (rc_ll c) \<and>
     sorted_wrt (\<lambda>p q. rce_expireTime (rc_elems c ! q) \<le> rce_expireTime (rc_elems c ! p)) (rc_ll c) \<and>
     (\<forall>p \<in> set (rc_ll c). rce_expireTime (rc_elems c ! p) \<le> t + cacheTTL) \<and> length (rc_ll c) \<le> maxInFlight"

lemma cacheInv_lookup:
  assumes "cacheInv t c"
  shows "map_of (rc_tokens c) token = Some p \<longleftrightarrow> p \<in> set (rc_ll c) \<and> rce_token (rc_elems c ! p) = token"
proof -
  have "map_of (rc_tokens c) token = Some p \<longleftrightarrow> (token, p) \<in> set (rc_tokens c)"
    using assms by (simp add: cacheInv_def map_of_eq_Some_iff)
  then show ?thesis using assms by (auto simp: cacheInv_def)
qed

lemma remove_element:
  assumes "cacheInv t c" and "p \<in> set (rc_ll c)" and "token = rce_token (rc_elems c ! p)"
  defines "c' \<equiv> c\<lparr>rc_ll := removeAll p (rc_ll c), rc_tokens := AList.delete token (rc_tokens c)\<rparr>"
  shows "cacheInv t c'" and "absCache c' = (absCache c)(token := None)"
proof -
  have inj: "q = p" if "q \<in> set (rc_ll c)" "rce_token (rc_elems c ! q) = token" for q
    using cacheInv_lookup [OF assms(1)] assms(2,3) that by (metis option.inject)
  have st: "set (rc_tokens c') = (\<lambda>p. (rce_token (rc_elems c ! p), p)) ` (set (rc_ll c) - {p})"
  proof -
    have "set (rc_tokens c') = {x \<in> (\<lambda>p. (rce_token (rc_elems c ! p), p)) ` set (rc_ll c). fst x \<noteq> token}"
      using assms(1) by (simp add: c'_def cacheInv_def set_delete)
    also have "\<dots> = (\<lambda>p. (rce_token (rc_elems c ! p), p)) ` (set (rc_ll c) - {p})"
      using inj assms(3) by fastforce
    finally show ?thesis .
  qed
  have l: "rc_ll c' = filter (\<lambda>q. p \<noteq> q) (rc_ll c)" "rc_elems c' = rc_elems c"
    by (simp_all add: c'_def removeAll_filter_not_eq)
  have "length (rc_ll c') \<le> length (rc_ll c)" by (simp add: l)
  moreover have "goMapOk (rc_tokens c')" using assms(1) by (simp add: c'_def cacheInv_def distinct_delete)
  moreover have "set (rc_ll c') = set (rc_ll c) - {p}" by (auto simp: l)
  ultimately show "cacheInv t c'" using assms(1) st
    unfolding cacheInv_def l by (simp add: sorted_wrt_filter le_trans [OF length_filter_le])
  show "absCache c' = (absCache c)(token := None)"
    by (rule ext) (simp add: absCache_def c'_def delete_conv')
qed

lemma gc_refines: "cacheInv t c \<Longrightarrow> cacheInv t (gc now c) \<and> absCache (gc now c) = live now (absCache c)"
proof (induction now c rule: gc.induct)
  case (1 now c)
  have emp: "absCache c token = None" if "rc_ll c = []" for token
    using that cacheInv_lookup [OF 1(2), of token] by (auto simp: absCache_def)
  show ?case
  proof (cases "rc_ll c = []")
    case True
    then show ?thesis using 1(2) emp by (auto simp: gc.simps [of now c] live_def)
  next
    case ne: False
    let ?p = "last (rc_ll c)"
    let ?e = "rc_elems c ! ?p"
    show ?thesis
    proof (cases "now > rce_expireTime ?e")
      case False
      have "rce_expireTime ?e \<le> rce_expireTime (rc_elems c ! q)" if "q \<in> set (rc_ll c)" for q
      proof -
        have "sorted_wrt (\<lambda>p q. rce_expireTime (rc_elems c ! q) \<le> rce_expireTime (rc_elems c ! p)) (butlast (rc_ll c) @ [?p])"
          using 1(2) ne by (simp add: cacheInv_def)
        moreover have "q \<in> set (butlast (rc_ll c)) \<or> q = ?p" using that ne by (metis append_butlast_last_id rotate1.simps(2) set_ConsD set_rotate1)
        ultimately show ?thesis by (auto simp: sorted_wrt_append)
      qed
      then have "\<not> now > rce_expireTime (rc_elems c ! q)" if "map_of (rc_tokens c) token = Some q" for token q
        using False cacheInv_lookup [OF 1(2)] that by fastforce
      then have "live now (absCache c) token = absCache c token" for token
        by (cases "map_of (rc_tokens c) token") (simp_all add: live_def absCache_def)
      then show ?thesis using 1(2) False ne by (auto simp: gc.simps [of now c] Let_def)
    next
      case True
      let ?c = "c\<lparr>rc_ll := removeAll ?p (rc_ll c), rc_tokens := AList.delete (rce_token ?e) (rc_tokens c)\<rparr>"
      note r = remove_element [OF 1(2) last_in_set [OF ne] refl]
      have g: "gc now c = gc now ?c" using True ne by (simp add: gc.simps [of now c] Let_def)
      have "absCache c (rce_token ?e) = Some (rce_req ?e, rce_expireTime ?e)"
        using cacheInv_lookup [OF 1(2), of "rce_token ?e" ?p] ne by (simp add: absCache_def)
      then have "live now ((absCache c)(rce_token ?e := None)) = live now (absCache c)"
        using True by (auto simp: live_def)
      then show ?thesis using 1(1) [OF ne refl refl _ r(1)] True r(2) g by metis
    qed
  qed
qed

lemma gc_elems: "rc_elems (gc now c) = rc_elems c"
  by (induction now c rule: gc.induct) (simp add: gc.simps Let_def)

lemma base64URL_token:
  assumes "length raw = tokenSize"
  shows "length (base64URL raw) = tokenLen"
proof -
  have "length raw = Suc (Suc (Suc (Suc (Suc (Suc 0)))))" using assms by (simp add: tokenSize_def tokenLen_def)
  then obtain a b c d e f where "raw = [a, b, c, d, e, f]" by (auto simp only: length_Suc_conv length_0_conv)
  then show ?thesis by (simp add: tokenLen_def)
qed

lemma base64Char_slash: "base64Char n \<noteq> CHR ''/''"
proof
  assume "base64Char n = CHR ''/''"
  then have "(of_char (base64Char n) :: nat) = 47" by simp
  then show False by (simp add: base64Char_def split: if_splits)
qed

lemma base64URL_slash: "CHR ''/'' \<notin> set (base64URL raw)"
  using base64Char_slash by (induction raw rule: base64URL.induct) (auto simp: eq_commute [of "CHR ''/''"])

lemma uniqueTokenLoop_slash: "uniqueTokenLoop rand is c = Inr token \<Longrightarrow> CHR ''/'' \<notin> set token"
proof (induction "is")
  case (Cons i "is")
  then show ?case
    using base64URL_slash by (cases "rand i tokenSize") (auto simp: Let_def split: if_splits dest: in_set_takeD)
qed simp

lemma Insert_token_slash: "Insert rand now1 now2 req c = (Inr token, c') \<Longrightarrow> CHR ''/'' \<notin> set token"
  by (auto simp: Insert_def uniqueToken_def Let_def split: if_splits sum.splits dest!: uniqueTokenLoop_slash)

lemma uniqueTokenLoop_fresh:
  "randOk rand \<Longrightarrow> uniqueTokenLoop rand is c = Inr token \<Longrightarrow> map_of (rc_tokens c) token = None \<and> length token = tokenLen"
proof (induction "is")
  case (Cons i "is")
  then show ?case
    by (cases "rand i tokenSize") (auto simp: randOk_def base64URL_token Let_def split: if_splits)
qed simp

lemma dom_absCache: "cacheInv t c \<Longrightarrow> card (dom (absCache c)) = length (rc_ll c)"
proof -
  assume a: "cacheInv t c"
  have "dom (absCache c) = dom (map_of (rc_tokens c))" by (auto simp: absCache_def)
  also have "\<dots> = fst ` set (rc_tokens c)" by (rule dom_map_of_conv_image_fst)
  also have "\<dots> = set (map fst (rc_tokens c))" by simp
  finally have "card (dom (absCache c)) = length (rc_tokens c)" using a by (metis cacheInv_def distinct_card length_map)
  also have "\<dots> = card (set (rc_tokens c))" using a by (metis cacheInv_def distinct_card distinct_map)
  also have "\<dots> = card (set (rc_ll c))" using a by (simp add: cacheInv_def card_image inj_on_def)
  finally show ?thesis using a by (simp add: cacheInv_def distinct_card)
qed

lemma Insert_refines:
  assumes "cacheInv t c" and "t \<le> now2" and "randOk rand" and "Insert rand now1 now2 req c = (r, c')"
  shows "cacheInv now2 c' \<and> specInsert now1 now2 req (absCache c) r (absCache c')"
proof -
  define d where "d = gc now1 c"
  have d: "cacheInv t d" "absCache d = live now1 (absCache c)" using gc_refines [OF assms(1)] by (simp_all add: d_def)
  then have d2: "cacheInv now2 d" using assms(2) by (fastforce simp: cacheInv_def)
  show ?thesis
  proof (cases r)
    case (Inl err)
    then have "c' = d" using assms(4) by (auto simp: Insert_def d_def Let_def split: if_splits sum.splits)
    then show ?thesis using d d2 Inl by (simp add: specInsert_def)
  next
    case (Inr token)
    let ?n = "length (rc_elems d)"
    have u: "length (rc_ll d) \<noteq> maxInFlight" "uniqueToken rand d = Inr token"
      and c': "c' = d\<lparr>rc_elems := rc_elems d @ [\<lparr>rce_token = token, rce_req = req, rce_expireTime = now2 + cacheTTL\<rparr>],
         rc_ll := ?n # rc_ll d, rc_tokens := mapSet (rc_tokens d) token ?n\<rparr>"
      using assms(4) Inr by (auto simp: Insert_def d_def Let_def split: if_splits sum.splits)
    have f: "map_of (rc_tokens d) token = None" "length token = tokenLen"
      using uniqueTokenLoop_fresh [OF assms(3)] u(2) by (simp_all add: uniqueToken_def)
    then have tk: "mapSet (rc_tokens d) token ?n = rc_tokens d @ [(token, ?n)]" "token \<notin> fst ` set (rc_tokens d)"
      by (simp_all add: map_of_eq_None_iff update_new)
    have lt: "\<forall>p \<in> set (rc_ll d). p < ?n" using d by (simp add: cacheInv_def)
    have old: "rc_elems c' ! p = rc_elems d ! p" if "p \<in> set (rc_ll d)" for p
      using lt that by (simp add: c' nth_append)
    have new: "rc_elems c' ! ?n = \<lparr>rce_token = token, rce_req = req, rce_expireTime = now2 + cacheTTL\<rparr>" by (simp add: c')
    have srt: "sorted_wrt (\<lambda>p q. rce_expireTime (rc_elems c' ! q) \<le> rce_expireTime (rc_elems c' ! p)) (rc_ll d)"
      using d2 by (auto simp: cacheInv_def old elim!: sorted_wrt_mono_rel [rotated])
    have img: "(\<lambda>p. (rce_token (rc_elems c' ! p), p)) ` set (rc_ll d) = set (rc_tokens d)"
      using d2 by (simp add: cacheInv_def old cong: image_cong)
    have ll: "rc_ll c' = ?n # rc_ll d" "rc_tokens c' = rc_tokens d @ [(token, ?n)]" "length (rc_elems c') = Suc ?n"
      by (simp_all add: c' tk)
    have "cacheInv now2 c'" unfolding cacheInv_def ll
      using d2 u(1) lt tk(2) srt img by (auto simp: cacheInv_def old new)
    moreover have "absCache c' = (absCache d)(token \<mapsto> (req, now2 + cacheTTL))"
    proof
      fix x
      have "p < ?n" if "map_of (rc_tokens d) x = Some p" for p using cacheInv_lookup [OF d(1)] lt that by blast
      then show "absCache c' x = ((absCache d)(token \<mapsto> (req, now2 + cacheTTL))) x"
        by (cases "map_of (rc_tokens d) x") (simp_all add: absCache_def c' nth_append)
    qed
    moreover have "card (dom (absCache d)) < maxInFlight"
      using dom_absCache [OF d(1)] u(1) d(1) by (simp add: cacheInv_def)
    moreover have "absCache d token = None" using f(1) by (simp add: absCache_def)
    ultimately show ?thesis using d(2) Inr f(2) by (simp add: specInsert_def)
  qed
qed

lemma Consume_refines:
  assumes "cacheInv t c" and "Consume now token c = (r, c')"
  shows "cacheInv t c' \<and> specConsume now token (absCache c) = (r, absCache c')"
proof (cases "map_of (rc_tokens c) token")
  case None
  then have "absCache c token = None" by (simp add: absCache_def)
  then show ?thesis using assms None by (auto simp: Consume_def specConsume_def live_def fun_upd_idem)
next
  case (Some p)
  then have p: "p \<in> set (rc_ll c)" "token = rce_token (rc_elems c ! p)" using cacheInv_lookup [OF assms(1)] by auto
  note r = remove_element [OF assms(1) p]
  have "absCache c token = Some (rce_req (rc_elems c ! p), rce_expireTime (rc_elems c ! p))" using Some by (simp add: absCache_def)
  then show ?thesis using assms(2) r Some by (auto simp: Consume_def specConsume_def live_def Let_def)
qed

lemma cacheInv_later: "cacheInv t c \<Longrightarrow> t \<le> t' \<Longrightarrow> cacheInv t' c"
  by (fastforce simp: cacheInv_def)

lemma cache_run_inv: "cache_run keep s s' \<Longrightarrow> cacheInv (fst s) (snd s) \<Longrightarrow> cacheInv (fst s') (snd s') \<and> fst s \<le> fst s'"
proof (induction rule: cache_run.induct)
  case (insert s t c now1 now2 rand req r c')
  then show ?case using Insert_refines [of t c now2 rand now1 req r c'] by simp
next
  case (consume s t c now token r c')
  then show ?case using Consume_refines [of t c now token r c'] cacheInv_later by auto
qed simp

text \<open>An entry that nobody consumes stays until it expires.\<close>

lemma cache_run_keeps:
  "cache_run keep s s' \<Longrightarrow> cacheInv (fst s) (snd s) \<Longrightarrow> token \<in> keep \<Longrightarrow> absCache (snd s) token = Some (req, expire) \<Longrightarrow>
     fst s' \<le> expire \<Longrightarrow> absCache (snd s') token = Some (req, expire)"
proof (induction rule: cache_run.induct)
  case (insert s t c now1 now2 rand req' r c')
  have i: "cacheInv t c" using cache_run_inv [OF insert.hyps(1) insert.prems(1)] by simp
  have "absCache c token = Some (req, expire)" using insert by simp
  then have l: "live now1 (absCache c) token = Some (req, expire)" using insert.prems(4) insert.hyps(3) by (simp add: live_def)
  have "specInsert now1 now2 req' (absCache c) r (absCache c')"
    using Insert_refines [OF i _ insert.hyps(4,5)] insert.hyps(2,3) by simp
  then show ?case using l by (auto simp: specInsert_def split: sum.splits)
next
  case (consume s t c now tok r c')
  have i: "cacheInv t c" using cache_run_inv [OF consume.hyps(1) consume.prems(1)] by simp
  have "absCache c token = Some (req, expire)" using consume by simp
  moreover have "token \<noteq> tok" using consume by auto
  moreover have "absCache c' = (absCache c)(tok := None)"
    using Consume_refines [OF i consume.hyps(4)] by (simp add: specConsume_def)
  ultimately show ?case by simp
qed simp

lemma newRequestCache_inv: "cacheInv t newRequestCache"
  by (simp add: cacheInv_def newRequestCache_def)

subsection \<open>Properties\<close>

text \<open>C4. After any sequence of operations with a clock that does not run backwards, the linked list and the token map
  together implement the abstract cache: at most a thousand requests are held; inserting drops exactly the
  expired requests and files the new one under a token that no held request has, or fails and adds
  nothing; and consuming a token returns its request unless it has expired, and forgets it.\<close>

theorem requestCache_refines:
  assumes "cache_run keep (t0, newRequestCache) (t, c)" and "t \<le> now1" and "now1 \<le> now2" and "randOk rand"
    and "Insert rand now1 now2 req c = (r, ci)" and "Consume now1 token c = (q, cc)"
  shows "card (dom (absCache c)) \<le> maxInFlight \<and> specInsert now1 now2 req (absCache c) r (absCache ci) \<and>
     specConsume now1 token (absCache c) = (q, absCache cc)"
proof -
  have i: "cacheInv t c" using cache_run_inv [OF assms(1)] newRequestCache_inv by simp
  then have "card (dom (absCache c)) \<le> maxInFlight" using dom_absCache [OF i] by (simp add: cacheInv_def)
  then show ?thesis using Insert_refines [OF i _ assms(4,5)] Consume_refines [OF i assms(6)] assms(2,3) by simp
qed

definition exampleRand :: "nat \<Rightarrow> nat \<Rightarrow> nat list result" where
  "exampleRand i n = Inr (replicate n i)"

theorem requestCache_refines_witness:
  "\<exists>ci cc. Insert exampleRand 5 6 (ReqExec \<lparr>er_ContainerId = ''c'', er_Cmd = [], er_Tty = False, er_Stdin = True, er_Stdout = True, er_Stderr = False\<rparr>)
       newRequestCache = (Inr ''AAAAAAAA'', ci) \<and> Consume 5 ''AAAAAAAA'' newRequestCache = (None, cc) \<and>
     absCache ci ''AAAAAAAA'' = Some (ReqExec \<lparr>er_ContainerId = ''c'', er_Cmd = [], er_Tty = False, er_Stdin = True, er_Stdout = True, er_Stderr = False\<rparr>,
       6 + cacheTTL) \<and> absCache cc = Map.empty"
proof -
  let ?r = "ReqExec \<lparr>er_ContainerId = ''c'', er_Cmd = [], er_Tty = False, er_Stdin = True, er_Stdout = True, er_Stderr = False\<rparr>"
  have "uniqueToken exampleRand newRequestCache = Inr ''AAAAAAAA''" by code_simp
  moreover have "gc 5 newRequestCache = newRequestCache" by (simp add: gc.simps newRequestCache_def)
  ultimately obtain ci where i: "Insert exampleRand 5 6 ?r newRequestCache = (Inr ''AAAAAAAA'', ci)"
    by (simp add: Insert_def newRequestCache_def maxInFlight_def Let_def)
  have c: "Consume 5 ''AAAAAAAA'' newRequestCache = (None, newRequestCache)" by (simp add: Consume_def newRequestCache_def)
  have "randOk exampleRand" by (simp add: randOk_def exampleRand_def)
  from requestCache_refines [OF cache_run.stay [of "{}"] _ _ this i c, of 0]
  have "absCache ci = (live 5 (absCache newRequestCache))(''AAAAAAAA'' \<mapsto> (?r, 6 + cacheTTL))"
    by (simp add: specInsert_def)
  moreover have "absCache newRequestCache = Map.empty" by (simp add: fun_eq_iff absCache_def newRequestCache_def)
  ultimately show ?thesis using i c by simp
qed

end
