(* ===== verification/Streaming_Server.thy ===== *)
theory Streaming_Server
  imports Request_Cache Docker_Service
begin

text \<open>
  The streaming server (\<^verbatim>\<open>streaming/server.go\<close>) and the handlers that hand out its URLs (\<^verbatim>\<open>core/container_exec.go\<close>,
  \<^verbatim>\<open>core/container_attach.go\<close>, \<^verbatim>\<open>core/sandbox_port_forward.go\<close>). The HTTP routing, the listener and the
  protocols that run over a connection are third-party packages: serving a request ends in the call
  that is handed to them, which is the value \<open>served\<close>. Addresses and paths hold no byte that a URL escapes.
\<close>

subsection \<open>URLs\<close>

record url =
  url_Scheme :: string
  url_Host :: string
  url_Path :: string

text \<open>
  \<^verbatim>\<open>url.resolvePath\<close>: the elements of the path are written one by one after a leading slash, \<open>first\<close> tells that the
  next one needs no slash before it. A dot stays out, two dots take the last element back.
\<close>

definition resolveStep :: "string \<times> bool \<Rightarrow> string \<Rightarrow> string \<times> bool" where
  "resolveStep dstFirst el =
     (case dstFirst of (dst, first) \<Rightarrow>
        if el = ''.'' then (dst, False)
        else if el = ''..'' then
          (let str = tl dst in
           if CHR ''/'' \<notin> set str then (''/'', True)
           else (CHR ''/'' # rev (tl (dropWhile (\<lambda>c. c \<noteq> CHR ''/'') (rev str))), first))
        else (dst @ (if first then [] else ''/'') @ el, False))"

definition resolvePath :: "string \<Rightarrow> string \<Rightarrow> string" where
  "resolvePath base ref =
     (let full = (if ref = [] then base
                  else if hd ref \<noteq> CHR ''/'' then rev (dropWhile (\<lambda>c. c \<noteq> CHR ''/'') (rev base)) @ ref
                  else ref)
      in if full = [] then []
         else (let els = strings_Split full (CHR ''/'');
                   r = fst (foldl resolveStep (''/'', True) els);
                   r = (if last els = ''.'' \<or> last els = ''..'' then r @ ''/'' else r)
               in if length r > 1 \<and> r ! 1 = CHR ''/'' then tl r else r))"

definition url_String :: "url \<Rightarrow> string" where
  "url_String u =
     (if url_Scheme u \<noteq> [] then url_Scheme u @ '':'' else []) @
     (if url_Scheme u \<noteq> [] \<or> url_Host u \<noteq> [] then (if url_Host u \<noteq> [] \<or> url_Path u \<noteq> [] then ''//'' else []) @ url_Host u else []) @
     (if url_Path u \<noteq> [] \<and> hd (url_Path u) \<noteq> CHR ''/'' \<and> url_Host u \<noteq> [] then ''/'' else []) @ url_Path u"

subsection \<open>The server\<close>

record stream_config =
  scf_Addr :: string
  scf_BaseURL :: "url option"
  scf_TLS :: bool

record stream_server =
  ssv_Addr :: string
  ssv_BaseURL :: url
  ssv_TLS :: bool
  ssv_routes :: "(string \<times> string) list"
  ssv_cache :: requestCache

definition NewServer :: "stream_config \<Rightarrow> stream_server" where
  "NewServer config =
     (let baseURL = (case scf_BaseURL config of
            Some u \<Rightarrow> u
          | None \<Rightarrow> \<lparr>url_Scheme = (if scf_TLS config then ''https'' else ''http''), url_Host = scf_Addr config, url_Path = []\<rparr>);
          pathPrefix = filepath_Dir (url_Path baseURL)
      in \<lparr>ssv_Addr = scf_Addr config, ssv_BaseURL = baseURL, ssv_TLS = scf_TLS config,
          ssv_routes = concat (map (\<lambda>p. map (\<lambda>m. (m, filepath_Join [pathPrefix, p])) [''GET'', ''POST''])
            [''/exec/{token}'', ''/attach/{token}'', ''/portforward/{token}'']),
          ssv_cache = newRequestCache\<rparr>)"

text \<open>
  \<open>listen\<close> gives the address that the listener really has. The value is the error, or whether TLS is served,
  with the server that then runs.
\<close>

definition Server_Start :: "(string \<Rightarrow> string result) \<Rightarrow> bool \<Rightarrow> stream_server \<Rightarrow> bool result \<times> stream_server" where
  "Server_Start listen stayUp s =
     (if \<not> stayUp then (Inl (Errorf ''stayUp=false is not yet implemented''), s)
      else (case listen (ssv_Addr s) of
              Inl err \<Rightarrow> (Inl err, s)
            | Inr addr \<Rightarrow> (Inr (ssv_TLS s), s\<lparr>ssv_BaseURL := (ssv_BaseURL s)\<lparr>url_Host := addr\<rparr>\<rparr>)))"

definition buildURL :: "string \<Rightarrow> string \<Rightarrow> stream_server \<Rightarrow> string" where
  "buildURL meth token s =
     url_String ((ssv_BaseURL s)\<lparr>url_Path := resolvePath (url_Path (ssv_BaseURL s)) (filepath_Join [meth, token])\<rparr>)"

definition validateExecRequest :: "ExecRequest \<Rightarrow> goerror option" where
  "validateExecRequest req =
     (if er_ContainerId req = [] then Some (StatusError codesInvalidArgument ''missing required container_id'')
      else if er_Tty req \<and> er_Stderr req then Some (StatusError codesInvalidArgument ''tty and stderr cannot both be true'')
      else if \<not> er_Stdin req \<and> \<not> er_Stdout req \<and> \<not> er_Stderr req
      then Some (StatusError codesInvalidArgument ''one of stdin, stdout, or stderr must be set'')
      else None)"

definition validateAttachRequest :: "AttachRequest \<Rightarrow> goerror option" where
  "validateAttachRequest req =
     (if ar_ContainerId req = [] then Some (StatusError codesInvalidArgument ''missing required container_id'')
      else if ar_Tty req \<and> ar_Stderr req then Some (StatusError codesInvalidArgument ''tty and stderr cannot both be true'')
      else if \<not> ar_Stdin req \<and> \<not> ar_Stdout req \<and> \<not> ar_Stderr req
      then Some (StatusError codesInvalidArgument ''one of stdin, stdout, and stderr must be set'')
      else None)"

text \<open>The readings of the clock and of the random source that one insertion uses.\<close>

record cache_oracle =
  co_rand :: "nat \<Rightarrow> nat \<Rightarrow> nat list result"
  co_now1 :: int
  co_now2 :: int

definition insertURL :: "cache_oracle \<Rightarrow> string \<Rightarrow> request \<Rightarrow> stream_server \<Rightarrow> string result \<times> stream_server" where
  "insertURL o' meth req s =
     (case Insert (co_rand o') (co_now1 o') (co_now2 o') req (ssv_cache s) of (r, c) \<Rightarrow>
        (map_sum id (\<lambda>token. buildURL meth token s) r, s\<lparr>ssv_cache := c\<rparr>))"

definition GetExec :: "cache_oracle \<Rightarrow> ExecRequest \<Rightarrow> stream_server \<Rightarrow> string result \<times> stream_server" where
  "GetExec o' req s =
     (case validateExecRequest req of Some err \<Rightarrow> (Inl err, s) | None \<Rightarrow> insertURL o' ''exec'' (ReqExec req) s)"

definition GetAttach :: "cache_oracle \<Rightarrow> AttachRequest \<Rightarrow> stream_server \<Rightarrow> string result \<times> stream_server" where
  "GetAttach o' req s =
     (case validateAttachRequest req of Some err \<Rightarrow> (Inl err, s) | None \<Rightarrow> insertURL o' ''attach'' (ReqAttach req) s)"

definition GetPortForward :: "cache_oracle \<Rightarrow> PortForwardRequest \<Rightarrow> stream_server \<Rightarrow> string result \<times> stream_server" where
  "GetPortForward o' req s =
     (if pfr_PodSandboxId req = [] then (Inl (StatusError codesInvalidArgument ''missing required pod_sandbox_id''), s)
      else insertURL o' ''portforward'' (ReqPortForward req) s)"

subsection \<open>Serving\<close>

record stream_options =
  sto_Stdin :: bool
  sto_Stdout :: bool
  sto_Stderr :: bool
  sto_TTY :: bool

datatype served =
    HttpNotFound
  | HttpBadRequest goerror
  | CallServeExec string "string list" stream_options
  | CallServeAttach string stream_options
  | CallServePortForward string "int list"

definition serveExec :: "int \<Rightarrow> string \<Rightarrow> stream_server \<Rightarrow> served \<times> stream_server" where
  "serveExec now token s =
     (case Consume now token (ssv_cache s) of (cachedRequest, c) \<Rightarrow>
        (case cachedRequest of
           Some (ReqExec exec) \<Rightarrow>
             CallServeExec (er_ContainerId exec) (er_Cmd exec)
               \<lparr>sto_Stdin = er_Stdin exec, sto_Stdout = er_Stdout exec, sto_Stderr = er_Stderr exec, sto_TTY = er_Tty exec\<rparr>
         | _ \<Rightarrow> HttpNotFound, s\<lparr>ssv_cache := c\<rparr>))"

definition serveAttach :: "int \<Rightarrow> string \<Rightarrow> stream_server \<Rightarrow> served \<times> stream_server" where
  "serveAttach now token s =
     (case Consume now token (ssv_cache s) of (cachedRequest, c) \<Rightarrow>
        (case cachedRequest of
           Some (ReqAttach attach) \<Rightarrow>
             CallServeAttach (ar_ContainerId attach)
               \<lparr>sto_Stdin = ar_Stdin attach, sto_Stdout = ar_Stdout attach, sto_Stderr = ar_Stderr attach, sto_TTY = ar_Tty attach\<rparr>
         | _ \<Rightarrow> HttpNotFound, s\<lparr>ssv_cache := c\<rparr>))"

definition servePortForward :: "(int list \<Rightarrow> int list result) \<Rightarrow> int \<Rightarrow> string \<Rightarrow> stream_server \<Rightarrow> served \<times> stream_server" where
  "servePortForward BuildV4Options now token s =
     (case Consume now token (ssv_cache s) of (cachedRequest, c) \<Rightarrow>
        (case cachedRequest of
           Some (ReqPortForward pf) \<Rightarrow>
             (case BuildV4Options (pfr_Port pf) of
                Inl err \<Rightarrow> HttpBadRequest err
              | Inr portForwardOptions \<Rightarrow> CallServePortForward (pfr_PodSandboxId pf) portForwardOptions)
         | _ \<Rightarrow> HttpNotFound, s\<lparr>ssv_cache := c\<rparr>))"

subsection \<open>The handlers of the service\<close>

text \<open>The server is \<open>None\<close> when streaming is not configured.\<close>

definition withServer ::
    "string \<Rightarrow> 'e docker_client \<Rightarrow> string \<Rightarrow> (stream_server \<Rightarrow> string result \<times> stream_server) \<Rightarrow> stream_server option \<times> 'e
      \<Rightarrow> string result \<times> stream_server option \<times> 'e" where
  "withServer meth client i get se =
     (case se of
        (None, e) \<Rightarrow> (Inl (NewErrorStreamingDisabled meth), None, e)
      | (Some s, e) \<Rightarrow>
          (case CheckContainerStatus client i e of
             (Inl err, e) \<Rightarrow> (Inl err, Some s, e)
           | (Inr _, e) \<Rightarrow> (case get s of (r, s) \<Rightarrow> (r, Some s, e))))"

definition Exec ::
    "'e docker_client \<Rightarrow> cache_oracle \<Rightarrow> ExecRequest \<Rightarrow> stream_server option \<times> 'e \<Rightarrow> string result \<times> stream_server option \<times> 'e" where
  "Exec client o' req = withServer ''exec'' client (er_ContainerId req) (GetExec o' req)"

definition Attach ::
    "'e docker_client \<Rightarrow> cache_oracle \<Rightarrow> AttachRequest \<Rightarrow> stream_server option \<times> 'e \<Rightarrow> string result \<times> stream_server option \<times> 'e" where
  "Attach client o' req = withServer ''attach'' client (ar_ContainerId req) (GetAttach o' req)"

definition PortForward ::
    "'e docker_client \<Rightarrow> cache_oracle \<Rightarrow> PortForwardRequest \<Rightarrow> stream_server option \<times> 'e \<Rightarrow> string result \<times> stream_server option \<times> 'e" where
  "PortForward client o' req = withServer ''port forward'' client (pfr_PodSandboxId req) (GetPortForward o' req)"

subsection \<open>Lemmas\<close>

lemma buildURL_plain:
  assumes "url_Path (ssv_BaseURL s) = []" and "url_Host (ssv_BaseURL s) \<noteq> []" and "url_Scheme (ssv_BaseURL s) \<noteq> []"
    and "pathElem meth" and "pathElem token"
  shows "buildURL meth token s = url_Scheme (ssv_BaseURL s) @ ''://'' @ url_Host (ssv_BaseURL s) @ ''/'' @ meth @ ''/'' @ token"
proof -
  have sp: "strings_Split (meth @ ''/'' @ token) (CHR ''/'') = [meth, token]"
    using assms(4,5) by (simp add: pathElem_def Split_append_delim Split_no_delim)
  obtain m ms where m: "meth = m # ms" "m \<noteq> CHR ''/''" using assms(4) by (cases meth) (auto simp: pathElem_def)
  have j: "filepath_Join [meth, token] = meth @ ''/'' @ token"
    using sp assms(4,5) m by (auto simp: filepath_Join_def filepath_Clean_def cleanStep_def pathElem_def strings_HasPrefix_def)
  have "resolvePath [] (meth @ ''/'' @ token) = ''/'' @ meth @ ''/'' @ token"
    using sp assms(4,5) m by (auto simp: resolvePath_def resolveStep_def pathElem_def Let_def)
  then show ?thesis using assms(1-3) by (simp add: buildURL_def j url_String_def)
qed

lemma insertURL_run:
  assumes "cacheInv t (ssv_cache s)" and "t \<le> co_now1 o'" and "co_now1 o' \<le> co_now2 o'" and "randOk (co_rand o')"
    and "insertURL o' meth req s = (Inr u, s1)"
  obtains token where "u = buildURL meth token s" and "pathElem token" and "cacheInv (co_now2 o') (ssv_cache s1)"
    and "s1 = s\<lparr>ssv_cache := ssv_cache s1\<rparr>" and "absCache (ssv_cache s1) token = Some (req, co_now2 o' + cacheTTL)"
proof -
  obtain token c where i: "Insert (co_rand o') (co_now1 o') (co_now2 o') req (ssv_cache s) = (Inr token, c)"
      "u = buildURL meth token s" "s1 = s\<lparr>ssv_cache := c\<rparr>"
    using assms(5) by (auto simp: insertURL_def map_sum_def split: prod.splits sum.splits)
  note r = Insert_refines [OF assms(1) _ assms(4) i(1)]
  have "length token = tokenLen" using r assms(2,3) by (simp add: specInsert_def)
  then have "pathElem token" using Insert_token_slash [OF i(1)] by (auto simp: pathElem_def tokenLen_def)
  then show ?thesis using that i r assms(2,3) by (simp add: specInsert_def)
qed

lemma serveExec_cached:
  assumes "absCache (ssv_cache s) token = Some (ReqExec req, expire)" and "cacheInv t (ssv_cache s)" and "now \<le> expire"
  shows "fst (serveExec now token s) = CallServeExec (er_ContainerId req) (er_Cmd req)
       \<lparr>sto_Stdin = er_Stdin req, sto_Stdout = er_Stdout req, sto_Stderr = er_Stderr req, sto_TTY = er_Tty req\<rparr>"
    and "fst (serveExec now' token (snd (serveExec now token s))) = HttpNotFound"
proof -
  obtain r c where c: "Consume now token (ssv_cache s) = (r, c)" by (metis prod.exhaust)
  note k = Consume_refines [OF assms(2) c]
  then have "r = Some (ReqExec req)" using assms(1,3) by (simp add: specConsume_def live_def)
  moreover have "absCache c = (absCache (ssv_cache s))(token := None)" using k by (simp add: specConsume_def)
  then have "absCache c token = None" by simp
  moreover obtain r2 c2 where c2: "Consume now' token c = (r2, c2)" by (metis prod.exhaust)
  moreover have "r2 = None" if "absCache c token = None"
    using Consume_refines [OF conjunct1 [OF k] c2] that by (auto simp: specConsume_def live_def)
  ultimately show "fst (serveExec now token s) = CallServeExec (er_ContainerId req) (er_Cmd req)
       \<lparr>sto_Stdin = er_Stdin req, sto_Stdout = er_Stdout req, sto_Stderr = er_Stderr req, sto_TTY = er_Tty req\<rparr>"
    "fst (serveExec now' token (snd (serveExec now token s))) = HttpNotFound"
    by (simp_all add: serveExec_def c c2)
qed

subsection \<open>Properties\<close>

text \<open>C8. The URL that the handler returns for an exec request leads to exactly that request, once. Its last element is a token; as
  long as nobody else presents it, and within a minute, serving the token starts the command of
  the request in its container with its streams, whatever other requests came and went in
  between. Presenting the token a second time finds nothing.\<close>

theorem Exec_url_single_use:
  assumes "cache_run {} (t0, newRequestCache) (t, ssv_cache s)" and "t \<le> co_now1 o'" and "co_now1 o' \<le> co_now2 o'" and "randOk (co_rand o')"
    and "url_Path (ssv_BaseURL s) = []" and "url_Host (ssv_BaseURL s) \<noteq> []" and "url_Scheme (ssv_BaseURL s) \<noteq> []"
    and "Exec client o' req (Some s, e) = (Inr u, Some s1, e1)"
  shows "\<exists>token. u = url_Scheme (ssv_BaseURL s) @ ''://'' @ url_Host (ssv_BaseURL s) @ ''/exec/'' @ token \<and> CHR ''/'' \<notin> set token \<and>
     (\<forall>t2 c2 now now'. cache_run {token} (co_now2 o', ssv_cache s1) (t2, c2) \<and> t2 \<le> now \<and> now \<le> co_now2 o' + cacheTTL \<longrightarrow>
        (let s2 = s1\<lparr>ssv_cache := c2\<rparr> in
         fst (serveExec now token s2) = CallServeExec (er_ContainerId req) (er_Cmd req)
           \<lparr>sto_Stdin = er_Stdin req, sto_Stdout = er_Stdout req, sto_Stderr = er_Stderr req, sto_TTY = er_Tty req\<rparr> \<and>
         fst (serveExec now' token (snd (serveExec now token s2))) = HttpNotFound))"
proof -
  have inv: "cacheInv t (ssv_cache s)" using cache_run_inv [OF assms(1)] newRequestCache_inv by simp
  have "insertURL o' ''exec'' (ReqExec req) s = (Inr u, s1)"
    using assms(8) by (auto simp: Exec_def withServer_def GetExec_def split: prod.splits sum.splits option.splits)
  then obtain token where tk: "u = buildURL ''exec'' token s" "pathElem token" "cacheInv (co_now2 o') (ssv_cache s1)"
    "absCache (ssv_cache s1) token = Some (ReqExec req, co_now2 o' + cacheTTL)"
    using insertURL_run [OF inv assms(2-4)] by metis
  have served: "let s2 = s1\<lparr>ssv_cache := c2\<rparr> in
         fst (serveExec now token s2) = CallServeExec (er_ContainerId req) (er_Cmd req)
           \<lparr>sto_Stdin = er_Stdin req, sto_Stdout = er_Stdout req, sto_Stderr = er_Stderr req, sto_TTY = er_Tty req\<rparr> \<and>
         fst (serveExec now' token (snd (serveExec now token s2))) = HttpNotFound"
    if "cache_run {token} (co_now2 o', ssv_cache s1) (t2, c2)" "t2 \<le> now" "now \<le> co_now2 o' + cacheTTL" for t2 c2 now now'
  proof -
    have "absCache c2 token = Some (ReqExec req, co_now2 o' + cacheTTL)" "cacheInv t2 c2"
      using cache_run_keeps [OF that(1)] cache_run_inv [OF that(1)] that(2,3) tk(3,4) by simp_all
    then show ?thesis using serveExec_cached [of "s1\<lparr>ssv_cache := c2\<rparr>" token req "co_now2 o' + cacheTTL" t2 now] that(3)
      by (simp add: Let_def)
  qed
  moreover have "u = url_Scheme (ssv_BaseURL s) @ ''://'' @ url_Host (ssv_BaseURL s) @ ''/exec/'' @ token \<and> CHR ''/'' \<notin> set token"
    using buildURL_plain [OF assms(5-7) _ tk(2), of "''exec''"] tk(1,2) by (simp add: pathElem_def)
  ultimately show ?thesis by blast
qed

definition exampleRequest :: ExecRequest where
  "exampleRequest = \<lparr>er_ContainerId = ''c'', er_Cmd = [''ls''], er_Tty = False, er_Stdin = False, er_Stdout = True, er_Stderr = False\<rparr>"

definition exampleOracle :: cache_oracle where
  "exampleOracle = \<lparr>co_rand = exampleRand, co_now1 = 5, co_now2 = 6\<rparr>"

definition exampleServer :: stream_server where
  "exampleServer = NewServer \<lparr>scf_Addr = ''127.0.0.1:80'', scf_BaseURL = None, scf_TLS = False\<rparr>"

definition exampleRunning :: fake_docker where
  "exampleRunning = exampleDaemon\<lparr>fk_ContainerMap := [(''c'', convertFakeContainer
     \<lparr>fc_ID = ''c'', fc_Name = ''/c'', fc_Running = True, fc_ExitCode = 0, fc_Pid = 1, fc_CreatedAt = 0, fc_StartedAt = 0, fc_FinishedAt = 0,
      fc_Config = None, fc_HostConfig = None\<rparr>)]\<rparr>"

theorem Exec_url_single_use_witness:
  "\<exists>token u s1 e1. Exec fakeClient exampleOracle exampleRequest (Some exampleServer, exampleRunning) = (Inr u, Some s1, e1) \<and>
     u = ''http://127.0.0.1:80/exec/'' @ token \<and>
     fst (serveExec 7 token s1) = CallServeExec ''c'' [''ls''] \<lparr>sto_Stdin = False, sto_Stdout = True, sto_Stderr = False, sto_TTY = False\<rparr> \<and>
     fst (serveExec 8 token (snd (serveExec 7 token s1))) = HttpNotFound"
proof -
  have b: "ssv_cache exampleServer = newRequestCache" "ssv_BaseURL exampleServer = \<lparr>url_Scheme = ''http'', url_Host = ''127.0.0.1:80'', url_Path = []\<rparr>"
    by (simp_all add: exampleServer_def NewServer_def Let_def)
  have "uniqueToken exampleRand newRequestCache = Inr ''AAAAAAAA''" by code_simp
  moreover have "gc 5 newRequestCache = newRequestCache" by (simp add: gc.simps newRequestCache_def)
  ultimately obtain c where "Insert exampleRand 5 6 (ReqExec exampleRequest) newRequestCache = (Inr ''AAAAAAAA'', c)"
    by (simp add: Insert_def newRequestCache_def maxInFlight_def Let_def)
  then obtain u s1 where "insertURL exampleOracle ''exec'' (ReqExec exampleRequest) exampleServer = (Inr u, s1)"
    by (simp add: insertURL_def exampleOracle_def b)
  moreover have "\<exists>j e1. CheckContainerStatus fakeClient ''c'' exampleRunning = (Inr j, e1)"
    by (simp add: CheckContainerStatus_def fakeClient_def Fake_InspectContainer_def popError_def appendCalled_def exampleRunning_def
        exampleDaemon_def NewFakeDockerClient_def convertFakeContainer_def)
  ultimately obtain e1 where x: "Exec fakeClient exampleOracle exampleRequest (Some exampleServer, exampleRunning) = (Inr u, Some s1, e1)"
    by (auto simp: Exec_def withServer_def GetExec_def validateExecRequest_def exampleRequest_def)
  have r: "cache_run {} (0, newRequestCache) (0, ssv_cache exampleServer)" by (simp add: b cache_run.stay)
  have k: "randOk (co_rand exampleOracle)" by (simp add: randOk_def exampleOracle_def exampleRand_def)
  obtain token where t: "u = ''http'' @ ''://'' @ ''127.0.0.1:80'' @ ''/exec/'' @ token"
    "\<And>t2 c2 now now'. cache_run {token} (6, ssv_cache s1) (t2, c2) \<Longrightarrow> t2 \<le> now \<Longrightarrow> now \<le> 6 + cacheTTL \<Longrightarrow>
       fst (serveExec now token (s1\<lparr>ssv_cache := c2\<rparr>)) = CallServeExec ''c'' [''ls''] \<lparr>sto_Stdin = False, sto_Stdout = True, sto_Stderr = False, sto_TTY = False\<rparr> \<and>
       fst (serveExec now' token (snd (serveExec now token (s1\<lparr>ssv_cache := c2\<rparr>)))) = HttpNotFound"
    using Exec_url_single_use [OF r _ _ k _ _ _ x] by (auto simp: b exampleOracle_def exampleRequest_def Let_def)
  then show ?thesis using t(2) [OF cache_run.stay, of 7 8] x by (intro exI [of _ token] exI [of _ u] exI [of _ s1] exI [of _ e1]) (simp add: cacheTTL_def)
qed

end
