(* ===== verification/Kube_Docker_Client.thy ===== *)
theory Kube_Docker_Client
  imports Fake_Docker Libdocker Request_Cache
begin

text \<open>
  The client of the real daemon (\<^verbatim>\<open>libdocker/kube_docker_client.go\<close>). The API client of the Docker SDK is a third-party
  package: \<open>docker_api\<close> has one field per call the source makes. A call gets the timeout of its context (\<open>None\<close> for a
  context that is only cancelled) and returns its result together with the error that the context
  reports afterwards. A response body is the list of the chunks that reads return, and the error after them.
\<close>

type_synonym ('e, 'r) api_call = "int option \<Rightarrow> 'e \<Rightarrow> ('r result \<times> goerror option) \<times> 'e"

type_synonym reader = "string list \<times> goerror option"

subsection \<open>Image pulls\<close>

text \<open>A progress message; the text of its progress bar, and the error it may carry.\<close>

record JSONMessage =
  jm_ID :: string
  jm_Status :: string
  jm_Progress :: "string option"
  jm_Error :: "(int \<times> string) option"

text \<open>
  What happens while an image is pulled: a message is decoded (with the time at which it is recorded), decoding
  fails, or the ticker of the reporter fires. The end of the list is the end of the stream.
\<close>

datatype pull_event = Decoded int JSONMessage | DecodeError goerror | Tick int

record progressReporter =
  rp_message :: "JSONMessage option"
  rp_timestamp :: int
  rp_downloaded :: bool
  rp_cancelled :: bool

definition newProgressReporter :: "int \<Rightarrow> progressReporter" where
  "newProgressReporter now = \<lparr>rp_message = None, rp_timestamp = now, rp_downloaded = False, rp_cancelled = False\<rparr>"

definition progress_set :: "JSONMessage \<Rightarrow> int \<Rightarrow> progressReporter \<Rightarrow> progressReporter" where
  "progress_set msg now p = p\<lparr>rp_message := Some msg, rp_timestamp := now\<rparr>"

definition formatProgress :: "JSONMessage option \<Rightarrow> string" where
  "formatProgress msg =
     (case msg of
        None \<Rightarrow> ''No progress''
      | Some m \<Rightarrow>
          (let pre = (if jm_ID m \<noteq> [] then jm_ID m @ '': '' else []) in
           case jm_Progress m of None \<Rightarrow> pre @ jm_Status m | Some p \<Rightarrow> pre @ jm_Status m @ '' '' @ p))"

text \<open>
  One tick of the reporter: the status of the latest message is read through a pointer that is nil until the first
  message. Once the pull is cancelled the reporter has stopped.
\<close>

definition reporterTick :: "int \<Rightarrow> int \<Rightarrow> progressReporter \<Rightarrow> progressReporter result" where
  "reporterTick imagePullProgressDeadline now p =
     (if rp_cancelled p then Inr p
      else (case rp_message p of
              None \<Rightarrow> Inl nilDereference
            | Some m \<Rightarrow>
                (let downloaded = (rp_downloaded p \<or> jm_Status m = ''Extracting'') in
                 if \<not> downloaded \<and> now - rp_timestamp p > imagePullProgressDeadline
                 then Inr (p\<lparr>rp_downloaded := downloaded, rp_cancelled := True\<rparr>)
                 else Inr (p\<lparr>rp_downloaded := downloaded\<rparr>))))"

text \<open>The loop of \<^verbatim>\<open>PullImage\<close>, interleaved with the ticks; a panic of the reporter ends the program.\<close>

fun pullLoop :: "int \<Rightarrow> pull_event list \<Rightarrow> progressReporter \<Rightarrow> goerror option \<times> progressReporter" where
  "pullLoop dl [] p = (None, p)"
| "pullLoop dl (Tick now # evs) p =
     (case reporterTick dl now p of Inl panic \<Rightarrow> (Some panic, p) | Inr p \<Rightarrow> pullLoop dl evs p)"
| "pullLoop dl (DecodeError err # evs) p = (Some err, p)"
| "pullLoop dl (Decoded now msg # evs) p =
     (case jm_Error msg of
        Some (code, text) \<Rightarrow> (Some (JSONError code text), p)
      | None \<Rightarrow> pullLoop dl evs (progress_set msg now p))"

text \<open>\<^verbatim>\<open>base64.URLEncoding\<close> pads to a multiple of four characters; the encoder ends the text with a newline.\<close>

definition base64EncodeAuth :: "AuthConfig \<Rightarrow> string" where
  "base64EncodeAuth auth =
     (let enc = base64URL (map of_char (authJson auth @ [CHR 0x0A])) in enc @ replicate ((4 - length enc mod 4) mod 4) (CHR ''=''))"

subsection \<open>The API\<close>

record 'e docker_api =
  api_ContainerList :: "ListOptions \<Rightarrow> ('e, DockerContainer list) api_call"
  api_ContainerInspect :: "string \<Rightarrow> ('e, ContainerJSON) api_call"
  api_ContainerInspectWithRaw :: "string \<Rightarrow> bool \<Rightarrow> ('e, ContainerJSON) api_call"
  api_ContainerCreate :: "ContainerCreateConfig \<Rightarrow> ('e, string) api_call"
  api_ContainerStart :: "string \<Rightarrow> ('e, unit) api_call"
  api_ContainerStop :: "string \<Rightarrow> int \<Rightarrow> ('e, unit) api_call"
  api_ContainerRemove :: "string \<Rightarrow> RemoveOptions \<Rightarrow> ('e, unit) api_call"
  api_ContainerUpdate :: "string \<Rightarrow> DockerResources \<Rightarrow> ('e, unit) api_call"
  api_ImageInspectWithRaw :: "string \<Rightarrow> ('e, ImageInspect) api_call"
  api_ImageHistory :: "string \<Rightarrow> ('e, HistoryItem list) api_call"
  api_ImageList :: "ImageListOptions \<Rightarrow> ('e, ImageSummary list) api_call"
  api_ImagePull :: "string \<Rightarrow> string \<Rightarrow> ('e, int \<times> pull_event list) api_call"
  api_ImageRemove :: "string \<Rightarrow> ('e, unit) api_call"
  api_ContainerLogs :: "string \<Rightarrow> LogsOptions \<Rightarrow> ('e, reader) api_call"
  api_ServerVersion :: "('e, DockerVersion) api_call"
  api_Info :: "('e, DockerInfo) api_call"
  api_ContainerExecCreate :: "string \<Rightarrow> ExecOptions \<Rightarrow> ('e, string) api_call"
  api_ContainerExecStart :: "string \<Rightarrow> bool \<Rightarrow> ('e, unit) api_call"
  api_ContainerExecAttach :: "string \<Rightarrow> bool \<Rightarrow> ('e, reader) api_call"
  api_ContainerExecInspect :: "string \<Rightarrow> ('e, ExecInspect) api_call"
  api_ContainerAttach :: "string \<Rightarrow> bool \<Rightarrow> bool \<Rightarrow> bool \<Rightarrow> ('e, reader) api_call"
  api_ContainerExecResize :: "string \<Rightarrow> nat \<Rightarrow> nat \<Rightarrow> ('e, unit) api_call"
  api_ContainerResize :: "string \<Rightarrow> nat \<Rightarrow> nat \<Rightarrow> ('e, unit) api_call"
  api_ContainerStatsOneShot :: "string \<Rightarrow> ('e, StatsResponse result) api_call"
  api_IsErrNotFound :: "goerror \<Rightarrow> bool"
  api_StdCopy :: "'e writer \<Rightarrow> 'e writer \<Rightarrow> reader \<Rightarrow> 'e \<Rightarrow> goerror option \<times> 'e"
  api_feedInput :: "bool \<Rightarrow> 'e \<Rightarrow> 'e"

record 'e kube_client =
  kd_timeout :: int
  kd_imagePullProgressDeadline :: int
  kd_api :: "'e docker_api"
  kd_refs :: ref_parsers

definition defaultTimeout :: int where "defaultTimeout = 2 * 60 * 10 ^ 9 - 10 ^ 9"

definition defaultShmSize :: int where "defaultShmSize = 1024 * 1024 * 64"

definition newKubeDockerClient :: "'e docker_api \<Rightarrow> ref_parsers \<Rightarrow> int \<Rightarrow> int \<Rightarrow> 'e kube_client" where
  "newKubeDockerClient dockerClient refs requestTimeout imagePullProgressDeadline =
     \<lparr>kd_timeout = (if requestTimeout = 0 then defaultTimeout else requestTimeout),
      kd_imagePullProgressDeadline = imagePullProgressDeadline, kd_api = dockerClient, kd_refs = refs\<rparr>"

text \<open>The error of the context, and a result that gives way to it.\<close>

definition contextError :: "goerror option \<Rightarrow> goerror option" where
  "contextError ctxErr =
     (if ctxErr = Some (Sentinel DeadlineExceeded) then Some (OperationTimeout (Sentinel DeadlineExceeded)) else ctxErr)"

definition answer :: "('r result \<times> goerror option) \<times> 'e \<Rightarrow> 'r result \<times> 'e" where
  "answer r = (case r of ((res, ctxErr), e) \<Rightarrow> (case contextError ctxErr of Some err \<Rightarrow> (Inl err, e) | None \<Rightarrow> (res, e)))"

definition errorOf :: "'r result \<times> 'e \<Rightarrow> goerror option \<times> 'e" where
  "errorOf r = (case r of (Inl err, e) \<Rightarrow> (Some err, e) | (Inr _, e) \<Rightarrow> (None, e))"

definition getCustomTimeoutContext :: "'e kube_client \<Rightarrow> int \<Rightarrow> int option" where
  "getCustomTimeoutContext d timeout = Some (if kd_timeout d > timeout then kd_timeout d else timeout)"

subsection \<open>Operations\<close>

definition Kube_ListContainers :: "'e kube_client \<Rightarrow> ListOptions \<Rightarrow> 'e \<Rightarrow> (DockerContainer list \<times> goerror option) \<times> 'e" where
  "Kube_ListContainers d options e =
     (case answer (api_ContainerList (kd_api d) options (Some (kd_timeout d)) e) of
        (Inl err, e) \<Rightarrow> (([], Some err), e) | (Inr containers, e) \<Rightarrow> ((containers, None), e))"

definition Kube_InspectContainer :: "'e kube_client \<Rightarrow> string \<Rightarrow> 'e \<Rightarrow> ContainerJSON result \<times> 'e" where
  "Kube_InspectContainer d i e = answer (api_ContainerInspect (kd_api d) i (Some (kd_timeout d)) e)"

definition Kube_InspectContainerWithSize :: "'e kube_client \<Rightarrow> string \<Rightarrow> 'e \<Rightarrow> ContainerJSON result \<times> 'e" where
  "Kube_InspectContainerWithSize d i e = answer (api_ContainerInspectWithRaw (kd_api d) i True (Some (kd_timeout d)) e)"

text \<open>The host configuration is never nil here.\<close>

definition withShmSize :: "ContainerCreateConfig \<Rightarrow> ContainerCreateConfig" where
  "withShmSize opts =
     (if hc_ShmSize (ccc_HostConfig opts) \<le> 0
      then opts\<lparr>ccc_HostConfig := (ccc_HostConfig opts)\<lparr>hc_ShmSize := defaultShmSize\<rparr>\<rparr> else opts)"

definition Kube_CreateContainer :: "'e kube_client \<Rightarrow> ContainerCreateConfig \<Rightarrow> 'e \<Rightarrow> string result \<times> 'e" where
  "Kube_CreateContainer d opts e = answer (api_ContainerCreate (kd_api d) (withShmSize opts) (Some (kd_timeout d)) e)"

definition Kube_StartContainer :: "'e kube_client \<Rightarrow> string \<Rightarrow> 'e \<Rightarrow> goerror option \<times> 'e" where
  "Kube_StartContainer d i e = errorOf (answer (api_ContainerStart (kd_api d) i (Some (kd_timeout d)) e))"

text \<open>The timeout in seconds drops the fraction.\<close>

definition Kube_StopContainer :: "'e kube_client \<Rightarrow> string \<Rightarrow> int \<Rightarrow> 'e \<Rightarrow> goerror option \<times> 'e" where
  "Kube_StopContainer d i timeout e =
     (let timeoutSeconds = sgn timeout * (\<bar>timeout\<bar> div 10 ^ 9) in
      errorOf (answer (api_ContainerStop (kd_api d) i timeoutSeconds (getCustomTimeoutContext d timeout) e)))"

definition Kube_RemoveContainer :: "'e kube_client \<Rightarrow> string \<Rightarrow> RemoveOptions \<Rightarrow> 'e \<Rightarrow> goerror option \<times> 'e" where
  "Kube_RemoveContainer d i opts e = errorOf (answer (api_ContainerRemove (kd_api d) i opts (Some (kd_timeout d)) e))"

definition Kube_UpdateContainerResources :: "'e kube_client \<Rightarrow> string \<Rightarrow> DockerResources \<Rightarrow> 'e \<Rightarrow> goerror option \<times> 'e" where
  "Kube_UpdateContainerResources d i updateConfig e =
     errorOf (answer (api_ContainerUpdate (kd_api d) i updateConfig (Some (kd_timeout d)) e))"

definition inspectImageRaw :: "'e kube_client \<Rightarrow> string \<Rightarrow> 'e \<Rightarrow> ImageInspect result \<times> 'e" where
  "inspectImageRaw d ref e =
     (case api_ImageInspectWithRaw (kd_api d) ref (Some (kd_timeout d)) e of ((resp, ctxErr), e) \<Rightarrow>
        (case contextError ctxErr of
           Some err \<Rightarrow> (Inl err, e)
         | None \<Rightarrow>
             (case resp of
                Inl err \<Rightarrow> (Inl (if api_IsErrNotFound (kd_api d) err then ImageNotFoundError ref else err), e)
              | Inr img \<Rightarrow> (Inr img, e))))"

definition Kube_InspectImageByID :: "'e kube_client \<Rightarrow> string \<Rightarrow> 'e \<Rightarrow> ImageInspect result \<times> 'e" where
  "Kube_InspectImageByID d imageID e =
     (case inspectImageRaw d imageID e of
        (Inl err, e) \<Rightarrow> (Inl err, e)
      | (Inr resp, e) \<Rightarrow> if \<not> matchImageIDOnly (kd_refs d) resp imageID then (Inl (ImageNotFoundError imageID), e) else (Inr resp, e))"

definition Kube_InspectImageByRef :: "'e kube_client \<Rightarrow> string \<Rightarrow> 'e \<Rightarrow> ImageInspect result \<times> 'e" where
  "Kube_InspectImageByRef d imageRef e =
     (case inspectImageRaw d imageRef e of
        (Inl err, e) \<Rightarrow> (Inl err, e)
      | (Inr resp, e) \<Rightarrow> if \<not> matchImageTagOrSHA (kd_refs d) resp imageRef then (Inl (ImageNotFoundError imageRef), e) else (Inr resp, e))"

definition Kube_ImageHistory :: "'e kube_client \<Rightarrow> string \<Rightarrow> 'e \<Rightarrow> HistoryItem list result \<times> 'e" where
  "Kube_ImageHistory d i e = answer (api_ImageHistory (kd_api d) i (Some (kd_timeout d)) e)"

definition Kube_ListImages :: "'e kube_client \<Rightarrow> ImageListOptions \<Rightarrow> 'e \<Rightarrow> ImageSummary list result \<times> 'e" where
  "Kube_ListImages d opts e = answer (api_ImageList (kd_api d) opts (Some (kd_timeout d)) e)"

text \<open>The error of the context is not looked at; the first component of the response is the time of its start.\<close>

definition Kube_PullImage :: "'e kube_client \<Rightarrow> string \<Rightarrow> AuthConfig \<Rightarrow> 'e \<Rightarrow> goerror option \<times> 'e" where
  "Kube_PullImage d img auth e =
     (case api_ImagePull (kd_api d) img (base64EncodeAuth auth) None e of
        ((Inl err, _), e) \<Rightarrow> (Some err, e)
      | ((Inr (now, evs), _), e) \<Rightarrow> (fst (pullLoop (kd_imagePullProgressDeadline d) evs (newProgressReporter now)), e))"

definition Kube_RemoveImage :: "'e kube_client \<Rightarrow> string \<Rightarrow> 'e \<Rightarrow> goerror option \<times> 'e" where
  "Kube_RemoveImage d img e =
     (case api_ImageRemove (kd_api d) img (Some (kd_timeout d)) e of ((resp, ctxErr), e) \<Rightarrow>
        (case contextError ctxErr of
           Some err \<Rightarrow> (Some err, e)
         | None \<Rightarrow>
             (case resp of
                Inl err \<Rightarrow> (Some (if api_IsErrNotFound (kd_api d) err then ImageNotFoundError img else err), e)
              | Inr _ \<Rightarrow> (None, e))))"

definition Kube_Version :: "'e kube_client \<Rightarrow> 'e \<Rightarrow> DockerVersion result \<times> 'e" where
  "Kube_Version d e = answer (api_ServerVersion (kd_api d) (Some (kd_timeout d)) e)"

definition Kube_Info :: "'e kube_client \<Rightarrow> 'e \<Rightarrow> DockerInfo result \<times> 'e" where
  "Kube_Info d e = answer (api_Info (kd_api d) (Some (kd_timeout d)) e)"

definition Kube_CreateExec :: "'e kube_client \<Rightarrow> string \<Rightarrow> ExecOptions \<Rightarrow> 'e \<Rightarrow> string result \<times> 'e" where
  "Kube_CreateExec d i opts e = answer (api_ContainerExecCreate (kd_api d) i opts (Some (kd_timeout d)) e)"

definition Kube_InspectExec :: "'e kube_client \<Rightarrow> string \<Rightarrow> 'e \<Rightarrow> ExecInspect result \<times> 'e" where
  "Kube_InspectExec d i e = answer (api_ContainerExecInspect (kd_api d) i (Some (kd_timeout d)) e)"

definition Kube_ResizeExecTTY :: "'e kube_client \<Rightarrow> string \<Rightarrow> nat \<Rightarrow> nat \<Rightarrow> 'e \<Rightarrow> goerror option \<times> 'e" where
  "Kube_ResizeExecTTY d i height width e =
     (case api_ContainerExecResize (kd_api d) i height width None e of ((r, _), e) \<Rightarrow> errorOf (r, e))"

definition Kube_ResizeContainerTTY :: "'e kube_client \<Rightarrow> string \<Rightarrow> nat \<Rightarrow> nat \<Rightarrow> 'e \<Rightarrow> goerror option \<times> 'e" where
  "Kube_ResizeContainerTTY d i height width e =
     (case api_ContainerResize (kd_api d) i height width None e of ((r, _), e) \<Rightarrow> errorOf (r, e))"

text \<open>The inner result is that of decoding the body.\<close>

definition Kube_GetContainerStats :: "'e kube_client \<Rightarrow> string \<Rightarrow> 'e \<Rightarrow> StatsResponse result \<times> 'e" where
  "Kube_GetContainerStats d i e =
     (case api_ContainerStatsOneShot (kd_api d) i None e of
        ((Inl err, _), e) \<Rightarrow> (Inl err, e)
      | ((Inr (Inl err), _), e) \<Rightarrow> (Inl err, e)
      | ((Inr (Inr stats), _), e) \<Rightarrow> (Inr stats, e))"

subsection \<open>Streams\<close>

text \<open>\<^verbatim>\<open>io.Copy\<close>: a write that takes less than it was given is an error.\<close>

fun io_Copy :: "'e writer \<Rightarrow> string list \<Rightarrow> goerror option \<Rightarrow> 'e \<Rightarrow> goerror option \<times> 'e" where
  "io_Copy w [] readErr e = (readErr, e)"
| "io_Copy w (p # ps) readErr e =
     (case w p e of ((n, err), e) \<Rightarrow>
        if err \<noteq> None then (err, e)
        else if n \<noteq> int (length p) then (Some (Sentinel ErrShortWrite), e)
        else io_Copy w ps readErr e)"

definition io_Discard :: "'e writer" where
  "io_Discard p e = ((int (length p), None), e)"

definition redirectResponseToOutputStream ::
    "'e kube_client \<Rightarrow> bool \<Rightarrow> 'e writer option \<Rightarrow> 'e writer option \<Rightarrow> reader \<Rightarrow> 'e \<Rightarrow> goerror option \<times> 'e" where
  "redirectResponseToOutputStream d tty outputStream errorStream resp e =
     (let outputStream = (case outputStream of None \<Rightarrow> io_Discard | Some w \<Rightarrow> w);
          errorStream = (case errorStream of None \<Rightarrow> io_Discard | Some w \<Rightarrow> w)
      in if tty then io_Copy outputStream (fst resp) (snd resp) e
         else api_StdCopy (kd_api d) outputStream errorStream resp e)"

text \<open>
  Both arms of the select wait for the copy of the output when there is one. The copy of the input runs beside it;
  its effect on the daemon is put first.
\<close>

definition holdHijackedConnection ::
    "'e kube_client \<Rightarrow> bool \<Rightarrow> bool \<Rightarrow> 'e writer option \<Rightarrow> 'e writer option \<Rightarrow> reader \<Rightarrow> 'e \<Rightarrow> goerror option \<times> 'e" where
  "holdHijackedConnection d tty inputStream outputStream errorStream resp e =
     (let e = api_feedInput (kd_api d) inputStream e in
      if outputStream \<noteq> None \<or> errorStream \<noteq> None
      then redirectResponseToOutputStream d tty outputStream errorStream resp e
      else (None, e))"

definition Kube_Logs :: "'e kube_client \<Rightarrow> string \<Rightarrow> LogsOptions \<Rightarrow> 'e StreamOptions \<Rightarrow> 'e \<Rightarrow> goerror option \<times> 'e" where
  "Kube_Logs d i opts sopts e =
     (case answer (api_ContainerLogs (kd_api d) i opts None e) of
        (Inl err, e) \<Rightarrow> (Some err, e)
      | (Inr resp, e) \<Rightarrow>
          redirectResponseToOutputStream d (so_RawTerminal sopts) (so_OutputStream sopts) (so_ErrorStream sopts) resp e)"

definition Kube_StartExec :: "'e kube_client \<Rightarrow> string \<Rightarrow> bool \<Rightarrow> bool \<Rightarrow> 'e StreamOptions \<Rightarrow> 'e \<Rightarrow> goerror option \<times> 'e" where
  "Kube_StartExec d startExec detach tty sopts e =
     (if detach then errorOf (answer (api_ContainerExecStart (kd_api d) startExec tty None e))
      else (case answer (api_ContainerExecAttach (kd_api d) startExec tty None e) of
              (Inl err, e) \<Rightarrow> (Some err, e)
            | (Inr resp, e) \<Rightarrow>
                holdHijackedConnection d (so_RawTerminal sopts \<or> tty) (so_InputStream sopts) (so_OutputStream sopts) (so_ErrorStream sopts) resp e))"

definition Kube_AttachToContainer :: "'e kube_client \<Rightarrow> string \<Rightarrow> bool \<Rightarrow> 'e StreamOptions \<Rightarrow> 'e \<Rightarrow> goerror option \<times> 'e" where
  "Kube_AttachToContainer d i stdin sopts e =
     (case answer (api_ContainerAttach (kd_api d) i stdin (so_OutputStream sopts \<noteq> None) (so_ErrorStream sopts \<noteq> None) None e) of
        (Inl err, e) \<Rightarrow> (Some err, e)
      | (Inr resp, e) \<Rightarrow>
          holdHijackedConnection d (so_RawTerminal sopts) (so_InputStream sopts) (so_OutputStream sopts) (so_ErrorStream sopts) resp e)"

definition kubeDockerClient :: "'e kube_client \<Rightarrow> 'e docker_client" where
  "kubeDockerClient d =
     \<lparr>dk_ListContainers = Kube_ListContainers d, dk_InspectContainer = Kube_InspectContainer d,
      dk_InspectContainerWithSize = Kube_InspectContainerWithSize d, dk_CreateContainer = Kube_CreateContainer d,
      dk_StartContainer = Kube_StartContainer d, dk_StopContainer = Kube_StopContainer d,
      dk_UpdateContainerResources = Kube_UpdateContainerResources d, dk_RemoveContainer = Kube_RemoveContainer d,
      dk_InspectImageByRef = Kube_InspectImageByRef d, dk_InspectImageByID = Kube_InspectImageByID d,
      dk_ListImages = Kube_ListImages d, dk_PullImage = Kube_PullImage d, dk_RemoveImage = Kube_RemoveImage d,
      dk_ImageHistory = Kube_ImageHistory d, dk_Logs = Kube_Logs d, dk_Version = Kube_Version d, dk_Info = Kube_Info d,
      dk_CreateExec = Kube_CreateExec d, dk_StartExec = Kube_StartExec d, dk_InspectExec = Kube_InspectExec d,
      dk_AttachToContainer = Kube_AttachToContainer d, dk_ResizeContainerTTY = Kube_ResizeContainerTTY d,
      dk_ResizeExecTTY = Kube_ResizeExecTTY d, dk_GetContainerStats = Kube_GetContainerStats d\<rparr>"

subsection \<open>The contract of the API\<close>

text \<open>
  The behaviour of the calls on the life of a container, for a daemon that answers before the context ends. What a created container has of
  its configuration is \<open>createdAs\<close>: the daemon may add the labels of the image and fill in what the request leaves open. With it the client
  keeps the contract that the handlers rely on.
\<close>

locale docker_api_contract =
  fixes d :: "'e kube_client"
    and view :: "'e \<Rightarrow> string \<Rightarrow> ContainerJSON option"
  assumes api_inspect: "api_ContainerInspect (kd_api d) i t e = ((r, x), e') \<Longrightarrow> x = None \<and> view e' = view e \<and> (\<forall>j. r = Inr j \<longrightarrow> view e i = Some j)"
    and api_list: "api_ContainerList (kd_api d) lo t e = ((rl, x), e') \<Longrightarrow> view e' = view e"
    and api_image: "api_ImageInspectWithRaw (kd_api d) img t e = ((ri, x), e') \<Longrightarrow> view e' = view e"
    and api_pull: "api_ImagePull (kd_api d) img au t e = ((rp, x), e') \<Longrightarrow> view e' = view e"
    and api_version: "api_ServerVersion (kd_api d) t e = ((rv, x), e') \<Longrightarrow> view e' = view e"
    and api_info: "api_Info (kd_api d) t e = ((rn, x), e') \<Longrightarrow> view e' = view e"
    and api_create: "api_ContainerCreate (kd_api d) c t e = ((rc, x), e') \<Longrightarrow> x = None \<and>
      (case rc of Inl _ \<Rightarrow> view e' = view e
       | Inr i \<Rightarrow> \<exists>j. view e' = (view e)(i \<mapsto> j) \<and> cj_ID j = i \<and> createdAs c j)"
    and api_start: "api_ContainerStart (kd_api d) i t e = ((ru, x), e') \<Longrightarrow> x = None \<and>
      (case ru of Inl _ \<Rightarrow> view e' = view e
       | Inr _ \<Rightarrow> \<exists>j k. view e i = Some j \<and> view e' = (view e)(i \<mapsto> k) \<and> sameContainer j k \<and> ds_Running (cj_State k))"
    and api_stop: "api_ContainerStop (kd_api d) i s t e = ((ru, x), e') \<Longrightarrow> x = None \<and>
      (case ru of Inl _ \<Rightarrow> view e' = view e
       | Inr _ \<Rightarrow> \<exists>k. view e' = (view e)(i \<mapsto> k) \<and> \<not> ds_Running (cj_State k) \<and> (\<forall>j. view e i = Some j \<longrightarrow> sameContainer j k))"
    and api_remove: "api_ContainerRemove (kd_api d) i opts t e = ((ru, x), e') \<Longrightarrow> x = None \<and>
      (case ru of Inl _ \<Rightarrow> view e' = view e | Inr _ \<Rightarrow> view e' = (view e)(i := None))"

text \<open>A call whose context has not ended is answered by its result.\<close>

lemma answer_None: "answer ((r, None), e) = (r, e)"
  by (simp add: answer_def contextError_def)

lemma answer_state: "answer ((r, x), e) = (a, e') \<Longrightarrow> e' = e"
  by (auto simp: answer_def split: option.splits)

lemma errorOf_None: "errorOf (r, e) = (None, e') \<longleftrightarrow> (\<exists>y. r = Inr y) \<and> e' = e"
  by (auto simp: errorOf_def split: sum.splits)

lemma errorOf_Some: "errorOf (r, e) = (Some err, e') \<longleftrightarrow> r = Inl err \<and> e' = e"
  by (auto simp: errorOf_def split: sum.splits)

lemma createdAs_withShmSize: "createdAs (withShmSize c) j = createdAs c j"
  by (simp add: withShmSize_def createdAs_def sameHostModes_def)

context docker_api_contract
begin

lemma kube_inspect: "Kube_InspectContainer d i e = (r, e') \<Longrightarrow> view e' = view e \<and> (\<forall>j. r = Inr j \<longrightarrow> view e i = Some j)"
proof -
  assume a: "Kube_InspectContainer d i e = (r, e')"
  obtain r1 x e1 where c: "api_ContainerInspect (kd_api d) i (Some (kd_timeout d)) e = ((r1, x), e1)" by (metis prod.exhaust)
  show ?thesis using a api_inspect [OF c] by (auto simp: Kube_InspectContainer_def c answer_None)
qed

lemma kube_list: "Kube_ListContainers d lo e = (l, e') \<Longrightarrow> view e' = view e"
  by (cases "api_ContainerList (kd_api d) lo (Some (kd_timeout d)) e")
    (auto simp: Kube_ListContainers_def split: prod.splits sum.splits dest!: answer_state dest: api_list)

lemma inspectImageRaw_frame: "inspectImageRaw d img e = (r, e') \<Longrightarrow> view e' = view e"
  by (auto simp: inspectImageRaw_def split: prod.splits sum.splits option.splits dest: api_image)

lemma kube_image: "Kube_InspectImageByRef d img e = (r, e') \<Longrightarrow> view e' = view e" "Kube_InspectImageByID d img e = (r, e') \<Longrightarrow> view e' = view e"
  by (auto simp: Kube_InspectImageByRef_def Kube_InspectImageByID_def split: prod.splits sum.splits if_splits dest!: inspectImageRaw_frame)

lemma kube_pull: "Kube_PullImage d img au e = (r, e') \<Longrightarrow> view e' = view e"
  by (auto simp: Kube_PullImage_def split: prod.splits sum.splits dest: api_pull)

lemma kube_version: "Kube_Version d e = (r, e') \<Longrightarrow> view e' = view e"
  by (cases "api_ServerVersion (kd_api d) (Some (kd_timeout d)) e") (auto simp: Kube_Version_def dest!: answer_state dest: api_version)

lemma kube_info: "Kube_Info d e = (r, e') \<Longrightarrow> view e' = view e"
  by (cases "api_Info (kd_api d) (Some (kd_timeout d)) e") (auto simp: Kube_Info_def dest!: answer_state dest: api_info)

lemma kube_create:
  assumes "Kube_CreateContainer d c e = (r, e')"
  shows "case r of Inl _ \<Rightarrow> view e' = view e | Inr i \<Rightarrow> \<exists>j. view e' = (view e)(i \<mapsto> j) \<and> cj_ID j = i \<and> createdAs c j"
proof -
  obtain r1 x e1 where c: "api_ContainerCreate (kd_api d) (withShmSize c) (Some (kd_timeout d)) e = ((r1, x), e1)" by (metis prod.exhaust)
  have "r1 = r" "e1 = e'" using assms api_create [OF c] by (simp_all add: Kube_CreateContainer_def c answer_None)
  then show ?thesis using api_create [OF c] by (simp add: createdAs_withShmSize split: sum.splits)
qed

lemma kube_start:
  assumes "Kube_StartContainer d i e = (r, e')"
  shows "case r of Some _ \<Rightarrow> view e' = view e
    | None \<Rightarrow> \<exists>j k. view e i = Some j \<and> view e' = (view e)(i \<mapsto> k) \<and> sameContainer j k \<and> ds_Running (cj_State k)"
proof -
  obtain r1 x e1 where c: "api_ContainerStart (kd_api d) i (Some (kd_timeout d)) e = ((r1, x), e1)" by (metis prod.exhaust)
  show ?thesis using assms api_start [OF c] by (cases r1) (auto simp: Kube_StartContainer_def c answer_None errorOf_def)
qed

lemma kube_stop:
  assumes "Kube_StopContainer d i t e = (r, e')"
  shows "case r of Some _ \<Rightarrow> view e' = view e
    | None \<Rightarrow> \<exists>k. view e' = (view e)(i \<mapsto> k) \<and> \<not> ds_Running (cj_State k) \<and> (\<forall>j. view e i = Some j \<longrightarrow> sameContainer j k)"
proof -
  obtain r1 x e1 where c: "api_ContainerStop (kd_api d) i (sgn t * (\<bar>t\<bar> div 10 ^ 9)) (getCustomTimeoutContext d t) e = ((r1, x), e1)"
    by (metis prod.exhaust)
  show ?thesis using assms api_stop [OF c] by (cases r1) (auto simp: Kube_StopContainer_def c [simplified] answer_None errorOf_def Let_def)
qed

lemma kube_remove:
  assumes "Kube_RemoveContainer d i opts e = (r, e')"
  shows "case r of Some _ \<Rightarrow> view e' = view e | None \<Rightarrow> view e' = (view e)(i := None)"
proof -
  obtain r1 x e1 where c: "api_ContainerRemove (kd_api d) i opts (Some (kd_timeout d)) e = ((r1, x), e1)" by (metis prod.exhaust)
  show ?thesis using assms api_remove [OF c] by (cases r1) (auto simp: Kube_RemoveContainer_def c answer_None errorOf_def)
qed

end

sublocale docker_api_contract \<subseteq> kube: docker_contract "kubeDockerClient d" view
  by unfold_locales
    (auto simp: kubeDockerClient_def dest: kube_inspect kube_list kube_image kube_pull kube_version kube_info
      dest!: kube_create kube_start kube_stop kube_remove)

context docker_api_contract
begin

lemma kube_contract: "docker_contract (kubeDockerClient d) view"
  by (rule kube.docker_contract_axioms)

end

text \<open>The API of a daemon that behaves as the fake client of the repository and answers in time.\<close>

definition timely :: "'r result \<times> 'e \<Rightarrow> ('r result \<times> goerror option) \<times> 'e" where
  "timely r = ((fst r, None), snd r)"

definition unitResult :: "goerror option \<times> 'e \<Rightarrow> (unit result \<times> goerror option) \<times> 'e" where
  "unitResult r = ((case fst r of None \<Rightarrow> Inr () | Some err \<Rightarrow> Inl err, None), snd r)"

definition fakeApi :: "fake_docker docker_api" where
  "fakeApi =
     \<lparr>api_ContainerList = (\<lambda>o' t f. case Fake_ListContainers o' f of ((l, err), f) \<Rightarrow> ((case err of None \<Rightarrow> Inr l | Some x \<Rightarrow> Inl x, None), f)),
      api_ContainerInspect = (\<lambda>i t f. timely (Fake_InspectContainer i f)),
      api_ContainerInspectWithRaw = (\<lambda>i b t f. timely (Fake_InspectContainerWithSize i f)),
      api_ContainerCreate = (\<lambda>c t f. timely (Fake_CreateContainer c f)),
      api_ContainerStart = (\<lambda>i t f. unitResult (Fake_StartContainer i f)),
      api_ContainerStop = (\<lambda>i s t f. unitResult (Fake_StopContainer i (s * 10 ^ 9) f)),
      api_ContainerRemove = (\<lambda>i o' t f. unitResult (Fake_RemoveContainer i o' f)),
      api_ContainerUpdate = (\<lambda>i r t f. unitResult (Fake_UpdateContainerResources i r f)),
      api_ImageInspectWithRaw = (\<lambda>i t f. timely (Fake_InspectImageByRef i f)),
      api_ImageHistory = (\<lambda>i t f. timely (Fake_ImageHistory i f)), api_ImageList = (\<lambda>o' t f. timely (Fake_ListImages o' f)),
      api_ImagePull = (\<lambda>i a t f. timely (case Fake_PullImage i zeroAuth f of (None, f) \<Rightarrow> (Inr (0, []), f) | (Some err, f) \<Rightarrow> (Inl err, f))),
      api_ImageRemove = (\<lambda>i t f. unitResult (Fake_RemoveImage i f)), api_ContainerLogs = (\<lambda>i o' t f. timely (Inr ([], None), f)),
      api_ServerVersion = (\<lambda>t f. timely (Fake_Version f)), api_Info = (\<lambda>t f. timely (Fake_Info f)),
      api_ContainerExecCreate = (\<lambda>i o' t f. timely (Fake_CreateExec i o' f)), api_ContainerExecStart = (\<lambda>i b t f. timely (Inr (), f)),
      api_ContainerExecAttach = (\<lambda>i b t f. timely (Inr ([], None), f)), api_ContainerExecInspect = (\<lambda>i t f. timely (Fake_InspectExec i f)),
      api_ContainerAttach = (\<lambda>i a b c t f. timely (Inr ([], None), f)), api_ContainerExecResize = (\<lambda>i h w t f. timely (Inr (), f)),
      api_ContainerResize = (\<lambda>i h w t f. timely (Inr (), f)),
      api_ContainerStatsOneShot = (\<lambda>i t f. timely (map_prod Inr id (Fake_GetContainerStats i f))),
      api_IsErrNotFound = IsImageNotFoundError, api_StdCopy = (\<lambda>o' x r f. (snd r, f)), api_feedInput = (\<lambda>b f. f)\<rparr>"

definition exampleKube :: "fake_docker kube_client" where
  "exampleKube = newKubeDockerClient fakeApi exampleParsers 0 0"

lemma kd_api_exampleKube: "kd_api exampleKube = fakeApi"
  by (simp add: exampleKube_def newKubeDockerClient_def)

lemma fakeClient_ops:
  "dk_InspectContainer fakeClient = Fake_InspectContainer" "dk_ListContainers fakeClient = Fake_ListContainers"
  "dk_InspectImageByRef fakeClient = Fake_InspectImageByRef" "dk_PullImage fakeClient = Fake_PullImage"
  "dk_Version fakeClient = Fake_Version" "dk_Info fakeClient = Fake_Info" "dk_CreateContainer fakeClient = Fake_CreateContainer"
  by (simp_all add: fakeClient_def)

lemmas fake_frames = fake.inspect_frame [unfolded fakeClient_ops] fake.list_frame [unfolded fakeClient_ops]
  fake.image_frame [unfolded fakeClient_ops] fake.pull_frame [unfolded fakeClient_ops] fake.version_frame [unfolded fakeClient_ops]
  fake.info_frame [unfolded fakeClient_ops]

interpretation fakeKube: docker_api_contract exampleKube fakeView
proof (unfold_locales, goal_cases)
  case (1 i t e r x e')
  then show ?case using fake_frames(1) [of i e r e'] fake.inspect_ok [unfolded fakeClient_ops, of i e _ e']
    by (cases "Fake_InspectContainer i e") (auto simp: kd_api_exampleKube fakeApi_def timely_def)
next
  case (7 c t e rc x e')
  then show ?case using Fake_Create_ok [of c e _ e'] fake.create_err [unfolded fakeClient_ops, of c e _ e']
    by (cases "Fake_CreateContainer c e") (auto simp: kd_api_exampleKube fakeApi_def timely_def split: sum.splits)
next
  case (8 i t e ru x e')
  then show ?case using Fake_Start_spec [of i e "fst (Fake_StartContainer i e)" e']
    by (cases "Fake_StartContainer i e") (auto simp: kd_api_exampleKube fakeApi_def unitResult_def split: option.splits)
next
  case (9 i s t e ru x e')
  then show ?case using Fake_Stop_spec [of i "s * 10 ^ 9" e "fst (Fake_StopContainer i (s * 10 ^ 9) e)" e']
    by (cases "Fake_StopContainer i (s * 10 ^ 9) e") (auto simp: kd_api_exampleKube fakeApi_def unitResult_def split: option.splits)
next
  case (10 i opts t e ru x e')
  then show ?case using Fake_Remove_spec [of i opts e "fst (Fake_RemoveContainer i opts e)" e']
    by (cases "Fake_RemoveContainer i opts e") (auto simp: kd_api_exampleKube fakeApi_def unitResult_def split: option.splits)
qed (auto simp: kd_api_exampleKube fakeApi_def timely_def split: prod.splits option.splits
    intro: fake_frames fake_frames [OF surjective_pairing])

subsection \<open>Properties\<close>

lemma pullLoop_reported:
  "rp_message p \<noteq> None \<Longrightarrow> DecodeError nilDereference \<notin> set evs \<Longrightarrow> fst (pullLoop dl evs p) \<noteq> Some nilDereference"
proof (induction dl evs p rule: pullLoop.induct)
  case (2 dl now evs p)
  obtain p' where r: "reporterTick dl now p = Inr p'" "rp_message p' = rp_message p"
    using 2(2) by (cases "reporterTick dl now p") (auto simp: reporterTick_def Let_def split: if_splits option.splits)
  show ?case using 2(1) [OF r(1)] 2(2,3) r by simp
next
  case (4 dl now msg evs p)
  then show ?case by (cases "jm_Error msg") (auto simp: progress_set_def nilDereference_def)
qed auto

text \<open>C33. The reporter of an image pull reads the latest progress message without testing whether there is one. The
  program panics exactly when the reporter's first tick, ten seconds after the start, comes before the first
  message of the daemon; once a message was decoded it never does.\<close>

theorem pull_panics_before_first_message:
  assumes "api_ImagePull (kd_api d) img (base64EncodeAuth auth) None e = ((Inr (start, evs), x), e')"
    and "DecodeError nilDereference \<notin> set evs"
  shows "fst (Kube_PullImage d img auth e) = Some nilDereference \<longleftrightarrow> (\<exists>now rest. evs = Tick now # rest)"
proof (cases evs)
  case Nil
  then show ?thesis using assms(1) by (simp add: Kube_PullImage_def)
next
  case (Cons ev rest)
  show ?thesis
  proof (cases ev)
    case (Decoded now msg)
    have "fst (pullLoop dl rest (progress_set msg now p)) \<noteq> Some nilDereference" for dl p
      by (rule pullLoop_reported) (use assms(2) Cons in \<open>simp_all add: progress_set_def\<close>)
    then show ?thesis using assms(1) Cons Decoded
      by (cases "jm_Error msg") (auto simp: Kube_PullImage_def nilDereference_def)
  next
    case (DecodeError err)
    then show ?thesis using assms Cons by (auto simp: Kube_PullImage_def)
  next
    case (Tick now)
    then show ?thesis using assms(1) Cons by (simp add: Kube_PullImage_def reporterTick_def newProgressReporter_def)
  qed
qed

text \<open>The API of a registry that sends nothing for ten seconds.\<close>

definition slowKube :: "fake_docker kube_client" where
  "slowKube = exampleKube\<lparr>kd_api := fakeApi\<lparr>api_ImagePull := (\<lambda>i a t f. timely (Inr (0, [Tick (10 * 10 ^ 9)]), f))\<rparr>\<rparr>"

theorem pull_panics_before_first_message_witness:
  "fst (Kube_PullImage slowKube ''busybox'' zeroAuth (NewFakeDockerClient (\<lambda>n. 0) (\<lambda>n. 0) 1)) = Some nilDereference"
proof -
  have "api_ImagePull (kd_api slowKube) ''busybox'' (base64EncodeAuth zeroAuth) None (NewFakeDockerClient (\<lambda>n. 0) (\<lambda>n. 0) 1) =
      ((Inr (0, [Tick (10 * 10 ^ 9)]), None), NewFakeDockerClient (\<lambda>n. 0) (\<lambda>n. 0) 1)"
    by (simp add: slowKube_def timely_def)
  from pull_panics_before_first_message [OF this] show ?thesis by simp
qed

end
