(* ===== verification/Instrumented_Client.thy ===== *)
theory Instrumented_Client
  imports Kube_Docker_Client Stats
begin

text \<open>
  The instrumented client (\<^verbatim>\<open>libdocker/instrumented_client.go\<close>): every operation of the client below is passed on, and its
  duration and errors are recorded. The metrics library is third-party: \<open>metrics_sink\<close> says what
  recording does to the state. The service runs on this client around that of the daemon.
\<close>

record 'e metrics_sink =
  ms_Operations :: "string \<Rightarrow> 'e \<Rightarrow> 'e"
  ms_Latency :: "string \<Rightarrow> 'e \<Rightarrow> 'e"
  ms_Timeout :: "string \<Rightarrow> 'e \<Rightarrow> 'e"
  ms_Errors :: "string \<Rightarrow> 'e \<Rightarrow> 'e"

definition recordOperation :: "'e metrics_sink \<Rightarrow> string \<Rightarrow> 'e \<Rightarrow> 'e" where
  "recordOperation ms operation e = ms_Latency ms operation (ms_Operations ms operation e)"

definition recordError :: "'e metrics_sink \<Rightarrow> string \<Rightarrow> goerror option \<Rightarrow> 'e \<Rightarrow> 'e" where
  "recordError ms operation err e =
     (case err of
        None \<Rightarrow> e
      | Some err \<Rightarrow>
          ms_Errors ms operation (case err of OperationTimeout _ \<Rightarrow> ms_Timeout ms operation e | _ \<Rightarrow> e))"

text \<open>The shape of every method: call, record the error, and record the operation on return.\<close>

definition instrument :: "'e metrics_sink \<Rightarrow> string \<Rightarrow> ('r \<Rightarrow> goerror option) \<Rightarrow> ('e \<Rightarrow> 'r \<times> 'e) \<Rightarrow> 'e \<Rightarrow> 'r \<times> 'e" where
  "instrument ms operation errOf call e =
     (case call e of (out, e) \<Rightarrow> (out, recordOperation ms operation (recordError ms operation (errOf out) e)))"

definition resultError :: "'r result \<Rightarrow> goerror option" where
  "resultError r = (case r of Inl err \<Rightarrow> Some err | Inr _ \<Rightarrow> None)"

subsection \<open>The methods\<close>

definition Inst_ListContainers :: "'e metrics_sink \<Rightarrow> 'e docker_client \<Rightarrow> ListOptions \<Rightarrow> 'e \<Rightarrow> (DockerContainer list \<times> goerror option) \<times> 'e" where
  "Inst_ListContainers ms client a = instrument ms ''list_containers'' snd (dk_ListContainers client a)"

definition Inst_InspectContainer :: "'e metrics_sink \<Rightarrow> 'e docker_client \<Rightarrow> string \<Rightarrow> 'e \<Rightarrow> ContainerJSON result \<times> 'e" where
  "Inst_InspectContainer ms client a = instrument ms ''inspect_container'' resultError (dk_InspectContainer client a)"

definition Inst_InspectContainerWithSize :: "'e metrics_sink \<Rightarrow> 'e docker_client \<Rightarrow> string \<Rightarrow> 'e \<Rightarrow> ContainerJSON result \<times> 'e" where
  "Inst_InspectContainerWithSize ms client a = instrument ms ''inspect_container_withsize'' resultError (dk_InspectContainerWithSize client a)"

definition Inst_CreateContainer :: "'e metrics_sink \<Rightarrow> 'e docker_client \<Rightarrow> ContainerCreateConfig \<Rightarrow> 'e \<Rightarrow> string result \<times> 'e" where
  "Inst_CreateContainer ms client a = instrument ms ''create_container'' resultError (dk_CreateContainer client a)"

definition Inst_StartContainer :: "'e metrics_sink \<Rightarrow> 'e docker_client \<Rightarrow> string \<Rightarrow> 'e \<Rightarrow> goerror option \<times> 'e" where
  "Inst_StartContainer ms client a = instrument ms ''start_container'' (\<lambda>err. err) (dk_StartContainer client a)"

definition Inst_StopContainer :: "'e metrics_sink \<Rightarrow> 'e docker_client \<Rightarrow> string \<Rightarrow> int \<Rightarrow> 'e \<Rightarrow> goerror option \<times> 'e" where
  "Inst_StopContainer ms client a b = instrument ms ''stop_container'' (\<lambda>err. err) (dk_StopContainer client a b)"

definition Inst_UpdateContainerResources :: "'e metrics_sink \<Rightarrow> 'e docker_client \<Rightarrow> string \<Rightarrow> DockerResources \<Rightarrow> 'e \<Rightarrow> goerror option \<times> 'e" where
  "Inst_UpdateContainerResources ms client a b = instrument ms ''update_container'' (\<lambda>err. err) (dk_UpdateContainerResources client a b)"

definition Inst_RemoveContainer :: "'e metrics_sink \<Rightarrow> 'e docker_client \<Rightarrow> string \<Rightarrow> RemoveOptions \<Rightarrow> 'e \<Rightarrow> goerror option \<times> 'e" where
  "Inst_RemoveContainer ms client a b = instrument ms ''remove_container'' (\<lambda>err. err) (dk_RemoveContainer client a b)"

definition Inst_InspectImageByRef :: "'e metrics_sink \<Rightarrow> 'e docker_client \<Rightarrow> string \<Rightarrow> 'e \<Rightarrow> ImageInspect result \<times> 'e" where
  "Inst_InspectImageByRef ms client a = instrument ms ''inspect_image'' resultError (dk_InspectImageByRef client a)"

definition Inst_InspectImageByID :: "'e metrics_sink \<Rightarrow> 'e docker_client \<Rightarrow> string \<Rightarrow> 'e \<Rightarrow> ImageInspect result \<times> 'e" where
  "Inst_InspectImageByID ms client a = instrument ms ''inspect_image'' resultError (dk_InspectImageByID client a)"

definition Inst_ListImages :: "'e metrics_sink \<Rightarrow> 'e docker_client \<Rightarrow> ImageListOptions \<Rightarrow> 'e \<Rightarrow> ImageSummary list result \<times> 'e" where
  "Inst_ListImages ms client a = instrument ms ''list_images'' resultError (dk_ListImages client a)"

definition Inst_PullImage :: "'e metrics_sink \<Rightarrow> 'e docker_client \<Rightarrow> string \<Rightarrow> AuthConfig \<Rightarrow> 'e \<Rightarrow> goerror option \<times> 'e" where
  "Inst_PullImage ms client a b = instrument ms ''pull_image'' (\<lambda>err. err) (dk_PullImage client a b)"

definition Inst_RemoveImage :: "'e metrics_sink \<Rightarrow> 'e docker_client \<Rightarrow> string \<Rightarrow> 'e \<Rightarrow> goerror option \<times> 'e" where
  "Inst_RemoveImage ms client a = instrument ms ''remove_image'' (\<lambda>err. err) (dk_RemoveImage client a)"

definition Inst_ImageHistory :: "'e metrics_sink \<Rightarrow> 'e docker_client \<Rightarrow> string \<Rightarrow> 'e \<Rightarrow> HistoryItem list result \<times> 'e" where
  "Inst_ImageHistory ms client a = instrument ms ''image_history'' resultError (dk_ImageHistory client a)"

definition Inst_Logs :: "'e metrics_sink \<Rightarrow> 'e docker_client \<Rightarrow> string \<Rightarrow> LogsOptions \<Rightarrow> 'e StreamOptions \<Rightarrow> 'e \<Rightarrow> goerror option \<times> 'e" where
  "Inst_Logs ms client a b c = instrument ms ''logs'' (\<lambda>err. err) (dk_Logs client a b c)"

definition Inst_Version :: "'e metrics_sink \<Rightarrow> 'e docker_client \<Rightarrow> 'e \<Rightarrow> DockerVersion result \<times> 'e" where
  "Inst_Version ms client = instrument ms ''version'' resultError (dk_Version client)"

definition Inst_Info :: "'e metrics_sink \<Rightarrow> 'e docker_client \<Rightarrow> 'e \<Rightarrow> DockerInfo result \<times> 'e" where
  "Inst_Info ms client = instrument ms ''info'' resultError (dk_Info client)"

definition Inst_CreateExec :: "'e metrics_sink \<Rightarrow> 'e docker_client \<Rightarrow> string \<Rightarrow> ExecOptions \<Rightarrow> 'e \<Rightarrow> string result \<times> 'e" where
  "Inst_CreateExec ms client a b = instrument ms ''create_exec'' resultError (dk_CreateExec client a b)"

definition Inst_StartExec :: "'e metrics_sink \<Rightarrow> 'e docker_client \<Rightarrow> string \<Rightarrow> bool \<Rightarrow> bool \<Rightarrow> 'e StreamOptions \<Rightarrow> 'e \<Rightarrow> goerror option \<times> 'e" where
  "Inst_StartExec ms client a b c d = instrument ms ''start_exec'' (\<lambda>err. err) (dk_StartExec client a b c d)"

definition Inst_InspectExec :: "'e metrics_sink \<Rightarrow> 'e docker_client \<Rightarrow> string \<Rightarrow> 'e \<Rightarrow> ExecInspect result \<times> 'e" where
  "Inst_InspectExec ms client a = instrument ms ''inspect_exec'' resultError (dk_InspectExec client a)"

definition Inst_AttachToContainer :: "'e metrics_sink \<Rightarrow> 'e docker_client \<Rightarrow> string \<Rightarrow> bool \<Rightarrow> 'e StreamOptions \<Rightarrow> 'e \<Rightarrow> goerror option \<times> 'e" where
  "Inst_AttachToContainer ms client a b c = instrument ms ''attach'' (\<lambda>err. err) (dk_AttachToContainer client a b c)"

definition Inst_ResizeContainerTTY :: "'e metrics_sink \<Rightarrow> 'e docker_client \<Rightarrow> string \<Rightarrow> nat \<Rightarrow> nat \<Rightarrow> 'e \<Rightarrow> goerror option \<times> 'e" where
  "Inst_ResizeContainerTTY ms client a b c = instrument ms ''resize_container'' (\<lambda>err. err) (dk_ResizeContainerTTY client a b c)"

definition Inst_ResizeExecTTY :: "'e metrics_sink \<Rightarrow> 'e docker_client \<Rightarrow> string \<Rightarrow> nat \<Rightarrow> nat \<Rightarrow> 'e \<Rightarrow> goerror option \<times> 'e" where
  "Inst_ResizeExecTTY ms client a b c = instrument ms ''resize_exec'' (\<lambda>err. err) (dk_ResizeExecTTY client a b c)"

definition Inst_GetContainerStats :: "'e metrics_sink \<Rightarrow> 'e docker_client \<Rightarrow> string \<Rightarrow> 'e \<Rightarrow> StatsResponse result \<times> 'e" where
  "Inst_GetContainerStats ms client a = instrument ms ''stats'' resultError (dk_GetContainerStats client a)"

definition NewInstrumentedInterface :: "'e metrics_sink \<Rightarrow> 'e docker_client \<Rightarrow> 'e docker_client" where
  "NewInstrumentedInterface ms client =
     \<lparr>dk_ListContainers = Inst_ListContainers ms client,
      dk_InspectContainer = Inst_InspectContainer ms client,
      dk_InspectContainerWithSize = Inst_InspectContainerWithSize ms client,
      dk_CreateContainer = Inst_CreateContainer ms client,
      dk_StartContainer = Inst_StartContainer ms client,
      dk_StopContainer = Inst_StopContainer ms client,
      dk_UpdateContainerResources = Inst_UpdateContainerResources ms client,
      dk_RemoveContainer = Inst_RemoveContainer ms client,
      dk_InspectImageByRef = Inst_InspectImageByRef ms client,
      dk_InspectImageByID = Inst_InspectImageByID ms client,
      dk_ListImages = Inst_ListImages ms client,
      dk_PullImage = Inst_PullImage ms client,
      dk_RemoveImage = Inst_RemoveImage ms client,
      dk_ImageHistory = Inst_ImageHistory ms client,
      dk_Logs = Inst_Logs ms client,
      dk_Version = Inst_Version ms client,
      dk_Info = Inst_Info ms client,
      dk_CreateExec = Inst_CreateExec ms client,
      dk_StartExec = Inst_StartExec ms client,
      dk_InspectExec = Inst_InspectExec ms client,
      dk_AttachToContainer = Inst_AttachToContainer ms client,
      dk_ResizeContainerTTY = Inst_ResizeContainerTTY ms client,
      dk_ResizeExecTTY = Inst_ResizeExecTTY ms client,
      dk_GetContainerStats = Inst_GetContainerStats ms client\<rparr>"

lemmas inst_defs = NewInstrumentedInterface_def Inst_ListContainers_def Inst_InspectContainer_def Inst_InspectContainerWithSize_def Inst_CreateContainer_def Inst_StartContainer_def Inst_StopContainer_def Inst_UpdateContainerResources_def Inst_RemoveContainer_def Inst_InspectImageByRef_def Inst_InspectImageByID_def Inst_ListImages_def Inst_PullImage_def Inst_RemoveImage_def Inst_ImageHistory_def Inst_Logs_def Inst_Version_def Inst_Info_def Inst_CreateExec_def Inst_StartExec_def Inst_InspectExec_def Inst_AttachToContainer_def Inst_ResizeContainerTTY_def Inst_ResizeExecTTY_def Inst_GetContainerStats_def

lemma instrument_result:
  assumes "instrument ms operation errOf call e = (r, e')"
  obtains e1 where "call e = (r, e1)" and "e' = recordOperation ms operation (recordError ms operation (errOf r) e1)"
  using assms by (auto simp: instrument_def split: prod.splits)

subsection \<open>The contract of the client\<close>

locale metrics_frame = docker_contract dk view
  for dk :: "'e docker_client" and view :: "'e \<Rightarrow> string \<Rightarrow> ContainerJSON option" +
  fixes ms :: "'e metrics_sink"
  assumes sink_frame: "view (ms_Operations ms op e) = view e" "view (ms_Latency ms op e) = view e"
    "view (ms_Timeout ms op e) = view e" "view (ms_Errors ms op e) = view e"
begin

lemma instrument_view: "instrument ms op errOf call e = (r, e') \<Longrightarrow> \<exists>e1. call e = (r, e1) \<and> view e' = view e1"
  by (erule instrument_result) (auto simp: recordOperation_def recordError_def sink_frame split: option.splits goerror.splits)

end

sublocale metrics_frame \<subseteq> inst: docker_contract "NewInstrumentedInterface ms dk" view
proof (unfold_locales, goal_cases)
  case (1 i e j e')
  then show ?case by (auto simp: inst_defs dest!: instrument_view dest: inspect_ok)
next
  case (2 i e r e')
  then show ?case by (auto simp: inst_defs dest!: instrument_view dest: inspect_frame)
next
  case (3 lo e l e')
  then show ?case by (auto simp: inst_defs dest!: instrument_view dest: list_frame)
next
  case (4 img e ri e')
  then show ?case by (auto simp: inst_defs dest!: instrument_view dest: image_frame)
next
  case (5 img e ri e')
  then show ?case by (auto simp: inst_defs dest!: instrument_view dest: image_id_frame)
next
  case (6 img au e ro e')
  then show ?case by (auto simp: inst_defs dest!: instrument_view dest: pull_frame)
next
  case (7 e rv e')
  then show ?case by (auto simp: inst_defs dest!: instrument_view dest: version_frame)
next
  case (8 e rn e')
  then show ?case by (auto simp: inst_defs dest!: instrument_view dest: info_frame)
next
  case (9 c e i e')
  then obtain e1 where "dk_CreateContainer dk c e = (Inr i, e1)" "view e' = view e1"
    by (auto simp: inst_defs dest!: instrument_view)
  then show ?case using create_ok by metis
next
  case (10 c e x e')
  then show ?case by (auto simp: inst_defs dest!: instrument_view dest: create_err)
next
  case (11 i e e')
  then obtain e1 where "dk_StartContainer dk i e = (None, e1)" "view e' = view e1"
    by (auto simp: inst_defs dest!: instrument_view)
  then show ?case using start_ok by metis
next
  case (12 i e x e')
  then show ?case by (auto simp: inst_defs dest!: instrument_view dest: start_err)
next
  case (13 i t e e')
  then obtain e1 where "dk_StopContainer dk i t e = (None, e1)" "view e' = view e1"
    by (auto simp: inst_defs dest!: instrument_view)
  then show ?case using stop_ok by metis
next
  case (14 i t e x e')
  then show ?case by (auto simp: inst_defs dest!: instrument_view dest: stop_err)
next
  case (15 i opts e e')
  then show ?case by (auto simp: inst_defs dest!: instrument_view dest: remove_ok)
next
  case (16 i opts e x e')
  then show ?case by (auto simp: inst_defs dest!: instrument_view dest: remove_err)
qed

context metrics_frame
begin

lemma inst_contract: "docker_contract (NewInstrumentedInterface ms dk) view"
  by (rule inst.docker_contract_axioms)

end

text \<open>A sink that keeps its records in the call log of the fake.\<close>

definition fakeMetrics :: "fake_docker metrics_sink" where
  "fakeMetrics = \<lparr>ms_Operations = (\<lambda>op f. appendCalled op [''operation''] f), ms_Latency = (\<lambda>op f. appendCalled op [''latency''] f),
     ms_Timeout = (\<lambda>op f. appendCalled op [''timeout''] f), ms_Errors = (\<lambda>op f. appendCalled op [''error''] f)\<rparr>"

interpretation instKube: metrics_frame "kubeDockerClient exampleKube" fakeView fakeMetrics
  by unfold_locales (simp_all add: fakeMetrics_def fakeView_def)

text \<open>The client that the service is built on, instrumentation around the daemon client, keeps the contract of the handlers, for every
  daemon that keeps that of the API and every metrics library that leaves the containers alone.\<close>

lemma service_client_contract:
  assumes "docker_api_contract d view"
    and "\<And>op e. view (ms_Operations ms op e) = view e" and "\<And>op e. view (ms_Latency ms op e) = view e"
    and "\<And>op e. view (ms_Timeout ms op e) = view e" and "\<And>op e. view (ms_Errors ms op e) = view e"
  shows "docker_contract (NewInstrumentedInterface ms (kubeDockerClient d)) view"
proof -
  have "docker_contract (kubeDockerClient d) view" by (rule docker_api_contract.kube_contract [OF assms(1)])
  then have "metrics_frame (kubeDockerClient d) view ms"
    by (rule metrics_frame.intro) (unfold_locales, simp_all add: assms(2-5))
  then show ?thesis by (rule metrics_frame.inst_contract)
qed

lemma example_client_contract: "docker_contract (NewInstrumentedInterface fakeMetrics (kubeDockerClient exampleKube)) fakeView"
  by (rule service_client_contract [OF fakeKube.docker_api_contract_axioms]) (rule instKube.sink_frame)+

subsection \<open>Properties\<close>






text \<open>C38. A daemon call that runs out of time is reported as an operation timeout whatever the daemon answered, counted as a
  timeout and as an error, and recognised through both wrappers by the statistics collector, which then
  doubles its waiting time up to twenty minutes.\<close>

theorem timed_out_inspection_backs_off:
  assumes "api_ContainerInspectWithRaw (kd_api d) (cs_containerID cs) True (Some (kd_timeout d)) e =
      ((r, Some (Sentinel DeadlineExceeded)), e1)"
  shows "collectRound (NewInstrumentedInterface ms (kubeDockerClient d)) cs b e =
     (Inr (cs, min (2 * b) maxBackoffDuration, min (2 * b) maxBackoffDuration),
      (let op = ''inspect_container_withsize'' in
       ms_Latency ms op (ms_Operations ms op (ms_Errors ms op (ms_Timeout ms op e1)))))"
proof -
  let ?op = "''inspect_container_withsize''"
  let ?err = "OperationTimeout (Sentinel DeadlineExceeded)"
  have "dk_InspectContainerWithSize (kubeDockerClient d) (cs_containerID cs) e = (Inl ?err, e1)"
    by (simp add: kubeDockerClient_def Kube_InspectContainerWithSize_def assms answer_def contextError_def)
  then have "dk_InspectContainerWithSize (NewInstrumentedInterface ms (kubeDockerClient d)) (cs_containerID cs) e =
      (Inl ?err, ms_Latency ms ?op (ms_Operations ms ?op (ms_Errors ms ?op (ms_Timeout ms ?op e1))))"
    by (simp add: NewInstrumentedInterface_def Inst_InspectContainerWithSize_def instrument_def resultError_def recordError_def recordOperation_def)
  then show ?thesis by (simp add: collectRound_def min_def Let_def)
qed

definition timedOutKube :: "fake_docker kube_client" where
  "timedOutKube = exampleKube\<lparr>kd_api := fakeApi\<lparr>api_ContainerInspectWithRaw :=
     (\<lambda>i b t f. ((Inl (Errorf ''request canceled''), Some (Sentinel DeadlineExceeded)), f))\<rparr>\<rparr>"

theorem timed_out_inspection_backs_off_witness:
  "\<exists>e. collectRound (NewInstrumentedInterface fakeMetrics (kubeDockerClient timedOutKube)) (newCstats ''c'') (60 * 10 ^ 9) exampleDaemon =
     (Inr (newCstats ''c'', 120 * 10 ^ 9, 120 * 10 ^ 9), e)"
proof -
  have "api_ContainerInspectWithRaw (kd_api timedOutKube) (cs_containerID (newCstats ''c'')) True (Some (kd_timeout timedOutKube)) exampleDaemon =
      ((Inl (Errorf ''request canceled''), Some (Sentinel DeadlineExceeded)), exampleDaemon)"
    by (simp add: timedOutKube_def)
  from timed_out_inspection_backs_off [OF this, of fakeMetrics "60 * 10 ^ 9"] show ?thesis
    by (simp add: maxBackoffDuration_def)
qed

end
