(* ===== verification/Fake_Iptables.thy ===== *)
theory Fake_Iptables
  imports Hostport
begin

text \<open>
  The fake \<^verbatim>\<open>iptables\<close> (\<^verbatim>\<open>network/hostport/fake_iptables.go\<close>), which keeps the tables in memory
  and reads the input of \<^verbatim>\<open>iptables-restore\<close> line by line, and the fake socket manager of
  \<^verbatim>\<open>hostport_test.go\<close>. Where the code indexes an empty string, the panic is the error value
  \<open>indexPanic 0 0\<close>.
\<close>

subsection \<open>Tables and chains\<close>

record fakeChain =
  fc_name :: string
  fc_rules :: "string list"

record fakeTable =
  ft_name :: string
  ft_chains :: "(string \<times> fakeChain) list"

record fakeIPTables =
  fi_tables :: "(string \<times> fakeTable) list"
  fi_builtinChains :: "(string \<times> string list) list"
  fi_ipv6 :: bool

definition NewFakeIPTables :: fakeIPTables where
  "NewFakeIPTables =
     \<lparr>fi_tables = [],
      fi_builtinChains =
        [(''filter'', [''INPUT'', ''FORWARD'', ''OUTPUT'']),
         (''nat'', [''PREROUTING'', ''INPUT'', ''OUTPUT'', ''POSTROUTING'']),
         (''mangle'', [''PREROUTING'', ''INPUT'', ''FORWARD'', ''OUTPUT'', ''POSTROUTING''])],
      fi_ipv6 = False\<rparr>"

definition getTable :: "fakeIPTables \<Rightarrow> string \<Rightarrow> fakeTable result" where
  "getTable f tableName =
     (case map_of (fi_tables f) tableName of
        None \<Rightarrow> Inl (Errorf (''table '' @ tableName @ '' does not exist''))
      | Some table \<Rightarrow> Inr table)"

text \<open>The table is returned with the error where only the chain is missing.\<close>

definition getChain :: "fakeIPTables \<Rightarrow> string \<Rightarrow> string \<Rightarrow> fakeTable option \<times> fakeChain result" where
  "getChain f tableName chainName =
     (case getTable f tableName of
        Inl err \<Rightarrow> (None, Inl err)
      | Inr table \<Rightarrow>
          (case map_of (ft_chains table) chainName of
             None \<Rightarrow> (Some table, Inl (Errorf (''chain '' @ tableName @ ''/'' @ chainName @ '' does not exist'')))
           | Some chain \<Rightarrow> (Some table, Inr chain)))"

definition setTable :: "fakeIPTables \<Rightarrow> string \<Rightarrow> fakeTable \<Rightarrow> fakeIPTables" where
  "setTable f tableName table = f\<lparr>fi_tables := mapSet (fi_tables f) tableName table\<rparr>"

definition ensureChain :: "fakeIPTables \<Rightarrow> string \<Rightarrow> string \<Rightarrow> bool \<times> fakeChain \<times> fakeIPTables" where
  "ensureChain f tableName chainName =
     (case getChain f tableName chainName of
        (table, Inl err) \<Rightarrow>
          let table = (case table of None \<Rightarrow> \<lparr>ft_name = tableName, ft_chains = []\<rparr> | Some t \<Rightarrow> t);
              chain = \<lparr>fc_name = chainName, fc_rules = []\<rparr>
          in (False, chain, setTable f tableName (table\<lparr>ft_chains := mapSet (ft_chains table) chainName chain\<rparr>))
      | (_, Inr chain) \<Rightarrow> (True, chain, f))"

definition fake_EnsureChain :: "string \<Rightarrow> string \<Rightarrow> fakeIPTables \<Rightarrow> (bool \<times> goerror option) \<times> fakeIPTables" where
  "fake_EnsureChain tableName chainName f =
     (case ensureChain f tableName chainName of (existed, _, f) \<Rightarrow> ((existed, None), f))"

text \<open>Writing the field \<^verbatim>\<open>rules\<close> of a chain that is in the table.\<close>

definition setRules :: "fakeIPTables \<Rightarrow> string \<Rightarrow> string \<Rightarrow> string list \<Rightarrow> fakeIPTables" where
  "setRules f tableName chainName rules =
     (case getChain f tableName chainName of
        (Some table, Inr chain) \<Rightarrow>
          setTable f tableName (table\<lparr>ft_chains := mapSet (ft_chains table) chainName (chain\<lparr>fc_rules := rules\<rparr>)\<rparr>)
      | _ \<Rightarrow> f)"

definition fake_FlushChain :: "string \<Rightarrow> string \<Rightarrow> fakeIPTables \<Rightarrow> goerror option \<times> fakeIPTables" where
  "fake_FlushChain tableName chainName f =
     (case getChain f tableName chainName of
        (_, Inl err) \<Rightarrow> (Some err, f)
      | (_, Inr chain) \<Rightarrow> (None, setRules f tableName chainName []))"

definition fake_DeleteChain :: "string \<Rightarrow> string \<Rightarrow> fakeIPTables \<Rightarrow> goerror option \<times> fakeIPTables" where
  "fake_DeleteChain tableName chainName f =
     (case getChain f tableName chainName of
        (Some table, Inr _) \<Rightarrow>
          (None, setTable f tableName (table\<lparr>ft_chains := AList.delete chainName (ft_chains table)\<rparr>))
      | (_, Inr _) \<Rightarrow> (None, f)
      | (_, Inl err) \<Rightarrow> (Some err, f))"

definition fake_ChainExists :: "string \<Rightarrow> string \<Rightarrow> fakeIPTables \<Rightarrow> bool \<times> goerror option" where
  "fake_ChainExists tableName chainName f =
     (case getChain f tableName chainName of
        (_, Inl err) \<Rightarrow> (False, Some err)
      | (_, Inr _) \<Rightarrow> (True, None))"

subsection \<open>Rules\<close>

fun findRuleFrom :: "int \<Rightarrow> string list \<Rightarrow> string \<Rightarrow> int" where
  "findRuleFrom i [] rule = - 1"
| "findRuleFrom i (candidate # rules) rule = (if rule = candidate then i else findRuleFrom (i + 1) rules rule)"

definition findRule :: "fakeChain \<Rightarrow> string \<Rightarrow> int" where
  "findRule chain rule = findRuleFrom 0 (fc_rules chain) rule"

definition replaceFirst :: "string \<Rightarrow> char \<Rightarrow> char \<Rightarrow> string" where
  "replaceFirst s c d =
     (if c \<in> set s then takeWhile (\<lambda>x. x \<noteq> c) s @ [d] @ tl (dropWhile (\<lambda>x. x \<noteq> c) s) else s)"

lemma length_replaceFirst [simp]: "length (replaceFirst s c d) = length s"
proof (cases "c \<in> set s")
  case True
  then have "dropWhile (\<lambda>x. x \<noteq> c) s \<noteq> []" by (auto simp: dropWhile_eq_Nil_conv)
  moreover have "length s = length (takeWhile (\<lambda>x. x \<noteq> c) s) + length (dropWhile (\<lambda>x. x \<noteq> c) s)"
    by (metis length_append takeWhile_dropWhile_id)
  ultimately show ?thesis using True
    by (cases "dropWhile (\<lambda>x. x \<noteq> c) s") (auto simp: replaceFirst_def)
qed (simp add: replaceFirst_def)

definition normalizeDest :: "string \<Rightarrow> string" where
  "normalizeDest remaining =
     (if strings_HasPrefix remaining ''--to-destination='' then replaceFirst remaining (CHR ''='') (CHR '' '') else remaining)"

lemma length_normalizeDest [simp]: "length (normalizeDest s) = length s"
  by (simp add: normalizeDest_def)

text \<open>The end of the first argument; \<open>None\<close> where a quote is not closed.\<close>

definition argEnd :: "string \<Rightarrow> nat option" where
  "argEnd remaining =
     (if hd remaining = CHR 0x22 then
        if CHR 0x22 \<notin> set (tl remaining) then None
        else Some (length (takeWhile (\<lambda>x. x \<noteq> CHR 0x22) (tl remaining)) + 2)
      else Some (length (takeWhile (\<lambda>x. x \<noteq> CHR '' '') remaining)))"

function normalizeLoop :: "string \<Rightarrow> string \<Rightarrow> string result" where
  "normalizeLoop normalized remaining =
     (let remaining = normalizeDest remaining in
      if remaining = [] then Inl (indexPanic 0 0)
      else
        (case argEnd remaining of
           None \<Rightarrow> Inl (Errorf ''invalid rule syntax: mismatched quotes'')
         | Some stop \<Rightarrow>
             let arg = take stop remaining;
                 arg = (if net_ParseIP arg \<noteq> [] then arg @ ''/32'' else arg);
                 normalized = (if length normalized > 0 then normalized @ '' '' else normalized) @ strings_TrimSpace arg
             in if length remaining = stop then Inr normalized
                else normalizeLoop normalized (drop (stop + 1) remaining)))"
  by pat_completeness auto

termination normalizeLoop
proof (relation "measure (\<lambda>(n, r). length r)")
  fix normalized remaining x and stop :: nat
  assume "x = normalizeDest remaining" "x \<noteq> []"
  then show "((y, drop (stop + 1) x), normalized, remaining) \<in> measure (\<lambda>(n, r). length r)" for y
    using length_normalizeDest [of remaining] length_greater_0_conv [of x] by auto
qed simp

declare normalizeLoop.simps [simp del]

definition normalizeRule :: "string \<Rightarrow> string result" where
  "normalizeRule rule = normalizeLoop [] (strings_TrimSpace rule)"

definition ensureRule :: "fakeIPTables \<Rightarrow> string \<Rightarrow> string \<Rightarrow> string \<Rightarrow> string \<Rightarrow> (bool \<times> goerror option) \<times> fakeIPTables" where
  "ensureRule f position tableName chainName rule =
     (case (case getChain f tableName chainName of
              (_, Inr chain) \<Rightarrow> (chain, f)
            | (_, Inl _) \<Rightarrow> (case ensureChain f tableName chainName of (_, chain, f) \<Rightarrow> (chain, f))) of
        (chain, f) \<Rightarrow>
          (case normalizeRule rule of
             Inl err \<Rightarrow> ((False, Some err), f)
           | Inr rule \<Rightarrow>
               if findRule chain rule \<ge> 0 then ((True, None), f)
               else if position = posPrepend then ((False, None), setRules f tableName chainName (rule # fc_rules chain))
               else if position = posAppend then ((False, None), setRules f tableName chainName (fc_rules chain @ [rule]))
               else ((False, Some (Errorf (''unknown position argument '' @ fmt_q position))), f)))"

definition quoteSpaces :: "string \<Rightarrow> string" where
  "quoteSpaces arg = (if strings_Contains arg '' '' then [CHR 0x22] @ arg @ [CHR 0x22] else arg)"

definition fake_EnsureRule ::
    "string \<Rightarrow> string \<Rightarrow> string \<Rightarrow> string list \<Rightarrow> fakeIPTables \<Rightarrow> (bool \<times> goerror option) \<times> fakeIPTables" where
  "fake_EnsureRule position tableName chainName args f =
     ensureRule f position tableName chainName (strings_Join (map quoteSpaces args) '' '')"

definition fake_DeleteRule :: "string \<Rightarrow> string \<Rightarrow> string list \<Rightarrow> fakeIPTables \<Rightarrow> goerror option \<times> fakeIPTables" where
  "fake_DeleteRule tableName chainName args f =
     (case getChain f tableName chainName of
        (_, Inr chain) \<Rightarrow>
          let ruleIdx = findRule chain (strings_Join args '' '') in
          if ruleIdx < 0 then (None, f)
          else (None, setRules f tableName chainName
                 (take (nat ruleIdx) (fc_rules chain) @ drop (nat ruleIdx + 1) (fc_rules chain)))
      | (_, Inl _) \<Rightarrow> (None, f))"

definition fake_IsIPv6 :: "fakeIPTables \<Rightarrow> bool" where
  "fake_IsIPv6 f = fi_ipv6 f"

subsection \<open>Save and restore\<close>

definition saveChain :: "fakeChain \<Rightarrow> string" where
  "saveChain chain = concat (map (\<lambda>rule. ''-A '' @ fc_name chain @ '' '' @ rule @ [newline]) (fc_rules chain))"

definition fake_SaveInto :: "string \<Rightarrow> fakeIPTables \<Rightarrow> (string \<times> goerror option) \<times> fakeIPTables" where
  "fake_SaveInto tableName f =
     (case getTable f tableName of
        Inl err \<Rightarrow> (([], Some err), f)
      | Inr table \<Rightarrow>
          ((''*'' @ ft_name table @ [newline] @
            concat (map (\<lambda>(_, chain). '':'' @ fc_name chain @ '' - [0:0]'' @ [newline]) (ft_chains table)) @
            concat (map (\<lambda>(_, chain). saveChain chain) (ft_chains table)) @
            ''COMMIT'' @ [newline], None), f))"

definition isBuiltinChain :: "fakeIPTables \<Rightarrow> string \<Rightarrow> string \<Rightarrow> bool" where
  "isBuiltinChain f tableName chainName =
     (case map_of (fi_builtinChains f) tableName of None \<Rightarrow> False | Some cs \<Rightarrow> chainName \<in> set cs)"

text \<open>A line that declares a chain: it is made, and flushed unless the input deletes it.\<close>

definition restoreChain :: "string \<Rightarrow> bool \<Rightarrow> string \<Rightarrow> string \<Rightarrow> fakeIPTables \<Rightarrow> goerror option \<times> fakeIPTables" where
  "restoreChain allLines flush tableName chainName f =
     (case (if flush then
              (case getChain f tableName chainName of
                 (_, Inl err) \<Rightarrow> (Some err, f)
               | (None, Inr _) \<Rightarrow> (None, f)
               | (Some table, Inr _) \<Rightarrow>
                   (None, setTable f tableName (table\<lparr>ft_chains := AList.delete chainName (ft_chains table)\<rparr>)))
            else (None, f)) of
        (Some err, f) \<Rightarrow> (Some err, f)
      | (None, f) \<Rightarrow>
          (case ensureChain f tableName chainName of (_, _, f) \<Rightarrow>
             if \<not> isBuiltinChain f tableName chainName \<and> \<not> strings_Contains allLines (''-X '' @ chainName)
             then fake_FlushChain tableName chainName f else (None, f)))"

definition restoreRule :: "string \<Rightarrow> string \<Rightarrow> string \<Rightarrow> fakeIPTables \<Rightarrow> goerror option \<times> fakeIPTables" where
  "restoreRule position tableName line f =
     (let parts = strings_Split line (CHR '' '') in
      if length parts < 3 then (Some (Errorf (''invalid iptables rule '' @ [CHR 0x27] @ line @ [CHR 0x27])), f)
      else
        let chainName = parts ! 1;
            rule = strings_TrimPrefix line (position @ '' '' @ chainName @ '' '')
        in (case ensureRule f position tableName chainName rule of ((_, err), f) \<Rightarrow> (err, f)))"

definition restoreDelete :: "string \<Rightarrow> string \<Rightarrow> fakeIPTables \<Rightarrow> goerror option \<times> fakeIPTables" where
  "restoreDelete tableName line f =
     (let parts = strings_Split line (CHR '' '') in
      if length parts < 2 then (Some (Errorf (''invalid iptables rule '' @ [CHR 0x27] @ line @ [CHR 0x27])), f)
      else fake_DeleteChain tableName (parts ! 1) f)"

text \<open>
  One line in a table. The result is \<open>Inl\<close> where \<^verbatim>\<open>restore\<close> returns, or else the name of the
  table for the next line.
\<close>

definition restoreLine :: "string \<Rightarrow> string \<Rightarrow> bool \<Rightarrow> string \<Rightarrow> string \<Rightarrow> fakeIPTables \<Rightarrow>
    (goerror option + string) \<times> fakeIPTables" where
  "restoreLine restoreTableName allLines flush tableName line f =
     (let go = (\<lambda>(err, f). case err of Some e \<Rightarrow> (Inl (Some e), f) | None \<Rightarrow> (Inr tableName, f)) in
      if strings_HasPrefix line '':'' then
        go (restoreChain allLines flush tableName (strings_Split (drop 1 line) (CHR '' '') ! 0) f)
      else if strings_HasPrefix line ''-A'' then go (restoreRule posAppend tableName line f)
      else if strings_HasPrefix line ''-I'' then go (restoreRule posPrepend tableName line f)
      else if strings_HasPrefix line ''-X'' then go (restoreDelete tableName line f)
      else if line = ''COMMIT'' then
        if restoreTableName = tableName then (Inl None, f) else (Inr [], f)
      else (Inr tableName, f))"

fun restoreLoop :: "string \<Rightarrow> string \<Rightarrow> bool \<Rightarrow> string \<Rightarrow> string list \<Rightarrow> fakeIPTables \<Rightarrow> goerror option \<times> fakeIPTables" where
  "restoreLoop restoreTableName allLines flush tableName [] f = (None, f)"
| "restoreLoop restoreTableName allLines flush tableName (line # lines) f =
     (if strings_HasPrefix line ''#'' then restoreLoop restoreTableName allLines flush tableName lines f
      else
        let tableName = (if strings_HasPrefix line ''*'' then drop 1 line else tableName) in
        if tableName = [] \<or> restoreTableName \<noteq> [] \<and> restoreTableName \<noteq> tableName
        then restoreLoop restoreTableName allLines flush tableName lines f
        else
          (case restoreLine restoreTableName allLines flush tableName line f of
             (Inl r, f) \<Rightarrow> (r, f)
           | (Inr tableName, f) \<Rightarrow> restoreLoop restoreTableName allLines flush tableName lines f))"

text \<open>\<^verbatim>\<open>ReadString\<close> gives the lines that end in a newline; what follows the last of them is not read.\<close>

definition fake_restore :: "string \<Rightarrow> string \<Rightarrow> bool \<Rightarrow> fakeIPTables \<Rightarrow> goerror option \<times> fakeIPTables" where
  "fake_restore restoreTableName data flush f =
     restoreLoop restoreTableName data flush [] (butlast (strings_Split data newline)) f"

definition fake_Restore :: "string \<Rightarrow> string \<Rightarrow> bool \<Rightarrow> bool \<Rightarrow> fakeIPTables \<Rightarrow> goerror option \<times> fakeIPTables" where
  "fake_Restore tableName data flush counters f = fake_restore tableName data flush f"

definition fake_RestoreAll :: "string \<Rightarrow> bool \<Rightarrow> bool \<Rightarrow> fakeIPTables \<Rightarrow> goerror option \<times> fakeIPTables" where
  "fake_RestoreAll data flush counters f = fake_restore [] data flush f"

subsection \<open>The fake socket manager\<close>

text \<open>
  Sockets are numbered as they are opened. \<open>quoteRune\<close> is what \<^verbatim>\<open>%q\<close> prints for a number.
\<close>

record fakeSocket =
  fs_closed :: bool
  fs_port :: int
  fs_protocol :: string
  fs_ip :: string

record fakeSocketManager =
  fsm_sockets :: "fakeSocket list"
  fsm_mem :: "(hostport \<times> nat) list"

definition fakeSocket_Close :: "(int \<Rightarrow> string) \<Rightarrow> nat \<Rightarrow> fakeSocketManager \<Rightarrow> goerror option \<times> fakeSocketManager" where
  "fakeSocket_Close quoteRune n m =
     (let f = fsm_sockets m ! n in
      if fs_closed f then
        (Some (Errorf (''socket '' @ quoteRune (fs_port f) @ ''.'' @ fs_protocol f @ '' already closed'')), m)
      else (None, m\<lparr>fsm_sockets := (fsm_sockets m)[n := f\<lparr>fs_closed := True\<rparr>]\<rparr>))"

definition NewFakeSocketManager :: fakeSocketManager where
  "NewFakeSocketManager = \<lparr>fsm_sockets = [], fsm_mem = []\<rparr>"

definition openFakeSocket :: "hostport \<Rightarrow> fakeSocketManager \<Rightarrow> nat result \<times> fakeSocketManager" where
  "openFakeSocket hp m =
     (let n = length (fsm_sockets m);
          opened = (Inr n, m\<lparr>fsm_sockets := fsm_sockets m @
                      [\<lparr>fs_closed = False, fs_port = hp_port hp, fs_protocol = hp_protocol hp, fs_ip = hp_ip hp\<rparr>],
                    fsm_mem := mapSet (fsm_mem m) hp n\<rparr>)
      in case map_of (fsm_mem m) hp of
           Some socket \<Rightarrow>
             if \<not> fs_closed (fsm_sockets m ! socket) then (Inl (Errorf ''hostport is occupied''), m) else opened
         | None \<Rightarrow> opened)"

subsection \<open>A manager on the fakes\<close>

type_synonym fake_env = "fakeIPTables \<times> fakeSocketManager"

definition onFst :: "('a \<Rightarrow> 'r \<times> 'a) \<Rightarrow> 'a \<times> 'b \<Rightarrow> 'r \<times> 'a \<times> 'b" where
  "onFst f e = (case f (fst e) of (r, a) \<Rightarrow> (r, a, snd e))"

definition onSnd :: "('b \<Rightarrow> 'r \<times> 'b) \<Rightarrow> 'a \<times> 'b \<Rightarrow> 'r \<times> 'a \<times> 'b" where
  "onSnd f e = (case f (snd e) of (r, b) \<Rightarrow> (r, fst e, b))"

definition fakeIptables :: "fake_env iptables" where
  "fakeIptables =
     \<lparr>ipt_EnsureChain = (\<lambda>t c. onFst (fake_EnsureChain t c)),
      ipt_EnsureRule = (\<lambda>pos t c args. onFst (fake_EnsureRule pos t c args)),
      ipt_IsIPv6 = (\<lambda>e. fake_IsIPv6 (fst e)),
      ipt_SaveInto = (\<lambda>t. onFst (fake_SaveInto t)),
      ipt_RestoreAll = (\<lambda>d fl ct. onFst (fake_RestoreAll d fl ct))\<rparr>"

definition fakeManager :: "fake_env hostportManager" where
  "fakeManager =
     \<lparr>hmg_execer = True, hmg_conntrackFound = False, hmg_iptables = fakeIptables,
      hmg_portOpener = (\<lambda>hp. onSnd (openFakeSocket hp)),
      hmg_close = (\<lambda>n. onSnd (fakeSocket_Close fmt_int n)),
      hmg_clearEntries = (\<lambda>port v6 e. (None, e))\<rparr>"

definition fakeStart :: "fake_env hp_state" where
  "fakeStart = \<lparr>hps_env = (NewFakeIPTables, NewFakeSocketManager), hps_map = []\<rparr>"

end
