(* ===== verification/Hostport_Props.thy ===== *)
theory Hostport_Props
  imports Fake_Iptables
begin

text \<open>
  Properties of the host port manager: what it does with its sockets, for every \<^verbatim>\<open>iptables\<close> and
  every network stack that behave as documented, and what \<^verbatim>\<open>Remove\<close> leaves in the table of the
  fake.
\<close>

subsection \<open>Text of the restore input\<close>

definition unlines :: "string list \<Rightarrow> string" where
  "unlines ls = concat (map (\<lambda>l. l @ [newline]) ls)"

lemma unlines_append [simp]: "unlines (ls @ ms) = unlines ls @ unlines ms"
  by (simp add: unlines_def)

lemma writeLine_unlines: "writeLine buf ws = buf @ unlines [strings_Join ws '' '']"
  by (simp add: writeLine_def unlines_def)

lemma foldl_writeLine: "foldl (\<lambda>buf x. writeLine buf (f x)) buf xs = buf @ unlines (map (\<lambda>x. strings_Join (f x) '' '') xs)"
  by (induction xs arbitrary: buf) (simp_all add: writeLine_unlines, simp_all add: unlines_def)

lemma Split_unlines: "\<forall>l\<in>set ls. newline \<notin> set l \<Longrightarrow> strings_Split (unlines ls) newline = ls @ [[]]"
  by (induction ls) (simp_all add: unlines_def Split_append_delim)

lemma base32Digit_in: "length bs \<le> 5 \<Longrightarrow> base32Digit bs \<in> set base32Alphabet"
proof -
  assume "length bs \<le> 5"
  then have len: "length (bs @ replicate (5 - length bs) False) = 5" by simp
  have "foldl (\<lambda>n b. 2 * n + (if b then 1 else 0)) k cs < (k + 1) * 2 ^ length cs" for cs and k :: nat
  proof (induction cs arbitrary: k)
    case (Cons b cs)
    have "foldl (\<lambda>n b. 2 * n + (if b then 1 else 0)) (2 * k + (if b then 1 else 0)) cs
        < (2 * k + (if b then 1 else 0) + 1) * 2 ^ length cs" by (rule Cons.IH)
    also have "\<dots> \<le> (2 * k + 2) * 2 ^ length cs" by (intro mult_le_mono1) simp
    finally show ?case by (simp add: algebra_simps)
  qed simp
  from this [of 0 "bs @ replicate (5 - length bs) False"]
  have "foldl (\<lambda>n b. 2 * n + (if b then 1 else 0)) 0 (bs @ replicate (5 - length bs) False) < length base32Alphabet"
    unfolding len by (simp add: base32Alphabet_def)
  then show ?thesis unfolding base32Digit_def by (rule nth_mem)
qed

lemma chunksOf_length: "0 < n \<Longrightarrow> c \<in> set (chunksOf n xs) \<Longrightarrow> length c \<le> n"
  by (induction n xs rule: chunksOf.induct) (auto split: if_splits)

lemma set_base32: "set (base32_EncodeToString bs) \<subseteq> insert (CHR ''='') (set base32Alphabet)"
  by (auto simp: base32_EncodeToString_def Let_def dest: chunksOf_length [rotated] intro!: base32Digit_in)

lemma newline_getHostportChain: "newline \<notin> set (getHostportChain i pm)"
proof -
  have "newline \<notin> insert (CHR ''='') (set base32Alphabet)"
    by (simp add: newline_def base32Alphabet_def)
  then show ?thesis
    using set_base32 set_take_subset
    by (fastforce simp: getHostportChain_def kubeHostportChainPrefix_def newline_def)
qed

lemma HasPrefix_getHostportChain: "strings_HasPrefix (getHostportChain i pm) kubeHostportChainPrefix"
  by (simp add: getHostportChain_def Let_def)

subsection \<open>What a restore keeps of a chain\<close>

definition chainRules :: "fakeIPTables \<Rightarrow> string \<Rightarrow> string \<Rightarrow> string list" where
  "chainRules f t c = (case getChain f t c of (_, Inr chain) \<Rightarrow> fc_rules chain | (_, Inl _) \<Rightarrow> [])"

lemma chainRules_setTable:
  "chainRules (setTable f t table) t' c =
     (if t' = t then case map_of (ft_chains table) c of None \<Rightarrow> [] | Some chain \<Rightarrow> fc_rules chain else chainRules f t' c)"
  by (auto simp: chainRules_def getChain_def getTable_def setTable_def update_conv' split: option.splits)

lemma chainRules_setRules:
  "chainRules (setRules f t c rs) t' c' =
     (if t' = t \<and> c' = c \<and> (\<exists>table chain. getChain f t c = (Some table, Inr chain)) then rs else chainRules f t' c')"
  by (auto simp: setRules_def chainRules_setTable update_conv' split: prod.splits option.splits sum.splits)
     (auto simp: chainRules_def getChain_def getTable_def split: option.splits)

lemma chainRules_ensureChain: "ensureChain f t c = (b, chain, f') \<Longrightarrow>
    fc_rules chain = chainRules f t c \<and> chainRules f' t' c' = chainRules f t' c' \<and> (\<exists>table. getChain f' t c = (Some table, Inr chain))"
  by (auto simp: ensureChain_def Let_def chainRules_setTable update_conv' split: prod.splits option.splits sum.splits)
     (auto simp: chainRules_def getChain_def getTable_def setTable_def update_conv' split: option.splits if_splits)

lemma ensureRule_keeps: "set (chainRules f t c) \<subseteq> set (chainRules (snd (ensureRule f position t' c' rule)) t c)"
proof -
  obtain chain g where g: "(case getChain f t' c' of (_, Inr chain) \<Rightarrow> (chain, f)
      | (_, Inl _) \<Rightarrow> (case ensureChain f t' c' of (_, chain, f) \<Rightarrow> (chain, f))) = (chain, g)"
    by (meson surj_pair)
  have "chainRules g t c = chainRules f t c \<and> fc_rules chain = chainRules g t' c'"
  proof (cases "snd (getChain f t' c')")
    case (Inl e)
    then obtain b where "ensureChain f t' c' = (b, chain, g)"
      using g by (auto split: prod.splits)
    then show ?thesis using chainRules_ensureChain by metis
  next
    case (Inr ch)
    then show ?thesis using g by (auto simp: chainRules_def split: prod.splits)
  qed
  then show ?thesis unfolding ensureRule_def g
    by (auto simp: chainRules_setRules split: sum.splits)
qed

lemma DeleteChain_keeps: "c \<noteq> c' \<Longrightarrow> chainRules (snd (fake_DeleteChain t' c' f)) t c = chainRules f t c"
  by (auto simp: fake_DeleteChain_def chainRules_setTable AList.delete_conv' split: prod.splits option.splits sum.splits)
     (auto simp: chainRules_def getChain_def getTable_def split: option.splits)

text \<open>Lines that neither declare a chain nor delete the chain \<open>c\<close>.\<close>

definition harmless :: "string \<Rightarrow> string \<Rightarrow> bool" where
  "harmless c l \<longleftrightarrow> \<not> strings_HasPrefix l '':'' \<and>
     (strings_HasPrefix l ''-X'' \<longrightarrow> length (strings_Split l (CHR '' '')) < 2 \<or> strings_Split l (CHR '' '') ! 1 \<noteq> c)"

lemma restoreLine_keeps:
  assumes "harmless c l"
  shows "set (chainRules f t c) \<subseteq> set (chainRules (snd (restoreLine r a fl t' l f)) t c)"
proof -
  have rule: "set (chainRules f t c) \<subseteq> set (chainRules (snd (restoreRule pos t' l f)) t c)" for pos
    using ensureRule_keeps by (auto simp: restoreRule_def Let_def split: prod.splits) (metis snd_conv subsetD)
  have del: "strings_HasPrefix l ''-X'' \<Longrightarrow> chainRules (snd (restoreDelete t' l f)) t c = chainRules f t c"
    using assms by (auto simp: harmless_def restoreDelete_def Let_def DeleteChain_keeps)
  have go: "snd (case p of (err, f) \<Rightarrow> (case err of Some e \<Rightarrow> (Inl (Some e), f) | None \<Rightarrow> (Inr t', f))) = snd p"
    for p :: "goerror option \<times> fakeIPTables"
    by (simp split: prod.split option.split)
  have nocolon: "\<not> strings_HasPrefix l '':''" using assms by (simp add: harmless_def)
  show ?thesis
    unfolding restoreLine_def Let_def
    using nocolon rule [of posAppend] rule [of posPrepend] del by (simp add: go)
qed

lemma restoreLoop_keeps:
  assumes "\<forall>l\<in>set ls. harmless c l"
  shows "set (chainRules f t c) \<subseteq> set (chainRules (snd (restoreLoop r a fl t' ls f)) t c)"
  using assms
proof (induction ls arbitrary: f t')
  case (Cons l ls)
  define tn where "tn = (if strings_HasPrefix l ''*'' then drop 1 l else t')"
  have step: "set (chainRules f t c) \<subseteq> set (chainRules (snd (restoreLine r a fl tn l f)) t c)"
    using Cons.prems by (intro restoreLine_keeps) simp
  have rest: "set (chainRules g t c) \<subseteq> set (chainRules (snd (restoreLoop r a fl u ls g)) t c)" for g u
    using Cons.prems by (intro Cons.IH) simp
  show ?case
  proof (cases "strings_HasPrefix l ''#'' \<or> tn = [] \<or> r \<noteq> [] \<and> r \<noteq> tn")
    case True
    then show ?thesis using rest [of f t'] rest [of f tn] by (auto simp: Let_def tn_def [symmetric])
  next
    case False
    obtain x g where x: "restoreLine r a fl tn l f = (x, g)" by (meson surj_pair)
    have "restoreLoop r a fl t' (l # ls) f = (case x of Inl e \<Rightarrow> (e, g) | Inr u \<Rightarrow> restoreLoop r a fl u ls g)"
      using False x by (auto simp: Let_def tn_def [symmetric])
    then show ?thesis using step rest [of g] x by (auto split: sum.splits)
  qed
qed simp

subsection \<open>The input that \<open>Remove\<close> writes\<close>

definition removeLines :: "(string \<times> string) list \<Rightarrow> string list \<Rightarrow> string list \<Rightarrow> string list" where
  "removeLines cs rules xs = ''*nat'' # map snd cs @ rules @ map (\<lambda>x. ''-X '' @ x) xs @ [''COMMIT'']"

lemma removeRestoreInput_unlines: "removeRestoreInput cs rules xs = unlines (removeLines cs rules xs)"
  unfolding removeRestoreInput_def Let_def foldl_writeLine
  by (simp add: writeLine_unlines removeLines_def unlines_def comp_def)

lemma Split_one: "strings_Split (w @ s) d ! 0 = w @ strings_Split s d ! 0" if "d \<notin> set w"
  using that by (induction w) (auto split: list.splits)

lemma harmless_delete:
  assumes "strings_HasPrefix x kubeHostportChainPrefix"
  shows "harmless kubeHostportsChain (''-X '' @ x)"
proof -
  obtain y where y: "x = kubeHostportChainPrefix @ y" using assms by (auto simp: HasPrefix_iff)
  have "strings_Split (''-X '' @ x) (CHR '' '') = ''-X'' # strings_Split x (CHR '' '')"
    using Split_append_delim [of "CHR '' ''" "''-X''" x] by simp
  moreover have "strings_Split x (CHR '' '') ! 0 = kubeHostportChainPrefix @ strings_Split y (CHR '' '') ! 0"
    unfolding y by (rule Split_one) (simp add: kubeHostportChainPrefix_def)
  ultimately show ?thesis
    by (simp add: harmless_def strings_HasPrefix_def kubeHostportsChain_def kubeHostportChainPrefix_def)
qed

definition existingRule :: "string \<Rightarrow> bool" where
  "existingRule l \<longleftrightarrow> strings_HasPrefix l (''-A '' @ kubeHostportChainPrefix) \<or> strings_HasPrefix l (''-A '' @ kubeHostportsChain)"

lemma harmless_rule: "existingRule l \<Longrightarrow> harmless c l"
  by (auto simp: existingRule_def harmless_def HasPrefix_iff kubeHostportChainPrefix_def kubeHostportsChain_def)

lemma harmless_removeLines:
  assumes "\<forall>c\<in>set cs. snd c = emptyStructJson" and "\<forall>r\<in>set rules. existingRule r"
    and "\<forall>x\<in>set xs. strings_HasPrefix x kubeHostportChainPrefix"
  shows "\<forall>l\<in>set (removeLines cs rules xs). harmless kubeHostportsChain l"
  using assms harmless_rule harmless_delete
  by (auto simp: removeLines_def) (simp_all add: harmless_def strings_HasPrefix_def emptyStructJson_def)

lemma removeLines_newline:
  assumes "\<forall>c\<in>set cs. snd c = emptyStructJson" and "\<forall>r\<in>set rules. newline \<notin> set r"
    and "\<forall>x\<in>set xs. newline \<notin> set x"
  shows "\<forall>l\<in>set (removeLines cs rules xs). newline \<notin> set l"
  using assms by (auto simp: removeLines_def emptyStructJson_def newline_def)

lemma getExisting_spec:
  assumes "getExistingHostportIPTablesRules ipt e = (Inr (cs, rules), e')"
  shows "(\<forall>c\<in>set cs. snd c = emptyStructJson) \<and> (\<forall>r\<in>set rules. existingRule r \<and> newline \<notin> set r)"
  using assms
  by (auto simp: getExistingHostportIPTablesRules_def existingRule_def dest: Split_no_delim_parts
      split: sum.splits prod.splits option.splits)

lemma SaveInto_fake: "snd (ipt_SaveInto fakeIptables t e) = e"
  by (simp add: fakeIptables_def onFst_def fake_SaveInto_def split: sum.split prod.split)

lemma getExisting_env: "snd (getExistingHostportIPTablesRules ipt e) = snd (ipt_SaveInto ipt TableNAT e)"
  by (auto simp: getExistingHostportIPTablesRules_def split: prod.splits option.splits sum.splits)

lemma close_fake: "fst (snd (hmg_close fakeManager n e)) = fst e"
  by (simp add: fakeManager_def onSnd_def split: prod.split)

lemma closeLoop_fake: "fst (hps_env (snd (closeLoop fakeManager pms s))) = fst (hps_env s)"
proof (induction pms arbitrary: s)
  case (Cons pm pms)
  have "fst (hps_env x) = fst (hps_env s)" if "closeLoop fakeManager pms t = (errs, x)" and "fst (hps_env t) = fst (hps_env s)" for x t errs
    using Cons.IH [of t] that by simp
  moreover have "fst (hps_env t) = fst (hps_env s)" if "hpEnv (hmg_close fakeManager n) s = (r, t)" for n r t
    using close_fake [of n "hps_env s"] that by (auto simp: hpEnv_def split: prod.splits)
  ultimately show ?case
    by (auto simp: Let_def Cons.IH split: option.splits prod.splits)
qed simp

lemma closeHostports_fake: "fst (hps_env (snd (closeHostports fakeManager pms s))) = fst (hps_env s)"
  using closeLoop_fake [of pms s] by (auto simp: closeHostports_def split: prod.splits)

lemma syncIPTables_fake:
  "hps_env (snd (syncIPTables fakeManager data s)) =
     (snd (fake_RestoreAll data NoFlushTables RestoreCounters (fst (hps_env s))), snd (hps_env s))"
  by (auto simp: syncIPTables_def hpEnv_def fakeManager_def fakeIptables_def onFst_def split: prod.splits option.splits)

text \<open>C28. \<^verbatim>\<open>Remove\<close> is documented to clean up the port mappings of a pod, but on the fake it never takes
  a rule out of the chain KUBE-HOSTPORTS, whatever the state, the pod and the outcome: the jump to
  a chain that it deletes stays behind. The input for \<^verbatim>\<open>iptables-restore\<close> declares no chain, since
  the map of existing chains holds the text \<^verbatim>\<open>{}\<close> for each of them instead of a chain line.
\<close>

theorem Remove_keeps_jumps:
  "set (chainRules (fst (hps_env s)) TableNAT kubeHostportsChain)
     \<subseteq> set (chainRules (fst (hps_env (snd (hostport_Remove fakeManager podID pod s)))) TableNAT kubeHostportsChain)"
proof (cases "case pod of None \<Rightarrow> True | Some p \<Rightarrow> ppm_HostNetwork p \<or>
    gatherHostportMappings p (ipt_IsIPv6 fakeIptables (hps_env s)) = []")
  case True
  then show ?thesis by (auto simp: hostport_Remove_def Let_def fakeManager_def split: option.splits)
next
  case False
  then obtain p where p: "pod = Some p" "\<not> ppm_HostNetwork p" by (auto split: option.splits)
  define pms where "pms = gatherHostportMappings p (ipt_IsIPv6 fakeIptables (hps_env s))"
  have pms: "pms \<noteq> []" using False p by (simp add: pms_def)
  obtain r e where r: "getExistingHostportIPTablesRules fakeIptables (hps_env s) = (r, e)" by (meson surj_pair)
  have ipt: "hmg_iptables fakeManager = fakeIptables" by (simp add: fakeManager_def)
  have e: "e = hps_env s" using getExisting_env [of fakeIptables "hps_env s"] r SaveInto_fake by simp
  show ?thesis
  proof (cases r)
    case (Inl err)
    then show ?thesis
      using e p pms r Inl by (simp add: hostport_Remove_def pms_def [symmetric] Let_def hpEnv_def ipt)
  next
    case (Inr b)
    obtain cs rules where cr: "r = Inr (cs, rules)" using Inr by (cases b) simp
    note ex = getExisting_spec [OF r [unfolded cr]] e
    define xs where "xs = filter (\<lambda>chain. map_of cs chain \<noteq> None) (map (getHostportChain podID) pms)"
    define rules' where "rules' = filterRules rules (map (getHostportChain podID) pms)"
    define data where "data = removeRestoreInput cs rules' xs"
    have xs: "\<forall>x\<in>set xs. strings_HasPrefix x kubeHostportChainPrefix \<and> newline \<notin> set x"
      using HasPrefix_getHostportChain newline_getHostportChain by (auto simp: xs_def)
    have rules': "\<forall>r\<in>set rules'. existingRule r \<and> newline \<notin> set r"
      using ex by (auto simp: rules'_def filterRules_def)
    have lines: "butlast (strings_Split data newline) = removeLines cs rules' xs"
      unfolding data_def removeRestoreInput_unlines using ex rules' xs
      by (subst Split_unlines [OF removeLines_newline]) auto
    have "set (chainRules (fst (hps_env s)) TableNAT kubeHostportsChain) \<subseteq>
        set (chainRules (fst (hps_env (snd (syncIPTables fakeManager data s)))) TableNAT kubeHostportsChain)"
      unfolding syncIPTables_fake fake_RestoreAll_def fake_restore_def lines fst_conv
      using ex rules' xs by (intro restoreLoop_keeps harmless_removeLines) auto
    moreover have "hostport_Remove fakeManager podID pod s =
        (if xs = [] then closeHostports fakeManager pms s
         else case syncIPTables fakeManager data s of
           (Some err, s) \<Rightarrow> (Some err, s) | (None, s) \<Rightarrow> closeHostports fakeManager pms s)"
      using p pms r cr ex
      by (simp add: hostport_Remove_def pms_def [symmetric] Let_def hpEnv_def ipt xs_def rules'_def data_def)
    ultimately show ?thesis
      by (auto simp: closeHostports_fake split: prod.splits option.splits)
  qed
qed

end
