(* ===== verification/Hostport_Sockets.thy ===== *)
theory Hostport_Sockets
  imports Fake_Iptables
begin

text \<open>
  The sockets of the host port manager. \<open>socket_contract\<close> is what the manager relies on: a port is
  opened only while no socket is open on it, an open socket can be closed, and \<^verbatim>\<open>iptables\<close> and
  \<^verbatim>\<open>conntrack\<close> leave the sockets alone. The lemmas of the locale show that the manager loses no
  socket on any path; the fakes of the repository provide the contract.
\<close>

subsection \<open>The contract\<close>

definition keepsSockets :: "'e hostportManager \<Rightarrow> ('e \<Rightarrow> nat \<rightharpoonup> hostport) \<Rightarrow> ('e \<Rightarrow> bool) \<Rightarrow> ('e \<Rightarrow> 'r \<times> 'e) \<Rightarrow> bool" where
  "keepsSockets hm sockets ok f \<longleftrightarrow>
     (\<forall>e. ok e \<longrightarrow> ok (snd (f e)) \<and> sockets (snd (f e)) = sockets e \<and>
        ipt_IsIPv6 (hmg_iptables hm) (snd (f e)) = ipt_IsIPv6 (hmg_iptables hm) e)"

text \<open>Every socket in the map of the manager is open on its port.\<close>

definition tracksSockets :: "('e \<Rightarrow> nat \<rightharpoonup> hostport) \<Rightarrow> ('e \<Rightarrow> bool) \<Rightarrow> 'e hp_state \<Rightarrow> bool" where
  "tracksSockets sockets ok s \<longleftrightarrow>
     ok (hps_env s) \<and> goMapOk (hps_map s) \<and> (\<forall>(hp, n)\<in>set (hps_map s). sockets (hps_env s) n = Some hp)"

text \<open>The open sockets that the manager does not know.\<close>

definition untracked :: "('e \<Rightarrow> nat \<rightharpoonup> hostport) \<Rightarrow> 'e hp_state \<Rightarrow> nat \<rightharpoonup> hostport" where
  "untracked sockets s = sockets (hps_env s) |` (- snd ` set (hps_map s))"

text \<open>The manager opens no socket for SCTP, so none of its sockets should have that protocol.\<close>

definition noSctp :: "'e hp_state \<Rightarrow> bool" where
  "noSctp s \<longleftrightarrow> (\<forall>hp\<in>fst ` set (hps_map s). hp_protocol hp \<noteq> ''sctp'')"

text \<open>The ports that \<^verbatim>\<open>openHostports\<close> opens for a pod.\<close>

definition portsOf :: "bool \<Rightarrow> PodPortMapping \<Rightarrow> hostport set" where
  "portsOf isIPv6 pod =
     (\<lambda>pm. portMappingToHostport pm (if isIPv6 then ''6'' else ''4'')) ` {pm \<in> set (ppm_PortMappings pod). opensSocket isIPv6 pm}"

locale socket_contract =
  fixes hm :: "'e hostportManager" and sockets :: "'e \<Rightarrow> nat \<rightharpoonup> hostport" and ok :: "'e \<Rightarrow> bool"
  assumes open_contract: "ok e \<Longrightarrow> hmg_portOpener hm hp e = (r, e') \<Longrightarrow>
      ok e' \<and> ipt_IsIPv6 (hmg_iptables hm) e' = ipt_IsIPv6 (hmg_iptables hm) e \<and>
      (case r of
         Inl _ \<Rightarrow> sockets e' = sockets e
       | Inr n \<Rightarrow> sockets e n = None \<and> hp \<notin> ran (sockets e) \<and> sockets e' = (sockets e)(n \<mapsto> hp))"
    and close_contract: "ok e \<Longrightarrow> sockets e n = Some hp \<Longrightarrow> hmg_close hm n e = (c, e') \<Longrightarrow>
      c = None \<and> ok e' \<and> ipt_IsIPv6 (hmg_iptables hm) e' = ipt_IsIPv6 (hmg_iptables hm) e \<and>
      sockets e' = (sockets e)(n := None)"
    and chain_contract: "keepsSockets hm sockets ok (ipt_EnsureChain (hmg_iptables hm) t ch)"
    and rule_contract: "keepsSockets hm sockets ok (ipt_EnsureRule (hmg_iptables hm) pos t ch args)"
    and save_contract: "keepsSockets hm sockets ok (ipt_SaveInto (hmg_iptables hm) t)"
    and restore_contract: "keepsSockets hm sockets ok (ipt_RestoreAll (hmg_iptables hm) data flush counters)"
    and clear_contract: "keepsSockets hm sockets ok (hmg_clearEntries hm port v6)"
begin

abbreviation v6 :: "'e \<Rightarrow> bool" where
  "v6 e \<equiv> ipt_IsIPv6 (hmg_iptables hm) e"

definition opened :: "'e \<Rightarrow> (hostport \<times> nat) list \<Rightarrow> 'e \<Rightarrow> bool" where
  "opened e0 ports e \<longleftrightarrow> ok e \<and> v6 e = v6 e0 \<and> goMapOk ports \<and>
     (\<forall>(hp, n)\<in>set ports. sockets e0 n = None \<and> hp \<notin> ran (sockets e0) \<and> sockets e n = Some hp) \<and>
     sockets e |` (- snd ` set ports) = sockets e0"

lemma opened_open:
  assumes o: "opened e0 ports e" and c: "hmg_portOpener hm hp e = (Inr n, e')"
  shows "mapSet ports hp n = ports @ [(hp, n)] \<and> opened e0 (ports @ [(hp, n)]) e'"
proof -
  from o have ok: "ok e" by (simp add: opened_def)
  note h = open_contract [OF ok c, simplified]
  have new: "hp \<notin> fst ` set ports"
    using h o by (fastforce simp: opened_def ran_def)
  have fresh: "n \<notin> snd ` set ports"
    using h o by (fastforce simp: opened_def)
  have e0: "sockets e0 n = None" "hp \<notin> ran (sockets e0)"
  proof -
    have r: "sockets e |` (- snd ` set ports) = sockets e0" using o by (simp add: opened_def)
    show "sockets e0 n = None" using h by (simp add: r [symmetric] restrict_map_def)
    show "hp \<notin> ran (sockets e0)"
      using h by (auto simp: r [symmetric] restrict_map_def ran_def split: if_splits)
  qed
  have r: "(sockets e)(n \<mapsto> hp) |` (- snd ` set (ports @ [(hp, n)])) = sockets e |` (- snd ` set ports)"
    using h by (auto simp: restrict_map_def fun_eq_iff)
  have "\<forall>(hp', n')\<in>set ports. ((sockets e)(n \<mapsto> hp)) n' = Some hp'"
    using o fresh by (force simp: opened_def)
  then show ?thesis
    using o h new fresh e0 r update_new [of hp ports n] by (auto simp: opened_def)
qed

lemma openLoop_spec:
  assumes "opened e0 ports e" and "openLoop hm pod ports pms e = ((r, ports'), e')"
  shows "opened e0 ports' e' \<and> fst ` set ports \<subseteq> fst ` set ports' \<and>
     (r = None \<longrightarrow> (\<forall>pm\<in>set pms. opensSocket (v6 e0) pm \<longrightarrow> portMappingToHostport pm (getIPFamily hm e0) \<in> fst ` set ports')) \<and>
     fst ` set ports' \<subseteq> fst ` set ports \<union> (\<lambda>pm. portMappingToHostport pm (getIPFamily hm e0)) ` {pm \<in> set pms. opensSocket (v6 e0) pm}"
  using assms
proof (induction pms arbitrary: ports e)
  case (Cons pm pms)
  have v6: "v6 e = v6 e0" using Cons.prems(1) by (simp add: opened_def)
  then have fam: "getIPFamily hm e = getIPFamily hm e0" by (simp add: getIPFamily_def)
  define hp where "hp = portMappingToHostport pm (getIPFamily hm e0)"
  obtain x e1 where x: "hmg_portOpener hm hp e = (x, e1)" by (meson surj_pair)
  show ?case
  proof (cases "opensSocket (v6 e0) pm")
    case False
    then have "openLoop hm pod ports pms e = ((r, ports'), e')" using Cons.prems(2) v6 by simp
    from Cons.IH [OF Cons.prems(1) this] False show ?thesis by auto
  next
    case True
    show ?thesis
    proof (cases x)
      case (Inl err)
      then have "e' = e1" "ports' = ports" "r \<noteq> None"
        using Cons.prems(2) True v6 x by (auto simp: fam hp_def [symmetric] Let_def)
      moreover have "opened e0 ports e1"
        using Cons.prems(1) open_contract [OF _ x] Inl by (auto simp: opened_def)
      ultimately show ?thesis by auto
    next
      case (Inr n)
      note o = opened_open [OF Cons.prems(1) x [unfolded Inr]]
      have "openLoop hm pod (ports @ [(hp, n)]) pms e1 = ((r, ports'), e')"
        using Cons.prems(2) True v6 x Inr o by (simp add: fam hp_def [symmetric] Let_def)
      from Cons.IH [OF conjunct2 [OF o] this] True show ?thesis by (auto simp: hp_def)
    qed
  qed
qed auto

lemma closeAll_spec:
  assumes "opened e0 ports e"
  shows "ok (closeAll hm ports e) \<and> v6 (closeAll hm ports e) = v6 e0 \<and> sockets (closeAll hm ports e) = sockets e0"
  using assms
proof (induction ports arbitrary: e)
  case Nil
  then show ?case by (auto simp: opened_def restrict_map_def)
next
  case (Cons p ports)
  obtain hp n where p: "p = (hp, n)" by (cases p)
  obtain c e1 where c: "hmg_close hm n e = (c, e1)" by (meson surj_pair)
  have ok: "ok e" "sockets e n = Some hp" using Cons.prems p by (auto simp: opened_def)
  note h = close_contract [OF ok c]
  have n: "n \<notin> snd ` set ports"
  proof
    assume "n \<in> snd ` set ports"
    then obtain hp' where m: "(hp', n) \<in> set ports" by auto
    then have "sockets e n = Some hp'" using Cons.prems p by (auto simp: opened_def)
    then have "hp' = hp" using ok(2) by simp
    with m have "hp \<in> fst ` set ports" by (metis fst_conv image_eqI)
    then show False using Cons.prems p by (simp add: opened_def)
  qed
  have "sockets e1 |` (- snd ` set ports) = sockets e |` (- snd ` set (p # ports))"
    using h p by (auto simp: restrict_map_def fun_eq_iff)
  moreover have "\<forall>(hp', n')\<in>set ports. sockets e1 n' = Some hp'"
    using Cons.prems h n by (force simp: opened_def)
  ultimately have "opened e0 ports e1" using Cons.prems h by (auto simp: opened_def)
  from Cons.IH [OF this] show ?case by (simp add: p c)
qed

lemma closeLoop_spec:
  assumes "tracksSockets sockets ok s" and "closeLoop hm pms s = (errs, s')"
  shows "errs = [] \<and> tracksSockets sockets ok s' \<and> untracked sockets s' = untracked sockets s \<and>
     v6 (hps_env s') = v6 (hps_env s) \<and>
     hps_map s' = filter (\<lambda>x. fst x \<notin> (\<lambda>pm. portMappingToHostport pm (getIPFamily hm (hps_env s))) ` set pms) (hps_map s)"
  using assms
proof (induction pms arbitrary: s)
  case (Cons pm pms)
  define hp where "hp = portMappingToHostport pm (getIPFamily hm (hps_env s))"
  show ?case
  proof (cases "map_of (hps_map s) hp")
    case None
    then have "closeLoop hm pms s = (errs, s')" using Cons.prems(2) by (simp add: hp_def)
    moreover have "\<And>b. (hp, b) \<notin> set (hps_map s)" using None by (auto simp: map_of_eq_None_iff image_iff)
    ultimately show ?thesis using Cons.IH [OF Cons.prems(1)] by (auto simp: hp_def intro!: filter_cong)
  next
    case (Some n)
    obtain c e1 where c: "hmg_close hm n (hps_env s) = (c, e1)" by (meson surj_pair)
    have mem: "(hp, n) \<in> set (hps_map s)" using Some by (rule map_of_SomeD)
    have ok: "ok (hps_env s)" "sockets (hps_env s) n = Some hp"
      using Cons.prems(1) mem by (auto simp: tracksSockets_def)
    note h = close_contract [OF ok c]
    define s1 where "s1 = s\<lparr>hps_env := e1, hps_map := AList.delete hp (hps_map s)\<rparr>"
    have loop: "closeLoop hm pms s1 = (errs, s')"
      using Cons.prems(2) Some c h by (simp add: hp_def [symmetric] hpEnv_def s1_def)
    have only: "(hp', n) \<in> set (hps_map s) \<Longrightarrow> hp' = hp" for hp'
      using Cons.prems(1) ok(2) by (auto simp: tracksSockets_def)
    have uniq: "(hp, m) \<in> set (hps_map s) \<Longrightarrow> m = n" for m
      using Cons.prems(1) Some map_of_is_SomeI [of "hps_map s" hp m] by (simp add: tracksSockets_def)
    have set1: "set (hps_map s1) = set (hps_map s) - {(hp, n)}"
      using uniq by (auto simp: s1_def AList.delete_eq)
    have snd1: "x \<in> snd ` set (hps_map s1) \<longleftrightarrow> x \<in> snd ` set (hps_map s) \<and> x \<noteq> n" for x
      unfolding set1 image_iff using only by (metis DiffD1 DiffD2 DiffI insertI1 prod.collapse singletonD snd_conv)
    have e1: "hps_env s1 = e1" by (simp add: s1_def)
    have t1: "tracksSockets sockets ok s1"
    proof -
      have "sockets e1 n' = Some hp'" if "(hp', n') \<in> set (hps_map s1)" for hp' n'
      proof -
        have "n' \<noteq> n" using snd1 [of n'] that by force
        then show ?thesis using that set1 Cons.prems(1) h by (auto simp: tracksSockets_def)
      qed
      moreover have "goMapOk (hps_map s1)" using Cons.prems(1) by (simp add: s1_def tracksSockets_def distinct_delete)
      ultimately show ?thesis using h unfolding tracksSockets_def e1 by blast
    qed
    have "n \<in> snd ` set (hps_map s)" using mem by force
    then have "untracked sockets s1 = untracked sockets s"
      using h by (auto simp: untracked_def restrict_map_def fun_eq_iff e1 snd1)
    moreover have "getIPFamily hm (hps_env s1) = getIPFamily hm (hps_env s)"
      using h by (simp add: getIPFamily_def s1_def)
    moreover have "hps_map s1 = filter (\<lambda>x. fst x \<noteq> hp) (hps_map s)"
      by (auto simp: s1_def AList.delete_eq intro!: filter_cong)
    ultimately show ?thesis
      using Cons.IH [OF t1 loop] h by (auto simp: s1_def hp_def intro!: filter_cong)
  qed
qed simp

lemma keepsSocketsD:
  assumes "keepsSockets hm sockets ok f" and "f e = (r, e')" and "ok e"
  shows "ok e' \<and> sockets e' = sockets e \<and> v6 e' = v6 e"
  using assms by (auto simp: keepsSockets_def dest!: spec [of _ e])

lemma ensureJumps_keeps: "keepsSockets hm sockets ok (ensureJumps (hmg_iptables hm) args tcs)"
proof -
  have "ensureJumps (hmg_iptables hm) args tcs e = (r, e') \<Longrightarrow> ok e \<Longrightarrow> ok e' \<and> sockets e' = sockets e \<and> v6 e' = v6 e" for e r e'
  proof (induction tcs arbitrary: e)
    case (Cons tc tcs)
    obtain t c where tc: "tc = (t, c)" by (cases tc)
    obtain b err e1 where x: "ipt_EnsureRule (hmg_iptables hm) posAppend t c args e = ((b, err), e1)"
      by (metis surj_pair)
    note h = keepsSocketsD [OF rule_contract x Cons.prems(2)]
    show ?case using Cons.IH [of e1] Cons.prems h x tc by (auto split: option.splits)
  qed simp
  then show ?thesis unfolding keepsSockets_def by (metis surjective_pairing)
qed

lemma ensureChains_keeps: "keepsSockets hm sockets ok (ensureKubeHostportChains (hmg_iptables hm) iface)"
proof -
  have "ok e' \<and> sockets e' = sockets e \<and> v6 e' = v6 e"
    if x: "ensureKubeHostportChains (hmg_iptables hm) iface e = (r, e')" and ok: "ok e" for e r e'
  proof -
    obtain b err e1 where c: "ipt_EnsureChain (hmg_iptables hm) TableNAT kubeHostportsChain e = ((b, err), e1)"
      by (metis surj_pair)
    note h1 = keepsSocketsD [OF chain_contract c ok]
    obtain err2 e2 where j: "ensureJumps (hmg_iptables hm) jumpArgs [(TableNAT, ''OUTPUT''), (TableNAT, ''PREROUTING'')] e1 = (err2, e2)"
      by (meson surj_pair)
    note h2 = keepsSocketsD [OF ensureJumps_keeps j conjunct1 [OF h1]]
    define args where "args = masqArgs iface (if v6 e2 then ''::1/128'' else ''127.0.0.0/8'')"
    obtain b3 err3 e3 where m: "ipt_EnsureRule (hmg_iptables hm) posAppend TableNAT ''POSTROUTING'' args e2 = ((b3, err3), e3)"
      by (metis surj_pair)
    note h3 = keepsSocketsD [OF rule_contract m conjunct1 [OF h2]]
    have "e' = e1 \<or> e' = e2 \<or> e' = e3"
      using x m by (simp add: ensureKubeHostportChains_def c j Let_def args_def [symmetric] del: ensureJumps.simps split: option.splits if_splits)
    with h1 h2 h3 show ?thesis by auto
  qed
  then show ?thesis unfolding keepsSockets_def by (metis surjective_pairing)
qed

lemma getExisting_keeps: "keepsSockets hm sockets ok (getExistingHostportIPTablesRules (hmg_iptables hm))"
proof -
  have "snd (getExistingHostportIPTablesRules (hmg_iptables hm) e) = snd (ipt_SaveInto (hmg_iptables hm) TableNAT e)" for e
    by (simp add: getExistingHostportIPTablesRules_def split: prod.split option.split sum.split)
  then show ?thesis using save_contract [of TableNAT] by (simp add: keepsSockets_def)
qed

lemma clearConntrack_keeps:
  "ok e \<Longrightarrow> ok (clearConntrack hm b ports e) \<and> sockets (clearConntrack hm b ports e) = sockets e \<and> v6 (clearConntrack hm b ports e) = v6 e"
proof -
  assume ok: "ok e"
  have "ok (foldl (\<lambda>e port. snd (hmg_clearEntries hm port b e)) e ports) \<and>
      sockets (foldl (\<lambda>e port. snd (hmg_clearEntries hm port b e)) e ports) = sockets e \<and>
      v6 (foldl (\<lambda>e port. snd (hmg_clearEntries hm port b e)) e ports) = v6 e"
    using ok
  proof (induction ports arbitrary: e)
    case (Cons port ports)
    have "ok (snd (hmg_clearEntries hm port b e)) \<and> sockets (snd (hmg_clearEntries hm port b e)) = sockets e \<and>
        v6 (snd (hmg_clearEntries hm port b e)) = v6 e"
      using clear_contract [of port b] Cons.prems by (simp add: keepsSockets_def)
    then show ?case using Cons.IH [of "snd (hmg_clearEntries hm port b e)"] by simp
  qed simp
  then show ?thesis using ok by (simp add: clearConntrack_def)
qed

lemma hpEnv_keeps:
  assumes "keepsSockets hm sockets ok f" and "hpEnv f s = (r, s')" and "tracksSockets sockets ok s"
  shows "tracksSockets sockets ok s' \<and> untracked sockets s' = untracked sockets s \<and> hps_map s' = hps_map s \<and>
     v6 (hps_env s') = v6 (hps_env s)"
proof -
  obtain e' where f: "f (hps_env s) = (r, e')" and s': "s' = s\<lparr>hps_env := e'\<rparr>"
    using assms(2) by (auto simp: hpEnv_def split: prod.splits)
  have "ok (hps_env s)" using assms(3) by (simp add: tracksSockets_def)
  from keepsSocketsD [OF assms(1) f this] show ?thesis
    using assms(3) s' by (auto simp: tracksSockets_def untracked_def)
qed

lemma syncIPTables_keeps:
  assumes "syncIPTables hm data s = (r, s')" and "tracksSockets sockets ok s"
  shows "tracksSockets sockets ok s' \<and> untracked sockets s' = untracked sockets s \<and> hps_map s' = hps_map s \<and>
     v6 (hps_env s') = v6 (hps_env s)"
proof -
  obtain x where "hpEnv (ipt_RestoreAll (hmg_iptables hm) data NoFlushTables RestoreCounters) s = (x, s')"
    using assms(1) by (auto simp: syncIPTables_def split: prod.splits option.splits)
  from hpEnv_keeps [OF restore_contract this assms(2)] show ?thesis .
qed

definition closedMap :: "bool \<Rightarrow> hostport_mapping list \<Rightarrow> (hostport \<times> nat) list \<Rightarrow> (hostport \<times> nat) list" where
  "closedMap b pms m = filter (\<lambda>x. fst x \<notin> (\<lambda>pm. portMappingToHostport pm (if b then ''6'' else ''4'')) ` set pms) m"

lemma closeHostports_spec:
  assumes "tracksSockets sockets ok s" and "closeHostports hm pms s = (r, s')"
  shows "r = None \<and> tracksSockets sockets ok s' \<and> untracked sockets s' = untracked sockets s \<and>
     v6 (hps_env s') = v6 (hps_env s) \<and> hps_map s' = closedMap (v6 (hps_env s)) pms (hps_map s)"
proof -
  obtain errs where "closeLoop hm pms s = (errs, s')" and r: "r = api_NewAggregate (map Some errs)"
    using assms(2) by (auto simp: closeHostports_def split: prod.splits)
  from closeLoop_spec [OF assms(1) this(1)] show ?thesis
    unfolding r closedMap_def by (auto simp: api_NewAggregate_def NewAggregate_def getIPFamily_def)
qed

lemma addRules_spec:
  assumes t: "tracksSockets sockets ok s" and a: "addRules hm i pod b pms s = (r, s')"
  shows "tracksSockets sockets ok s' \<and> untracked sockets s' = untracked sockets s \<and> v6 (hps_env s') = v6 (hps_env s) \<and>
     hps_map s' = (if r = None \<or> r = Some sliceOutOfRange then hps_map s else closedMap (v6 (hps_env s)) pms (hps_map s))"
proof -
  obtain x s1 where x: "hpEnv (getExistingHostportIPTablesRules (hmg_iptables hm)) s = (x, s1)" by (meson surj_pair)
  note h1 = hpEnv_keeps [OF getExisting_keeps x t]
  have err: "api_NewAggregate [Some e, None] \<noteq> None \<and> api_NewAggregate [Some e, None] \<noteq> Some sliceOutOfRange" for e
    by (simp add: api_NewAggregate_def NewAggregate_def map_filter_def sliceOutOfRange_def)
  have failed: "tracksSockets sockets ok s' \<and> untracked sockets s' = untracked sockets s \<and> v6 (hps_env s') = v6 (hps_env s) \<and>
      r \<noteq> None \<and> r \<noteq> Some sliceOutOfRange \<and> hps_map s' = closedMap (v6 (hps_env s)) pms (hps_map s)"
    if "(case closeHostports hm pms u of (errc, v) \<Rightarrow> (api_NewAggregate [Some e, errc], v)) = (r, s')"
      and "tracksSockets sockets ok u" "untracked sockets u = untracked sockets s" "hps_map u = hps_map s"
        "v6 (hps_env u) = v6 (hps_env s)" for u e
  proof -
    obtain errc v where v: "closeHostports hm pms u = (errc, v)" by (meson surj_pair)
    show ?thesis using closeHostports_spec [OF that(2) v] that err [of e] v by auto
  qed
  show ?thesis
  proof (cases x)
    case (Inl e)
    then show ?thesis using a x h1 failed [of e s1] by (auto simp: addRules_def split: if_splits)
  next
    case (Inr y)
    obtain cs rules where y: "y = (cs, rules)" by (cases y)
    obtain data ports where d: "addRestoreInput i (getPodFullName pod) (IP_String (ppm_IP pod)) cs rules pms = (data, ports)"
      by (meson surj_pair)
    obtain z s2 where z: "syncIPTables hm data s1 = (z, s2)" by (meson surj_pair)
    note h2 = syncIPTables_keeps [OF z conjunct1 [OF h1]]
    have fin: "(case z of Some err \<Rightarrow> (case closeHostports hm pms s2 of (errc, v) \<Rightarrow> (api_NewAggregate [Some err, errc], v))
        | None \<Rightarrow> (None, s2\<lparr>hps_env := clearConntrack hm b ports (hps_env s2)\<rparr>)) = (r, s')"
      using a x Inr y d z by (simp add: addRules_def split: option.splits)
    show ?thesis
    proof (cases z)
      case None
      have "ok (hps_env s2)" using h2 by (simp add: tracksSockets_def)
      from clearConntrack_keeps [OF this] None fin h1 h2 show ?thesis
        by (auto simp: tracksSockets_def untracked_def)
    next
      case (Some e)
      then show ?thesis using failed [of e s2] fin h1 h2 by auto
    qed
  qed
qed

lemma openHostports_spec:
  assumes t: "tracksSockets sockets ok s" and o: "hpEnv (openHostports hm pod) s = (r, s')"
  shows "case r of
      Inl err \<Rightarrow> tracksSockets sockets ok s' \<and> untracked sockets s' = untracked sockets s \<and> hps_map s' = hps_map s \<and>
        v6 (hps_env s') = v6 (hps_env s)
    | Inr ports \<Rightarrow> opened (hps_env s) ports (hps_env s') \<and> hps_map s' = hps_map s \<and>
        fst ` set ports = portsOf (v6 (hps_env s)) pod"
proof -
  obtain err ports e1 where l: "openLoop hm (getPodFullName pod) [] (ppm_PortMappings pod) (hps_env s) = ((err, ports), e1)"
    by (metis surj_pair)
  have "opened (hps_env s) [] (hps_env s)" using t by (simp add: opened_def tracksSockets_def restrict_map_def)
  note h = openLoop_spec [OF this l]
  show ?thesis
  proof (cases err)
    case None
    then have "r = Inr ports \<and> s' = s\<lparr>hps_env := e1\<rparr>" using o l by (simp add: hpEnv_def openHostports_def)
    then show ?thesis using h None by (auto simp: portsOf_def getIPFamily_def)
  next
    case (Some e)
    then have "r = Inl e \<and> s' = s\<lparr>hps_env := closeAll hm ports e1\<rparr>" using o l by (simp add: hpEnv_def openHostports_def)
    then show ?thesis using closeAll_spec [OF conjunct1 [OF h]] t by (auto simp: tracksSockets_def untracked_def)
  qed
qed

text \<open>The sockets that were opened become the manager's.\<close>

lemma foldl_mapSet_new:
  "goMapOk ports \<Longrightarrow> fst ` set m \<inter> fst ` set ports = {} \<Longrightarrow> foldl (\<lambda>m (hp, n). mapSet m hp n) m ports = m @ ports"
proof (induction ports arbitrary: m)
  case (Cons p ports)
  obtain hp n where p: "p = (hp, n)" by (cases p)
  have "mapSet m hp n = m @ [p]" using Cons.prems p update_new [of hp m n] by auto
  moreover have "foldl (\<lambda>m (hp, n). mapSet m hp n) (m @ [p]) ports = (m @ [p]) @ ports"
    using Cons.prems p by (intro Cons.IH) auto
  ultimately show ?case by (simp add: p)
qed simp

lemma track_opened:
  assumes t: "tracksSockets sockets ok s" and o: "opened (hps_env s) ports e"
  defines "s' \<equiv> s\<lparr>hps_env := e, hps_map := foldl (\<lambda>m (hp, n). mapSet m hp n) (hps_map s) ports\<rparr>"
  shows "tracksSockets sockets ok s' \<and> untracked sockets s' = untracked sockets s \<and> v6 e = v6 (hps_env s) \<and>
     hps_map s' = hps_map s @ ports \<and> fst ` set (hps_map s) \<inter> fst ` set ports = {}"
proof -
  have disj: "fst ` set (hps_map s) \<inter> fst ` set ports = {}"
  proof -
    have "hp \<in> ran (sockets (hps_env s))" if "hp \<in> fst ` set (hps_map s)" for hp
      using that t by (force simp: tracksSockets_def ran_def)
    then show ?thesis using o by (fastforce simp: opened_def)
  qed
  have m: "hps_map s' = hps_map s @ ports"
    using foldl_mapSet_new [of ports "hps_map s"] o disj by (simp add: s'_def opened_def)
  have r: "sockets (hps_env s) = sockets e |` (- snd ` set ports)" using o by (simp add: opened_def)
  have "sockets e n = Some hp" if "(hp, n) \<in> set (hps_map s)" for hp n
    using that t by (auto simp: tracksSockets_def r restrict_map_def split: if_splits)
  moreover have "untracked sockets s' = untracked sockets s"
    unfolding untracked_def m r by (auto simp: s'_def restrict_map_def fun_eq_iff image_Un)
  ultimately show ?thesis
    using t o disj m by (auto simp: tracksSockets_def opened_def s'_def)
qed

lemma gather_opens: "pm \<in> set (gatherHostportMappings pod b) \<Longrightarrow> opensSocket b pm \<or> hpm_Protocol pm = ProtocolSCTP"
  by (auto simp: gatherHostportMappings_def opensSocket_def)

lemma opens_gather: "pm \<in> set (ppm_PortMappings pod) \<Longrightarrow> opensSocket b pm \<Longrightarrow> pm \<in> set (gatherHostportMappings pod b)"
  by (auto simp: gatherHostportMappings_def opensSocket_def)

lemma closedMap_opened:
  assumes "fst ` set m \<inter> portsOf b pod = {}" and "fst ` set ports \<subseteq> portsOf b pod"
    and "\<forall>hp\<in>fst ` set m. hp_protocol hp \<noteq> ''sctp''"
  shows "closedMap b (gatherHostportMappings pod b) (m @ ports) = m"
proof -
  define hp where "hp = (\<lambda>pm. portMappingToHostport pm (if b then ''6'' else ''4''))"
  have "strings_ToLower ProtocolSCTP = ''sctp''" by code_simp
  then have sctp: "hp_protocol (hp pm) = ''sctp''" if "hpm_Protocol pm = ProtocolSCTP" for pm
    using that by (simp add: hp_def portMappingToHostport_def)
  have "fst x \<notin> hp ` set (gatherHostportMappings pod b)" if x: "x \<in> set m" for x
  proof
    assume "fst x \<in> hp ` set (gatherHostportMappings pod b)"
    then obtain pm where pm: "pm \<in> set (gatherHostportMappings pod b)" "fst x = hp pm" by auto
    then have mem: "pm \<in> set (ppm_PortMappings pod)" by (simp add: gatherHostportMappings_def)
    have "\<not> opensSocket b pm"
    proof
      assume "opensSocket b pm"
      then have "fst x \<in> portsOf b pod" using mem unfolding portsOf_def pm(2) hp_def by (intro imageI) simp
      moreover have "fst x \<in> fst ` set m" using x by (rule imageI)
      ultimately show False using assms(1) by blast
    qed
    then have "hpm_Protocol pm = ProtocolSCTP" using gather_opens [OF pm(1)] by simp
    from sctp [OF this] pm(2) have "hp_protocol (fst x) = ''sctp''" by simp
    then show False using bspec [OF assms(3) imageI [OF x, of fst]] by simp
  qed
  moreover have "fst x \<in> hp ` set (gatherHostportMappings pod b)" if "x \<in> set ports" for x
  proof -
    have "fst x \<in> portsOf b pod" using that assms(2) by auto
    then obtain pm where "pm \<in> set (ppm_PortMappings pod)" "opensSocket b pm" "fst x = hp pm"
      unfolding portsOf_def hp_def by blast
    then show ?thesis using opens_gather [of pm pod b] by (simp add: imageI)
  qed
  ultimately show ?thesis
    unfolding closedMap_def hp_def [symmetric] by (simp add: filter_id_conv filter_empty_conv)
qed

lemma Add_spec:
  assumes t: "tracksSockets sockets ok s" and a: "hostport_Add hm i pod iface s = (r, s')"
  shows "tracksSockets sockets ok s' \<and> untracked sockets s' = untracked sockets s \<and> v6 (hps_env s') = v6 (hps_env s) \<and>
     (r \<noteq> None \<and> r \<noteq> Some sliceOutOfRange \<and> noSctp s \<longrightarrow> hps_map s' = hps_map s) \<and>
     (\<forall>p. r = None \<and> pod = Some p \<and> \<not> ppm_HostNetwork p \<and> IsIPv6 (ppm_IP p) = v6 (hps_env s) \<longrightarrow>
        (\<exists>ports. hps_map s' = hps_map s @ ports \<and> fst ` set ports = portsOf (v6 (hps_env s)) p \<and>
           fst ` set (hps_map s) \<inter> fst ` set ports = {}))"
proof (cases "case pod of None \<Rightarrow> True | Some p \<Rightarrow> ppm_HostNetwork p \<or> IP_To16 (ppm_IP p) = [] \<or>
    gatherHostportMappings p (IsIPv6 (ppm_IP p)) = [] \<or> IsIPv6 (ppm_IP p) \<noteq> v6 (hps_env s)")
  case True
  have "portsOf (v6 (hps_env s)) p = {}"
    if "r = None" "pod = Some p" "\<not> ppm_HostNetwork p" "IsIPv6 (ppm_IP p) = v6 (hps_env s)" for p
    using a that True opens_gather [of _ p "v6 (hps_env s)"] by (auto simp: hostport_Add_def portsOf_def split: if_splits)
  moreover have "s' = s" using a True by (auto simp: hostport_Add_def Let_def split: option.splits if_splits)
  ultimately show ?thesis using t by auto
next
  case False
  then obtain p where p: "pod = Some p" "\<not> ppm_HostNetwork p" "IP_To16 (ppm_IP p) \<noteq> []"
      "gatherHostportMappings p (IsIPv6 (ppm_IP p)) \<noteq> []" "IsIPv6 (ppm_IP p) = v6 (hps_env s)"
    by (auto split: option.splits)
  obtain x s1 where x: "hpEnv (ensureKubeHostportChains (hmg_iptables hm) iface) s = (x, s1)" by (meson surj_pair)
  note h1 = hpEnv_keeps [OF ensureChains_keeps x t]
  obtain y s2 where y: "hpEnv (openHostports hm p) s1 = (y, s2)" by (meson surj_pair)
  note h2 = openHostports_spec [OF conjunct1 [OF h1] y]
  consider (chains) "x \<noteq> None" | (opened) ports where "x = None" "y = Inr ports" | (failed) err where "x = None" "y = Inl err"
    by (cases x; cases y) auto
  then show ?thesis
  proof cases
    case chains
    then show ?thesis using a p x h1 by (auto simp: hostport_Add_def)
  next
    case failed
    then show ?thesis using a p x y h1 h2 by (auto simp: hostport_Add_def)
  next
    case opened
    define s3 where "s3 = s2\<lparr>hps_map := foldl (\<lambda>m (hp, n). mapSet m hp n) (hps_map s2) ports\<rparr>"
    have r: "addRules hm i p (v6 (hps_env s)) (gatherHostportMappings p (v6 (hps_env s))) s3 = (r, s')"
      using a p x y opened by (simp add: hostport_Add_def s3_def Let_def)
    have op: "opened (hps_env s1) ports (hps_env s2)" using h2 opened by simp
    have s3: "s3 = s1\<lparr>hps_env := hps_env s2, hps_map := foldl (\<lambda>m (hp, n). mapSet m hp n) (hps_map s1) ports\<rparr>"
      using h2 opened by (simp add: s3_def)
    note t3 = track_opened [OF conjunct1 [OF h1] op, folded s3]
    have env: "hps_env s3 = hps_env s2" by (simp add: s3_def)
    have keys: "fst ` set ports = portsOf (v6 (hps_env s)) p" using h1 h2 opened by simp
    note h3 = addRules_spec [OF conjunct1 [OF t3] r]
    have v: "v6 (hps_env s3) = v6 (hps_env s)" using t3 h1 env by simp
    have m3: "hps_map s3 = hps_map s @ ports" using t3 h1 by simp
    have disj: "fst ` set (hps_map s) \<inter> fst ` set ports = {}" using t3 h1 by simp
    have m': "hps_map s' = (if r = None \<or> r = Some sliceOutOfRange then hps_map s @ ports
        else closedMap (v6 (hps_env s)) (gatherHostportMappings p (v6 (hps_env s))) (hps_map s @ ports))"
      using h3 unfolding v m3 by blast
    have "closedMap (v6 (hps_env s)) (gatherHostportMappings p (v6 (hps_env s))) (hps_map s @ ports) = hps_map s" if "noSctp s"
      using that disj unfolding keys noSctp_def by (rule_tac closedMap_opened) (simp_all add: keys)
    then have failed: "r \<noteq> None \<and> r \<noteq> Some sliceOutOfRange \<and> noSctp s \<longrightarrow> hps_map s' = hps_map s" using m' by simp
    have added: "r = None \<Longrightarrow> hps_map s' = hps_map s @ ports" using m' by simp
    have "tracksSockets sockets ok s'" "untracked sockets s' = untracked sockets s" "v6 (hps_env s') = v6 (hps_env s)"
      using h1 t3 h3 v by simp_all
    then show ?thesis using failed added disj keys p(1) by blast
  qed
qed

lemma Remove_spec:
  assumes t: "tracksSockets sockets ok s" and a: "hostport_Remove hm i pod s = (r, s')"
  shows "tracksSockets sockets ok s' \<and> untracked sockets s' = untracked sockets s \<and> v6 (hps_env s') = v6 (hps_env s) \<and>
     (\<forall>p. r = None \<and> pod = Some p \<and> \<not> ppm_HostNetwork p \<longrightarrow>
        hps_map s' = closedMap (v6 (hps_env s)) (gatherHostportMappings p (v6 (hps_env s))) (hps_map s))"
proof (cases "case pod of None \<Rightarrow> True | Some p \<Rightarrow> ppm_HostNetwork p \<or> gatherHostportMappings p (v6 (hps_env s)) = []")
  case True
  then show ?thesis using a t by (auto simp: hostport_Remove_def closedMap_def split: option.splits if_splits)
next
  case False
  then obtain p where p: "pod = Some p" "\<not> ppm_HostNetwork p" by (auto split: option.splits)
  define pms where "pms = gatherHostportMappings p (v6 (hps_env s))"
  have pms: "pms \<noteq> []" using False p by (simp add: pms_def)
  obtain x s1 where x: "hpEnv (getExistingHostportIPTablesRules (hmg_iptables hm)) s = (x, s1)" by (meson surj_pair)
  note h1 = hpEnv_keeps [OF getExisting_keeps x t]
  have closing: ?thesis if "closeHostports hm pms u = (r, s')" "tracksSockets sockets ok u" "untracked sockets u = untracked sockets s"
      "v6 (hps_env u) = v6 (hps_env s)" "hps_map u = hps_map s" for u
    using closeHostports_spec [OF that(2,1)] that p by (auto simp: pms_def)
  show ?thesis
  proof (cases x)
    case (Inl err)
    then show ?thesis using a p pms x h1 by (auto simp: hostport_Remove_def pms_def [symmetric])
  next
    case (Inr z)
    obtain cs rules where z: "z = (cs, rules)" by (cases z)
    define xs where "xs = filter (\<lambda>chain. map_of cs chain \<noteq> None) (map (getHostportChain i) pms)"
    define data where "data = removeRestoreInput cs (filterRules rules (map (getHostportChain i) pms)) xs"
    obtain w s2 where w: "syncIPTables hm data s1 = (w, s2)" by (meson surj_pair)
    note h2 = syncIPTables_keeps [OF w conjunct1 [OF h1]]
    have "(if length xs = 0 then closeHostports hm pms s1
        else case w of Some err \<Rightarrow> (Some err, s2) | None \<Rightarrow> closeHostports hm pms s2) = (r, s')"
      using a p pms x Inr z w
      by (auto simp: hostport_Remove_def pms_def [symmetric] Let_def xs_def data_def filter_map split: option.splits if_splits)
    then show ?thesis using closing [of s1] closing [of s2] h1 h2 by (auto split: if_splits option.splits)
  qed
qed

end

subsection \<open>The fakes provide the contract\<close>

definition fsmOk :: "fakeSocketManager \<Rightarrow> bool" where
  "fsmOk m \<longleftrightarrow> goMapOk (fsm_mem m) \<and>
     (\<forall>h h' k. map_of (fsm_mem m) h = Some k \<and> map_of (fsm_mem m) h' = Some k \<longrightarrow> h = h') \<and>
     (\<forall>h k. map_of (fsm_mem m) h = Some k \<longrightarrow> k < length (fsm_sockets m)) \<and>
     (\<forall>k<length (fsm_sockets m). \<not> fs_closed (fsm_sockets m ! k) \<longrightarrow> (\<exists>h. map_of (fsm_mem m) h = Some k))"

definition fakeSockets :: "fake_env \<Rightarrow> nat \<rightharpoonup> hostport" where
  "fakeSockets e n =
     (if n < length (fsm_sockets (snd e)) \<and> \<not> fs_closed (fsm_sockets (snd e) ! n)
      then map_of (map prod.swap (fsm_mem (snd e))) n else None)"

lemma fakeSockets_iff:
  assumes ok: "fsmOk m"
  shows "fakeSockets (f, m) n = Some hp \<longleftrightarrow>
     n < length (fsm_sockets m) \<and> \<not> fs_closed (fsm_sockets m ! n) \<and> map_of (fsm_mem m) hp = Some n"
proof -
  have "map_of (map prod.swap (fsm_mem m)) n = Some hp \<longleftrightarrow> map_of (fsm_mem m) hp = Some n"
  proof
    assume "map_of (map prod.swap (fsm_mem m)) n = Some hp"
    then have "(hp, n) \<in> set (fsm_mem m)" by (auto dest!: map_of_SomeD)
    then show "map_of (fsm_mem m) hp = Some n" using ok by (simp add: fsmOk_def)
  next
    assume a: "map_of (fsm_mem m) hp = Some n"
    then have "(n, hp) \<in> set (map prod.swap (fsm_mem m))" by (force dest: map_of_SomeD)
    then obtain hp' where h: "map_of (map prod.swap (fsm_mem m)) n = Some hp'" by (metis weak_map_of_SomeI)
    then have "(hp', n) \<in> set (fsm_mem m)" by (auto dest!: map_of_SomeD)
    then have "map_of (fsm_mem m) hp' = Some n" using ok by (simp add: fsmOk_def)
    then have "hp' = hp" using a ok unfolding fsmOk_def by blast
    then show "map_of (map prod.swap (fsm_mem m)) n = Some hp" using h by simp
  qed
  then show ?thesis by (simp add: fakeSockets_def)
qed

lemma map_eqI: "(\<And>n x. f n = Some x \<longleftrightarrow> g n = Some x) \<Longrightarrow> f = (g :: 'a \<rightharpoonup> 'b)"
  by (rule ext) (metis not_None_eq)

lemma openFakeSocket_new:
  assumes ok: "fsmOk m" and o: "openFakeSocket hp m = (Inr n, m')"
  shows "n = length (fsm_sockets m) \<and> fsmOk m' \<and> hp \<notin> ran (fakeSockets (f, m)) \<and>
    fakeSockets (f, m') = (fakeSockets (f, m))(n \<mapsto> hp)"
proof -
  define sk where "sk = \<lparr>fs_closed = False, fs_port = hp_port hp, fs_protocol = hp_protocol hp, fs_ip = hp_ip hp\<rparr>"
  have n: "n = length (fsm_sockets m)" and m': "m' = m\<lparr>fsm_sockets := fsm_sockets m @ [sk], fsm_mem := mapSet (fsm_mem m) hp n\<rparr>"
    and closed: "\<And>k. map_of (fsm_mem m) hp = Some k \<Longrightarrow> fs_closed (fsm_sockets m ! k)"
    using o by (auto simp: openFakeSocket_def Let_def sk_def split: option.splits if_splits)
  have mem': "map_of (fsm_mem m') h = Some k \<longleftrightarrow> (if h = hp then k = n else map_of (fsm_mem m) h = Some k)" for h k
    by (auto simp: m' update_conv')
  have len': "length (fsm_sockets m') = Suc n" by (simp add: m' n)
  have nth': "fs_closed (fsm_sockets m' ! k) = (if k = n then False else fs_closed (fsm_sockets m ! k))" if "k < Suc n" for k
    using that by (auto simp: m' n nth_append sk_def)
  have lt: "map_of (fsm_mem m) h = Some k \<Longrightarrow> k < n" for h k using ok n by (simp add: fsmOk_def)
  have ok': "fsmOk m'"
    unfolding fsmOk_def mem' len'
  proof (intro conjI allI impI)
    show "goMapOk (fsm_mem m')" using ok by (simp add: m' distinct_update fsmOk_def)
    show "h = h'" if "(if h = hp then k = n else map_of (fsm_mem m) h = Some k) \<and>
        (if h' = hp then k = n else map_of (fsm_mem m) h' = Some k)" for h h' k
      using that lt ok unfolding fsmOk_def by (metis less_irrefl)
    show "k < Suc n" if "if h = hp then k = n else map_of (fsm_mem m) h = Some k" for h k
      using that lt [of h k] by (simp split: if_splits)
    show "\<exists>h. if h = hp then k = n else map_of (fsm_mem m) h = Some k"
      if "k < Suc n" and "\<not> fs_closed (fsm_sockets m' ! k)" for k
      using that ok closed n unfolding nth' [OF that(1)] fsmOk_def by (metis less_SucE)
  qed
  have "hp \<notin> ran (fakeSockets (f, m))"
    using closed by (auto simp: ran_def fakeSockets_iff [OF ok])
  moreover have "fakeSockets (f, m') = (fakeSockets (f, m))(n \<mapsto> hp)"
  proof (rule map_eqI)
    fix k h
    show "fakeSockets (f, m') k = Some h \<longleftrightarrow> ((fakeSockets (f, m))(n \<mapsto> hp)) k = Some h"
      using lt closed n nth' [of k] unfolding fakeSockets_iff [OF ok'] fun_upd_apply mem' len'
      by (auto simp: fakeSockets_iff [OF ok] less_Suc_eq)
  qed
  ultimately show ?thesis using n ok' by simp
qed

lemma openFakeSocket_busy: "openFakeSocket hp m = (Inl err, m') \<Longrightarrow> m' = m"
  by (auto simp: openFakeSocket_def Let_def split: option.splits if_splits)

lemma fakeSocket_Close_spec:
  assumes ok: "fsmOk m" and open_: "fakeSockets (f, m) n = Some hp"
  shows "\<exists>m'. fakeSocket_Close q n m = (None, m') \<and> fsmOk m' \<and> fakeSockets (f, m') = (fakeSockets (f, m))(n := None)"
proof -
  define m' where "m' = m\<lparr>fsm_sockets := (fsm_sockets m)[n := (fsm_sockets m ! n)\<lparr>fs_closed := True\<rparr>]\<rparr>"
  have n: "n < length (fsm_sockets m)" "\<not> fs_closed (fsm_sockets m ! n)"
    using open_ by (simp_all add: fakeSockets_iff [OF ok])
  have cl: "fs_closed (fsm_sockets m' ! k) \<longleftrightarrow> k = n \<or> fs_closed (fsm_sockets m ! k)" if "k < length (fsm_sockets m)" for k
    using that n by (cases "k = n") (simp_all add: m'_def)
  have mem: "fsm_mem m' = fsm_mem m" and len: "length (fsm_sockets m') = length (fsm_sockets m)" by (simp_all add: m'_def)
  have ok': "fsmOk m'" using ok cl unfolding fsmOk_def mem len by blast
  have "fakeSockets (f, m') = (fakeSockets (f, m))(n := None)"
    by (rule map_eqI) (auto simp: fakeSockets_iff [OF ok'] fakeSockets_iff [OF ok] mem len cl)
  then show ?thesis using n ok' by (simp add: fakeSocket_Close_def Let_def m'_def [symmetric])
qed

lemma fi_ipv6_setTable [simp]: "fi_ipv6 (setTable f t tb) = fi_ipv6 f"
  by (simp add: setTable_def)

lemma fi_ipv6_setRules [simp]: "fi_ipv6 (setRules f t c rs) = fi_ipv6 f"
  by (simp add: setRules_def split: prod.split sum.split option.split)

lemma fi_ipv6_ensureChain: "ensureChain f t c = (b, ch, f') \<Longrightarrow> fi_ipv6 f' = fi_ipv6 f"
  by (auto simp: ensureChain_def Let_def split: prod.splits sum.splits)

lemma fi_ipv6_ensureRule: "ensureRule f p t c r = (x, f') \<Longrightarrow> fi_ipv6 f' = fi_ipv6 f"
  by (auto simp: ensureRule_def dest!: fi_ipv6_ensureChain split: prod.splits sum.splits if_splits)

lemma fi_ipv6_FlushChain: "fake_FlushChain t c f = (x, f') \<Longrightarrow> fi_ipv6 f' = fi_ipv6 f"
  by (auto simp: fake_FlushChain_def split: prod.splits sum.splits)

lemma fi_ipv6_DeleteChain: "fake_DeleteChain t c f = (x, f') \<Longrightarrow> fi_ipv6 f' = fi_ipv6 f"
  by (auto simp: fake_DeleteChain_def split: prod.splits sum.splits option.splits)

lemma fi_ipv6_restoreChain: "restoreChain a fl t c f = (x, f') \<Longrightarrow> fi_ipv6 f' = fi_ipv6 f"
  by (auto simp: restoreChain_def dest!: fi_ipv6_ensureChain fi_ipv6_FlushChain
      split: prod.splits sum.splits option.splits if_splits)

lemma fi_ipv6_restoreRule: "restoreRule p t l f = (x, f') \<Longrightarrow> fi_ipv6 f' = fi_ipv6 f"
  by (auto simp: restoreRule_def Let_def dest!: fi_ipv6_ensureRule split: prod.splits if_splits)

lemma fi_ipv6_restoreDelete: "restoreDelete t l f = (x, f') \<Longrightarrow> fi_ipv6 f' = fi_ipv6 f"
  by (auto simp: restoreDelete_def Let_def dest!: fi_ipv6_DeleteChain split: prod.splits if_splits)

lemma fi_ipv6_restoreLine: "restoreLine r a fl t l f = (x, f') \<Longrightarrow> fi_ipv6 f' = fi_ipv6 f"
  by (auto simp: restoreLine_def Let_def dest!: fi_ipv6_restoreChain fi_ipv6_restoreRule fi_ipv6_restoreDelete
      split: prod.splits if_splits option.splits)

lemma fi_ipv6_restoreLoop: "fi_ipv6 (snd (restoreLoop r a fl t ls f)) = fi_ipv6 f"
  by (induction ls arbitrary: t f) (auto simp: Let_def dest!: fi_ipv6_restoreLine split: prod.splits sum.splits)

lemma fi_ipv6_ops:
  "fi_ipv6 (snd (fake_EnsureChain t c f)) = fi_ipv6 f" "fi_ipv6 (snd (fake_EnsureRule p t c args f)) = fi_ipv6 f"
  "fi_ipv6 (snd (fake_SaveInto t f)) = fi_ipv6 f" "fi_ipv6 (snd (fake_RestoreAll data fl ct f)) = fi_ipv6 f"
  by (auto simp: fake_EnsureChain_def fake_EnsureRule_def fake_SaveInto_def fake_RestoreAll_def fake_restore_def
      fi_ipv6_restoreLoop fi_ipv6_ensureRule [OF surjective_pairing] dest!: fi_ipv6_ensureChain split: prod.splits sum.splits)

interpretation fakeSock: socket_contract fakeManager fakeSockets "\<lambda>e. fsmOk (snd e)"
proof
  fix e :: fake_env and hp r e'
  assume ok: "fsmOk (snd e)" and o: "hmg_portOpener fakeManager hp e = (r, e')"
  obtain f m where e: "e = (f, m)" by (cases e)
  obtain m' where m': "openFakeSocket hp m = (r, m')" "e' = (f, m')"
    using o by (auto simp: fakeManager_def onSnd_def e split: prod.splits)
  show "fsmOk (snd e') \<and> ipt_IsIPv6 (hmg_iptables fakeManager) e' = ipt_IsIPv6 (hmg_iptables fakeManager) e \<and>
      (case r of Inl _ \<Rightarrow> fakeSockets e' = fakeSockets e
       | Inr n \<Rightarrow> fakeSockets e n = None \<and> hp \<notin> ran (fakeSockets e) \<and> fakeSockets e' = (fakeSockets e)(n \<mapsto> hp))"
  proof (cases r)
    case (Inl err)
    then show ?thesis using openFakeSocket_busy [of hp m err m'] m' ok e by simp
  next
    case (Inr n)
    then show ?thesis using openFakeSocket_new [of m hp n m' f] m' ok e
      by (simp add: fakeManager_def fakeIptables_def) (simp add: fakeSockets_def)
  qed
next
  fix e :: fake_env and n hp c e'
  assume ok: "fsmOk (snd e)" and s: "fakeSockets e n = Some hp" and c: "hmg_close fakeManager n e = (c, e')"
  obtain f m where e: "e = (f, m)" by (cases e)
  from fakeSocket_Close_spec [of m f n hp fmt_int] ok s e obtain m' where
    "fakeSocket_Close fmt_int n m = (None, m')" "fsmOk m'" "fakeSockets (f, m') = (fakeSockets (f, m))(n := None)" by auto
  then show "c = None \<and> fsmOk (snd e') \<and> ipt_IsIPv6 (hmg_iptables fakeManager) e' = ipt_IsIPv6 (hmg_iptables fakeManager) e \<and>
      fakeSockets e' = (fakeSockets e)(n := None)"
    using c e by (auto simp: fakeManager_def fakeIptables_def onSnd_def)
qed (auto simp: keepsSockets_def fakeManager_def fakeIptables_def onFst_def fake_IsIPv6_def fakeSockets_def fi_ipv6_ops [simplified]
    split: prod.splits dest!: arg_cong [where f = snd])

subsection \<open>Properties\<close>

text \<open>C9. The manager never loses a socket: with an opener that refuses a port in use and sockets that
  can be closed, after \<^verbatim>\<open>Add\<close> and after \<^verbatim>\<open>Remove\<close>, whatever they return, every socket in its map is
  open on its port and the open sockets outside the map are the same as before. An \<^verbatim>\<open>Add\<close> that
  returns an error (and does not panic) leaves the map as it was.
\<close>

theorem hostport_no_leak:
  assumes "socket_contract hm sockets ok" and "tracksSockets sockets ok s"
    and "hostport_Add hm i pod iface s = (r, s1)" and "hostport_Remove hm i pod s = (r', s2)"
  shows "tracksSockets sockets ok s1 \<and> untracked sockets s1 = untracked sockets s \<and>
     (r \<noteq> None \<and> r \<noteq> Some sliceOutOfRange \<and> noSctp s \<longrightarrow> hps_map s1 = hps_map s) \<and>
     tracksSockets sockets ok s2 \<and> untracked sockets s2 = untracked sockets s"
  using socket_contract.Add_spec [OF assms(1,2,3)] socket_contract.Remove_spec [OF assms(1,2,4)] by blast

definition examplePort :: hostport_mapping where
  "examplePort = \<lparr>hpm_HostPort = 8080, hpm_ContainerPort = 80, hpm_Protocol = ''TCP'', hpm_HostIP = []\<rparr>"

definition examplePorts :: PodPortMapping where
  "examplePorts = \<lparr>ppm_Namespace = ''ns1'', ppm_Name = ''pod1'', ppm_PortMappings = [examplePort],
     ppm_HostNetwork = False, ppm_IP = [10, 1, 1, 2]\<rparr>"

lemma fakeStart_tracks: "tracksSockets fakeSockets (\<lambda>e. fsmOk (snd e)) fakeStart"
  by (simp add: tracksSockets_def fakeStart_def fsmOk_def NewFakeSocketManager_def)

theorem hostport_no_leak_witness:
  "tracksSockets fakeSockets (\<lambda>e. fsmOk (snd e)) (snd (hostport_Add fakeManager ''id'' (Some examplePorts) ''cbr0'' fakeStart)) \<and>
   untracked fakeSockets (snd (hostport_Add fakeManager ''id'' (Some examplePorts) ''cbr0'' fakeStart)) = untracked fakeSockets fakeStart"
  using hostport_no_leak [OF fakeSock.socket_contract_axioms fakeStart_tracks,
      of "''id''" "Some examplePorts" "''cbr0''" _ _ _ _, OF surjective_pairing surjective_pairing] by simp

text \<open>C10. \<^verbatim>\<open>Remove\<close> undoes \<^verbatim>\<open>Add\<close>: when both succeed for a pod of the manager's address family, \<^verbatim>\<open>Add\<close> has
  opened exactly the host ports of the pod that are not SCTP and belong to the family, and
  \<^verbatim>\<open>Remove\<close>, even under another identifier, closes them all, so that the map and the open sockets
  are those before.
\<close>

theorem hostport_roundtrip:
  assumes "socket_contract hm sockets ok" and "tracksSockets sockets ok s" and "noSctp s"
    and "\<not> ppm_HostNetwork pod" and "IsIPv6 (ppm_IP pod) = ipt_IsIPv6 (hmg_iptables hm) (hps_env s)"
    and "hostport_Add hm i (Some pod) iface s = (None, s1)" and "hostport_Remove hm j (Some pod) s1 = (None, s2)"
  shows "fst ` set (hps_map s1) = fst ` set (hps_map s) \<union> portsOf (IsIPv6 (ppm_IP pod)) pod \<and>
     hps_map s2 = hps_map s \<and> sockets (hps_env s2) = sockets (hps_env s)"
proof -
  note A = socket_contract.Add_spec [OF assms(1,2,6)]
  note R = socket_contract.Remove_spec [OF assms(1) conjunct1 [OF A] assms(7)]
  define b where "b = ipt_IsIPv6 (hmg_iptables hm) (hps_env s)"
  from A assms(4,5) obtain ports where ports: "hps_map s1 = hps_map s @ ports" "fst ` set ports = portsOf b pod"
      "fst ` set (hps_map s) \<inter> fst ` set ports = {}"
    unfolding b_def by blast
  have "hps_map s2 = hps_map s"
    using R A ports assms(3,4) socket_contract.closedMap_opened [OF assms(1), of "hps_map s" b pod ports]
    by (simp add: b_def [symmetric] noSctp_def)
  moreover have "sockets (hps_env s2) = sockets (hps_env s)"
  proof (rule ext)
    fix n
    have u: "untracked sockets s2 n = untracked sockets s n" using A R by simp
    have t: "tracksSockets sockets ok s2" using R by blast
    show "sockets (hps_env s2) n = sockets (hps_env s) n"
    proof (cases "n \<in> snd ` set (hps_map s)")
      case True
      then obtain hp where "(hp, n) \<in> set (hps_map s)" by auto
      then show ?thesis using assms(2) t \<open>hps_map s2 = _\<close> unfolding tracksSockets_def by fastforce
    next
      case False
      then show ?thesis using u \<open>hps_map s2 = _\<close> by (simp add: untracked_def)
    qed
  qed
  ultimately show ?thesis using ports assms(5) by (simp add: image_Un b_def)
qed

text \<open>An \<^verbatim>\<open>iptables\<close> without tables, on which nothing fails.\<close>

definition quietIptables :: "fake_env iptables" where
  "quietIptables =
     \<lparr>ipt_EnsureChain = (\<lambda>t c e. ((True, None), e)), ipt_EnsureRule = (\<lambda>pos t c args e. ((True, None), e)),
      ipt_IsIPv6 = (\<lambda>e. False), ipt_SaveInto = (\<lambda>t e. (([], None), e)), ipt_RestoreAll = (\<lambda>d fl ct e. (None, e))\<rparr>"

definition quietManager :: "fake_env hostportManager" where
  "quietManager = fakeManager\<lparr>hmg_iptables := quietIptables\<rparr>"

interpretation quietSock: socket_contract quietManager fakeSockets "\<lambda>e. fsmOk (snd e)"
proof
  fix e :: fake_env and hp r e'
  assume "fsmOk (snd e)" and "hmg_portOpener quietManager hp e = (r, e')"
  then show "fsmOk (snd e') \<and> ipt_IsIPv6 (hmg_iptables quietManager) e' = ipt_IsIPv6 (hmg_iptables quietManager) e \<and>
      (case r of Inl _ \<Rightarrow> fakeSockets e' = fakeSockets e
       | Inr n \<Rightarrow> fakeSockets e n = None \<and> hp \<notin> ran (fakeSockets e) \<and> fakeSockets e' = (fakeSockets e)(n \<mapsto> hp))"
    using fakeSock.open_contract [of e hp r e'] by (simp add: quietManager_def quietIptables_def)
next
  fix e :: fake_env and n hp c e'
  assume "fsmOk (snd e)" and "fakeSockets e n = Some hp" and "hmg_close quietManager n e = (c, e')"
  then show "c = None \<and> fsmOk (snd e') \<and> ipt_IsIPv6 (hmg_iptables quietManager) e' = ipt_IsIPv6 (hmg_iptables quietManager) e \<and>
      fakeSockets e' = (fakeSockets e)(n := None)"
    using fakeSock.close_contract [of e n hp c e'] by (simp add: quietManager_def quietIptables_def)
qed (simp_all add: keepsSockets_def quietManager_def quietIptables_def fakeManager_def)

lemma examplePorts_hostport: "portMappingToHostport examplePort ''4'' =
    \<lparr>hp_ipFamily = ''4'', hp_ip = [], hp_port = 8080, hp_protocol = ''tcp''\<rparr>"
proof -
  have "strings_ToLower ''TCP'' = ''tcp''" by code_simp
  then show ?thesis by (simp add: portMappingToHostport_def examplePort_def)
qed

lemma quiet_examplePorts:
  "gatherHostportMappings examplePorts False = [examplePort]" "opensSocket False examplePort"
  "IP_To16 (ppm_IP examplePorts) \<noteq> []" "\<not> IsIPv6 (ppm_IP examplePorts)" "\<not> ppm_HostNetwork examplePorts"
  by (simp_all add: gatherHostportMappings_def opensSocket_def examplePorts_def examplePort_def ProtocolSCTP_def
      IP_To16_def IsIPv6_def IPFamilyOf_def IP_To4_def net_IPv4_def)

lemma quiet_getExisting: "getExistingHostportIPTablesRules (hmg_iptables quietManager) e = (Inr ([], []), e)"
  by (simp add: getExistingHostportIPTablesRules_def quietManager_def quietIptables_def strings_HasPrefix_def)

lemma quiet_Remove_succeeds:
  assumes "tracksSockets fakeSockets (\<lambda>e. fsmOk (snd e)) s"
  shows "fst (hostport_Remove quietManager i (Some examplePorts) s) = None"
proof -
  have "hostport_Remove quietManager i (Some examplePorts) s = closeHostports quietManager [examplePort] s"
    using quiet_examplePorts
    by (simp add: hostport_Remove_def Let_def hpEnv_def quiet_getExisting) (simp add: quietManager_def quietIptables_def)
  moreover obtain r s' where "closeHostports quietManager [examplePort] s = (r, s')" by (meson surj_pair)
  ultimately show ?thesis using quietSock.closeHostports_spec [OF assms] by simp
qed

lemma quiet_Add_succeeds: "fst (hostport_Add quietManager i (Some examplePorts) iface fakeStart) = None"
proof -
  have v6: "ipt_IsIPv6 (hmg_iptables quietManager) e = False" for e by (simp add: quietManager_def quietIptables_def)
  have chains: "ensureKubeHostportChains (hmg_iptables quietManager) iface e = (None, e)" for e
    by (simp add: ensureKubeHostportChains_def quietManager_def quietIptables_def Let_def)
  have sync: "syncIPTables quietManager data s = (None, s)" for data s
    by (simp add: syncIPTables_def hpEnv_def quietManager_def quietIptables_def)
  have rules: "fst (addRules quietManager i examplePorts b pms s) = None" for b pms s
    by (simp add: addRules_def hpEnv_def quiet_getExisting sync split: prod.split)
  have ports: "ppm_PortMappings examplePorts = [examplePort]" by (simp add: examplePorts_def)
  have "\<exists>ports e. openHostports quietManager examplePorts (hps_env fakeStart) = (Inr ports, e)"
    using quiet_examplePorts(2)
    by (simp add: openHostports_def ports v6)
       (simp add: quietManager_def fakeManager_def onSnd_def openFakeSocket_def fakeStart_def NewFakeSocketManager_def Let_def)
  then show ?thesis
    using quiet_examplePorts by (auto simp: hostport_Add_def Let_def hpEnv_def v6 chains rules)
qed

theorem hostport_roundtrip_witness:
  "\<exists>s1 s2. hostport_Add quietManager ''id'' (Some examplePorts) ''cbr0'' fakeStart = (None, s1) \<and>
     hostport_Remove quietManager ''id'' (Some examplePorts) s1 = (None, s2) \<and>
     hps_map s2 = [] \<and> fakeSockets (hps_env s2) = fakeSockets (hps_env fakeStart)"
proof -
  obtain s1 where A: "hostport_Add quietManager ''id'' (Some examplePorts) ''cbr0'' fakeStart = (None, s1)"
    using quiet_Add_succeeds by (metis prod.collapse)
  have "tracksSockets fakeSockets (\<lambda>e. fsmOk (snd e)) s1" using quietSock.Add_spec [OF fakeStart_tracks A] by blast
  then obtain s2 where R: "hostport_Remove quietManager ''id'' (Some examplePorts) s1 = (None, s2)"
    using quiet_Remove_succeeds by (metis prod.collapse)
  have "noSctp fakeStart" by (simp add: noSctp_def fakeStart_def)
  from hostport_roundtrip [OF quietSock.socket_contract_axioms fakeStart_tracks this quiet_examplePorts(5) _ A R]
  show ?thesis using A R by (auto simp: quiet_examplePorts(4) quietManager_def quietIptables_def fakeStart_def)
qed

end
