(* ===== verification/Bandwidth.thy ===== *)
theory Bandwidth
  imports Go_Net
begin

text \<open>
  Traffic shaping (\<^verbatim>\<open>network/bandwidth/utils.go\<close> and \<^verbatim>\<open>linux.go\<close>). The shaper runs the command \<^verbatim>\<open>tc\<close> and
  reads its output; \<open>tc\<close> is an argument that gives the output and the error of a command. A
  quantity is the number of bits per second that its method \<^verbatim>\<open>Value\<close> returns, and the parser of
  quantities is third-party code and an argument.
\<close>

type_synonym 'e tc_cmd = "string list \<Rightarrow> 'e \<Rightarrow> (string \<times> goerror option) \<times> 'e"

subsection \<open>\<^verbatim>\<open>utils.go\<close>\<close>

definition minRsrc :: int where "minRsrc = 1000"

definition maxRsrc :: int where "maxRsrc = 1000000000000000"

definition validateBandwidthIsReasonable :: "int \<Rightarrow> goerror option" where
  "validateBandwidthIsReasonable rsrc =
     (if rsrc < minRsrc then Some (Errorf ''resource is unreasonably small (< 1kbit)'')
      else if rsrc > maxRsrc then Some (Errorf ''resource is unreasonably large (> 1Pbit)'')
      else None)"

definition bandwidthOf :: "(string \<Rightarrow> int result) \<Rightarrow> gomap \<Rightarrow> string \<Rightarrow> int option result" where
  "bandwidthOf ParseQuantity podAnnotations key =
     (case map_of podAnnotations key of
        None \<Rightarrow> Inr None
      | Some str \<Rightarrow>
          (case ParseQuantity str of
             Inl err \<Rightarrow> Inl err
           | Inr v \<Rightarrow> (case validateBandwidthIsReasonable v of Some err \<Rightarrow> Inl err | None \<Rightarrow> Inr (Some v))))"

text \<open>Ingress and egress. A nil map has no entries.\<close>

definition ExtractPodBandwidthResources :: "(string \<Rightarrow> int result) \<Rightarrow> gomap \<Rightarrow> (int option \<times> int option) result" where
  "ExtractPodBandwidthResources ParseQuantity podAnnotations =
     (case bandwidthOf ParseQuantity podAnnotations ''kubernetes.io/ingress-bandwidth'' of
        Inl err \<Rightarrow> Inl err
      | Inr ingress \<Rightarrow>
          (case bandwidthOf ParseQuantity podAnnotations ''kubernetes.io/egress-bandwidth'' of
             Inl err \<Rightarrow> Inl err
           | Inr egress \<Rightarrow> Inr (ingress, egress)))"

subsection \<open>Hexadecimal text\<close>

text \<open>
  \<^verbatim>\<open>hex.DecodeString\<close>: a byte that is no digit is reported before an odd length. \<open>%#U\<close> prints
  the code point, and the character where it is printable.
\<close>

definition upperHex4 :: "nat \<Rightarrow> string" where
  "upperHex4 n =
     map (\<lambda>d. if d < 10 then char_of (48 + d) else char_of (55 + d)) [n div 4096 mod 16, n div 256 mod 16, n div 16 mod 16, n mod 16]"

definition codePointText :: "char \<Rightarrow> string" where
  "codePointText c =
     (let n = (of_char c :: nat) in
      ''U+'' @ upperHex4 n @
      (if 32 \<le> n \<and> n < 127 then '' '' @ [CHR 0x27, c, CHR 0x27]
       else if 161 \<le> n \<and> n \<noteq> 173 then '' '' @ [CHR 0x27, char_of (192 + n div 64), char_of (128 + n mod 64), CHR 0x27]
       else []))"

definition invalidByte :: "char \<Rightarrow> goerror" where
  "invalidByte c = Errorf (''encoding/hex: invalid byte: '' @ codePointText c)"

fun hex_DecodeString :: "string \<Rightarrow> 8 word list result" where
  "hex_DecodeString [] = Inr []"
| "hex_DecodeString [c] =
     (if xdigit c = None then Inl (invalidByte c) else Inl (Errorf ''encoding/hex: odd length hex string''))"
| "hex_DecodeString (c # d # cs) =
     (case xdigit c of
        None \<Rightarrow> Inl (invalidByte c)
      | Some x \<Rightarrow>
          (case xdigit d of
             None \<Rightarrow> Inl (invalidByte d)
           | Some y \<Rightarrow> map_sum id (\<lambda>bs. of_nat (16 * x + y) # bs) (hex_DecodeString cs)))"

subsection \<open>CIDRs in the output of \<^verbatim>\<open>tc\<close>\<close>

definition hexCIDR :: "string \<Rightarrow> string result" where
  "hexCIDR cidr =
     (case ParseCIDRSloppy cidr of
        Inl err \<Rightarrow> Inl err
      | Inr (ip, ipnet) \<Rightarrow> Inr (hexBytes (IP_Mask ip (net_Mask ipnet)) @ ''/'' @ IPMask_String (net_Mask ipnet)))"

definition asciiCIDR :: "string \<Rightarrow> string result" where
  "asciiCIDR cidr =
     (let parts = strings_Split cidr (CHR ''/'') in
      if length parts \<noteq> 2 then Inl (Errorf (''unexpected CIDR format: '' @ cidr))
      else
        (case hex_DecodeString (parts ! 0) of
           Inl err \<Rightarrow> Inl err
         | Inr ip \<Rightarrow>
             (case hex_DecodeString (parts ! 1) of
                Inl err \<Rightarrow> Inl err
              | Inr maskData \<Rightarrow> Inr (IP_String ip @ ''/'' @ fmt_int (fst (IPMask_Size maskData))))))"

text \<open>
  The lines that \<^verbatim>\<open>bufio.Scanner\<close> gives: without their ends, and none after a line that does not fit
  into its buffer.
\<close>

definition scannerLines :: "string \<Rightarrow> string list" where
  "scannerLines data =
     (let ls = strings_Split data newline;
          ls = (if last ls = [] then butlast ls else ls);
          ls = takeWhile (\<lambda>l. length l < 65536) ls
      in map (\<lambda>l. if l \<noteq> [] \<and> last l = CHR 0x0D then butlast l else l) ls)"

subsection \<open>Classes\<close>

text \<open>\<^verbatim>\<open>class htb (1:\d+)\<close> at one position and in a line.\<close>

definition classAt :: "string \<Rightarrow> string option" where
  "classAt t =
     (if prefix ''class htb 1:'' t then
        let ds = takeWhile isDigit (drop (length ''class htb 1:'') t) in
        if ds = [] then None else Some (''1:'' @ ds)
      else None)"

definition classShowMatcher :: "string \<Rightarrow> string option" where
  "classShowMatcher line = firstSome classAt (tails line)"

text \<open>An \<open>Inl\<close> is the line that was not expected.\<close>

fun classLines :: "string list \<Rightarrow> string list \<Rightarrow> string + string list" where
  "classLines classes [] = Inr classes"
| "classLines classes (text # ls) =
     (let line = strings_TrimSpace text in
      if length line = 0 then classLines classes ls
      else (case classShowMatcher line of
              None \<Rightarrow> Inl text
            | Some c \<Rightarrow> classLines (List.insert c classes) ls))"

definition nextClassID :: "'e tc_cmd \<Rightarrow> string \<Rightarrow> 'e \<Rightarrow> int result \<times> 'e" where
  "nextClassID tc iface e =
     (case tc [''class'', ''show'', ''dev'', iface] e of
        ((_, Some err), e) \<Rightarrow> (Inl err, e)
      | ((data, None), e) \<Rightarrow>
          (case classLines [] (scannerLines data) of
             Inl text \<Rightarrow> (Inl (Errorf (''unexpected output from tc: '' @ text @ '' ([])'')), e)
           | Inr classes \<Rightarrow>
               (case find (\<lambda>nextClass. (''1:'' @ fmt_nat 10 nextClass) \<notin> set classes) [1..<10000] of
                  Some nextClass \<Rightarrow> (Inr (int nextClass), e)
                | None \<Rightarrow> (Inl (Errorf ''exhausted class space, please try again''), e))))"

definition execAndLog :: "'e tc_cmd \<Rightarrow> string list \<Rightarrow> 'e \<Rightarrow> goerror option \<times> 'e" where
  "execAndLog tc args e = (case tc args e of ((_, err), e) \<Rightarrow> (err, e))"

definition makeKBitString :: "int \<Rightarrow> string" where
  "makeKBitString rsrc = fmt_int (sgn rsrc * (\<bar>rsrc\<bar> div 1000)) @ ''kbit''"

definition makeNewClass :: "'e tc_cmd \<Rightarrow> string \<Rightarrow> string \<Rightarrow> 'e \<Rightarrow> int result \<times> 'e" where
  "makeNewClass tc iface rate e =
     (case nextClassID tc iface e of
        (Inl err, e) \<Rightarrow> (Inl err, e)
      | (Inr cls, e) \<Rightarrow>
          (case execAndLog tc [''class'', ''add'', ''dev'', iface, ''parent'', ''1:'', ''classid'', ''1:'' @ fmt_int cls,
                               ''htb'', ''rate'', rate] e of
             (Some err, e) \<Rightarrow> (Inl err, e)
           | (None, e) \<Rightarrow> (Inr cls, e)))"

subsection \<open>Filters\<close>

text \<open>\<^verbatim>\<open>filter parent 1:.*fh (\d+::\d+).*flowid (\d+:\d+)\<close>: both stars take as much as they can.\<close>

definition digitPair :: "string \<Rightarrow> string \<Rightarrow> (string \<times> string) option" where
  "digitPair sep t =
     (let a = takeWhile isDigit t;
          r = dropWhile isDigit t;
          b = takeWhile isDigit (drop (length sep) r)
      in if a \<noteq> [] \<and> prefix sep r \<and> b \<noteq> [] then Some (a @ sep @ b, dropWhile isDigit (drop (length sep) r)) else None)"

definition flowidAt :: "string \<Rightarrow> string option" where
  "flowidAt t = (if prefix ''flowid '' t then map_option fst (digitPair '':'' (drop (length ''flowid '') t)) else None)"

definition handleAt :: "string \<Rightarrow> (string \<times> string) option" where
  "handleAt t =
     (if prefix ''fh '' t then
        (case digitPair ''::'' (drop (length ''fh '') t) of
           None \<Rightarrow> None
         | Some (h, r) \<Rightarrow> map_option (\<lambda>flow. (h, flow)) (firstSome flowidAt (rev (tails r))))
      else None)"

definition filterAt :: "string \<Rightarrow> (string \<times> string) option" where
  "filterAt t =
     (if prefix ''filter parent 1:'' t then firstSome handleAt (rev (tails (drop (length ''filter parent 1:'') t))) else None)"

definition classAndHandleMatcher :: "string \<Rightarrow> (string \<times> string) option" where
  "classAndHandleMatcher line = firstSome filterAt (tails line)"

text \<open>The pairs of class and handle of the filters whose match is \<open>spec\<close>.\<close>

fun filterLines :: "string \<Rightarrow> string \<Rightarrow> (string \<times> string) list \<Rightarrow> string list \<Rightarrow> (string \<times> string) list result" where
  "filterLines spec flt acc [] = Inr acc"
| "filterLines spec flt acc (text # ls) =
     (let line = strings_TrimSpace text in
      if length line = 0 then filterLines spec flt acc ls
      else if strings_HasPrefix line ''filter'' then filterLines spec line acc ls
      else if strings_Contains line spec then
        (case classAndHandleMatcher flt of
           None \<Rightarrow> Inl (Errorf (''unexpected output from tc: '' @ flt @ '' 0 ([])''))
         | Some (h, flow) \<Rightarrow> filterLines spec flt (acc @ [(flow, h)]) ls)
      else filterLines spec flt acc ls)"

definition findCIDRClass :: "'e tc_cmd \<Rightarrow> string \<Rightarrow> string \<Rightarrow> 'e \<Rightarrow> (string \<times> string) list result \<times> 'e" where
  "findCIDRClass tc iface cidr e =
     (case tc [''filter'', ''show'', ''dev'', iface] e of
        ((_, Some err), e) \<Rightarrow> (Inl err, e)
      | ((data, None), e) \<Rightarrow>
          (case hexCIDR cidr of
             Inl err \<Rightarrow> (Inl err, e)
           | Inr hex \<Rightarrow> (filterLines (''match '' @ hex) [] [] (scannerLines data), e)))"

definition addFilter :: "'e tc_cmd \<Rightarrow> string \<Rightarrow> string \<Rightarrow> string \<Rightarrow> int \<Rightarrow> 'e \<Rightarrow> goerror option \<times> 'e" where
  "addFilter tc iface direction cidr cls e =
     execAndLog tc [''filter'', ''add'', ''dev'', iface, ''protocol'', ''ip'', ''parent'', ''1:0'', ''prio'', ''1'', ''u32'',
       ''match'', ''ip'', direction, cidr, ''flowid'', ''1:'' @ fmt_int cls] e"

definition limitOne :: "'e tc_cmd \<Rightarrow> string \<Rightarrow> string \<Rightarrow> string \<Rightarrow> int option \<Rightarrow> 'e \<Rightarrow> goerror option \<times> 'e" where
  "limitOne tc iface direction cidr rate e =
     (case rate of
        None \<Rightarrow> (None, e)
      | Some r \<Rightarrow>
          (case makeNewClass tc iface (makeKBitString r) e of
             (Inl err, e) \<Rightarrow> (Some err, e)
           | (Inr cls, e) \<Rightarrow> addFilter tc iface direction cidr cls e))"

definition shaper_Limit :: "'e tc_cmd \<Rightarrow> string \<Rightarrow> string \<Rightarrow> int option \<Rightarrow> int option \<Rightarrow> 'e \<Rightarrow> goerror option \<times> 'e" where
  "shaper_Limit tc iface cidr upload download e =
     (case limitOne tc iface ''dst'' cidr download e of
        (Some err, e) \<Rightarrow> (Some err, e)
      | (None, e) \<Rightarrow> limitOne tc iface ''src'' cidr upload e)"

definition shaper_ReconcileCIDR :: "'e tc_cmd \<Rightarrow> string \<Rightarrow> string \<Rightarrow> int option \<Rightarrow> int option \<Rightarrow> 'e \<Rightarrow> goerror option \<times> 'e" where
  "shaper_ReconcileCIDR tc iface cidr upload download e =
     (case findCIDRClass tc iface cidr e of
        (Inl err, e) \<Rightarrow> (Some err, e)
      | (Inr found, e) \<Rightarrow> if found = [] then shaper_Limit tc iface cidr upload download e else (None, e))"

fun resetLoop :: "'e tc_cmd \<Rightarrow> string \<Rightarrow> (string \<times> string) list \<Rightarrow> 'e \<Rightarrow> goerror option \<times> 'e" where
  "resetLoop tc iface [] e = (None, e)"
| "resetLoop tc iface ((cls, handle) # rest) e =
     (case execAndLog tc [''filter'', ''del'', ''dev'', iface, ''parent'', ''1:'', ''proto'', ''ip'', ''prio'', ''1'',
                          ''handle'', handle, ''u32''] e of
        (Some err, e) \<Rightarrow> (Some err, e)
      | (None, e) \<Rightarrow>
          (case execAndLog tc [''class'', ''del'', ''dev'', iface, ''parent'', ''1:'', ''classid'', cls] e of
             (Some err, e) \<Rightarrow> (Some err, e)
           | (None, e) \<Rightarrow> resetLoop tc iface rest e))"

definition shaper_Reset :: "'e tc_cmd \<Rightarrow> string \<Rightarrow> string \<Rightarrow> 'e \<Rightarrow> goerror option \<times> 'e" where
  "shaper_Reset tc iface cidr e =
     (case findCIDRClass tc iface cidr e of
        (Inl err, e) \<Rightarrow> (Some err, e)
      | (Inr classAndHandle, e) \<Rightarrow>
          if classAndHandle = [] then
            (Some (Errorf (''Failed to find cidr: '' @ cidr @ '' on interface: '' @ iface)), e)
          else resetLoop tc iface classAndHandle e)"

subsection \<open>The interface\<close>

definition interfaceExists :: "'e tc_cmd \<Rightarrow> string \<Rightarrow> 'e \<Rightarrow> (bool \<times> string) result \<times> 'e" where
  "interfaceExists tc iface e =
     (case tc [''qdisc'', ''show'', ''dev'', iface] e of
        ((_, Some err), e) \<Rightarrow> (Inl err, e)
      | ((data, None), e) \<Rightarrow>
          let value = strings_TrimSpace data;
              fields = strings_Fields value
          in if length value = 0 then (Inr (False, []), e)
             else if length fields > 1 \<and> fields ! 1 = ''noqueue'' then (Inr (False, []), e)
             else (Inr (True, value), e))"

definition initializeInterface :: "'e tc_cmd \<Rightarrow> string \<Rightarrow> 'e \<Rightarrow> goerror option \<times> 'e" where
  "initializeInterface tc iface e =
     execAndLog tc [''qdisc'', ''add'', ''dev'', iface, ''root'', ''handle'', ''1:'', ''htb'', ''default'', ''30''] e"

definition deleteInterface :: "'e tc_cmd \<Rightarrow> string \<Rightarrow> string \<Rightarrow> 'e \<Rightarrow> goerror option \<times> 'e" where
  "deleteInterface tc iface cls e = execAndLog tc [''qdisc'', ''delete'', ''dev'', iface, ''root'', ''handle'', cls] e"

text \<open>Fewer than three fields make the code index outside the slice.\<close>

definition shaper_ReconcileInterface :: "'e tc_cmd \<Rightarrow> string \<Rightarrow> 'e \<Rightarrow> goerror option \<times> 'e" where
  "shaper_ReconcileInterface tc iface e =
     (case interfaceExists tc iface e of
        (Inl err, e) \<Rightarrow> (Some err, e)
      | (Inr (exists, output), e) \<Rightarrow>
          if \<not> exists then initializeInterface tc iface e
          else
            let fields = strings_Split output (CHR '' '') in
            if length fields < 12 \<or> fields ! 1 \<noteq> ''htb'' \<or> fields ! 2 \<noteq> ''1:'' then
              if length fields < 3 then (Some (indexPanic 2 (length fields)), e)
              else (case deleteInterface tc iface (fields ! 2) e of
                      (Some err, e) \<Rightarrow> (Some err, e)
                    | (None, e) \<Rightarrow> initializeInterface tc iface e)
            else (None, e))"

fun cidrLines :: "string list \<Rightarrow> string list \<Rightarrow> string list result" where
  "cidrLines acc [] = Inr acc"
| "cidrLines acc (text # ls) =
     (let line = strings_TrimSpace text in
      if length line = 0 \<or> \<not> strings_Contains line ''match'' then cidrLines acc ls
      else
        let parts = strings_Split line (CHR '' '') in
        if length parts \<noteq> 4 then Inl (Errorf (''unexpected output: ['' @ strings_Join parts '' '' @ '']''))
        else (case asciiCIDR (parts ! 1) of
                Inl err \<Rightarrow> Inl err
              | Inr cidr \<Rightarrow> cidrLines (acc @ [cidr]) ls))"

definition shaper_GetCIDRs :: "'e tc_cmd \<Rightarrow> string \<Rightarrow> 'e \<Rightarrow> string list result \<times> 'e" where
  "shaper_GetCIDRs tc iface e =
     (case tc [''filter'', ''show'', ''dev'', iface] e of
        ((_, Some err), e) \<Rightarrow> (Inl err, e)
      | ((data, None), e) \<Rightarrow> (cidrLines [] (scannerLines data), e))"

text \<open>The interface \<^verbatim>\<open>Shaper\<close> and its implementation by \<^verbatim>\<open>tc\<close>.\<close>

record 'e shaper =
  sh_Limit :: "string \<Rightarrow> int option \<Rightarrow> int option \<Rightarrow> 'e \<Rightarrow> goerror option \<times> 'e"
  sh_Reset :: "string \<Rightarrow> 'e \<Rightarrow> goerror option \<times> 'e"
  sh_ReconcileInterface :: "'e \<Rightarrow> goerror option \<times> 'e"
  sh_ReconcileCIDR :: "string \<Rightarrow> int option \<Rightarrow> int option \<Rightarrow> 'e \<Rightarrow> goerror option \<times> 'e"
  sh_GetCIDRs :: "'e \<Rightarrow> string list result \<times> 'e"

definition NewTCShaper :: "'e tc_cmd \<Rightarrow> string \<Rightarrow> 'e shaper" where
  "NewTCShaper tc iface =
     \<lparr>sh_Limit = shaper_Limit tc iface, sh_Reset = shaper_Reset tc iface,
      sh_ReconcileInterface = shaper_ReconcileInterface tc iface, sh_ReconcileCIDR = shaper_ReconcileCIDR tc iface,
      sh_GetCIDRs = shaper_GetCIDRs tc iface\<rparr>"

subsection \<open>The shaper of the tests\<close>

record fake_shaper =
  fs_CIDRs :: "string list"
  fs_ResetCIDRs :: "string list"

definition FakeShaper :: "fake_shaper shaper" where
  "FakeShaper =
     \<lparr>sh_Limit = (\<lambda>_ _ _ f. (Some (Errorf ''unimplemented''), f)),
      sh_Reset = (\<lambda>cidr f. (None, f\<lparr>fs_ResetCIDRs := fs_ResetCIDRs f @ [cidr]\<rparr>)),
      sh_ReconcileInterface = (\<lambda>f. (Some (Errorf ''unimplemented''), f)),
      sh_ReconcileCIDR = (\<lambda>_ _ _ f. (Some (Errorf ''unimplemented''), f)),
      sh_GetCIDRs = (\<lambda>f. (Inr (fs_CIDRs f), f))\<rparr>"

subsection \<open>CIDRs survive the way through \<^verbatim>\<open>tc\<close>\<close>

lemma hexBytes_decode: "hex_DecodeString (hexBytes bs) = Inr bs"
  by (induction bs) (simp_all add: hexBytes_def xdigit_digitChar unat_byte_div16)

lemma asciiCIDR_hex:
  "asciiCIDR (hexBytes ip @ ''/'' @ hexBytes m) = Inr (IP_String ip @ ''/'' @ fmt_int (fst (IPMask_Size m)))"
  by (simp add: asciiCIDR_def Split_append_delim Split_no_delim slash_notin_hexBytes hexBytes_decode)

text \<open>C39. For every CIDR that parses, \<open>hexCIDR\<close> succeeds, and \<open>asciiCIDR\<close> reads its result back as the
  network: the address with the host bits cleared, and the length of the mask in decimal.\<close>

theorem asciiCIDR_hexCIDR:
  assumes "ParseCIDRSloppy cidr = Inr (ip, n)"
  shows "\<exists>h k. hexCIDR cidr = Inr h \<and> net_Mask n = CIDRMask k (8 * length (net_Mask n)) \<and>
     asciiCIDR h = Inr (IP_String (net_IP n) @ ''/'' @ fmt_int (int k))"
proof -
  obtain k where k: "net_Mask n = CIDRMask k (8 * length (net_Mask n))" "k \<le> 8 * length (net_Mask n)"
      "length (net_Mask n) = 4 \<or> length (net_Mask n) = 16" "IP_Mask ip (net_Mask n) = net_IP n"
    using assms ParseCIDR_mask unfolding ParseCIDRSloppy_def by blast
  have "hexCIDR cidr = Inr (hexBytes (net_IP n) @ ''/'' @ hexBytes (net_Mask n))"
    using assms k(3,4) by (auto simp: hexCIDR_def IPMask_String_def)
  moreover have "IPMask_Size (net_Mask n) = (int k, 8 * int (length (net_Mask n)))"
    using IPMask_Size_CIDRMask [OF k(3,2)] k(1) by simp
  ultimately show ?thesis using k(1) asciiCIDR_hex by fastforce
qed

lemmas dtoi_eval = dtoi_def net_big_def isDigit_def digitVal_def

lemma parse_10_1_2_3:
  "ParseCIDRSloppy ''10.1.2.3/16'' =
     Inr (net_IPv4 [10, 1, 2, 3], \<lparr>net_IP = [10, 1, 0, 0], net_Mask = [255, 255, 0, 0]\<rparr>)"
proof -
  have "parseIPv4 False ''10.1.2.3'' = net_IPv4 [10, 1, 2, 3]" by (simp add: parseIPv4_def dtoi_eval)
  moreover have "CIDRMask 16 32 = [255, 255, 0, 0]" by code_simp
  moreover have "IP_Mask (net_IPv4 [10, 1, 2, 3]) [255, 255, 0, 0] = [10, 1, 0, 0]" by code_simp
  moreover have "net_IPv4 [10, 1, 2, 3] \<noteq> []" by (simp add: net_IPv4_def)
  moreover have "dtoi ''16'' = (16, 2, True)" by (simp add: dtoi_eval)
  ultimately show ?thesis by (simp add: ParseCIDRSloppy_def ParseCIDR_def Let_def)
qed

lemma hex_10_1_2_3: "hexCIDR ''10.1.2.3/16'' = Inr ''0a010000/ffff0000''"
proof -
  have "IP_Mask (net_IPv4 [10, 1, 2, 3]) [255, 255, 0, 0] = [10, 1, 0, 0]" by code_simp
  moreover have "hexBytes [10, 1, 0, 0] @ ''/'' @ IPMask_String [255, 255, 0, 0] = ''0a010000/ffff0000''" by code_simp
  ultimately show ?thesis by (simp add: hexCIDR_def parse_10_1_2_3)
qed

theorem asciiCIDR_hexCIDR_witness:
  "hexCIDR ''10.1.2.3/16'' = Inr ''0a010000/ffff0000'' \<and> asciiCIDR ''0a010000/ffff0000'' = Inr ''10.1.0.0/16''"
proof -
  obtain k where k: "[255, 255, 0, 0] = CIDRMask k 32"
      "asciiCIDR ''0a010000/ffff0000'' = Inr (IP_String [10, 1, 0, 0] @ ''/'' @ fmt_int (int k))"
    using asciiCIDR_hexCIDR [OF parse_10_1_2_3] hex_10_1_2_3 by auto
  have "k \<le> 32" using k(1) by (auto simp: CIDRMask_def split: if_splits)
  then have "IPMask_Size (CIDRMask k (8 * 4)) = (int k, 8 * int 4)" by (intro IPMask_Size_CIDRMask) simp_all
  moreover have "IPMask_Size [255, 255, 0, 0] = (16, 32)" by code_simp
  ultimately have "int k = 16" using k(1) by simp
  moreover have "IP_String [10, 1, 0, 0] @ ''/'' @ fmt_int 16 = ''10.1.0.0/16''" by code_simp
  ultimately show ?thesis using hex_10_1_2_3 k(2) by simp
qed

subsection \<open>Handles\<close>

text \<open>A line of a filter in the output of \<^verbatim>\<open>tc\<close>, as the comment in \<^verbatim>\<open>findCIDRClass\<close> gives it.\<close>

definition filterLine :: "string \<Rightarrow> string \<Rightarrow> string" where
  "filterLine handle flow =
     ''filter parent 1: protocol ip pref 1 u32 fh '' @ handle @ '' order 2048 key ht 800 bkt 0 flowid '' @ flow"

lemma digits_flowid: "isDigit x \<Longrightarrow> flowidAt (x # t) = None"
  by (auto simp: flowidAt_def isDigit_def)

lemma digits_handle: "isDigit x \<Longrightarrow> handleAt (x # t) = None"
  by (auto simp: handleAt_def isDigit_def)

lemma digitPair_cut:
  assumes "a \<noteq> []" "b \<noteq> []" "list_all isDigit a" "list_all isDigit b" "t = [] \<or> \<not> isDigit (hd t)" "\<not> isDigit (hd sep)" "sep \<noteq> []"
  shows "digitPair sep (a @ sep @ b @ t) = Some (a @ sep @ b, t)"
proof -
  have "takeWhile isDigit (a @ sep @ b @ t) = a" "dropWhile isDigit (a @ sep @ b @ t) = sep @ b @ t"
    using assms(3,6,7) by (cases sep; auto simp: list_all_iff takeWhile_append dropWhile_append)+
  moreover have "takeWhile isDigit (b @ t) = b" "dropWhile isDigit (b @ t) = t"
    using assms(4,5) by (cases t; auto simp: list_all_iff takeWhile_append dropWhile_append)+
  ultimately show ?thesis using assms(1,2) by (simp add: digitPair_def)
qed

lemma At_Nil [simp]: "flowidAt [] = None" "handleAt [] = None"
  by (simp_all add: flowidAt_def handleAt_def)

lemma lastSome_digits:
  assumes "list_all isDigit d"
  shows "firstSome flowidAt (rev (tails (d @ v))) = firstSome flowidAt (rev (tails v))"
    and "firstSome handleAt (rev (tails (d @ v))) = firstSome handleAt (rev (tails v))"
  using assms by (auto simp: list_all_iff digits_flowid digits_handle intro!: lastSome_skip)

lemmas last_eval = lastSome_Cons lastSome_digits [where v = "[]", simplified] lastSome_digits

lemma flowid_found:
  assumes "list_all isDigit d" "d \<noteq> []"
  shows "firstSome flowidAt (rev (tails (u @ ''flowid 1:'' @ d))) = Some (''1:'' @ d)"
proof -
  have "digitPair '':'' (''1'' @ '':'' @ d @ []) = Some (''1'' @ '':'' @ d, [])"
    using assms by (intro digitPair_cut) (simp_all add: isDigit_def)
  then have "firstSome flowidAt (rev (tails (''flowid 1:'' @ d))) = Some (''1:'' @ d)"
    by (simp add: last_eval assms(1) flowidAt_def del: tails.simps)
  then show ?thesis by (rule lastSome_found)
qed

lemma no_handle_in_order:
  "list_all isDigit d \<Longrightarrow> firstSome handleAt (rev (tails ('' order 2048 key ht 800 bkt 0 flowid 1:'' @ d))) = None"
  by (simp add: last_eval handleAt_def del: tails.simps)

lemma handle_cut:
  assumes "list_all isDigit b" "b \<noteq> []" "list_all isDigit d" "d \<noteq> []" "\<not> isDigit c"
  shows "classAndHandleMatcher (filterLine (''800::'' @ b @ [c]) (''1:'' @ d)) = Some (''800::'' @ b, ''1:'' @ d)"
proof -
  let ?r = "c # '' order 2048 key ht 800 bkt 0 flowid 1:'' @ d"
  have f: "firstSome flowidAt (rev (tails ?r)) = Some (''1:'' @ d)"
    using flowid_found [OF assms(3,4), of "c # '' order 2048 key ht 800 bkt 0 ''"] by simp
  have "digitPair ''::'' (''800'' @ ''::'' @ b @ ?r) = Some (''800'' @ ''::'' @ b, ?r)"
    using assms by (intro digitPair_cut) (simp_all add: isDigit_def)
  then have h: "handleAt (''fh 800::'' @ b @ ?r) = Some (''800::'' @ b, ''1:'' @ d)"
    using f by (simp add: handleAt_def del: tails.simps)
  have n: "firstSome handleAt (rev (tails (b @ ?r))) = None"
    using no_handle_in_order [OF assms(3)]
    by (simp add: lastSome_digits(2) [OF assms(1)] lastSome_Cons [of _ c] handleAt_def del: tails.simps)
  have "firstSome handleAt (rev (tails (''fh 800::'' @ b @ ?r))) = Some (''800::'' @ b, ''1:'' @ d)"
    using h n by (simp add: lastSome_Cons handleAt_def [of "_ # _"] del: tails.simps)
  from lastSome_found [OF this, of "'' protocol ip pref 1 u32 ''"]
  have "filterAt (filterLine (''800::'' @ b @ [c]) (''1:'' @ d)) = Some (''800::'' @ b, ''1:'' @ d)"
    by (simp add: filterAt_def filterLine_def del: tails.simps)
  then show ?thesis by (simp add: classAndHandleMatcher_def filterLine_def)
qed

lemma Trim_filterLine:
  assumes "list_all isDigit d" "d \<noteq> []"
  shows "strings_TrimSpace (filterLine h (''1:'' @ d)) = filterLine h (''1:'' @ d)"
proof -
  have "\<not> isSpaceByte (last d)" using assms by (auto simp: list_all_iff intro!: isDigit_not_space)
  then show ?thesis
    using assms(2) by (intro TrimSpace_id) (simp_all add: filterLine_def isSpaceByte_def)
qed

lemma Trim_match: "strings_TrimSpace (''  match '' @ hex @ '' at 16'') = ''match '' @ hex @ '' at 16''"
  by (simp add: strings_TrimSpace_def isSpaceByte_def)

text \<open>C30. \<^verbatim>\<open>tc\<close> writes the item number of a handle in hexadecimal, and the pattern of the code reads decimal
  digits only. For a filter with handle \<^verbatim>\<open>800::<digits><letter>\<close>, the first of which is the eleventh filter
  \<^verbatim>\<open>800::80a\<close>, \<open>Reset\<close> asks \<^verbatim>\<open>tc\<close> to delete the handle without its letter, which is not the filter of the
  CIDR.\<close>

theorem Reset_cuts_handle:
  assumes "list_all isDigit b" "b \<noteq> []" "c \<in> set ''abcdef''" "list_all isDigit d" "d \<noteq> []"
    and "hexCIDR cidr = Inr hex"
    and "tc [''filter'', ''show'', ''dev'', iface] e = ((data, None), e1)"
    and "scannerLines data = [filterLine (''800::'' @ b @ [c]) (''1:'' @ d), ''  match '' @ hex @ '' at 16'']"
  shows "shaper_Reset tc iface cidr e = resetLoop tc iface [(''1:'' @ d, ''800::'' @ b)] e1"
proof -
  have c: "\<not> isDigit c" using assms(3) by (auto simp: isDigit_def)
  have "strings_Contains (''match '' @ hex @ '' at 16'') (''match '' @ hex)"
    unfolding Contains_iff by (metis append_Nil append_assoc)
  moreover have "strings_HasPrefix (filterLine h f) ''filter''" "length (filterLine h f) \<noteq> 0" for h f
    by (simp_all add: strings_HasPrefix_def filterLine_def)
  ultimately have "filterLines (''match '' @ hex) [] []
      [filterLine (''800::'' @ b @ [c]) (''1:'' @ d), ''  match '' @ hex @ '' at 16''] = Inr [(''1:'' @ d, ''800::'' @ b)]"
    using handle_cut [OF assms(1,2,4,5) c] Trim_filterLine [OF assms(4,5)] Trim_match
    by (simp add: strings_HasPrefix_def Let_def)
  then show ?thesis using assms(6-8) by (simp add: shaper_Reset_def findCIDRClass_def)
qed

definition wTc :: "string list list tc_cmd" where
  "wTc args cmds =
     ((if hd args = ''filter'' \<and> args ! 1 = ''show'' then
         filterLine ''800::80a'' ''1:11'' @ [newline] @ ''  match 0a010000/ffff0000 at 16'' @ [newline]
       else [], None), cmds @ [args])"

lemma wTc_lines:
  "scannerLines (filterLine ''800::80a'' ''1:11'' @ [newline] @ ''  match 0a010000/ffff0000 at 16'' @ [newline]) =
     [filterLine (''800::'' @ ''80'' @ [CHR ''a'']) (''1:'' @ ''11''), ''  match '' @ ''0a010000/ffff0000'' @ '' at 16'']"
  by (simp add: scannerLines_def filterLine_def newline_def)

theorem Reset_cuts_handle_witness:
  "shaper_Reset wTc ''cbr0'' ''10.1.2.3/16'' [] =
     (None,
      [[''filter'', ''show'', ''dev'', ''cbr0''],
       [''filter'', ''del'', ''dev'', ''cbr0'', ''parent'', ''1:'', ''proto'', ''ip'', ''prio'', ''1'', ''handle'', ''800::80'', ''u32''],
       [''class'', ''del'', ''dev'', ''cbr0'', ''parent'', ''1:'', ''classid'', ''1:11'']])"
proof -
  have "shaper_Reset wTc ''cbr0'' ''10.1.2.3/16'' [] =
      resetLoop wTc ''cbr0'' [(''1:'' @ ''11'', ''800::'' @ ''80'')] [[''filter'', ''show'', ''dev'', ''cbr0'']]"
    by (rule Reset_cuts_handle [OF _ _ _ _ _ hex_10_1_2_3 _ wTc_lines])
      (simp_all add: isDigit_def wTc_def)
  then show ?thesis by (simp add: wTc_def execAndLog_def)
qed

end
