(* ===== verification/Cni.thy ===== *)
theory Cni
  imports Network_Plugin Hostport Bandwidth Checkpoint
begin

text \<open>
  The CNI plugin (\<^verbatim>\<open>network/cni/cni.go\<close> and \<^verbatim>\<open>cni_others.go\<close>): the choice of the network configuration,
  the runtime configuration of a pod, and the calls of the library \<^verbatim>\<open>libcni\<close> that attach a pod to the
  loopback network and to the default network. The library, the file system it reads, the commands
  and the host that the plugin asks for namespaces and port mappings are interfaces on a state \<open>'e\<close>.
  Deadlines of calls are left to the library.
\<close>

subsection \<open>Types\<close>

definition CNIPluginName :: string where "CNIPluginName = ''cni''"

definition portMappingsCapability :: string where "portMappingsCapability = ''portMappings''"
definition ipRangesCapability :: string where "ipRangesCapability = ''ipRanges''"
definition bandwidthCapability :: string where "bandwidthCapability = ''bandwidth''"
definition dnsCapability :: string where "dnsCapability = ''dns''"

text \<open>A configuration list of the library: its name, the types of its plugins, and its text.\<close>

record NetworkConfigList =
  ncl_Name :: string
  ncl_Plugins :: "string list"
  ncl_Bytes :: string

text \<open>The CNI object of a network is given by the directories in which it looks for plugins.\<close>

record cniNetwork =
  cn_name :: string
  cn_NetworkConfig :: NetworkConfigList
  cn_CNIConfig :: "string list"
  cn_Capabilities :: "string list"

record cniPortMapping =
  cpm_HostPort :: int
  cpm_ContainerPort :: int
  cpm_Protocol :: string
  cpm_HostIP :: string

record cniBandwidthEntry =
  cbw_IngressRate :: int
  cbw_IngressBurst :: int
  cbw_EgressRate :: int
  cbw_EgressBurst :: int

record cniDNSConfig =
  cdn_Servers :: "string list"
  cdn_Searches :: "string list"
  cdn_Options :: "string list"

text \<open>The values of the capability arguments. An IP range is its subnet.\<close>

datatype capability_arg =
    CapPortMappings "cniPortMapping list"
  | CapBandwidth cniBandwidthEntry
  | CapIPRanges "string list list"
  | CapDNS cniDNSConfig

record RuntimeConf =
  rt_ContainerID :: string
  rt_NetNS :: string
  rt_IfName :: string
  rt_CacheDir :: string
  rt_Args :: "(string \<times> string) list"
  rt_CapabilityArgs :: "(string \<times> capability_arg) list"

record cniNetworkPlugin =
  cni_loNetwork :: "cniNetwork option"
  cni_defaultNetwork :: "cniNetwork option"
  cni_nsenterPath :: string
  cni_confDir :: string
  cni_binDirs :: "string list"
  cni_cacheDir :: string
  cni_podCidr :: string

text \<open>
  What the plugin uses: the library (\<open>cx_ConfFiles\<close> to \<open>cx_DelNetworkList\<close>; a single configuration
  file is its network type and the list made of it), the executor of commands, the host, and the
  parser of quantities.
\<close>

record 'e cni_ext =
  cx_ConfFiles :: "string \<Rightarrow> string list \<Rightarrow> 'e \<Rightarrow> string list result"
  cx_ConfListFromFile :: "string \<Rightarrow> 'e \<Rightarrow> NetworkConfigList result"
  cx_ConfFromFile :: "string \<Rightarrow> 'e \<Rightarrow> (string \<times> NetworkConfigList result) result"
  cx_ConfListFromBytes :: "string \<Rightarrow> NetworkConfigList result"
  cx_ValidateNetworkList :: "string list \<Rightarrow> NetworkConfigList \<Rightarrow> 'e \<Rightarrow> string list result"
  cx_AddNetworkList :: "string list \<Rightarrow> NetworkConfigList \<Rightarrow> RuntimeConf \<Rightarrow> 'e \<Rightarrow> goerror option \<times> 'e"
  cx_DelNetworkList :: "string list \<Rightarrow> NetworkConfigList \<Rightarrow> RuntimeConf \<Rightarrow> 'e \<Rightarrow> goerror option \<times> 'e"
  cx_LookPath :: "string \<Rightarrow> 'e \<Rightarrow> string \<times> goerror option"
  cx_run :: "string list \<Rightarrow> 'e \<Rightarrow> string \<times> goerror option"
  cx_GetNetNS :: "string \<Rightarrow> 'e \<Rightarrow> string result \<times> 'e"
  cx_GetPodPortMappings :: "string \<Rightarrow> 'e \<Rightarrow> hostport_mapping list result \<times> 'e"
  cx_ParseQuantity :: "string \<Rightarrow> int result"

subsection \<open>Choosing the configuration\<close>

definition SplitDirs :: "string \<Rightarrow> string list" where
  "SplitDirs dirs = strings_Split dirs (CHR '','')"

text \<open>One file: the network it gives, or \<open>None\<close> where the loop goes on to the next.\<close>

definition loadConfList :: "'e cni_ext \<Rightarrow> string \<Rightarrow> 'e \<Rightarrow> NetworkConfigList option" where
  "loadConfList x confFile e =
     (if strings_HasSuffix confFile ''.conflist'' then
        (case cx_ConfListFromFile x confFile e of Inl _ \<Rightarrow> None | Inr l \<Rightarrow> Some l)
      else
        (case cx_ConfFromFile x confFile e of
           Inl _ \<Rightarrow> None
         | Inr (ty, conv) \<Rightarrow>
             if ty = [] then None else (case conv of Inl _ \<Rightarrow> None | Inr l \<Rightarrow> Some l)))"

definition networkOfFile :: "'e cni_ext \<Rightarrow> string list \<Rightarrow> string \<Rightarrow> 'e \<Rightarrow> cniNetwork option" where
  "networkOfFile x binDirs confFile e =
     (case loadConfList x confFile e of
        None \<Rightarrow> None
      | Some confList \<Rightarrow>
          if length (ncl_Plugins confList) = 0 then None
          else (case cx_ValidateNetworkList x binDirs confList e of
                  Inl _ \<Rightarrow> None
                | Inr caps \<Rightarrow> Some \<lparr>cn_name = ncl_Name confList, cn_NetworkConfig = confList,
                                    cn_CNIConfig = binDirs, cn_Capabilities = caps\<rparr>))"

definition getDefaultCNINetwork :: "'e cni_ext \<Rightarrow> string \<Rightarrow> string list \<Rightarrow> 'e \<Rightarrow> cniNetwork result" where
  "getDefaultCNINetwork x confDir binDirs e =
     (case cx_ConfFiles x confDir [''.conf'', ''.conflist'', ''.json''] e of
        Inl err \<Rightarrow> Inl err
      | Inr files \<Rightarrow>
          if length files = 0 then Inl (Errorf (''no networks found in '' @ confDir))
          else (case firstSome (\<lambda>f. networkOfFile x binDirs f e) (sort files) of
                  Some n \<Rightarrow> Inr n
                | None \<Rightarrow> Inl (Errorf (''no valid networks found in '' @ confDir))))"

definition setDefaultNetwork :: "cniNetwork \<Rightarrow> cniNetworkPlugin \<Rightarrow> cniNetworkPlugin" where
  "setDefaultNetwork n p = p\<lparr>cni_defaultNetwork := Some n\<rparr>"

definition syncNetworkConfig :: "'e cni_ext \<Rightarrow> 'e \<Rightarrow> cniNetworkPlugin \<Rightarrow> cniNetworkPlugin" where
  "syncNetworkConfig x e p =
     (case getDefaultCNINetwork x (cni_confDir p) (cni_binDirs p) e of
        Inl _ \<Rightarrow> p
      | Inr n \<Rightarrow> setDefaultNetwork n p)"

definition loConfigText :: string where
  "loConfigText =
     strings_Join [''{'', ''  '' @ jsonQuote ''cniVersion'' @ '': '' @ jsonQuote ''0.2.0'' @ '','',
       ''  '' @ jsonQuote ''name'' @ '': '' @ jsonQuote ''cni-loopback'' @ '','',
       ''  '' @ jsonQuote ''plugins'' @ '':[{'',
       ''    '' @ jsonQuote ''type'' @ '': '' @ jsonQuote ''loopback'', ''  }]'', ''}''] [newline]"

text \<open>The error is the panic of the code.\<close>

definition getLoNetwork :: "'e cni_ext \<Rightarrow> string list \<Rightarrow> cniNetwork result" where
  "getLoNetwork x binDirs =
     map_sum id (\<lambda>loConfig. \<lparr>cn_name = ''lo'', cn_NetworkConfig = loConfig, cn_CNIConfig = binDirs, cn_Capabilities = []\<rparr>)
       (cx_ConfListFromBytes x loConfigText)"

definition ProbeNetworkPlugins :: "'e cni_ext \<Rightarrow> string \<Rightarrow> string \<Rightarrow> string list \<Rightarrow> 'e \<Rightarrow> cniNetworkPlugin result" where
  "ProbeNetworkPlugins x confDir cacheDir binDirs e =
     (let binDirs = filter (\<lambda>dir. dir \<noteq> []) binDirs in
      map_sum id (\<lambda>lo. syncNetworkConfig x e
          \<lparr>cni_loNetwork = Some lo, cni_defaultNetwork = None, cni_nsenterPath = [], cni_confDir = confDir,
           cni_binDirs = binDirs, cni_cacheDir = cacheDir, cni_podCidr = []\<rparr>)
        (getLoNetwork x binDirs))"

subsection \<open>The state of the plugin\<close>

text \<open>A goroutine calls \<^verbatim>\<open>syncNetworkConfig\<close> again every five seconds after \<^verbatim>\<open>Init\<close>.\<close>

definition platformInit :: "'e cni_ext \<Rightarrow> 'e \<Rightarrow> cniNetworkPlugin \<Rightarrow> goerror option \<times> cniNetworkPlugin" where
  "platformInit x e p =
     (case cx_LookPath x ''nsenter'' e of (path, err) \<Rightarrow> (err, p\<lparr>cni_nsenterPath := path\<rparr>))"

definition cni_Init :: "'e cni_ext \<Rightarrow> 'e \<Rightarrow> cniNetworkPlugin \<Rightarrow> goerror option \<times> cniNetworkPlugin" where
  "cni_Init x e p =
     (case platformInit x e p of
        (Some err, p) \<Rightarrow> (Some err, p)
      | (None, p) \<Rightarrow> (None, syncNetworkConfig x e p))"

definition checkInitialized :: "cniNetworkPlugin \<Rightarrow> goerror option" where
  "checkInitialized p =
     (case cni_defaultNetwork p of
        None \<Rightarrow> Some (Errorf ''cni config uninitialized'')
      | Some n \<Rightarrow>
          if ipRangesCapability \<in> set (cn_Capabilities n) \<and> cni_podCidr p = [] then
            Some (Errorf ''cni config needs ipRanges but no PodCIDR set'')
          else None)"

definition cni_Event :: "string \<Rightarrow> gomap \<Rightarrow> cniNetworkPlugin \<Rightarrow> cniNetworkPlugin" where
  "cni_Event name details p =
     (if name \<noteq> NET_PLUGIN_EVENT_POD_CIDR_CHANGE then p
      else (case map_of details NET_PLUGIN_EVENT_POD_CIDR_CHANGE_DETAIL_CIDR of
              None \<Rightarrow> p
            | Some podCIDR \<Rightarrow> if cni_podCidr p \<noteq> [] then p else p\<lparr>cni_podCidr := podCIDR\<rparr>))"

subsection \<open>The runtime configuration of a pod\<close>

definition MaxInt32 :: int where "MaxInt32 = 2147483647"

definition toCniPortMappings :: "hostport_mapping list \<Rightarrow> cniPortMapping list" where
  "toCniPortMappings pms =
     map (\<lambda>p. \<lparr>cpm_HostPort = hpm_HostPort p, cpm_ContainerPort = hpm_ContainerPort p,
                cpm_Protocol = strings_ToLower (hpm_Protocol p), cpm_HostIP = hpm_HostIP p\<rparr>)
       (filter (\<lambda>p. \<not> hpm_HostPort p \<le> 0) pms)"

definition bandwidthParam :: "int option \<Rightarrow> int option \<Rightarrow> (string \<times> capability_arg) list" where
  "bandwidthParam ingress egress =
     (if ingress = None \<and> egress = None then []
      else [(bandwidthCapability, CapBandwidth
        \<lparr>cbw_IngressRate = (case ingress of None \<Rightarrow> 0 | Some v \<Rightarrow> v),
         cbw_IngressBurst = (case ingress of None \<Rightarrow> 0 | Some v \<Rightarrow> MaxInt32),
         cbw_EgressRate = (case egress of None \<Rightarrow> 0 | Some v \<Rightarrow> v),
         cbw_EgressBurst = (case egress of None \<Rightarrow> 0 | Some v \<Rightarrow> MaxInt32)\<rparr>)])"

text \<open>\<^verbatim>\<open>json.Unmarshal\<close> into a \<^verbatim>\<open>runtimeapi.DNSConfig\<close>: servers, searches and options.\<close>

definition dnsFieldError :: "json \<Rightarrow> string \<Rightarrow> string \<Rightarrow> goerror" where
  "dnsFieldError v field t =
     Errorf (''json: cannot unmarshal '' @ jsonKind v @ '' into Go struct field DNSConfig.'' @ field @ '' of type '' @ t)"

fun decodeStrings :: "string \<Rightarrow> json list \<Rightarrow> string list \<Rightarrow> string list result" where
  "decodeStrings field [] olds = Inr []"
| "decodeStrings field (v # vs) olds =
     (case v of
        JStr s \<Rightarrow> map_sum id ((#) s) (decodeStrings field vs (drop 1 olds))
      | JNull \<Rightarrow> map_sum id ((#) (case olds of [] \<Rightarrow> [] | old # _ \<Rightarrow> old)) (decodeStrings field vs (drop 1 olds))
      | _ \<Rightarrow> Inl (dnsFieldError v field ''string''))"

definition decodeStringSlice :: "string \<Rightarrow> json \<Rightarrow> string list \<Rightarrow> string list result" where
  "decodeStringSlice field v old =
     (case v of
        JArr vs \<Rightarrow> decodeStrings field vs old
      | JNull \<Rightarrow> Inr []
      | _ \<Rightarrow> Inl (dnsFieldError v field ''[]string''))"

definition dnsField :: "string \<Rightarrow> json \<Rightarrow> cniDNSConfig \<Rightarrow> cniDNSConfig result" where
  "dnsField k v d =
     (let n = fieldOf [''servers'', ''searches'', ''options''] k in
      if n = ''servers'' then map_sum id (\<lambda>l. d\<lparr>cdn_Servers := l\<rparr>) (decodeStringSlice n v (cdn_Servers d))
      else if n = ''searches'' then map_sum id (\<lambda>l. d\<lparr>cdn_Searches := l\<rparr>) (decodeStringSlice n v (cdn_Searches d))
      else if n = ''options'' then map_sum id (\<lambda>l. d\<lparr>cdn_Options := l\<rparr>) (decodeStringSlice n v (cdn_Options d))
      else Inr d)"

definition unmarshalDNS :: "string \<Rightarrow> cniDNSConfig result" where
  "unmarshalDNS s =
     (let zero = \<lparr>cdn_Servers = [], cdn_Searches = [], cdn_Options = []\<rparr> in
      case json_parse s of
        Inl err \<Rightarrow> Inl err
      | Inr JNull \<Rightarrow> Inr zero
      | Inr (JObj ms) \<Rightarrow> decodeMembers dnsField ms zero
      | Inr v \<Rightarrow> Inl (typeError v ''v1.DNSConfig''))"

definition buildDNSCapabilities :: "cniDNSConfig \<Rightarrow> cniDNSConfig option" where
  "buildDNSCapabilities dnsConfig = None"

definition dnsParam :: "gomap \<Rightarrow> (string \<times> capability_arg) list result" where
  "dnsParam options =
     (case map_of options ''dns'' of
        None \<Rightarrow> Inr []
      | Some dnsOptions \<Rightarrow>
          (case unmarshalDNS dnsOptions of
             Inl err \<Rightarrow> Inl (Errorf (''failed to unmarshal dns config '' @ fmt_q dnsOptions @ '': '' @ Error err))
           | Inr dnsConfig \<Rightarrow>
               Inr (case buildDNSCapabilities dnsConfig of None \<Rightarrow> [] | Some d \<Rightarrow> [(dnsCapability, CapDNS d)])))"

definition buildCNIRuntimeConf ::
    "'e cni_ext \<Rightarrow> cniNetworkPlugin \<Rightarrow> string \<Rightarrow> string \<Rightarrow> container_id \<Rightarrow> string \<Rightarrow> gomap \<Rightarrow> gomap \<Rightarrow> 'e
      \<Rightarrow> RuntimeConf result \<times> 'e" where
  "buildCNIRuntimeConf x p podName podNs podSandboxID podNetnsPath annotations options e =
     (case cx_GetPodPortMappings x (snd podSandboxID) e of
        (Inl err, e) \<Rightarrow> (Inl (Errorf (''could not retrieve port mappings: '' @ Error err)), e)
      | (Inr portMappings, e) \<Rightarrow>
          (case ExtractPodBandwidthResources (cx_ParseQuantity x) annotations of
             Inl err \<Rightarrow> (Inl (Errorf (''failed to get pod bandwidth from annotations: '' @ Error err)), e)
           | Inr (ingress, egress) \<Rightarrow>
               (case dnsParam options of
                  Inl err \<Rightarrow> (Inl err, e)
                | Inr dns \<Rightarrow>
                    (Inr \<lparr>rt_ContainerID = snd podSandboxID, rt_NetNS = podNetnsPath, rt_IfName = DefaultInterfaceName,
                          rt_CacheDir = cni_cacheDir p,
                          rt_Args = [(''IgnoreUnknown'', ''1''), (''K8S_POD_NAMESPACE'', podNs), (''K8S_POD_NAME'', podName),
                                     (''K8S_POD_INFRA_CONTAINER_ID'', snd podSandboxID)],
                          rt_CapabilityArgs = [(portMappingsCapability, CapPortMappings (toCniPortMappings portMappings))] @
                            bandwidthParam ingress egress @ [(ipRangesCapability, CapIPRanges [[cni_podCidr p]])] @ dns\<rparr>, e))))"

subsection \<open>Pods\<close>

text \<open>
  The message of a failed call names the type of the first plugin of the list, so a list without
  plugins panics there. The result of the library is dropped by the caller.
\<close>

definition failedCall :: "NetworkConfigList \<Rightarrow> goerror \<Rightarrow> goerror" where
  "failedCall netConf err = (if ncl_Plugins netConf = [] then indexPanic 0 0 else err)"

definition addToNetwork ::
    "'e cni_ext \<Rightarrow> cniNetworkPlugin \<Rightarrow> cniNetwork option \<Rightarrow> string \<Rightarrow> string \<Rightarrow> container_id \<Rightarrow> string \<Rightarrow> gomap \<Rightarrow> gomap
      \<Rightarrow> 'e \<Rightarrow> goerror option \<times> 'e" where
  "addToNetwork x p network podName podNamespace podSandboxID podNetnsPath annotations options e =
     (case buildCNIRuntimeConf x p podName podNamespace podSandboxID podNetnsPath annotations options e of
        (Inl err, e) \<Rightarrow> (Some err, e)
      | (Inr rt, e) \<Rightarrow>
          (case network of
             None \<Rightarrow> (Some nilDereference, e)
           | Some n \<Rightarrow>
               (case cx_AddNetworkList x (cn_CNIConfig n) (cn_NetworkConfig n) rt e of
                  (Some err, e) \<Rightarrow> (Some (failedCall (cn_NetworkConfig n) err), e)
                | (None, e) \<Rightarrow> (None, e))))"

definition deleteFromNetwork ::
    "'e cni_ext \<Rightarrow> cniNetworkPlugin \<Rightarrow> cniNetwork option \<Rightarrow> string \<Rightarrow> string \<Rightarrow> container_id \<Rightarrow> string \<Rightarrow> gomap
      \<Rightarrow> 'e \<Rightarrow> goerror option \<times> 'e" where
  "deleteFromNetwork x p network podName podNamespace podSandboxID podNetnsPath annotations e =
     (case buildCNIRuntimeConf x p podName podNamespace podSandboxID podNetnsPath annotations [] e of
        (Inl err, e) \<Rightarrow> (Some err, e)
      | (Inr rt, e) \<Rightarrow>
          (case network of
             None \<Rightarrow> (Some nilDereference, e)
           | Some n \<Rightarrow>
               (case cx_DelNetworkList x (cn_CNIConfig n) (cn_NetworkConfig n) rt e of
                  (Some err, e) \<Rightarrow>
                    if strings_Contains (Error err) ''no such file or directory'' then (None, e)
                    else (Some (failedCall (cn_NetworkConfig n) err), e)
                | (None, e) \<Rightarrow> (None, e))))"

text \<open>
  \<^verbatim>\<open>SetUpPod\<close> reads the plugin three times: in its check, when it attaches the pod to the loopback
  network, and when it takes the default network. The configuration may be synchronised between
  the three, so each has a plugin of its own; without interference they are the same.
\<close>

definition cni_SetUpPodAt ::
    "'e cni_ext \<Rightarrow> cniNetworkPlugin \<Rightarrow> cniNetworkPlugin \<Rightarrow> cniNetworkPlugin \<Rightarrow> string \<Rightarrow> string \<Rightarrow> container_id
      \<Rightarrow> gomap \<Rightarrow> gomap \<Rightarrow> 'e \<Rightarrow> goerror option \<times> 'e" where
  "cni_SetUpPodAt x p1 p2 p3 nspace name i annotations options e =
     (case checkInitialized p1 of
        Some err \<Rightarrow> (Some err, e)
      | None \<Rightarrow>
          (case cx_GetNetNS x (snd i) e of
             (Inl err, e) \<Rightarrow> (Some (Errorf (''CNI failed to retrieve network namespace path: '' @ Error err)), e)
           | (Inr netnsPath, e) \<Rightarrow>
               (case (case cni_loNetwork p2 of
                        None \<Rightarrow> (None, e)
                      | Some lo \<Rightarrow> addToNetwork x p2 (Some lo) name nspace i netnsPath annotations options e) of
                  (Some err, e) \<Rightarrow> (Some err, e)
                | (None, e) \<Rightarrow> addToNetwork x p3 (cni_defaultNetwork p3) name nspace i netnsPath annotations options e)))"

definition cni_SetUpPod ::
    "'e cni_ext \<Rightarrow> cniNetworkPlugin \<Rightarrow> string \<Rightarrow> string \<Rightarrow> container_id \<Rightarrow> gomap \<Rightarrow> gomap \<Rightarrow> 'e \<Rightarrow> goerror option \<times> 'e" where
  "cni_SetUpPod x p = cni_SetUpPodAt x p p p"

text \<open>A namespace that cannot be found is the empty path.\<close>

definition cni_TearDownPod ::
    "'e cni_ext \<Rightarrow> cniNetworkPlugin \<Rightarrow> string \<Rightarrow> string \<Rightarrow> container_id \<Rightarrow> 'e \<Rightarrow> goerror option \<times> 'e" where
  "cni_TearDownPod x p nspace name i e =
     (case checkInitialized p of
        Some err \<Rightarrow> (Some err, e)
      | None \<Rightarrow>
          (case cx_GetNetNS x (snd i) e of (r, e) \<Rightarrow>
             let netnsPath = (case r of Inl _ \<Rightarrow> [] | Inr path \<Rightarrow> path);
                 e = (case cni_loNetwork p of
                        None \<Rightarrow> e
                      | Some lo \<Rightarrow> snd (deleteFromNetwork x p (Some lo) name nspace i netnsPath [] e))
             in deleteFromNetwork x p (cni_defaultNetwork p) name nspace i netnsPath [] e))"

definition idText :: "container_id \<Rightarrow> string" where
  "idText i = ''{'' @ fmt_q (fst i) @ '' '' @ fmt_q (snd i) @ ''}''"

definition cni_GetPodNetworkStatus ::
    "'e cni_ext \<Rightarrow> bool \<Rightarrow> cniNetworkPlugin \<Rightarrow> string \<Rightarrow> string \<Rightarrow> container_id \<Rightarrow> 'e \<Rightarrow> PodNetworkStatus option result \<times> 'e" where
  "cni_GetPodNetworkStatus x dual p nspace name i e =
     (case cx_GetNetNS x (snd i) e of
        (Inl err, e) \<Rightarrow> (Inl (Errorf (''CNI failed to retrieve network namespace path: '' @ Error err)), e)
      | (Inr netnsPath, e) \<Rightarrow>
          if netnsPath = [] then
            (Inl (Errorf (''cannot find the network namespace, skipping pod network status for container '' @ idText i)), e)
          else
            (case GetPodIPs dual (\<lambda>argv. cx_run x argv e) (cni_nsenterPath p) netnsPath DefaultInterfaceName of
               Inl err \<Rightarrow> (Inl err, e)
             | Inr ips \<Rightarrow>
                 if length ips = 0 then
                   (Inl (Errorf (''cannot find pod IPs in the network namespace, skipping pod network status for container '' @ idText i)), e)
                 else (Inr (Some \<lparr>pns_IP = IP_String (ips ! 0), pns_IPs = map IP_String ips\<rparr>), e)))"

text \<open>The plugin as the manager sees it, on its own state and that of the rest.\<close>

definition cniPlugin :: "'e cni_ext \<Rightarrow> bool \<Rightarrow> (cniNetworkPlugin \<times> 'e) network_plugin" where
  "cniPlugin x dual =
     \<lparr>np_Name = CNIPluginName,
      np_Init = (\<lambda>_ _ _ (p, e). case cni_Init x e p of (err, p) \<Rightarrow> (err, (p, e))),
      np_Event = (\<lambda>name details (p, e). (cni_Event name details p, e)),
      np_Capabilities = [],
      np_SetUpPod = (\<lambda>ns n i a opts (p, e). case cni_SetUpPod x p ns n i a opts e of (err, e) \<Rightarrow> (err, (p, e))),
      np_TearDownPod = (\<lambda>ns n i (p, e). case cni_TearDownPod x p ns n i e of (err, e) \<Rightarrow> (err, (p, e))),
      np_GetPodNetworkStatus = (\<lambda>ns n i (p, e). case cni_GetPodNetworkStatus x dual p ns n i e of (r, e) \<Rightarrow> (r, (p, e))),
      np_Status = (\<lambda>(p, e). (checkInitialized p, (p, e)))\<rparr>"

subsection \<open>The configuration over time\<close>

text \<open>
  The steps that change the plugin: the initialisation, the synchronisation, with whatever the
  configuration directory holds then, and the events.
\<close>

inductive cni_step :: "'e cni_ext \<Rightarrow> cniNetworkPlugin \<Rightarrow> cniNetworkPlugin \<Rightarrow> bool" for x where
  cni_sync: "cni_step x p (syncNetworkConfig x e p)"
| cni_event: "cni_step x p (cni_Event name details p)"
| cni_init: "cni_Init x e p = (err, q) \<Longrightarrow> cni_step x p q"

text \<open>The default network comes from a list with plugins that the library found valid.\<close>

definition cniOk :: "'e cni_ext \<Rightarrow> cniNetworkPlugin \<Rightarrow> bool" where
  "cniOk x p \<longleftrightarrow>
     (\<forall>n. cni_defaultNetwork p = Some n \<longrightarrow>
        ncl_Plugins (cn_NetworkConfig n) \<noteq> [] \<and> cn_CNIConfig n = cni_binDirs p \<and> cn_name n = ncl_Name (cn_NetworkConfig n) \<and>
        (\<exists>e. cx_ValidateNetworkList x (cni_binDirs p) (cn_NetworkConfig n) e = Inr (cn_Capabilities n)))"

text \<open>What a step keeps.\<close>

definition cniKept :: "cniNetworkPlugin \<Rightarrow> cniNetworkPlugin \<Rightarrow> bool" where
  "cniKept p q \<longleftrightarrow>
     cni_loNetwork q = cni_loNetwork p \<and> cni_binDirs q = cni_binDirs p \<and> cni_confDir q = cni_confDir p \<and>
     cni_cacheDir q = cni_cacheDir p \<and>
     (cni_defaultNetwork p \<noteq> None \<longrightarrow> cni_defaultNetwork q \<noteq> None) \<and>
     (cni_podCidr p \<noteq> [] \<longrightarrow> cni_podCidr q = cni_podCidr p)"

lemma firstSome_SomeD: "firstSome f xs = Some y \<Longrightarrow> \<exists>x\<in>set xs. f x = Some y"
  by (induction xs) (auto split: option.splits)

lemma networkOfFile_ok:
  "networkOfFile x b f e = Some n \<Longrightarrow>
     ncl_Plugins (cn_NetworkConfig n) \<noteq> [] \<and> cn_CNIConfig n = b \<and> cn_name n = ncl_Name (cn_NetworkConfig n) \<and>
     cx_ValidateNetworkList x b (cn_NetworkConfig n) e = Inr (cn_Capabilities n)"
  by (auto simp: networkOfFile_def split: option.splits if_splits sum.splits)

lemma getDefault_ok:
  assumes "getDefaultCNINetwork x d b e = Inr n"
  shows "ncl_Plugins (cn_NetworkConfig n) \<noteq> [] \<and> cn_CNIConfig n = b \<and> cn_name n = ncl_Name (cn_NetworkConfig n) \<and>
     cx_ValidateNetworkList x b (cn_NetworkConfig n) e = Inr (cn_Capabilities n)"
proof -
  obtain files where "firstSome (\<lambda>f. networkOfFile x b f e) (sort files) = Some n"
    using assms by (auto simp: getDefaultCNINetwork_def split: sum.splits if_splits option.splits)
  then obtain f where "networkOfFile x b f e = Some n" using firstSome_SomeD by fastforce
  then show ?thesis by (rule networkOfFile_ok)
qed

lemma sync_ok: "cniOk x p \<Longrightarrow> cniOk x (syncNetworkConfig x e p)"
  by (auto simp: syncNetworkConfig_def setDefaultNetwork_def cniOk_def split: sum.splits dest: getDefault_ok)

lemma sync_kept: "cniKept p (syncNetworkConfig x e p)"
  by (simp add: cniKept_def syncNetworkConfig_def setDefaultNetwork_def split: sum.splits)

lemma event_ok: "cniOk x (cni_Event name details p) = cniOk x p"
  by (simp add: cni_Event_def cniOk_def split: option.splits)

lemma event_kept: "cniKept p (cni_Event name details p)"
  by (simp add: cni_Event_def cniKept_def split: option.splits)

lemma Init_cases:
  assumes "cni_Init x e p = (err, q)"
  obtains path where "q = p\<lparr>cni_nsenterPath := path\<rparr> \<or> q = syncNetworkConfig x e (p\<lparr>cni_nsenterPath := path\<rparr>)"
  using assms by (cases "cx_LookPath x ''nsenter'' e") (auto simp: cni_Init_def platformInit_def split: option.splits)

lemma nsenterPath_frame:
  "cniOk x (p\<lparr>cni_nsenterPath := path\<rparr>) = cniOk x p" "cniKept (p\<lparr>cni_nsenterPath := path\<rparr>) q = cniKept p q"
  "cniKept p (p\<lparr>cni_nsenterPath := path\<rparr>)"
  by (simp_all add: cniOk_def cniKept_def)

lemma Init_ok: "cniOk x p \<Longrightarrow> cni_Init x e p = (err, q) \<Longrightarrow> cniOk x q"
  by (metis Init_cases nsenterPath_frame(1) sync_ok)

lemma Init_kept: "cni_Init x e p = (err, q) \<Longrightarrow> cniKept p q"
  by (metis Init_cases nsenterPath_frame(2,3) sync_kept)

lemma cni_step_ok: "cni_step x p q \<Longrightarrow> cniOk x p \<Longrightarrow> cniOk x q"
  by (induction rule: cni_step.induct) (simp_all add: sync_ok event_ok Init_ok)

lemma cni_step_kept: "cni_step x p q \<Longrightarrow> cniKept p q"
  by (induction rule: cni_step.induct) (simp_all add: sync_kept event_kept Init_kept)

lemma cniKept_refl: "cniKept p p" and cniKept_trans: "cniKept p q \<Longrightarrow> cniKept q r \<Longrightarrow> cniKept p r"
  by (auto simp: cniKept_def)

lemma cni_steps_ok: "(cni_step x)\<^sup>*\<^sup>* p q \<Longrightarrow> cniOk x p \<Longrightarrow> cniOk x q"
  by (induction rule: rtranclp_induct) (auto intro: cni_step_ok)

lemma cni_steps_kept: "(cni_step x)\<^sup>*\<^sup>* p q \<Longrightarrow> cniKept p q"
  by (induction rule: rtranclp_induct) (auto intro: cniKept_refl cniKept_trans cni_step_kept)

text \<open>A plugin starts without a default network and with the loopback network that the library reads.\<close>

lemma Probe_start:
  assumes "ProbeNetworkPlugins x confDir cacheDir binDirs e = Inr p"
  shows "cniOk x p" and "\<exists>l lo. cx_ConfListFromBytes x loConfigText = Inr l \<and> cni_loNetwork p = Some lo \<and> cn_NetworkConfig lo = l"
proof -
  let ?b = "filter (\<lambda>dir. dir \<noteq> []) binDirs"
  let ?p = "\<lambda>lo. \<lparr>cni_loNetwork = Some lo, cni_defaultNetwork = None, cni_nsenterPath = [], cni_confDir = confDir,
       cni_binDirs = ?b, cni_cacheDir = cacheDir, cni_podCidr = []\<rparr>"
  obtain lo where lo: "getLoNetwork x ?b = Inr lo" and p: "p = syncNetworkConfig x e (?p lo)"
    using assms unfolding ProbeNetworkPlugins_def Let_def by (cases "getLoNetwork x ?b") auto
  have "cniOk x (?p lo)" by (simp add: cniOk_def)
  then show "cniOk x p" unfolding p by (rule sync_ok)
  have "cni_loNetwork p = Some lo" using sync_kept [of "?p lo" x e] unfolding p by (simp add: cniKept_def)
  then show "\<exists>l lo. cx_ConfListFromBytes x loConfigText = Inr l \<and> cni_loNetwork p = Some lo \<and> cn_NetworkConfig lo = l"
    using lo by (cases "cx_ConfListFromBytes x loConfigText") (auto simp: getLoNetwork_def)
qed

subsection \<open>Setting up a pod while the configuration changes\<close>

text \<open>A call of the library with the runtime configuration of the pod: what \<^verbatim>\<open>addToNetwork\<close> is without its panics.\<close>

definition attach ::
    "'e cni_ext \<Rightarrow> cniNetworkPlugin \<Rightarrow> cniNetwork \<Rightarrow> string \<Rightarrow> string \<Rightarrow> container_id \<Rightarrow> string \<Rightarrow> gomap \<Rightarrow> gomap
      \<Rightarrow> 'e \<Rightarrow> goerror option \<times> 'e" where
  "attach x p n podName podNamespace i netns annotations options e =
     (case buildCNIRuntimeConf x p podName podNamespace i netns annotations options e of
        (Inl err, e) \<Rightarrow> (Some err, e)
      | (Inr rt, e) \<Rightarrow> cx_AddNetworkList x (cn_CNIConfig n) (cn_NetworkConfig n) rt e)"

lemma addToNetwork_attach:
  "ncl_Plugins (cn_NetworkConfig n) \<noteq> [] \<Longrightarrow> addToNetwork x p (Some n) = attach x p n"
  by (intro ext) (simp add: addToNetwork_def attach_def failedCall_def split: prod.splits sum.splits option.splits)

lemma checkInitialized_default: "checkInitialized p = None \<Longrightarrow> cni_defaultNetwork p \<noteq> None"
  by (auto simp: checkInitialized_def split: option.splits)

text \<open>C12. The configuration may be synchronised, and events may come, before \<^verbatim>\<open>SetUpPod\<close> and between any two of
  its reads of the plugin. Still a check that passed guarantees a default network at the last read, with the plugin
  directories of the plugin, and the call neither dereferences a nil network nor indexes an empty list of plugins: it
  attaches the pod to the loopback network and then to the default network, and returns what the library returns. Of the
  library it is assumed that a configuration list that it reads has a plugin.\<close>

theorem cni_SetUpPod_attaches:
  assumes "\<And>t l. cx_ConfListFromBytes x t = Inr l \<Longrightarrow> ncl_Plugins l \<noteq> []"
    and "ProbeNetworkPlugins x confDir cacheDir binDirs e0 = Inr p0"
    and "(cni_step x)\<^sup>*\<^sup>* p0 p1" and "(cni_step x)\<^sup>*\<^sup>* p1 p2" and "(cni_step x)\<^sup>*\<^sup>* p2 p3"
  shows "\<exists>lo. cni_loNetwork p0 = Some lo \<and>
    (case checkInitialized p1 of
       Some err \<Rightarrow> cni_SetUpPodAt x p1 p2 p3 nspace name i annotations options e = (Some err, e)
     | None \<Rightarrow>
         (\<exists>n. cni_defaultNetwork p3 = Some n \<and> cn_CNIConfig n = cni_binDirs p0 \<and>
           cni_SetUpPodAt x p1 p2 p3 nspace name i annotations options e =
             (case cx_GetNetNS x (snd i) e of
                (Inl err, e) \<Rightarrow> (Some (Errorf (''CNI failed to retrieve network namespace path: '' @ Error err)), e)
              | (Inr netns, e) \<Rightarrow>
                  (case attach x p2 lo name nspace i netns annotations options e of
                     (Some err, e) \<Rightarrow> (Some err, e)
                   | (None, e) \<Rightarrow> attach x p3 n name nspace i netns annotations options e))))"
proof -
  obtain lo where lo: "cni_loNetwork p0 = Some lo" "ncl_Plugins (cn_NetworkConfig lo) \<noteq> []"
    using Probe_start(2) [OF assms(2)] assms(1) by blast
  have steps: "(cni_step x)\<^sup>*\<^sup>* p0 p3" "(cni_step x)\<^sup>*\<^sup>* p1 p3" "(cni_step x)\<^sup>*\<^sup>* p0 p2"
    using assms(3-5) by (meson rtranclp_trans)+
  have ok: "cniOk x p3" using cni_steps_ok [OF steps(1)] Probe_start(1) [OF assms(2)] .
  have k0: "cniKept p0 p3" using cni_steps_kept [OF steps(1)] .
  have k1: "cniKept p1 p3" using cni_steps_kept [OF steps(2)] .
  have "cniKept p0 p2" using cni_steps_kept [OF steps(3)] .
  then have lo2: "cni_loNetwork p2 = Some lo" using lo(1) by (simp add: cniKept_def)
  show ?thesis
  proof (cases "checkInitialized p1")
    case None
    then obtain n where n: "cni_defaultNetwork p3 = Some n"
      using k1 checkInitialized_default unfolding cniKept_def by blast
    then have "ncl_Plugins (cn_NetworkConfig n) \<noteq> []" "cn_CNIConfig n = cni_binDirs p0"
      using ok k0 by (simp_all add: cniOk_def cniKept_def)
    then show ?thesis
      using None n lo(1) by (simp add: cni_SetUpPodAt_def lo2 addToNetwork_attach lo(2) split: prod.splits sum.splits option.splits)
  qed (simp add: cni_SetUpPodAt_def lo(1))
qed

subsection \<open>The runtime configuration\<close>

text \<open>The rate and the burst that an annotation asks for; a missing one asks for none.\<close>

definition annotatedRate :: "(string \<Rightarrow> int result) \<Rightarrow> gomap \<Rightarrow> string \<Rightarrow> int \<Rightarrow> int \<Rightarrow> bool" where
  "annotatedRate q a key rate burst \<longleftrightarrow>
     (case map_of a key of
        None \<Rightarrow> rate = 0 \<and> burst = 0
      | Some str \<Rightarrow> q str = Inr rate \<and> 1000 \<le> rate \<and> rate \<le> 1000000000000000 \<and> burst = 2147483647)"

lemma bandwidthOf_annotated:
  "bandwidthOf q a key = Inr r \<Longrightarrow>
     annotatedRate q a key (case r of None \<Rightarrow> 0 | Some v \<Rightarrow> v) (case r of None \<Rightarrow> 0 | Some v \<Rightarrow> MaxInt32) \<and> (r = None) = (map_of a key = None)"
  by (auto simp: bandwidthOf_def annotatedRate_def validateBandwidthIsReasonable_def minRsrc_def maxRsrc_def MaxInt32_def
      split: option.splits sum.splits if_splits)

lemma bandwidthParam_spec:
  assumes "ExtractPodBandwidthResources q a = Inr (ingress, egress)"
  shows "case map_of (bandwidthParam ingress egress) bandwidthCapability of
       None \<Rightarrow> map_of a ''kubernetes.io/ingress-bandwidth'' = None \<and> map_of a ''kubernetes.io/egress-bandwidth'' = None
     | Some c \<Rightarrow> \<exists>b. c = CapBandwidth b \<and>
         (map_of a ''kubernetes.io/ingress-bandwidth'' \<noteq> None \<or> map_of a ''kubernetes.io/egress-bandwidth'' \<noteq> None) \<and>
         annotatedRate q a ''kubernetes.io/ingress-bandwidth'' (cbw_IngressRate b) (cbw_IngressBurst b) \<and>
         annotatedRate q a ''kubernetes.io/egress-bandwidth'' (cbw_EgressRate b) (cbw_EgressBurst b)"
proof -
  have "bandwidthOf q a ''kubernetes.io/ingress-bandwidth'' = Inr ingress"
      "bandwidthOf q a ''kubernetes.io/egress-bandwidth'' = Inr egress"
    using assms by (auto simp: ExtractPodBandwidthResources_def split: sum.splits)
  note f = this [THEN bandwidthOf_annotated]
  show ?thesis
  proof (cases "ingress = None \<and> egress = None")
    case True
    then show ?thesis using f by (simp add: bandwidthParam_def)
  next
    case False
    then have "\<not> (map_of a ''kubernetes.io/ingress-bandwidth'' = None \<and> map_of a ''kubernetes.io/egress-bandwidth'' = None)" using f by blast
    then show ?thesis using f False by (simp add: bandwidthParam_def)
  qed
qed

lemma toCniPortMappings_spec:
  "map (\<lambda>c. (cpm_HostPort c, cpm_ContainerPort c, cpm_Protocol c, cpm_HostIP c)) (toCniPortMappings pms) =
     [(hpm_HostPort p, hpm_ContainerPort p, strings_ToLower (hpm_Protocol p), hpm_HostIP p). p \<leftarrow> pms, 0 < hpm_HostPort p]"
  by (induction pms) (auto simp: toCniPortMappings_def)

lemma dnsParam_none: "dnsParam options = Inr ps \<Longrightarrow> ps = []"
  by (auto simp: dnsParam_def buildDNSCapabilities_def split: option.splits sum.splits)

lemmas capability_names = portMappingsCapability_def ipRangesCapability_def bandwidthCapability_def dnsCapability_def

lemma bandwidthParam_names: "bandwidthParam i j = [] \<or> (\<exists>c. bandwidthParam i j = [(bandwidthCapability, c)])"
  by (simp add: bandwidthParam_def)

lemma capability_lookup:
  fixes ps bw cidr
  defines "caps \<equiv> [(portMappingsCapability, ps)] @ bw @ [(ipRangesCapability, cidr)]"
  assumes "bw = [] \<or> (\<exists>c. bw = [(bandwidthCapability, c)])"
  shows "distinct (map fst caps)" and "map_of caps portMappingsCapability = Some ps" and "map_of caps ipRangesCapability = Some cidr"
    and "map_of caps dnsCapability = None" and "map_of caps bandwidthCapability = map_of bw bandwidthCapability"
  using assms(2) by (auto simp: caps_def capability_names)

text \<open>C26. The runtime configuration with which the plugin calls the library names the sandbox, its namespace, its
  interface and, in its arguments, the pod; and its capability arguments are exactly these. The port mappings are those of the sandbox that have a
  positive host port, in order, each with its host port, container port and host address and the protocol in lower case. The
  address range is the pod CIDR, and there is no DNS configuration. There is a bandwidth entry if and only if the pod has one of the two
  annotations; the rate of an annotation is the value that its text parses to, between 1k and 1P bits per second, with the burst
  of the largest 32-bit integer, and the rate and the burst of a missing annotation are 0.\<close>

theorem cni_runtime_conf:
  assumes "buildCNIRuntimeConf x p podName podNs i netns annotations options e = (Inr rt, e')"
  shows "rt_ContainerID rt = snd i \<and> rt_NetNS rt = netns \<and> rt_IfName rt = ''eth0'' \<and> rt_CacheDir rt = cni_cacheDir p \<and>
    rt_Args rt = [(''IgnoreUnknown'', ''1''), (''K8S_POD_NAMESPACE'', podNs), (''K8S_POD_NAME'', podName), (''K8S_POD_INFRA_CONTAINER_ID'', snd i)] \<and>
    distinct (map fst (rt_CapabilityArgs rt)) \<and>
    fst ` set (rt_CapabilityArgs rt) \<subseteq> {''portMappings'', ''bandwidth'', ''ipRanges''} \<and>
    (\<exists>pms cpms. cx_GetPodPortMappings x (snd i) e = (Inr pms, e') \<and>
      map_of (rt_CapabilityArgs rt) ''portMappings'' = Some (CapPortMappings cpms) \<and>
      map (\<lambda>c. (cpm_HostPort c, cpm_ContainerPort c, cpm_Protocol c, cpm_HostIP c)) cpms =
        [(hpm_HostPort p, hpm_ContainerPort p, strings_ToLower (hpm_Protocol p), hpm_HostIP p). p \<leftarrow> pms, 0 < hpm_HostPort p]) \<and>
    map_of (rt_CapabilityArgs rt) ''ipRanges'' = Some (CapIPRanges [[cni_podCidr p]]) \<and>
    (case map_of (rt_CapabilityArgs rt) ''bandwidth'' of
       None \<Rightarrow> map_of annotations ''kubernetes.io/ingress-bandwidth'' = None \<and> map_of annotations ''kubernetes.io/egress-bandwidth'' = None
     | Some c \<Rightarrow> \<exists>b. c = CapBandwidth b \<and>
         (map_of annotations ''kubernetes.io/ingress-bandwidth'' \<noteq> None \<or> map_of annotations ''kubernetes.io/egress-bandwidth'' \<noteq> None) \<and>
         annotatedRate (cx_ParseQuantity x) annotations ''kubernetes.io/ingress-bandwidth'' (cbw_IngressRate b) (cbw_IngressBurst b) \<and>
         annotatedRate (cx_ParseQuantity x) annotations ''kubernetes.io/egress-bandwidth'' (cbw_EgressRate b) (cbw_EgressBurst b))"
proof -
  obtain pms ingress egress dns where
      pms: "cx_GetPodPortMappings x (snd i) e = (Inr pms, e')" and
      bw: "ExtractPodBandwidthResources (cx_ParseQuantity x) annotations = Inr (ingress, egress)" and
      dns: "dnsParam options = Inr dns" and
      rt: "rt = \<lparr>rt_ContainerID = snd i, rt_NetNS = netns, rt_IfName = DefaultInterfaceName, rt_CacheDir = cni_cacheDir p,
         rt_Args = [(''IgnoreUnknown'', ''1''), (''K8S_POD_NAMESPACE'', podNs), (''K8S_POD_NAME'', podName),
           (''K8S_POD_INFRA_CONTAINER_ID'', snd i)],
         rt_CapabilityArgs = [(portMappingsCapability, CapPortMappings (toCniPortMappings pms))] @
           bandwidthParam ingress egress @ [(ipRangesCapability, CapIPRanges [[cni_podCidr p]])] @ dns\<rparr>"
    using assms unfolding buildCNIRuntimeConf_def by (auto split: prod.splits sum.splits)
  note caps = capability_lookup [OF bandwidthParam_names [of ingress egress]]
  have r: "rt_CapabilityArgs rt = [(portMappingsCapability, CapPortMappings (toCniPortMappings pms))] @
      bandwidthParam ingress egress @ [(ipRangesCapability, CapIPRanges [[cni_podCidr p]])]"
    using rt dnsParam_none [OF dns] by simp
  have n: "fst ` set (rt_CapabilityArgs rt) \<subseteq> {''portMappings'', ''bandwidth'', ''ipRanges''}"
    using bandwidthParam_names [of ingress egress] by (auto simp: r capability_names)
  show ?thesis
    using bandwidthParam_spec [OF bw] pms rt n caps(1-3,5) toCniPortMappings_spec [of pms]
    unfolding r capability_names by (simp add: DefaultInterfaceName_def)
qed

subsection \<open>Witnesses\<close>

text \<open>A library over a directory with one configuration list. The state counts the calls that add a network.\<close>

definition wConf :: NetworkConfigList where
  "wConf = \<lparr>ncl_Name = ''net'', ncl_Plugins = [''bridge''], ncl_Bytes = []\<rparr>"

definition wCni :: "nat cni_ext" where
  "wCni =
     \<lparr>cx_ConfFiles = (\<lambda>_ _ _. Inr [''10-net.conflist'']), cx_ConfListFromFile = (\<lambda>_ _. Inr wConf),
      cx_ConfFromFile = (\<lambda>_ _. Inl (Errorf ''none'')), cx_ConfListFromBytes = (\<lambda>_. Inr wConf),
      cx_ValidateNetworkList = (\<lambda>_ _ _. Inr [''portMappings'']), cx_AddNetworkList = (\<lambda>_ _ _ n. (None, Suc n)),
      cx_DelNetworkList = (\<lambda>_ _ _ n. (None, n)), cx_LookPath = (\<lambda>_ _. (''/bin/nsenter'', None)),
      cx_run = (\<lambda>_ _. ([], None)), cx_GetNetNS = (\<lambda>_ n. (Inr ''/proc/1/ns/net'', n)),
      cx_GetPodPortMappings = (\<lambda>_ n. (Inr [\<lparr>hpm_HostPort = 80, hpm_ContainerPort = 8080, hpm_Protocol = ''TCP'', hpm_HostIP = []\<rparr>], n)),
      cx_ParseQuantity = (\<lambda>s. if s = ''5k'' then Inr 5000 else Inl (Errorf ''quantities must match the regular expression''))\<rparr>"

definition wPlugin :: cniNetworkPlugin where
  "wPlugin =
     \<lparr>cni_loNetwork = Some \<lparr>cn_name = ''lo'', cn_NetworkConfig = wConf, cn_CNIConfig = [''/opt/cni/bin''], cn_Capabilities = []\<rparr>,
      cni_defaultNetwork = Some \<lparr>cn_name = ''net'', cn_NetworkConfig = wConf, cn_CNIConfig = [''/opt/cni/bin''], cn_Capabilities = [''portMappings'']\<rparr>,
      cni_nsenterPath = [], cni_confDir = ''/etc/cni'', cni_binDirs = [''/opt/cni/bin''], cni_cacheDir = ''/var'', cni_podCidr = []\<rparr>"

lemma wCni_sync: "syncNetworkConfig wCni n p = p\<lparr>cni_defaultNetwork :=
     Some \<lparr>cn_name = ''net'', cn_NetworkConfig = wConf, cn_CNIConfig = cni_binDirs p, cn_Capabilities = [''portMappings'']\<rparr>\<rparr>"
  by (simp add: syncNetworkConfig_def getDefaultCNINetwork_def wCni_def networkOfFile_def loadConfList_def
      strings_HasSuffix_def suffix_def wConf_def setDefaultNetwork_def)

lemma wCni_probe: "ProbeNetworkPlugins wCni ''/etc/cni'' ''/var'' [[], ''/opt/cni/bin''] 0 = Inr wPlugin"
proof -
  have "cx_ConfListFromBytes wCni loConfigText = Inr wConf" by (simp add: wCni_def)
  then show ?thesis by (simp add: ProbeNetworkPlugins_def Let_def getLoNetwork_def wCni_sync wPlugin_def)
qed

lemma wCni_event:
  "(cni_step wCni)\<^sup>*\<^sup>* wPlugin (wPlugin\<lparr>cni_podCidr := ''10.0.0.0/16''\<rparr>)"
proof -
  have "cni_Event NET_PLUGIN_EVENT_POD_CIDR_CHANGE [(NET_PLUGIN_EVENT_POD_CIDR_CHANGE_DETAIL_CIDR, ''10.0.0.0/16'')] wPlugin =
      wPlugin\<lparr>cni_podCidr := ''10.0.0.0/16''\<rparr>"
    by (simp add: cni_Event_def wPlugin_def)
  then show ?thesis using cni_step.cni_event [of wCni wPlugin] by (metis r_into_rtranclp)
qed

theorem cni_SetUpPod_attaches_witness:
  "cni_SetUpPodAt wCni wPlugin wPlugin (wPlugin\<lparr>cni_podCidr := ''10.0.0.0/16''\<rparr>) ''ns'' ''pod'' (''docker'', ''1'') [] [] 0 = (None, 2)"
proof -
  have c: "checkInitialized wPlugin = None"
    by (simp add: checkInitialized_def wPlugin_def ipRangesCapability_def)
  have a: "attach wCni p n ''pod'' ''ns'' (''docker'', ''1'') ''/proc/1/ns/net'' [] [] k = (None, Suc k)" for p n k
    by (simp add: attach_def buildCNIRuntimeConf_def wCni_def ExtractPodBandwidthResources_def bandwidthOf_def dnsParam_def)
  have "cx_GetNetNS wCni (snd (''docker'', ''1'')) 0 = (Inr ''/proc/1/ns/net'', 0)" by (simp add: wCni_def)
  moreover have "\<And>t l. cx_ConfListFromBytes wCni t = Inr l \<Longrightarrow> ncl_Plugins l \<noteq> []" by (auto simp: wCni_def wConf_def)
  ultimately show ?thesis
    using cni_SetUpPod_attaches [OF _ wCni_probe rtranclp.rtrancl_refl rtranclp.rtrancl_refl wCni_event,
        of "''ns''" "''pod''" "(''docker'', ''1'')" "[]" "[]" 0] c a
    by (auto simp: numeral_2_eq_2)
qed

theorem cni_runtime_conf_witness:
  "\<exists>rt cpms b. buildCNIRuntimeConf wCni wPlugin ''pod'' ''ns'' (''docker'', ''1'') ''/proc/1/ns/net''
       [(''kubernetes.io/egress-bandwidth'', ''5k'')] [] 0 = (Inr rt, 0) \<and>
     rt_NetNS rt = ''/proc/1/ns/net'' \<and> map_of (rt_CapabilityArgs rt) ''ipRanges'' = Some (CapIPRanges [[[]]]) \<and>
     map_of (rt_CapabilityArgs rt) ''portMappings'' = Some (CapPortMappings cpms) \<and>
     map (\<lambda>c. (cpm_HostPort c, cpm_ContainerPort c, cpm_Protocol c, cpm_HostIP c)) cpms = [(80, 8080, ''tcp'', [])] \<and>
     map_of (rt_CapabilityArgs rt) ''bandwidth'' = Some (CapBandwidth b) \<and> cbw_EgressRate b = 5000 \<and> cbw_IngressRate b = 0"
proof -
  let ?a = "[(''kubernetes.io/egress-bandwidth'', ''5k'')]"
  obtain rt where rt: "buildCNIRuntimeConf wCni wPlugin ''pod'' ''ns'' (''docker'', ''1'') ''/proc/1/ns/net'' ?a [] 0 = (Inr rt, 0)"
    by (simp add: buildCNIRuntimeConf_def wCni_def ExtractPodBandwidthResources_def bandwidthOf_def dnsParam_def
        validateBandwidthIsReasonable_def minRsrc_def maxRsrc_def)
  note c = cni_runtime_conf [OF rt]
  have "cx_GetPodPortMappings wCni (snd (''docker'', ''1'')) 0 =
      (Inr [\<lparr>hpm_HostPort = 80, hpm_ContainerPort = 8080, hpm_Protocol = ''TCP'', hpm_HostIP = []\<rparr>], 0)" by (simp add: wCni_def)
  with c obtain cpms where p: "map_of (rt_CapabilityArgs rt) ''portMappings'' = Some (CapPortMappings cpms)"
      "map (\<lambda>c. (cpm_HostPort c, cpm_ContainerPort c, cpm_Protocol c, cpm_HostIP c)) cpms = [(80, 8080, strings_ToLower ''TCP'', [])]"
    by auto
  obtain b where b: "map_of (rt_CapabilityArgs rt) ''bandwidth'' = Some (CapBandwidth b)"
      "annotatedRate (cx_ParseQuantity wCni) ?a ''kubernetes.io/ingress-bandwidth'' (cbw_IngressRate b) (cbw_IngressBurst b)"
      "annotatedRate (cx_ParseQuantity wCni) ?a ''kubernetes.io/egress-bandwidth'' (cbw_EgressRate b) (cbw_EgressBurst b)"
    using c by (auto split: option.splits)
  have "strings_ToLower ''TCP'' = ''tcp''" by code_simp
  then show ?thesis using rt c p b(1) b(2,3) [unfolded annotatedRate_def]
    by (intro exI [of _ rt] exI [of _ cpms] exI [of _ b]) (simp add: wPlugin_def wCni_def)
qed

end
