(* ===== verification/Kubenet.thy ===== *)
theory Kubenet
  imports Cni
begin

text \<open>
  The kubenet plugin (\<^verbatim>\<open>network/kubenet/kubenet_linux.go\<close>): a bridge configured through CNI, with the
  host ports of \<open>Hostport\<close> and the shaper of \<open>Bandwidth\<close>. The state holds the fields of the plugin that
  change, the socket maps of its two host port managers, and the state \<open>'e\<close> of the rest. The CNI
  library, netlink, ebtables, the kernel parameters, the commands and the host are interfaces.
  \<open>'r\<close> is the type of the results of the CNI library. The mutex of the plugin makes each access to
  its fields one step. The error of \<^verbatim>\<open>ReconcileInterface\<close> is ignored, as in the code; its panic on a
  line of fewer than three fields is not propagated.
\<close>

subsection \<open>Types\<close>

definition KubenetPluginName :: string where "KubenetPluginName = ''kubenet''"

definition BridgeName :: string where "BridgeName = ''cbr0''"

definition DefaultCNIDir :: string where "DefaultCNIDir = ''/opt/cni/bin''"

definition fallbackMTU :: int where "fallbackMTU = 1460"

definition dedupChain :: string where "dedupChain = ''KUBE-DEDUP''"

definition zeroCIDRv6 :: string where "zeroCIDRv6 = ''::/0''"

definition zeroCIDRv4 :: string where "zeroCIDRv4 = ''0.0.0.0/0''"

definition requiredCNIPlugins :: "string list" where
  "requiredCNIPlugins = [''bridge'', ''host-local'', ''loopback'']"

definition PromiscuousBridge :: string where "PromiscuousBridge = ''promiscuous-bridge''"

definition HairpinVeth :: string where "HairpinVeth = ''hairpin-veth''"

definition UseDefaultMTU :: int where "UseDefaultMTU = 0"

text \<open>An interface of the host, a link of netlink, and the two addresses of a CNI result.\<close>

record net_interface =
  nif_Up :: bool
  nif_Loopback :: bool
  nif_PointToPoint :: bool
  nif_MTU :: int

record netlink_link =
  lnk_Promisc :: int
  lnk_HardwareAddr :: "8 word list"

record cni_ip_config =
  cic_IP :: IPNet
  cic_Gateway :: IP

record cni_result020 =
  res_IP4 :: "cni_ip_config option"
  res_IP6 :: "cni_ip_config option"

record 'e ebtables =
  eb_FlushChain :: "string \<Rightarrow> string \<Rightarrow> 'e \<Rightarrow> goerror option \<times> 'e"
  eb_GetVersion :: "'e \<Rightarrow> goerror option \<times> 'e"
  eb_EnsureChain :: "string \<Rightarrow> string \<Rightarrow> 'e \<Rightarrow> goerror option \<times> 'e"
  eb_EnsureRule :: "string \<Rightarrow> string \<Rightarrow> string \<Rightarrow> string list \<Rightarrow> 'e \<Rightarrow> goerror option \<times> 'e"

text \<open>A network configuration of the library is its text. The two iptables are those of the managers.\<close>

record ('e, 'r) kubenet_iface =
  kx_ConfFromBytes :: "string \<Rightarrow> string result"
  kx_AddNetwork :: "string list \<Rightarrow> string option \<Rightarrow> RuntimeConf \<Rightarrow> 'e \<Rightarrow> 'r result \<times> 'e"
  kx_DelNetwork :: "string list \<Rightarrow> string option \<Rightarrow> RuntimeConf \<Rightarrow> 'e \<Rightarrow> goerror option \<times> 'e"
  kx_GetResult :: "'r \<Rightarrow> cni_result020 result"
  kx_GetNetNS :: "string \<Rightarrow> 'e \<Rightarrow> string result \<times> 'e"
  kx_GetPodPortMappings :: "string \<Rightarrow> 'e \<Rightarrow> hostport_mapping list result \<times> 'e"
  kx_ParseQuantity :: "string \<Rightarrow> int result"
  kx_LookPath :: "string \<Rightarrow> 'e \<Rightarrow> string \<times> goerror option"
  kx_command :: "string list \<Rightarrow> 'e \<Rightarrow> (string \<times> goerror option) \<times> 'e"
  kx_run :: "string list \<Rightarrow> 'e \<Rightarrow> string \<times> goerror option"
  kx_tc :: "'e tc_cmd"
  kx_sysctl :: "'e sysctl_iface"
  kx_hostport :: "'e hostportManager"
  kx_hostportv6 :: "'e hostportManager"
  kx_ebtables :: "'e ebtables"
  kx_Interfaces :: "'e \<Rightarrow> net_interface list result"
  kx_ReadDir :: "string \<Rightarrow> 'e \<Rightarrow> string list result"
  kx_LinkByName :: "string \<Rightarrow> 'e \<Rightarrow> netlink_link result"
  kx_SetPromiscOn :: "netlink_link \<Rightarrow> 'e \<Rightarrow> goerror option \<times> 'e"
  kx_AddrList :: "netlink_link \<Rightarrow> 'e \<Rightarrow> IPNet list result"
  kx_AddrDel :: "netlink_link \<Rightarrow> IPNet \<Rightarrow> 'e \<Rightarrow> 'e"

record 'e kubenet =
  kn_netConfig :: "string option"
  kn_loConfig :: "string option"
  kn_shaper :: bool
  kn_podIPs :: "(container_id \<times> string list) list"
  kn_mtu :: int
  kn_nsenterPath :: string
  kn_hairpinMode :: string
  kn_ebtables :: bool
  kn_binDirs :: "string list"
  kn_nonMasqueradeCIDR :: string
  kn_cacheDir :: string
  kn_podCIDRs :: "IPNet list"
  kn_hostportMap :: "(hostport \<times> nat) list"
  kn_hostportMapv6 :: "(hostport \<times> nat) list"
  kn_env :: 'e

definition knEnv :: "('e \<Rightarrow> 'a \<times> 'e) \<Rightarrow> 'e kubenet \<Rightarrow> 'a \<times> 'e kubenet" where
  "knEnv f s = (case f (kn_env s) of (a, e) \<Rightarrow> (a, s\<lparr>kn_env := e\<rparr>))"

definition NewPlugin :: "string list \<Rightarrow> string \<Rightarrow> 'e \<Rightarrow> 'e kubenet" where
  "NewPlugin networkPluginDirs cacheDir e =
     \<lparr>kn_netConfig = None, kn_loConfig = None, kn_shaper = False, kn_podIPs = [], kn_mtu = 0, kn_nsenterPath = [],
      kn_hairpinMode = [], kn_ebtables = False, kn_binDirs = DefaultCNIDir # networkPluginDirs,
      kn_nonMasqueradeCIDR = ''10.0.0.0/8'', kn_cacheDir = cacheDir, kn_podCIDRs = [], kn_hostportMap = [],
      kn_hostportMapv6 = [], kn_env = e\<rparr>"

subsection \<open>Initialisation\<close>

definition ensureMasqRule :: "('e, 'r) kubenet_iface \<Rightarrow> 'e kubenet \<Rightarrow> goerror option \<times> 'e kubenet" where
  "ensureMasqRule x s =
     (let cidr = kn_nonMasqueradeCIDR s in
      if cidr \<noteq> zeroCIDRv4 \<and> cidr \<noteq> zeroCIDRv6 then
        let ipt = hmg_iptables (if IsIPv6CIDRString cidr then kx_hostportv6 x else kx_hostport x) in
        (case knEnv (ipt_EnsureRule ipt posAppend TableNAT ''POSTROUTING''
             [''-m'', ''comment'', ''--comment'', ''kubenet: SNAT for outbound traffic from cluster'',
              ''-m'', ''addrtype'', ''!'', ''--dst-type'', ''LOCAL'', ''!'', ''-d'', cidr, ''-j'', ''MASQUERADE'']) s of
           ((_, Some err), s) \<Rightarrow>
             (Some (Errorf (''failed to ensure that '' @ TableNAT @ '' chain POSTROUTING jumps to MASQUERADE: '' @ Error err)), s)
         | ((_, None), s) \<Rightarrow> (None, s))
      else (None, s))"

definition findMinMTU :: "('e, 'r) kubenet_iface \<Rightarrow> 'e \<Rightarrow> net_interface result" where
  "findMinMTU x e =
     (case kx_Interfaces x e of
        Inl err \<Rightarrow> Inl err
      | Inr intfs \<Rightarrow>
          (case foldl (\<lambda>(mtu, def) intf.
                  if nif_Up intf \<and> \<not> nif_Loopback intf \<and> \<not> nif_PointToPoint intf \<and> nif_MTU intf < mtu
                  then (nif_MTU intf, Some intf) else (mtu, def)) (999999, None) intfs of
             (mtu, def) \<Rightarrow>
               if mtu \<ge> 999999 \<or> mtu < 576 then Inl (Errorf (''no suitable interface: '' @ BridgeName))
               else (case def of
                       None \<Rightarrow> Inl (Errorf (''no suitable interface: '' @ BridgeName))
                     | Some intf \<Rightarrow> Inr intf)))"

definition loopbackText :: string where
  "loopbackText =
     strings_Join [''{'', ''  '' @ jsonQuote ''cniVersion'' @ '': '' @ jsonQuote ''0.1.0'' @ '','',
       ''  '' @ jsonQuote ''name'' @ '': '' @ jsonQuote ''kubenet-loopback'' @ '','',
       ''  '' @ jsonQuote ''type'' @ '': '' @ jsonQuote ''loopback'', ''}''] [newline]"

definition kubenet_Init :: "('e, 'r) kubenet_iface \<Rightarrow> string \<Rightarrow> string \<Rightarrow> int \<Rightarrow> 'e kubenet \<Rightarrow> goerror option \<times> 'e kubenet" where
  "kubenet_Init x hairpinMode nonMasqueradeCIDR mtu s =
     (let mtu = (if mtu = UseDefaultMTU then
                   (case findMinMTU x (kn_env s) of Inr link \<Rightarrow> nif_MTU link | Inl _ \<Rightarrow> fallbackMTU)
                 else mtu);
          s = s\<lparr>kn_hairpinMode := hairpinMode, kn_nonMasqueradeCIDR := nonMasqueradeCIDR, kn_mtu := mtu\<rparr>;
          s = snd (knEnv (kx_command x [''modprobe'', ''br-netfilter'']) s);
          s = snd (knEnv (sys_SetSysctl (kx_sysctl x) sysctlBridgeCallIPTables 1) s)
      in case kx_ConfFromBytes x loopbackText of
           Inl err \<Rightarrow> (Some (Errorf (''failed to generate loopback config: '' @ Error err)), s\<lparr>kn_loConfig := None\<rparr>)
         | Inr lo \<Rightarrow>
             (case kx_LookPath x ''nsenter'' (kn_env s) of
                (path, err) \<Rightarrow>
                  let s = s\<lparr>kn_loConfig := Some lo, kn_nsenterPath := path\<rparr> in
                  (case err of
                     Some err \<Rightarrow> (Some (Errorf (''failed to find nsenter binary: '' @ Error err)), s)
                   | None \<Rightarrow> ensureMasqRule x s)))"

subsection \<open>The pod CIDR\<close>

definition getRangesConfig :: "IPNet list \<Rightarrow> string" where
  "getRangesConfig podCIDRs =
     strings_Join (map (\<lambda>n. strings_Join [[], ''[{'', jsonQuote ''subnet'' @ '': '' @ [CHR 0x22] @ IPNet_String n @ [CHR 0x22], ''}]''] [newline])
       podCIDRs) '',''"

definition getRoutesConfig :: "IPNet list \<Rightarrow> string" where
  "getRoutesConfig podCIDRs =
     (let route = (\<lambda>dst. ''{'' @ jsonQuote ''dst'' @ '': '' @ jsonQuote dst @ ''}'') in
      strings_Join
        ((if list_ex (\<lambda>n. IP_To4 (net_IP n) \<noteq> []) podCIDRs then [route zeroCIDRv4] else []) @
         (if list_ex (\<lambda>n. IP_To4 (net_IP n) = []) podCIDRs then [route zeroCIDRv6] else [])) '','')"

definition netConfigText :: "int \<Rightarrow> bool \<Rightarrow> IPNet list \<Rightarrow> string" where
  "netConfigText mtu setHairpin podCIDRs =
     strings_Join [''{'', ''  '' @ jsonQuote ''cniVersion'' @ '': '' @ jsonQuote ''0.1.0'' @ '','',
       ''  '' @ jsonQuote ''name'' @ '': '' @ jsonQuote ''kubenet'' @ '','',
       ''  '' @ jsonQuote ''type'' @ '': '' @ jsonQuote ''bridge'' @ '','',
       ''  '' @ jsonQuote ''bridge'' @ '': '' @ jsonQuote BridgeName @ '','',
       ''  '' @ jsonQuote ''mtu'' @ '': '' @ fmt_int mtu @ '','',
       ''  '' @ jsonQuote ''addIf'' @ '': '' @ jsonQuote DefaultInterfaceName @ '','',
       ''  '' @ jsonQuote ''isGateway'' @ '': true,'',
       ''  '' @ jsonQuote ''ipMasq'' @ '': false,'',
       ''  '' @ jsonQuote ''hairpinMode'' @ '': '' @ (if setHairpin then ''true'' else ''false'') @ '','',
       ''  '' @ jsonQuote ''ipam'' @ '': {'',
       ''    '' @ jsonQuote ''type'' @ '': '' @ jsonQuote ''host-local'' @ '','',
       ''    '' @ jsonQuote ''ranges'' @ '': ['' @ getRangesConfig podCIDRs @ ''],'',
       ''    '' @ jsonQuote ''routes'' @ '': ['' @ getRoutesConfig podCIDRs @ '']'',
       ''  }'', ''}''] [newline]"

text \<open>\<^verbatim>\<open>IPNet.Contains\<close> and \<^verbatim>\<open>IPNetEqual\<close>: equal masks, and each contains the address of the other.\<close>

definition networkNumberAndMask :: "IPNet \<Rightarrow> IP \<times> 8 word list" where
  "networkNumberAndMask n =
     (let ip = (if IP_To4 (net_IP n) \<noteq> [] then IP_To4 (net_IP n) else if length (net_IP n) = 16 then net_IP n else []);
          m = net_Mask n
      in if ip = [] then ([], [])
         else if length m = 4 then (if length ip = 4 then (ip, m) else ([], []))
         else if length m = 16 then (ip, if length ip = 4 then drop 12 m else m)
         else ([], []))"

definition IPNet_Contains :: "IPNet \<Rightarrow> IP \<Rightarrow> bool" where
  "IPNet_Contains n ip =
     (case networkNumberAndMask n of (nn, m) \<Rightarrow>
        let ip = (if IP_To4 ip \<noteq> [] then IP_To4 ip else ip) in
        length ip = length nn \<and> list_all (\<lambda>((a, k), b). a AND k = b AND k) (zip (zip nn m) ip))"

definition IPNetEqual :: "IPNet \<Rightarrow> IPNet \<Rightarrow> bool" where
  "IPNetEqual a b \<longleftrightarrow> net_Mask a = net_Mask b \<and> IPNet_Contains a (net_IP b) \<and> IPNet_Contains b (net_IP a)"

definition clearUnusedBridgeAddresses :: "('e, 'r) kubenet_iface \<Rightarrow> 'e kubenet \<Rightarrow> 'e kubenet" where
  "clearUnusedBridgeAddresses x s =
     (case kx_LinkByName x BridgeName (kn_env s) of
        Inl _ \<Rightarrow> s
      | Inr bridge \<Rightarrow>
          (case kx_AddrList x bridge (kn_env s) of
             Inl _ \<Rightarrow> s
           | Inr addrs \<Rightarrow>
               s\<lparr>kn_env := foldl (\<lambda>e addr. kx_AddrDel x bridge addr e) (kn_env s)
                    (filter (\<lambda>addr. \<not> list_ex (\<lambda>thisNet. IPNetEqual thisNet addr) (kn_podCIDRs s)) addrs)\<rparr>))"

text \<open>The loop over the CIDRs adds those before the first that does not parse.\<close>

fun addPodCIDRs :: "string list \<Rightarrow> IPNet list \<Rightarrow> bool \<times> IPNet list" where
  "addPodCIDRs [] cidrs = (True, cidrs)"
| "addPodCIDRs (c # cs) cidrs =
     (case net_ParseCIDR c of
        Inl _ \<Rightarrow> (False, cidrs)
      | Inr (_, cidr) \<Rightarrow> addPodCIDRs cs (cidrs @ [cidr]))"

definition kubenet_Event :: "('e, 'r) kubenet_iface \<Rightarrow> bool \<Rightarrow> string \<Rightarrow> gomap \<Rightarrow> 'e kubenet \<Rightarrow> 'e kubenet" where
  "kubenet_Event x dual name details s =
     (if name \<noteq> NET_PLUGIN_EVENT_POD_CIDR_CHANGE then s
      else (case map_of details NET_PLUGIN_EVENT_POD_CIDR_CHANGE_DETAIL_CIDR of
              None \<Rightarrow> s
            | Some podCIDR \<Rightarrow>
                if kn_netConfig s \<noteq> None then s
                else
                  let podCIDRs = strings_Split podCIDR (CHR '','');
                      podCIDRs = (if \<not> dual \<and> length podCIDRs > 1 then take 1 podCIDRs else podCIDRs)
                  in (case addPodCIDRs podCIDRs (kn_podCIDRs s) of
                        (ok, cidrs) \<Rightarrow>
                          let s = s\<lparr>kn_podCIDRs := cidrs\<rparr> in
                          if \<not> ok then s
                          else (case kx_ConfFromBytes x (netConfigText (kn_mtu s) (kn_hairpinMode s = HairpinVeth) cidrs) of
                                  Inl _ \<Rightarrow> clearUnusedBridgeAddresses x (s\<lparr>kn_netConfig := None\<rparr>)
                                | Inr c \<Rightarrow> s\<lparr>kn_netConfig := Some c\<rparr>))))"

subsection \<open>Recorded addresses\<close>

definition addPodIP :: "container_id \<Rightarrow> string \<Rightarrow> 'e kubenet \<Rightarrow> 'e kubenet" where
  "addPodIP i ip s =
     s\<lparr>kn_podIPs := mapSet (kn_podIPs s) i
         (List.insert ip (case map_of (kn_podIPs s) i of None \<Rightarrow> [] | Some ips \<Rightarrow> ips))\<rparr>"

definition removePodIP :: "container_id \<Rightarrow> string \<Rightarrow> 'e kubenet \<Rightarrow> 'e kubenet" where
  "removePodIP i ip s =
     (case map_of (kn_podIPs s) i of
        None \<Rightarrow> s
      | Some ips \<Rightarrow>
          let ips = filter (\<lambda>p. p \<noteq> ip) ips in
          s\<lparr>kn_podIPs := (if length ips = 0 then AList.delete i (kn_podIPs s) else mapSet (kn_podIPs s) i ips)\<rparr>)"

definition getCachedPodIPs :: "container_id \<Rightarrow> 'e kubenet \<Rightarrow> string list option" where
  "getCachedPodIPs i s = map_of (kn_podIPs s) i"

definition kubenet_networkStatus :: "container_id \<Rightarrow> 'e kubenet \<Rightarrow> PodNetworkStatus option" where
  "kubenet_networkStatus i s =
     (case getCachedPodIPs i s of
        None \<Rightarrow> None
      | Some iplist \<Rightarrow>
          if length iplist = 0 then None
          else let ips = map net_ParseIP iplist in
               Some \<lparr>pns_IP = IP_String (ips ! 0), pns_IPs = map IP_String ips\<rparr>)"

subsection \<open>CNI calls\<close>

text \<open>A namespace that is not found is the empty path, whether it is needed or not.\<close>

definition kubenet_runtimeConf :: "('e, 'r) kubenet_iface \<Rightarrow> string \<Rightarrow> container_id \<Rightarrow> 'e kubenet \<Rightarrow> RuntimeConf \<times> 'e kubenet" where
  "kubenet_runtimeConf x ifName i s =
     (case knEnv (kx_GetNetNS x (snd i)) s of (r, s) \<Rightarrow>
        (\<lparr>rt_ContainerID = snd i, rt_NetNS = (case r of Inl _ \<Rightarrow> [] | Inr path \<Rightarrow> path), rt_IfName = ifName,
          rt_CacheDir = kn_cacheDir s, rt_Args = [], rt_CapabilityArgs = []\<rparr>, s))"

definition addContainerToNetwork ::
    "('e, 'r) kubenet_iface \<Rightarrow> string option \<Rightarrow> string \<Rightarrow> container_id \<Rightarrow> 'e kubenet \<Rightarrow> 'r result \<times> 'e kubenet" where
  "addContainerToNetwork x conf ifName i s =
     (case kubenet_runtimeConf x ifName i s of (rt, s) \<Rightarrow>
        (case knEnv (kx_AddNetwork x (kn_binDirs s) conf rt) s of
           (Inl err, s) \<Rightarrow> (Inl (Errorf (''error adding container to network: '' @ Error err)), s)
         | (Inr res, s) \<Rightarrow> (Inr res, s)))"

definition delContainerFromNetwork ::
    "('e, 'r) kubenet_iface \<Rightarrow> string option \<Rightarrow> string \<Rightarrow> container_id \<Rightarrow> 'e kubenet \<Rightarrow> goerror option \<times> 'e kubenet" where
  "delContainerFromNetwork x conf ifName i s =
     (case kubenet_runtimeConf x ifName i s of (rt, s) \<Rightarrow>
        (case knEnv (kx_DelNetwork x (kn_binDirs s) conf rt) s of
           (Some err, s) \<Rightarrow>
             if strings_Contains (Error err) ''no such file or directory'' then (None, s)
             else (Some (Errorf (''error removing container from network: '' @ Error err)), s)
         | (None, s) \<Rightarrow> (None, s)))"

subsection \<open>Shaping and host ports\<close>

definition kubenet_shaper :: "('e, 'r) kubenet_iface \<Rightarrow> 'e kubenet \<Rightarrow> 'e shaper \<times> 'e kubenet" where
  "kubenet_shaper x s =
     (let sh = NewTCShaper (kx_tc x) BridgeName in
      (sh, if kn_shaper s then s else snd (knEnv (sh_ReconcileInterface sh) (s\<lparr>kn_shaper := True\<rparr>))))"

definition idPlain :: "container_id \<Rightarrow> string" where
  "idPlain i = ''{'' @ fst i @ '' '' @ snd i @ ''}''"

definition podCIDR :: "string \<Rightarrow> string" where
  "podCIDR ip = ip @ ''/'' @ (if IsIPv6String ip then ''128'' else ''32'')"

fun shapeIPs :: "'e shaper \<Rightarrow> int option \<Rightarrow> int option \<Rightarrow> string list \<Rightarrow> 'e kubenet \<Rightarrow> goerror option \<times> 'e kubenet" where
  "shapeIPs sh egress ingress [] s = (None, s)"
| "shapeIPs sh egress ingress (ip # ips) s =
     (case knEnv (sh_ReconcileCIDR sh (podCIDR ip) egress ingress) s of
        (Some err, s) \<Rightarrow> (Some (Errorf (''failed to add pod to shaper: '' @ Error err)), s)
      | (None, s) \<Rightarrow> shapeIPs sh egress ingress ips s)"

definition addTrafficShaping :: "('e, 'r) kubenet_iface \<Rightarrow> container_id \<Rightarrow> gomap \<Rightarrow> 'e kubenet \<Rightarrow> goerror option \<times> 'e kubenet" where
  "addTrafficShaping x i annotations s =
     (case kubenet_shaper x s of (sh, s) \<Rightarrow>
        (case ExtractPodBandwidthResources (kx_ParseQuantity x) annotations of
           Inl err \<Rightarrow> (Some (Errorf (''error reading pod bandwidth annotations: '' @ Error err)), s)
         | Inr (ingress, egress) \<Rightarrow>
             (case getCachedPodIPs i s of
                None \<Rightarrow> (Some (Errorf (''pod '' @ idPlain i @ '' does not have recorded ips'')), s)
              | Some iplist \<Rightarrow>
                  if egress \<noteq> None \<or> ingress \<noteq> None then shapeIPs sh egress ingress iplist s else (None, s))))"

text \<open>A call of the manager of one family, on its map of sockets.\<close>

definition onHostports ::
    "('e, 'r) kubenet_iface \<Rightarrow> bool \<Rightarrow> ('e hostportManager \<Rightarrow> 'e hp_state \<Rightarrow> 'a \<times> 'e hp_state) \<Rightarrow> 'e kubenet \<Rightarrow> 'a \<times> 'e kubenet" where
  "onHostports x v6 f s =
     (if v6 then
        (case f (kx_hostportv6 x) \<lparr>hps_env = kn_env s, hps_map = kn_hostportMapv6 s\<rparr> of
           (r, h) \<Rightarrow> (r, s\<lparr>kn_env := hps_env h, kn_hostportMapv6 := hps_map h\<rparr>))
      else
        (case f (kx_hostport x) \<lparr>hps_env = kn_env s, hps_map = kn_hostportMap s\<rparr> of
           (r, h) \<Rightarrow> (r, s\<lparr>kn_env := hps_env h, kn_hostportMap := hps_map h\<rparr>)))"

fun addMappings ::
    "('e, 'r) kubenet_iface \<Rightarrow> string \<Rightarrow> (IP \<Rightarrow> PodPortMapping) \<Rightarrow> string list \<Rightarrow> 'e kubenet \<Rightarrow> goerror option \<times> 'e kubenet" where
  "addMappings x podID mk [] s = (None, s)"
| "addMappings x podID mk (ip # ips) s =
     (let pm = mk (net_ParseIP ip) in
      case onHostports x (IsIPv6 (ppm_IP pm)) (\<lambda>hm. hostport_Add hm podID (Some pm) BridgeName) s of
        (Some err, s) \<Rightarrow> (Some err, s)
      | (None, s) \<Rightarrow> addMappings x podID mk ips s)"

definition addPortMapping :: "('e, 'r) kubenet_iface \<Rightarrow> container_id \<Rightarrow> string \<Rightarrow> string \<Rightarrow> 'e kubenet \<Rightarrow> goerror option \<times> 'e kubenet" where
  "addPortMapping x i name nspace s =
     (case knEnv (kx_GetPodPortMappings x (snd i)) s of
        (Inl err, s) \<Rightarrow> (Some err, s)
      | (Inr portMappings, s) \<Rightarrow>
          if length portMappings = 0 then (None, s)
          else (case getCachedPodIPs i s of
                  None \<Rightarrow> (Some (Errorf (''pod '' @ idPlain i @ '' does not have recorded ips'')), s)
                | Some iplist \<Rightarrow>
                    addMappings x (snd i)
                      (\<lambda>ip. \<lparr>ppm_Namespace = nspace, ppm_Name = name, ppm_PortMappings = portMappings,
                             ppm_HostNetwork = False, ppm_IP = ip\<rparr>) iplist s))"

subsection \<open>The bridge\<close>

definition macText :: "8 word list \<Rightarrow> string" where
  "macText mac = strings_Join (map (\<lambda>b. hexBytes [b]) mac) '':''"

fun dedupRules :: "'e ebtables \<Rightarrow> string \<Rightarrow> (IP \<times> IPNet) list \<Rightarrow> 'e \<Rightarrow> 'e" where
  "dedupRules eb mac [] e = e"
| "dedupRules eb mac ((gw, cidr) # rest) e =
     (let v6 = IsIPv6 gw;
          commonArgs = [''-p'', if v6 then ''IPv6'' else ''IPv4'', ''-s'', mac, ''-o'', ''veth+''];
          ipSrc = (if v6 then ''--ip6-src'' else ''--ip-src'')
      in case eb_EnsureRule eb posPrepend ''filter'' dedupChain (commonArgs @ [ipSrc, IP_String gw, ''-j'', ''ACCEPT'']) e of
           (Some _, e) \<Rightarrow> e
         | (None, e) \<Rightarrow>
             (case eb_EnsureRule eb posAppend ''filter'' dedupChain (commonArgs @ [ipSrc, IPNet_String cidr, ''-j'', ''DROP'']) e of
                (Some _, e) \<Rightarrow> e
              | (None, e) \<Rightarrow> dedupRules eb mac rest e))"

definition syncEbtablesDedupRules ::
    "('e, 'r) kubenet_iface \<Rightarrow> 8 word list \<Rightarrow> IPNet list \<Rightarrow> IP list \<Rightarrow> 'e kubenet \<Rightarrow> 'e kubenet" where
  "syncEbtablesDedupRules x macAddr podCIDRs podGateways s =
     (let eb = kx_ebtables x;
          s = (if kn_ebtables s then s else snd (knEnv (eb_FlushChain eb ''filter'' dedupChain) (s\<lparr>kn_ebtables := True\<rparr>)))
      in case knEnv (eb_GetVersion eb) s of
           (Some _, s) \<Rightarrow> s
         | (None, s) \<Rightarrow>
             (case knEnv (eb_EnsureChain eb ''filter'' dedupChain) s of
                (Some _, s) \<Rightarrow> s
              | (None, s) \<Rightarrow>
                  (case knEnv (eb_EnsureRule eb posAppend ''filter'' ''OUTPUT'' [''-j'', dedupChain]) s of
                     (Some _, s) \<Rightarrow> s
                   | (None, s) \<Rightarrow>
                       s\<lparr>kn_env := dedupRules eb (macText macAddr) (zip podGateways podCIDRs) (kn_env s)\<rparr>)))"

definition disableContainerDAD :: "('e, 'r) kubenet_iface \<Rightarrow> container_id \<Rightarrow> 'e kubenet \<Rightarrow> goerror option \<times> 'e kubenet" where
  "disableContainerDAD x i s =
     (let key = ''net/ipv6/conf/default/dad_transmits'' in
      case kx_LookPath x ''sysctl'' (kn_env s) of
        (_, Some err) \<Rightarrow> (Some (Errorf (''could not find sysctl binary: '' @ Error err)), s)
      | (sysctlBin, None) \<Rightarrow>
          (case knEnv (kx_GetNetNS x (snd i)) s of
             (Inl err, s) \<Rightarrow> (Some (Errorf (''failed to get netns: '' @ Error err)), s)
           | (Inr netnsPath, s) \<Rightarrow>
               if netnsPath = [] then (Some (Errorf ''pod has no network namespace''), s)
               else
                 (case knEnv (sys_GetSysctl (kx_sysctl x) key) s of
                    (Inl err, s) \<Rightarrow> (Some (Errorf (''ipv6 not enabled: '' @ Error err)), s)
                  | (Inr _, s) \<Rightarrow>
                      (case knEnv (kx_command x [kn_nsenterPath s, ''--net='' @ netnsPath, ''-F'', ''--'', sysctlBin, ''-w'', key @ ''=0'']) s of
                         ((output, Some err), s) \<Rightarrow>
                           (Some (Errorf (''failed to write sysctl: output: '' @ output @ '' error: '' @ Error err)), s)
                       | ((_, None), s) \<Rightarrow> (None, s)))))"

subsection \<open>Pods\<close>

definition checkRequiredCNIPluginsInOneDir :: "('e, 'r) kubenet_iface \<Rightarrow> 'e \<Rightarrow> string \<Rightarrow> bool" where
  "checkRequiredCNIPluginsInOneDir x e dir =
     (case kx_ReadDir x dir e of
        Inl _ \<Rightarrow> False
      | Inr files \<Rightarrow> list_all (\<lambda>cniPlugin. list_ex (\<lambda>file. strings_TrimSpace file = cniPlugin) files) requiredCNIPlugins)"

definition kubenet_Status :: "('e, 'r) kubenet_iface \<Rightarrow> 'e kubenet \<Rightarrow> goerror option" where
  "kubenet_Status x s =
     (if kn_netConfig s = None then
        Some (Errorf ''kubenet does not have netConfig. This is most likely due to lack of PodCIDR'')
      else if \<not> list_ex (checkRequiredCNIPluginsInOneDir x (kn_env s)) (kn_binDirs s) then
        Some (Errorf (''could not locate kubenet required CNI plugins ['' @ strings_Join requiredCNIPlugins '' '' @ ''] at ['' @
                 strings_Join (map fmt_q (kn_binDirs s)) '' '' @ '']''))
      else None)"

definition setPromiscuous :: "('e, 'r) kubenet_iface \<Rightarrow> IPNet list \<Rightarrow> IP list \<Rightarrow> 'e kubenet \<Rightarrow> goerror option \<times> 'e kubenet" where
  "setPromiscuous x podCIDRs podGateways s =
     (if kn_hairpinMode s \<noteq> PromiscuousBridge then (None, s)
      else (case kx_LinkByName x BridgeName (kn_env s) of
              Inl err \<Rightarrow> (Some (Errorf (''failed to lookup '' @ fmt_q BridgeName @ '': '' @ Error err)), s)
            | Inr link \<Rightarrow>
                (case (if lnk_Promisc link \<noteq> 1 then knEnv (kx_SetPromiscOn x link) s else (None, s)) of
                   (Some err, s) \<Rightarrow> (Some (Errorf (''error setting promiscuous mode on '' @ BridgeName @ '': '' @ Error err)), s)
                 | (None, s) \<Rightarrow> (None, syncEbtablesDedupRules x (lnk_HardwareAddr link) podCIDRs podGateways s))))"

text \<open>The addresses of a result with their networks and gateways.\<close>

definition resultIPv4 :: "cni_result020 \<Rightarrow> IP" where
  "resultIPv4 res = (case res_IP4 res of None \<Rightarrow> [] | Some c \<Rightarrow> IP_To4 (net_IP (cic_IP c)))"

definition resultIPv6 :: "cni_result020 \<Rightarrow> IP" where
  "resultIPv6 res = (case res_IP6 res of None \<Rightarrow> [] | Some c \<Rightarrow> net_IP (cic_IP c))"

definition resultNetworks :: "cni_result020 \<Rightarrow> (IP \<times> IPNet) list" where
  "resultNetworks res =
     (case res_IP4 res of None \<Rightarrow> []
      | Some c \<Rightarrow> [(cic_Gateway c, \<lparr>net_IP = IP_Mask (resultIPv4 res) (net_Mask (cic_IP c)), net_Mask = net_Mask (cic_IP c)\<rparr>)]) @
     (case res_IP6 res of None \<Rightarrow> []
      | Some c \<Rightarrow> [(cic_Gateway c, \<lparr>net_IP = IP_Mask (resultIPv6 res) (net_Mask (cic_IP c)), net_Mask = net_Mask (cic_IP c)\<rparr>)])"

definition recordIPs :: "container_id \<Rightarrow> cni_result020 \<Rightarrow> 'e kubenet \<Rightarrow> 'e kubenet" where
  "recordIPs i res s =
     (let s = (if resultIPv4 res \<noteq> [] then addPodIP i (IP_String (resultIPv4 res)) s else s)
      in if resultIPv6 res \<noteq> [] then addPodIP i (IP_String (resultIPv6 res)) s else s)"

definition kubenet_setup ::
    "('e, 'r) kubenet_iface \<Rightarrow> string \<Rightarrow> string \<Rightarrow> container_id \<Rightarrow> gomap \<Rightarrow> 'e kubenet \<Rightarrow> goerror option \<times> 'e kubenet" where
  "kubenet_setup x nspace name i annotations s =
     (let s = snd (disableContainerDAD x i s) in
      case addContainerToNetwork x (kn_loConfig s) ''lo'' i s of
        (Inl err, s) \<Rightarrow> (Some err, s)
      | (Inr _, s) \<Rightarrow>
          (case addContainerToNetwork x (kn_netConfig s) DefaultInterfaceName i s of
             (Inl err, s) \<Rightarrow> (Some err, s)
           | (Inr resT, s) \<Rightarrow>
               (case kx_GetResult x resT of
                  Inl err \<Rightarrow> (Some (Errorf (''unable to understand network config: '' @ Error err)), s)
                | Inr res \<Rightarrow>
                    if resultIPv4 res = [] \<and> resultIPv6 res = [] then (Some (Errorf (''cni didn'' @ [CHR 0x27] @ ''t report ipv4 ipv6'')), s)
                    else
                      (case setPromiscuous x (map snd (resultNetworks res)) (map fst (resultNetworks res)) s of
                         (Some err, s) \<Rightarrow> (Some err, s)
                       | (None, s) \<Rightarrow>
                           (case addTrafficShaping x i annotations (recordIPs i res s) of
                              (Some err, s) \<Rightarrow> (Some err, s)
                            | (None, s) \<Rightarrow> addPortMapping x i name nspace s)))))"

text \<open>The loop of \<^verbatim>\<open>teardown\<close> over the recorded addresses, with the errors so far.\<close>

fun teardownIPs ::
    "('e, 'r) kubenet_iface \<Rightarrow> container_id \<Rightarrow> PodPortMapping \<Rightarrow> string list \<Rightarrow> goerror list \<Rightarrow> 'e kubenet \<Rightarrow> goerror list \<times> 'e kubenet" where
  "teardownIPs x i pm [] errList s = (errList, s)"
| "teardownIPs x i pm (ip # ips) errList s =
     (case (if length (ppm_PortMappings pm) > 0 then
              onHostports x (IsIPv6String ip) (\<lambda>hm. hostport_Remove hm (snd i) (Some pm)) s
            else (None, s)) of
        (err, s) \<Rightarrow>
          let errList = (case err of None \<Rightarrow> errList | Some err \<Rightarrow> errList @ [err]) in
          (case kubenet_shaper x s of (sh, s) \<Rightarrow>
             let s = snd (knEnv (sh_Reset sh (podCIDR ip)) s)
             in teardownIPs x i pm ips errList (removePodIP i ip s)))"

definition kubenet_teardown ::
    "('e, 'r) kubenet_iface \<Rightarrow> string \<Rightarrow> string \<Rightarrow> container_id \<Rightarrow> 'e kubenet \<Rightarrow> goerror option \<times> 'e kubenet" where
  "kubenet_teardown x nspace name i s =
     (case delContainerFromNetwork x (kn_loConfig s) ''lo'' i s of (err1, s) \<Rightarrow>
        (case delContainerFromNetwork x (kn_netConfig s) DefaultInterfaceName i s of (err2, s) \<Rightarrow>
           let errList = List.map_filter (\<lambda>e. e) [err1, err2] in
           (case getCachedPodIPs i s of
              None \<Rightarrow> (None, s)
            | Some iplist \<Rightarrow>
                if length iplist = 0 then (None, s)
                else
                  (case knEnv (kx_GetPodPortMappings x (snd i)) s of (r, s) \<Rightarrow>
                     let errList = (case r of Inl err \<Rightarrow> errList @ [err] | Inr _ \<Rightarrow> errList);
                         portMappings = (case r of Inl _ \<Rightarrow> [] | Inr pms \<Rightarrow> pms)
                     in (case teardownIPs x i \<lparr>ppm_Namespace = nspace, ppm_Name = name, ppm_PortMappings = portMappings,
                                 ppm_HostNetwork = False, ppm_IP = []\<rparr> iplist errList s of
                           (errList, s) \<Rightarrow> (api_NewAggregate (map Some errList), s))))))"

definition kubenet_SetUpPod ::
    "('e, 'r) kubenet_iface \<Rightarrow> string \<Rightarrow> string \<Rightarrow> container_id \<Rightarrow> gomap \<Rightarrow> gomap \<Rightarrow> 'e kubenet \<Rightarrow> goerror option \<times> 'e kubenet" where
  "kubenet_SetUpPod x nspace name i annotations options s =
     (case kubenet_Status x s of
        Some err \<Rightarrow> (Some (Errorf (''kubenet cannot SetUpPod: '' @ Error err)), s)
      | None \<Rightarrow>
          (case kubenet_setup x nspace name i annotations s of
             (Some err, s) \<Rightarrow> (Some err, snd (kubenet_teardown x nspace name i s))
           | (None, s) \<Rightarrow> (None, snd (ensureMasqRule x s))))"

definition kubenet_TearDownPod ::
    "('e, 'r) kubenet_iface \<Rightarrow> string \<Rightarrow> string \<Rightarrow> container_id \<Rightarrow> 'e kubenet \<Rightarrow> goerror option \<times> 'e kubenet" where
  "kubenet_TearDownPod x nspace name i s =
     (if kn_netConfig s = None then (Some (Errorf ''kubenet needs a PodCIDR to tear down pods''), s)
      else (case kubenet_teardown x nspace name i s of
              (Some err, s) \<Rightarrow> (Some err, s)
            | (None, s) \<Rightarrow> (None, snd (ensureMasqRule x s))))"

definition kubenet_GetPodNetworkStatus ::
    "('e, 'r) kubenet_iface \<Rightarrow> bool \<Rightarrow> string \<Rightarrow> string \<Rightarrow> container_id \<Rightarrow> 'e kubenet \<Rightarrow> PodNetworkStatus option result \<times> 'e kubenet" where
  "kubenet_GetPodNetworkStatus x dual nspace name i s =
     (case kubenet_networkStatus i s of
        Some st \<Rightarrow> (Inr (Some st), s)
      | None \<Rightarrow>
          (case knEnv (kx_GetNetNS x (snd i)) s of
             (Inl err, s) \<Rightarrow> (Inl (Errorf (''kubenet failed to retrieve network namespace path: '' @ Error err)), s)
           | (Inr netnsPath, s) \<Rightarrow>
               if netnsPath = [] then
                 (Inl (Errorf (''cannot find the network namespace, skipping pod network status for container '' @ idText i)), s)
               else
                 (case GetPodIPs dual (\<lambda>argv. kx_run x argv (kn_env s)) (kn_nsenterPath s) netnsPath DefaultInterfaceName of
                    Inl err \<Rightarrow> (Inl err, s)
                  | Inr ips \<Rightarrow>
                      let s = foldl (\<lambda>s ip. addPodIP i (IP_String ip) s) s ips
                      in (Inr (kubenet_networkStatus i s), s))))"

definition kubenetPlugin :: "('e, 'r) kubenet_iface \<Rightarrow> bool \<Rightarrow> 'e kubenet network_plugin" where
  "kubenetPlugin x dual =
     \<lparr>np_Name = KubenetPluginName, np_Init = kubenet_Init x, np_Event = kubenet_Event x dual, np_Capabilities = [],
      np_SetUpPod = kubenet_SetUpPod x, np_TearDownPod = kubenet_TearDownPod x,
      np_GetPodNetworkStatus = kubenet_GetPodNetworkStatus x dual,
      np_Status = (\<lambda>s. (kubenet_Status x s, s))\<rparr>"

subsection \<open>What the calls keep\<close>

definition knKept :: "'e kubenet \<Rightarrow> 'e kubenet \<Rightarrow> bool" where
  "knKept s t \<longleftrightarrow> kn_podIPs t = kn_podIPs s \<and> kn_netConfig t = kn_netConfig s \<and> kn_binDirs t = kn_binDirs s \<and> kn_cacheDir t = kn_cacheDir s"

lemma knKept_refl [simp]: "knKept s s" and knKept_trans: "knKept s t \<Longrightarrow> knKept t u \<Longrightarrow> knKept s u"
  by (simp_all add: knKept_def)

lemma knKept_fields:
  "knKept s (t\<lparr>kn_env := e\<rparr>) = knKept s t" "knKept (s\<lparr>kn_env := e\<rparr>) t = knKept s t"
  "knKept s (t\<lparr>kn_shaper := b\<rparr>) = knKept s t" "knKept (s\<lparr>kn_shaper := b\<rparr>) t = knKept s t"
  "knKept (s\<lparr>kn_ebtables := b\<rparr>) t = knKept s t"
  "knKept s (t\<lparr>kn_hostportMap := m\<rparr>) = knKept s t" "knKept s (t\<lparr>kn_hostportMapv6 := m\<rparr>) = knKept s t"
  by (simp_all add: knKept_def)

lemma knEnv_kept: "knEnv f s = (r, t) \<Longrightarrow> knKept s t"
  by (auto simp: knEnv_def knKept_fields split: prod.splits)

lemma knEnv_kept_snd: "knKept s (snd (knEnv f s))"
  by (metis knEnv_kept surjective_pairing)

lemma disableDAD_kept: "knKept s (snd (disableContainerDAD x i s))"
  by (auto simp: disableContainerDAD_def Let_def split: prod.splits sum.splits option.splits intro: knKept_trans dest!: knEnv_kept)

lemma runtimeConf_kept: "kubenet_runtimeConf x ifName i s = (rt, t) \<Longrightarrow> knKept s t"
  by (auto simp: kubenet_runtimeConf_def split: prod.splits dest!: knEnv_kept)

lemma add_kept: "addContainerToNetwork x c n i s = (r, t) \<Longrightarrow> knKept s t"
  by (auto simp: addContainerToNetwork_def split: prod.splits sum.splits intro: knKept_trans dest!: knEnv_kept runtimeConf_kept)

lemma del_kept: "delContainerFromNetwork x c n i s = (r, t) \<Longrightarrow> knKept s t"
  by (auto simp: delContainerFromNetwork_def split: prod.splits option.splits if_splits intro: knKept_trans dest!: knEnv_kept runtimeConf_kept)

lemma shaper_kept: "kubenet_shaper x s = (sh, t) \<Longrightarrow> knKept s t"
  using knEnv_kept_snd [of "s\<lparr>kn_shaper := True\<rparr>"] by (auto simp: kubenet_shaper_def Let_def knKept_fields split: if_splits)

lemma shapeIPs_kept: "shapeIPs sh eg ing ips s = (r, t) \<Longrightarrow> knKept s t"
  by (induction ips arbitrary: s) (auto split: prod.splits option.splits intro: knKept_trans dest!: knEnv_kept)

lemma shaping_kept: "addTrafficShaping x i a s = (r, t) \<Longrightarrow> knKept s t"
  by (auto simp: addTrafficShaping_def split: prod.splits sum.splits option.splits if_splits
      intro: knKept_trans dest!: shaper_kept shapeIPs_kept)

lemma onHostports_kept: "onHostports x v6 f s = (r, t) \<Longrightarrow> knKept s t"
  by (auto simp: onHostports_def knKept_fields split: prod.splits if_splits)

lemma addMappings_kept: "addMappings x i mk ips s = (r, t) \<Longrightarrow> knKept s t"
  by (induction ips arbitrary: s) (auto simp: Let_def split: prod.splits option.splits intro: knKept_trans dest!: onHostports_kept)

lemma addPortMapping_kept: "addPortMapping x i n ns s = (r, t) \<Longrightarrow> knKept s t"
  by (auto simp: addPortMapping_def split: prod.splits sum.splits option.splits if_splits
      intro: knKept_trans dest!: knEnv_kept addMappings_kept)

lemma ensureMasq_kept: "knKept s (snd (ensureMasqRule x s))"
  by (auto simp: ensureMasqRule_def Let_def split: prod.splits option.splits dest!: knEnv_kept)

lemma syncEb_kept: "knKept s (syncEbtablesDedupRules x mac cs gs s)"
  using knEnv_kept_snd [of "s\<lparr>kn_ebtables := True\<rparr>"]
  by (auto simp: syncEbtablesDedupRules_def Let_def knKept_fields split: prod.splits option.splits if_splits
      intro: knKept_trans dest!: knEnv_kept)

lemma promiscuous_kept: "setPromiscuous x cs gs s = (r, t) \<Longrightarrow> knKept s t"
  by (auto simp: setPromiscuous_def split: prod.splits sum.splits option.splits if_splits
      intro: knKept_trans syncEb_kept dest!: knEnv_kept)

subsection \<open>The recorded addresses over a set-up and a tear-down\<close>

text \<open>No pod has an empty set of recorded addresses.\<close>

definition knOk :: "'e kubenet \<Rightarrow> bool" where
  "knOk s \<longleftrightarrow> (\<forall>j. map_of (kn_podIPs s) j \<noteq> Some [])"

lemma knKept_ips: "knKept s t \<Longrightarrow> map_of (kn_podIPs t) = map_of (kn_podIPs s)"
  by (simp add: knKept_def)

lemma addPodIP_ips:
  "map_of (kn_podIPs (addPodIP i ip s)) =
     (map_of (kn_podIPs s))(i \<mapsto> List.insert ip (case map_of (kn_podIPs s) i of None \<Rightarrow> [] | Some ips \<Rightarrow> ips))"
  by (simp add: addPodIP_def update_conv')

lemma removePodIP_ips:
  "map_of (kn_podIPs (removePodIP i ip s)) =
     (case map_of (kn_podIPs s) i of
        None \<Rightarrow> map_of (kn_podIPs s)
      | Some ips \<Rightarrow> (map_of (kn_podIPs s))(i := (let ips = filter (\<lambda>p. p \<noteq> ip) ips in if ips = [] then None else Some ips)))"
  by (simp add: removePodIP_def update_conv' delete_conv' Let_def split: option.splits)

lemma teardownIPs_step:
  assumes "teardownIPs x i pm (ip # ips) errs s = (r, t)"
  obtains u errs' where "knKept s u" "teardownIPs x i pm ips errs' (removePodIP i ip u) = (r, t)"
proof -
  obtain err s1 where h: "(if length (ppm_PortMappings pm) > 0 then
      onHostports x (IsIPv6String ip) (\<lambda>hm. hostport_Remove hm (snd i) (Some pm)) s else (None, s)) = (err, s1)" by fastforce
  then have 1: "knKept s s1" by (auto split: if_splits dest: onHostports_kept)
  obtain sh s2 where sh: "kubenet_shaper x s1 = (sh, s2)" by fastforce
  let ?u = "snd (knEnv (sh_Reset sh (podCIDR ip)) s2)"
  have "knKept s ?u" using 1 shaper_kept [OF sh] knEnv_kept_snd by (blast intro: knKept_trans)
  moreover have "teardownIPs x i pm ips (case err of None \<Rightarrow> errs | Some err \<Rightarrow> errs @ [err]) (removePodIP i ip ?u) = (r, t)"
    using assms unfolding teardownIPs.simps h prod.case Let_def sh by simp
  ultimately show ?thesis by (rule that)
qed

lemma teardownIPs_forgets:
  assumes "teardownIPs x i pm ips errs s = (r, t)"
    and "case map_of (kn_podIPs s) i of None \<Rightarrow> True | Some l \<Rightarrow> l \<noteq> [] \<and> set l \<subseteq> set ips"
  shows "map_of (kn_podIPs t) = (map_of (kn_podIPs s))(i := None) \<and> kn_netConfig t = kn_netConfig s"
  using assms
proof (induction ips arbitrary: errs s)
  case Nil
  then show ?case by (auto split: option.splits)
next
  case (Cons ip ips)
  obtain u errs' where u: "knKept s u" and t: "teardownIPs x i pm ips errs' (removePodIP i ip u) = (r, t)"
    using teardownIPs_step [OF Cons.prems(1)] .
  have ips: "map_of (kn_podIPs u) = map_of (kn_podIPs s)" and nc: "kn_netConfig (removePodIP i ip u) = kn_netConfig s"
    using u by (auto simp: knKept_def removePodIP_def Let_def split: option.splits)
  have "case map_of (kn_podIPs (removePodIP i ip u)) i of None \<Rightarrow> True | Some l \<Rightarrow> l \<noteq> [] \<and> set l \<subseteq> set ips"
    using Cons.prems(2) by (auto simp: removePodIP_ips ips Let_def split: option.splits)
  from Cons.IH [OF t this] show ?case
    by (auto simp: removePodIP_ips ips nc split: option.splits)
qed

lemma teardown_forgets:
  assumes "kubenet_teardown x nspace name i s = (r, t)" and "map_of (kn_podIPs s) i \<noteq> Some []"
  shows "map_of (kn_podIPs t) = (map_of (kn_podIPs s))(i := None) \<and> kn_netConfig t = kn_netConfig s \<and>
     (map_of (kn_podIPs s) i = None \<longrightarrow> r = None)"
proof -
  obtain e1 s1 where d1: "delContainerFromNetwork x (kn_loConfig s) ''lo'' i s = (e1, s1)" by fastforce
  obtain e2 s2 where d2: "delContainerFromNetwork x (kn_netConfig s1) DefaultInterfaceName i s1 = (e2, s2)" by fastforce
  have k: "knKept s s2" using del_kept [OF d1] del_kept [OF d2] by (rule knKept_trans)
  then have ips: "map_of (kn_podIPs s2) = map_of (kn_podIPs s)" "kn_netConfig s2 = kn_netConfig s" by (simp_all add: knKept_def)
  show ?thesis
  proof (cases "map_of (kn_podIPs s) i")
    case None
    then have "r = None" "t = s2" using assms(1) by (simp_all add: kubenet_teardown_def d1 d2 getCachedPodIPs_def ips)
    then show ?thesis using None ips by (simp add: fun_upd_idem)
  next
    case (Some l)
    then have l: "l \<noteq> []" using assms(2) by auto
    obtain q s3 where q: "knEnv (kx_GetPodPortMappings x (snd i)) s2 = (q, s3)" by fastforce
    have k3: "map_of (kn_podIPs s3) = map_of (kn_podIPs s)" "kn_netConfig s3 = kn_netConfig s"
      using knEnv_kept [OF q] ips by (simp_all add: knKept_def)
    obtain pm errs rs where t: "teardownIPs x i pm l errs s3 = (rs, t)"
      using assms(1) l Some by (auto simp: kubenet_teardown_def d1 d2 getCachedPodIPs_def ips q Let_def split: prod.splits)
    show ?thesis using teardownIPs_forgets [OF t] Some l by (simp add: k3)
  qed
qed

text \<open>C29. A retried tear-down reports success whatever the first one left undone. When \<^verbatim>\<open>TearDownPod\<close> fails, because a
  CNI call, the removal of a host port or the look-up of the port mappings failed, it has forgotten the addresses of the
  pod, and the next call for the pod returns nil, even if the CNI calls fail again: without recorded addresses the errors
  are dropped, although the comment of \<^verbatim>\<open>teardown\<close> promises an aggregate of all of them.\<close>

theorem kubenet_retry_hides_errors:
  assumes "knOk s" and "kn_netConfig s \<noteq> None" and "kubenet_TearDownPod x nspace name i s = (Some err, s')"
  shows "fst (kubenet_TearDownPod y nspace' name' i s') = None"
proof -
  have ok: "map_of (kn_podIPs s) i \<noteq> Some []" using assms(1) unfolding knOk_def by blast
  have t: "kubenet_teardown x nspace name i s = (Some err, s')"
    using assms(2,3) by (auto simp: kubenet_TearDownPod_def split: prod.splits option.splits)
  have "map_of (kn_podIPs s') i = None" "kn_netConfig s' \<noteq> None"
    using teardown_forgets [OF t ok] assms(2) by simp_all
  moreover obtain r u where "kubenet_teardown y nspace' name' i s' = (r, u)" by fastforce
  ultimately show ?thesis using teardown_forgets [of y nspace' name' i s' r u] by (simp add: kubenet_TearDownPod_def)
qed

text \<open>The addresses of a CNI result as text.\<close>

definition reportedIPs :: "cni_result020 \<Rightarrow> string list" where
  "reportedIPs res =
     (case res_IP4 res of None \<Rightarrow> [] | Some c \<Rightarrow> if IP_To4 (net_IP (cic_IP c)) = [] then [] else [IP_String (IP_To4 (net_IP (cic_IP c)))]) @
     (case res_IP6 res of None \<Rightarrow> [] | Some c \<Rightarrow> if net_IP (cic_IP c) = [] then [] else [IP_String (net_IP (cic_IP c))])"

text \<open>
  What CNI answers when the pod is attached to the default network: the call with the configuration of that network
  and the interface \<^verbatim>\<open>eth0\<close>, on the environment after duplicate address detection was switched off, the pod was attached to the loopback network and
  its namespace was looked up.
\<close>

definition defaultNetworkResult :: "('e, 'r) kubenet_iface \<Rightarrow> container_id \<Rightarrow> 'e kubenet \<Rightarrow> cni_result020 result" where
  "defaultNetworkResult x i s =
     (let s0 = snd (disableContainerDAD x i s);
          s1 = snd (addContainerToNetwork x (kn_loConfig s0) ''lo'' i s0)
      in case kx_GetNetNS x (snd i) (kn_env s1) of (r, e) \<Rightarrow>
           (case kx_AddNetwork x (kn_binDirs s) (kn_netConfig s)
                   \<lparr>rt_ContainerID = snd i, rt_NetNS = (case r of Inl _ \<Rightarrow> [] | Inr path \<Rightarrow> path), rt_IfName = ''eth0'',
                    rt_CacheDir = kn_cacheDir s, rt_Args = [], rt_CapabilityArgs = []\<rparr> e of
              (Inl err, _) \<Rightarrow> Inl err
            | (Inr resT, _) \<Rightarrow> kx_GetResult x resT))"

lemma defaultNetworkResult_call:
  assumes "addContainerToNetwork x (kn_loConfig (snd (disableContainerDAD x i s))) ''lo'' i (snd (disableContainerDAD x i s)) = (r1, s1)"
    and "knKept s s1" and "addContainerToNetwork x (kn_netConfig s1) DefaultInterfaceName i s1 = (Inr resT, s2)"
  shows "defaultNetworkResult x i s = kx_GetResult x resT"
proof -
  have "kn_netConfig s1 = kn_netConfig s" "kn_binDirs s1 = kn_binDirs s" "kn_cacheDir s1 = kn_cacheDir s" using assms(2) by (simp_all add: knKept_def)
  then show ?thesis using assms(3) [unfolded addContainerToNetwork_def kubenet_runtimeConf_def knEnv_def DefaultInterfaceName_def]
    by (auto simp: defaultNetworkResult_def Let_def assms(1) split: prod.splits sum.splits)
qed

lemma reportedIPs_alt: "reportedIPs res = map IP_String (filter (\<lambda>ip. ip \<noteq> []) [resultIPv4 res, resultIPv6 res])"
  by (simp add: reportedIPs_def resultIPv4_def resultIPv6_def split: option.splits)

lemma recordIPs_ips:
  assumes "\<not> (resultIPv4 res = [] \<and> resultIPv6 res = [])"
  shows "\<exists>ips. map_of (kn_podIPs (recordIPs i res s)) = (map_of (kn_podIPs s))(i \<mapsto> ips) \<and> ips \<noteq> [] \<and>
     set ips = set (case map_of (kn_podIPs s) i of None \<Rightarrow> [] | Some old \<Rightarrow> old) \<union> set (reportedIPs res)"
  using assms
  by (cases "resultIPv4 res = []"; cases "resultIPv6 res = []")
    (auto simp: recordIPs_def addPodIP_ips reportedIPs_alt Let_def List.insert_def split: option.splits)

lemma recordIPs_netConfig: "kn_netConfig (recordIPs i res s) = kn_netConfig s"
  by (simp add: recordIPs_def addPodIP_def Let_def)

definition recorded :: "('e, 'r) kubenet_iface \<Rightarrow> container_id \<Rightarrow> 'e kubenet \<Rightarrow> 'e kubenet \<Rightarrow> bool" where
  "recorded x i s t \<longleftrightarrow>
     (\<exists>res ips. defaultNetworkResult x i s = Inr res \<and> map_of (kn_podIPs t) = (map_of (kn_podIPs s))(i \<mapsto> ips) \<and> ips \<noteq> [] \<and>
        set ips = set (case map_of (kn_podIPs s) i of None \<Rightarrow> [] | Some old \<Rightarrow> old) \<union> set (reportedIPs res))"

lemma recorded_kept: "knKept t' t \<Longrightarrow> recorded x i s t' \<Longrightarrow> recorded x i s t"
  by (simp add: recorded_def knKept_def)

text \<open>A set-up fails before it recorded anything, or it has recorded what CNI reported.\<close>

lemma setup_records:
  assumes "kubenet_setup x nspace name i a s = (r, t)"
  shows "kn_netConfig t = kn_netConfig s \<and> (recorded x i s t \<or> r \<noteq> None \<and> map_of (kn_podIPs t) = map_of (kn_podIPs s))"
proof -
  define s0 where "s0 = snd (disableContainerDAD x i s)"
  have k0: "knKept s s0" unfolding s0_def by (rule disableDAD_kept)
  obtain r1 s1 where r1: "addContainerToNetwork x (kn_loConfig s0) ''lo'' i s0 = (r1, s1)" by fastforce
  have k1: "knKept s s1" using k0 add_kept [OF r1] by (rule knKept_trans)
  obtain r2 s2 where r2: "addContainerToNetwork x (kn_netConfig s1) DefaultInterfaceName i s1 = (r2, s2)" by fastforce
  have k2: "knKept s s2" using k1 add_kept [OF r2] by (rule knKept_trans)
  note st = assms [unfolded kubenet_setup_def Let_def, folded s0_def, unfolded r1]
  show ?thesis
  proof (cases "\<exists>q1 q2 res. r1 = Inr q1 \<and> r2 = Inr q2 \<and> kx_GetResult x q2 = Inr res \<and> \<not> (resultIPv4 res = [] \<and> resultIPv6 res = [])")
    case False
    then have "r \<noteq> None \<and> (t = s1 \<or> t = s2)" using st r2 by (auto split: sum.splits if_splits)
    then show ?thesis using k1 k2 by (auto simp: knKept_def)
  next
    case True
    then obtain q1 q2 res where q: "r1 = Inr q1" "r2 = Inr q2" "kx_GetResult x q2 = Inr res"
      "\<not> (resultIPv4 res = [] \<and> resultIPv6 res = [])" by blast
    obtain r3 s3 where r3: "setPromiscuous x (map snd (resultNetworks res)) (map fst (resultNetworks res)) s2 = (r3, s3)" by fastforce
    have k3: "knKept s s3" using k2 promiscuous_kept [OF r3] by (rule knKept_trans)
    obtain r4 s4 where r4: "addTrafficShaping x i a (recordIPs i res s3) = (r4, s4)" by fastforce
    obtain r5 s5 where r5: "addPortMapping x i name nspace s4 = (r5, s5)" by fastforce
    have "defaultNetworkResult x i s = Inr res"
      using defaultNetworkResult_call [OF r1 [unfolded s0_def] k1 r2 [unfolded q]] q(3) by simp
    then have "recorded x i s (recordIPs i res s3)"
      using recordIPs_ips [OF q(4), of i s3] k3 unfolding recorded_def knKept_def by metis
    then have rec: "recorded x i s s4" "recorded x i s s5"
      using shaping_kept [OF r4] knKept_trans [OF shaping_kept [OF r4] addPortMapping_kept [OF r5]] recorded_kept by blast+
    have nc: "kn_netConfig s4 = kn_netConfig s" "kn_netConfig s5 = kn_netConfig s"
      using k3 shaping_kept [OF r4] addPortMapping_kept [OF r5] by (simp_all add: knKept_def recordIPs_netConfig)
    have "r3 \<noteq> None \<and> r = r3 \<and> t = s3 \<or> t = s4 \<or> t = s5"
      using st q r2 r3 r4 r5 by (auto split: option.splits)
    then show ?thesis using rec nc k3 by (auto simp: knKept_def)
  qed
qed

lemma recorded_ok: "knOk s \<Longrightarrow> recorded x i s t \<Longrightarrow> knOk t"
  unfolding knOk_def recorded_def by (metis fun_upd_apply option.inject)

lemma knOk_same: "map_of (kn_podIPs t) = map_of (kn_podIPs s) \<Longrightarrow> knOk t = knOk s"
  by (simp add: knOk_def)

text \<open>C14. After a successful \<^verbatim>\<open>SetUpPod\<close> the addresses recorded for the pod are those recorded before together with the addresses of
  the result that CNI returned for the call that attached the pod to the default network, and the records of the other pods are as they were. The
  status of the pod is then the recorded addresses, parsed and printed, with the first of them as its main address, whatever
  the host says. A \<^verbatim>\<open>SetUpPod\<close> that fails in its check changes nothing; one that fails later leaves no address recorded for the pod, not even
  an earlier one, and the records of the other pods as they were.\<close>

theorem kubenet_SetUpPod_records:
  assumes "knOk s" and "kubenet_SetUpPod x nspace name i a opts s = (r, t)"
  shows "knOk t \<and>
    (case r of
       None \<Rightarrow> \<exists>res ips. defaultNetworkResult x i s = Inr res \<and> map_of (kn_podIPs t) = (map_of (kn_podIPs s))(i \<mapsto> ips) \<and> ips \<noteq> [] \<and>
         set ips = set (case map_of (kn_podIPs s) i of None \<Rightarrow> [] | Some old \<Rightarrow> old) \<union> set (reportedIPs res) \<and>
         kubenet_GetPodNetworkStatus y dual nspace' name' i t =
           (Inr (Some \<lparr>pns_IP = IP_String (net_ParseIP (hd ips)), pns_IPs = map (\<lambda>ip. IP_String (net_ParseIP ip)) ips\<rparr>), t)
     | Some err \<Rightarrow> if kubenet_Status x s = None then map_of (kn_podIPs t) = (map_of (kn_podIPs s))(i := None) else t = s)"
proof (cases "kubenet_Status x s")
  case (Some err)
  then show ?thesis using assms by (auto simp: kubenet_SetUpPod_def)
next
  case None
  obtain r1 u where u: "kubenet_setup x nspace name i a s = (r1, u)" by fastforce
  have ok: "knOk u" using setup_records [OF u] assms(1) recorded_ok knOk_same by blast
  show ?thesis
  proof (cases r1)
    case r1: None
    then have t: "r = None" "t = snd (ensureMasqRule x u)" using assms(2) None u by (simp_all add: kubenet_SetUpPod_def)
    then have k: "knKept u t" using ensureMasq_kept by simp
    have rec: "recorded x i s t" using setup_records [OF u] r1 recorded_kept [OF k] by blast
    then obtain res ips where ips: "defaultNetworkResult x i s = Inr res" "map_of (kn_podIPs t) = (map_of (kn_podIPs s))(i \<mapsto> ips)" "ips \<noteq> []"
        "set ips = set (case map_of (kn_podIPs s) i of None \<Rightarrow> [] | Some old \<Rightarrow> old) \<union> set (reportedIPs res)"
      unfolding recorded_def by blast
    then have "kubenet_GetPodNetworkStatus y dual nspace' name' i t =
        (Inr (Some \<lparr>pns_IP = IP_String (net_ParseIP (hd ips)), pns_IPs = map (\<lambda>ip. IP_String (net_ParseIP ip)) ips\<rparr>), t)"
      by (simp add: kubenet_GetPodNetworkStatus_def kubenet_networkStatus_def getCachedPodIPs_def Let_def hd_conv_nth)
    then show ?thesis using t(1) ips recorded_ok [OF assms(1) rec] by auto
  next
    case (Some err)
    obtain q v where v: "kubenet_teardown x nspace name i u = (q, v)" by fastforce
    then have t: "r = Some err" "t = v" using assms(2) None u Some by (simp_all add: kubenet_SetUpPod_def)
    have "map_of (kn_podIPs u) i \<noteq> Some []" using ok unfolding knOk_def by blast
    from teardown_forgets [OF v this] have m: "map_of (kn_podIPs v) = (map_of (kn_podIPs u))(i := None)" by blast
    moreover have "(map_of (kn_podIPs u))(i := None) = (map_of (kn_podIPs s))(i := None)"
      using setup_records [OF u] by (auto simp: recorded_def)
    moreover have "knOk v" using ok unfolding knOk_def m by simp
    ultimately show ?thesis using t None by simp
  qed
qed

subsection \<open>Witnesses\<close>

text \<open>A host on which every call succeeds but the deletion of a network, and CNI reports one address.\<close>

definition wResult :: cni_result020 where
  "wResult = \<lparr>res_IP4 = Some \<lparr>cic_IP = \<lparr>net_IP = [10, 0, 0, 2], net_Mask = [255, 255, 0, 0]\<rparr>, cic_Gateway = [10, 0, 0, 1]\<rparr>, res_IP6 = None\<rparr>"

definition wIptables :: "unit iptables" where
  "wIptables =
     \<lparr>ipt_EnsureChain = (\<lambda>_ _ e. ((True, None), e)), ipt_EnsureRule = (\<lambda>_ _ _ _ e. ((True, None), e)), ipt_IsIPv6 = (\<lambda>_. False),
      ipt_SaveInto = (\<lambda>_ e. (([], None), e)), ipt_RestoreAll = (\<lambda>_ _ _ e. (None, e))\<rparr>"

definition wManager :: "unit hostportManager" where
  "wManager =
     \<lparr>hmg_execer = True, hmg_conntrackFound = False, hmg_iptables = wIptables, hmg_portOpener = (\<lambda>_ e. (Inr 0, e)),
      hmg_close = (\<lambda>_ e. (None, e)), hmg_clearEntries = (\<lambda>_ _ e. (None, e))\<rparr>"

definition wKube :: "(unit, unit) kubenet_iface" where
  "wKube =
     \<lparr>kx_ConfFromBytes = Inr, kx_AddNetwork = (\<lambda>_ _ _ e. (Inr (), e)), kx_DelNetwork = (\<lambda>_ _ _ e. (Some (Errorf ''busy''), e)),
      kx_GetResult = (\<lambda>_. Inr wResult), kx_GetNetNS = (\<lambda>_ e. (Inr ''/proc/1/ns/net'', e)),
      kx_GetPodPortMappings = (\<lambda>_ e. (Inr [], e)), kx_ParseQuantity = (\<lambda>_. Inr 5000), kx_LookPath = (\<lambda>f _. (f, None)),
      kx_command = (\<lambda>_ e. (([], None), e)), kx_run = (\<lambda>_ _. ([], None)), kx_tc = (\<lambda>_ e. (([], None), e)),
      kx_sysctl = \<lparr>sys_modprobe = (\<lambda>_ e. e), sys_GetSysctl = (\<lambda>_ e. (Inr 1, e)), sys_SetSysctl = (\<lambda>_ _ e. (None, e))\<rparr>,
      kx_hostport = wManager, kx_hostportv6 = wManager,
      kx_ebtables = \<lparr>eb_FlushChain = (\<lambda>_ _ e. (None, e)), eb_GetVersion = (\<lambda>e. (None, e)), eb_EnsureChain = (\<lambda>_ _ e. (None, e)),
        eb_EnsureRule = (\<lambda>_ _ _ _ e. (None, e))\<rparr>,
      kx_Interfaces = (\<lambda>_. Inr []), kx_ReadDir = (\<lambda>_ _. Inr requiredCNIPlugins), kx_LinkByName = (\<lambda>_ _. Inl (Errorf ''none'')),
      kx_SetPromiscOn = (\<lambda>_ e. (None, e)), kx_AddrList = (\<lambda>_ _. Inr []), kx_AddrDel = (\<lambda>_ _ e. e)\<rparr>"

definition wKubenet :: "unit kubenet" where
  "wKubenet = (NewPlugin [] [] ())\<lparr>kn_netConfig := Some ''{}'', kn_nonMasqueradeCIDR := zeroCIDRv4, kn_shaper := True\<rparr>"

lemma wKubenet_ok: "knOk wKubenet"
  by (simp add: knOk_def wKubenet_def NewPlugin_def)

lemma wKube_status: "kubenet_Status wKube wKubenet = None"
  by (simp add: kubenet_Status_def wKubenet_def NewPlugin_def checkRequiredCNIPluginsInOneDir_def wKube_def requiredCNIPlugins_def
      strings_TrimSpace_def isSpaceByte_def)

lemma wKube_setup: "fst (kubenet_SetUpPod wKube ''ns'' ''pod'' (''docker'', ''1'') [] [] wKubenet) = None"
  unfolding kubenet_SetUpPod_def wKube_status
  by (simp add: kubenet_setup_def wKube_def wKubenet_def NewPlugin_def Let_def disableContainerDAD_def addContainerToNetwork_def
      kubenet_runtimeConf_def knEnv_def setPromiscuous_def addTrafficShaping_def kubenet_shaper_def ExtractPodBandwidthResources_def
      bandwidthOf_def getCachedPodIPs_def recordIPs_def addPodIP_def resultIPv4_def resultIPv6_def wResult_def IP_To4_def
      addPortMapping_def PromiscuousBridge_def)

lemma wKube_result: "defaultNetworkResult wKube i s = Inr wResult"
  by (simp add: defaultNetworkResult_def wKube_def Let_def)

lemma wResult_ips: "reportedIPs wResult = [''10.0.0.2'']"
  by (simp add: reportedIPs_def wResult_def IP_To4_def) code_simp

lemma wResult_text: "IP_String (net_ParseIP ''10.0.0.2'') = ''10.0.0.2''"
proof -
  have "parseIPv4 True ''10.0.0.2'' = net_IPv4 [10, 0, 0, 2]" by (simp add: parseIPv4_def dtoi_eval)
  then have "net_ParseIP ''10.0.0.2'' = net_IPv4 [10, 0, 0, 2]" by (simp add: net_ParseIP_def ParseIP_def)
  moreover have "IP_String (net_IPv4 [10, 0, 0, 2]) = ''10.0.0.2''" by code_simp
  ultimately show ?thesis by simp
qed

theorem kubenet_SetUpPod_records_witness:
  "\<exists>t. kubenet_SetUpPod wKube ''ns'' ''pod'' (''docker'', ''1'') [] [] wKubenet = (None, t) \<and>
     (\<exists>ips. map_of (kn_podIPs t) (''docker'', ''1'') = Some ips \<and> set ips = {''10.0.0.2''}) \<and>
     (\<exists>st. kubenet_GetPodNetworkStatus wKube False ''ns'' ''pod'' (''docker'', ''1'') t = (Inr (Some st), t) \<and> pns_IP st = ''10.0.0.2'')"
proof -
  obtain t where t: "kubenet_SetUpPod wKube ''ns'' ''pod'' (''docker'', ''1'') [] [] wKubenet = (None, t)"
    using wKube_setup by (metis prod.collapse)
  have old: "map_of (kn_podIPs wKubenet) (''docker'', ''1'') = None" by (simp add: wKubenet_def NewPlugin_def)
  obtain ips where "map_of (kn_podIPs t) (''docker'', ''1'') = Some ips" "ips \<noteq> []" "set ips = {''10.0.0.2''}"
      "kubenet_GetPodNetworkStatus wKube False ''ns'' ''pod'' (''docker'', ''1'') t =
         (Inr (Some \<lparr>pns_IP = IP_String (net_ParseIP (hd ips)), pns_IPs = map (\<lambda>ip. IP_String (net_ParseIP ip)) ips\<rparr>), t)"
    using kubenet_SetUpPod_records [OF wKubenet_ok t, of wKube False "''ns''" "''pod''"] wKube_result old wResult_ips by auto
  moreover then have "hd ips = ''10.0.0.2''" by (metis hd_in_set singletonD)
  ultimately show ?thesis using t wResult_text by auto
qed

definition wPod :: "unit kubenet" where
  "wPod = wKubenet\<lparr>kn_podIPs := [((''docker'', ''1''), [''10.0.0.2''])]\<rparr>"

lemma wPod_fails: "fst (kubenet_TearDownPod wKube ''ns'' ''pod'' (''docker'', ''1'') wPod) \<noteq> None"
  by (simp add: kubenet_TearDownPod_def kubenet_teardown_def delContainerFromNetwork_def kubenet_runtimeConf_def knEnv_def wKube_def
      wPod_def wKubenet_def NewPlugin_def getCachedPodIPs_def Let_def map_filter_def kubenet_shaper_def api_NewAggregate_def
      split: prod.splits)

theorem kubenet_retry_hides_errors_witness:
  "fst (kubenet_TearDownPod wKube ''ns'' ''pod'' (''docker'', ''1'') wPod) \<noteq> None \<and>
   fst (kubenet_TearDownPod wKube ''ns'' ''pod'' (''docker'', ''1'')
     (snd (kubenet_TearDownPod wKube ''ns'' ''pod'' (''docker'', ''1'') wPod))) = None"
proof -
  obtain err t where t: "kubenet_TearDownPod wKube ''ns'' ''pod'' (''docker'', ''1'') wPod = (Some err, t)"
    using wPod_fails by (metis not_None_eq prod.collapse)
  have "knOk wPod" "kn_netConfig wPod \<noteq> None" by (simp_all add: knOk_def wPod_def wKubenet_def)
  then show ?thesis using kubenet_retry_hides_errors [OF _ _ t, of wKube "''ns''" "''pod''"] t by simp
qed

subsection \<open>Repeated CIDRs\<close>

text \<open>
  An event whose second CIDR does not parse leaves the first one in the list, so that the CIDR is
  there twice after the next event, and twice among the ranges of the configuration.
\<close>

lemma Event_repeats_CIDR:
  assumes "net_ParseCIDR c = Inr (ip, n)" and "net_ParseCIDR d = Inl err" and "CHR '','' \<notin> set c" and "CHR '','' \<notin> set d"
    and "kn_netConfig s = None" and "kn_podCIDRs s = []" and "\<And>t. kx_ConfFromBytes x t = Inr t"
  shows "kn_podCIDRs (kubenet_Event x True NET_PLUGIN_EVENT_POD_CIDR_CHANGE [(NET_PLUGIN_EVENT_POD_CIDR_CHANGE_DETAIL_CIDR, c)]
     (kubenet_Event x True NET_PLUGIN_EVENT_POD_CIDR_CHANGE [(NET_PLUGIN_EVENT_POD_CIDR_CHANGE_DETAIL_CIDR, c @ '','' @ d)] s)) = [n, n]"
proof -
  have "strings_Split (c @ '','' @ d) (CHR '','') = [c, d]" "strings_Split c (CHR '','') = [c]"
    using assms(3,4) by (simp_all add: Split_append_delim Split_no_delim)
  then show ?thesis using assms(1,2,5-7) by (simp add: kubenet_Event_def Let_def)
qed

end
