(* ===== verification/Spec2Isabelle.thy ===== *)
theory Spec2Isabelle
  imports Naming Labels Store Libdocker Security_Context Network_Plugin Util_Io Util_Cache Checkpoint Docker_Service Fake_Docker Service_Contract Convert Container_Ops Pod_Sandbox Sandbox_Props
    Images Stats Image_Fs Exec_Runtime Container_Logs Request_Cache Streaming_Server
    Kube_Docker_Client Instrumented_Client Hostport_Props Hostport_Sockets Bandwidth Cni Kubenet
begin

text \<open>
  Verification of cri-dockerd, the shim that serves the Container Runtime Interface (CRI) of the
  kubelet with a Docker daemon. The paths below are relative to \<^verbatim>\<open>src/\<close>.

  \<^bold>\<open>The program.\<close> The service (package \<^verbatim>\<open>core\<close>) answers the requests of the kubelet. A handler turns
  the request into calls of the Docker client (\<^verbatim>\<open>libdocker\<close>), writes the checkpoint of a sandbox
  (\<^verbatim>\<open>store\<close>), asks the network plugin (\<^verbatim>\<open>network\<close>) to attach or detach a pod, and turns what the daemon
  reports back into CRI messages. Exec, attach and port forwarding go through a streaming server
  (\<^verbatim>\<open>streaming\<close>) that hands out one-time URLs. The plugins manage host ports with iptables and
  bandwidth with tc.

  \<^bold>\<open>Conventions.\<close> Go code is a function with explicit state. A function that returns an error
  has the type \<open>'a result\<close> (\<open>Inl\<close> is the error), or \<open>goerror option\<close> where there is no other result;
  a panic is such an error (\<open>nilDereference\<close>, \<open>indexPanic\<close> and others in \<open>Go_Errors\<close>). A Go map is an
  association list, and a \<^verbatim>\<open>range\<close> over it follows the order of the list, so a theorem for all lists
  holds for all orders. A nil pointer that the code tests is \<open>None\<close>. What lies outside, such as the
  daemon, the kernel, the clock or a third-party package, is a record of functions on a state \<open>'e\<close>;
  what a theorem needs of it is a locale or a named assumption, and each has an instance.

  \<^bold>\<open>The standard library.\<close>
  \<^item> \<open>Cri_Prelude\<close>: strings, numbers as text, maps, and the generic lemmas and simplification sets.
  \<^item> \<open>Go_Errors\<close>: error values and the aggregates of \<^verbatim>\<open>utils/errors/errors.go\<close>.
  \<^item> \<open>Go_Path\<close>, \<open>Go_Os\<close>, \<open>Go_Json\<close>, \<open>Go_Time\<close>, \<open>Go_Net\<close>, \<open>Go_Hash\<close>: paths, a file system with injected
    failures, JSON, times, addresses and networks, SHA-256 and base 32.
  \<^item> \<open>Cri_Types\<close>: the CRI and Docker messages.

  \<^bold>\<open>The checkpoint store.\<close> \<open>Store\<close> (\<^verbatim>\<open>store/*.go\<close>) has the key validation, the write through a temporary
  file and the checkpoint manager; \<open>Checkpoint\<close> (\<^verbatim>\<open>core/checkpoint.go\<close>) the encoding. A write is atomic
  under every schedule of failures (C3), a key cannot leave the directory (C24), and what a
  handler stored is what a later handler reads (C7). The locale \<open>store_contract\<close> is what the
  manager relies on; it is interpreted on the file store.

  \<^bold>\<open>The Docker client.\<close> \<open>Libdocker\<close> has the helpers, \<open>Kube_Docker_Client\<close> the client of the daemon,
  \<open>Instrumented_Client\<close> the client around it, \<open>Fake_Docker\<close> the in-memory client of the tests. The locale
  \<open>docker_contract\<close> says what the handlers rely on: a created container has at least the labels of the request, a host namespace
  only if the request says so, and the runtime that the request names; the daemon fills in the rest. It is interpreted on the fake client and shown
  for the client of the daemon under \<open>docker_api_contract\<close>, and the instrumented client keeps it. What that client asks of the
  daemon, and what it makes of the answer, is C6.
  C19 and C20 are about mounts and ports, C33 and C38 about pulls and
  time-outs.

  \<^bold>\<open>The service.\<close> \<open>Naming\<close>, \<open>Labels\<close>, \<open>Convert\<close> and \<open>Security_Context\<close> model the helpers of the same names;
  \<open>Docker_Service\<close> the service state, start-up and status; \<open>Container_Ops\<close> and \<open>Pod_Sandbox\<close> the handlers
  of containers and sandboxes; \<open>Images\<close>, \<open>Image_Fs\<close> and \<open>Stats\<close> images, disk usage and statistics;
  \<open>Container_Logs\<close> and \<open>Exec_Runtime\<close> logs and commands. \<open>Service_Contract\<close> and \<open>Sandbox_Props\<close> hold the
  locale \<open>service_env\<close> and the properties of whole handlers: creation followed by status (C1, C2),
  when a sandbox starts (C15), stopping and removing (C13, C16), the recovery from a name
  conflict (C17). Names are injective (C22), the namespace options and the seccomp profiles reach the
  daemon as asked or as shown (C23, C35, C36), and
  a synchronous exec returns unless the command, the context and the timeout all leave it waiting (C21).

  \<^bold>\<open>Streaming.\<close> \<open>Request_Cache\<close> refines a map from tokens to requests that expire (C4); \<open>Streaming_Server\<close>
  shows that a URL is good for one use (C8).

  \<^bold>\<open>Networking.\<close> \<open>Network_Plugin\<close> has the plugin interface and the manager, whose locks are a step
  relation over goroutines (C5, C18). \<open>Cni\<close> (\<^verbatim>\<open>network/cni\<close>) chooses and synchronises the configuration
  and attaches pods; the steps of the plugin are a relation, and a set-up is safe with any of
  them between its reads (C12, C26). \<open>Hostport\<close> (\<^verbatim>\<open>network/hostport\<close>) opens sockets and writes rules;
  \<open>Hostport_Sockets\<close> proves, in the locale \<open>socket_contract\<close>, that no socket is lost (C9, C10), and
  \<open>Fake_Iptables\<close> and \<open>Hostport_Props\<close> run it on the tables of the tests (C28). \<open>Bandwidth\<close>
  (\<^verbatim>\<open>network/bandwidth\<close>) reads and writes the classes and filters of tc (C30, C39). \<open>Kubenet\<close>
  (\<^verbatim>\<open>network/kubenet\<close>) puts CNI, host ports and shaping together. A set-up that succeeds adds the addresses that CNI reported to those
  of the pod and one that fails after its check leaves none (C14), and a retried tear-down hides errors (C29). C27 below joins the
  checkpoint of a sandbox with the host ports.

  \<^bold>\<open>Utilities.\<close> \<open>Util_Io\<close> has the limiting writers over the locale \<open>io_writer\<close>, and the writers that share a limit as a step relation over
  streams (C37); \<open>Util_Cache\<close> has the
  memoising cache in which \<open>Docker_Service\<close> keeps what the daemon says of itself.

  \<^bold>\<open>Behaviour that may surprise.\<close> C27 to C35, C37 and C38 state what the code does where that differs from
  its comments, its names or what the kubelet asked for.

  \<^bold>\<open>Bounds.\<close> The loop of an exec is a partial function, and C21 shows that it returns after at most
  the five inspections of the code; a command that never ends, with nothing to stop the wait, is the value \<open>None\<close>. The other loops terminate by structural recursion or a
  measure. The parser of JSON has fuel for two calls for every character of its input;
  C7 includes that this is enough for what the code writes. The constants of the code are kept:
  1000 requests in flight and ten tries
  for a token in the request cache, classes 1 to 9999 of tc, lines of at most 64 kB of
  a scanner. SHA-256 computes its constants from the first 64 primes, which lie below 312.

  \<^bold>\<open>Not modelled.\<close>
  \<^item> Start-up and configuration (\<^verbatim>\<open>main.go\<close>, \<^verbatim>\<open>cmd\<close>, \<^verbatim>\<open>config/options.go\<close>, \<^verbatim>\<open>backend\<close>): flags, listeners and the
    registration of services with gRPC.
  \<^item> \<^verbatim>\<open>network/hairpin\<close>, which no part of the program calls.
  \<^item> The protocols of the streams (\<^verbatim>\<open>streaming/remotecommand\<close>, \<^verbatim>\<open>streaming/portforward\<close>): they upgrade HTTP
    connections and copy bytes between them with third-party packages.
  \<^item> The container manager (\<^verbatim>\<open>containermanager\<close>): it moves the daemon between cgroups.
  \<^item> Metrics, logging, mocks, and the code for Windows and other systems.
  \<^item> Deadlines of calls, except where the code reports them; memory that runs out.
\<close>

section \<open>Properties that span components\<close>

subsection \<open>Host ports of a sandbox\<close>

text \<open>The mappings that the network plugin reads from the checkpoint of a sandbox.\<close>

lemma toHostportMappings_checkpoint:
  "toHostportMappings (cd_PortMappings (the (pc_Data (constructPodSandboxCheckpoint c)))) =
     Inr (map (\<lambda>pm. \<lparr>hpm_HostPort = pm_HostPort pm, hpm_ContainerPort = pm_ContainerPort pm,
        hpm_Protocol = toCheckpointProtocol (pm_Protocol pm), hpm_HostIP = pm_HostIp pm\<rparr>) (psc_PortMappings c))"
proof -
  have "toHostportMappings (map (\<lambda>pm. Some \<lparr>ckp_Protocol = Some (toCheckpointProtocol (pm_Protocol pm)),
        ckp_ContainerPort = Some (pm_ContainerPort pm), ckp_HostPort = Some (pm_HostPort pm), ckp_HostIP = pm_HostIp pm\<rparr>) pms) =
      Inr (map (\<lambda>pm. \<lparr>hpm_HostPort = pm_HostPort pm, hpm_ContainerPort = pm_ContainerPort pm,
        hpm_Protocol = toCheckpointProtocol (pm_Protocol pm), hpm_HostIP = pm_HostIp pm\<rparr>) pms)" for pms
    by (induction pms) simp_all
  then show ?thesis by (simp add: constructPodSandboxCheckpoint_def NewPodSandboxCheckpoint_def)
qed

lemma openLoop_refused:
  assumes "pm \<in> set pms" and "\<And>e. opensSocket (ipt_IsIPv6 (hmg_iptables hm) e) pm"
    and "\<And>f e. \<exists>err. fst (hmg_portOpener hm (portMappingToHostport pm f) e) = Inl err"
  shows "fst (fst (openLoop hm pod ports pms e)) \<noteq> None"
  using assms(1)
proof (induction pms arbitrary: ports e)
  case (Cons q qs)
  show ?case
  proof (cases "q = pm")
    case True
    obtain err where "fst (hmg_portOpener hm (portMappingToHostport pm (getIPFamily hm e)) e) = Inl err" using assms(3) by blast
    then show ?thesis using True assms(2) by (auto simp: Let_def split: prod.splits)
  next
    case False
    then have "pm \<in> set qs" using Cons.prems by simp
    then show ?thesis using Cons.IH by (auto simp: Let_def split: prod.splits sum.splits)
  qed
qed simp

text \<open>C27. A pod with its own network and an SCTP host port, whose mapping has no host address or one of the family of the pod and of the manager, cannot be set up by the
  host port manager. The checkpoint keeps the protocol in lower case, the manager skips only the upper-case name when it opens
  sockets, and the opener of the program knows \<^verbatim>\<open>tcp\<close> and \<^verbatim>\<open>udp\<close> only: \<^verbatim>\<open>Add\<close> returns an error
  whatever \<^verbatim>\<open>iptables\<close>, the network stack and the other ports do. A mapping of the other family is not for this manager, and for a pod in the network of the host \<^verbatim>\<open>Add\<close> does nothing.
\<close>

theorem sctp_hostport_fails:
  assumes "pm \<in> set (psc_PortMappings c)" and "pm_Protocol pm = Protocol_SCTP" and "0 < pm_HostPort pm"
    and "pm_HostIp pm = [] \<or> IsIPv6String (pm_HostIp pm) = IsIPv6 (ppm_IP pod) \<and>
       (\<forall>e. IsIPv6String (pm_HostIp pm) = ipt_IsIPv6 (hmg_iptables hm) e)"
    and "toHostportMappings (cd_PortMappings (the (pc_Data (constructPodSandboxCheckpoint c)))) = Inr (ppm_PortMappings pod)"
    and "\<not> ppm_HostNetwork pod" and "hmg_portOpener hm = openLocalPort ns"
  shows "fst (hostport_Add hm i (Some pod) iface s) \<noteq> None"
proof -
  define q where "q = \<lparr>hpm_HostPort = pm_HostPort pm, hpm_ContainerPort = pm_ContainerPort pm,
     hpm_Protocol = ''sctp'', hpm_HostIP = pm_HostIp pm\<rparr>"
  have q: "q \<in> set (ppm_PortMappings pod)"
  proof -
    define g where "g = (\<lambda>pm :: PortMapping. \<lparr>hpm_HostPort = pm_HostPort pm, hpm_ContainerPort = pm_ContainerPort pm,
        hpm_Protocol = toCheckpointProtocol (pm_Protocol pm), hpm_HostIP = pm_HostIp pm\<rparr>)"
    have "ppm_PortMappings pod = map g (psc_PortMappings c)"
      using assms(5) unfolding toHostportMappings_checkpoint g_def by simp
    moreover have "q = g pm" using assms(2) by (simp add: q_def g_def toCheckpointProtocol_def)
    ultimately show ?thesis using assms(1) by simp
  qed
  have gather: "q \<in> set (gatherHostportMappings pod (IsIPv6 (ppm_IP pod)))"
    using q assms(3,4) by (auto simp: gatherHostportMappings_def q_def)
  have "strings_ToLower ''sctp'' = ''sctp''" by code_simp
  then have refused: "\<exists>err. fst (hmg_portOpener hm (portMappingToHostport q f) e) = Inl err" for f e
    by (simp add: assms(7) openLocalPort_def portMappingToHostport_def q_def Let_def)
  have "opensSocket (ipt_IsIPv6 (hmg_iptables hm) e) q" for e
    using assms(3,4) by (auto simp: opensSocket_def q_def ProtocolSCTP_def)
  then have "\<exists>err. fst (openHostports hm pod e) = Inl err" for e
    using openLoop_refused [OF q _ refused, of "getPodFullName pod" "[]" e]
    by (auto simp: openHostports_def split: prod.splits option.splits)
  then have "\<exists>err. fst (hpEnv (openHostports hm pod) s) = Inl err" for s
    by (simp add: hpEnv_def split: prod.split) (metis fst_conv)
  then show ?thesis
    using gather assms(6)
    by (auto simp: hostport_Add_def Let_def split: prod.splits option.splits sum.splits) (metis fst_conv sum.distinct(1))+
qed

definition exampleSctpConfig :: PodSandboxConfig where
  "exampleSctpConfig = exampleSandboxConfig\<lparr>psc_PortMappings :=
     [\<lparr>pm_Protocol = Protocol_SCTP, pm_ContainerPort = 83, pm_HostPort = 8083, pm_HostIp = []\<rparr>]\<rparr>"

definition exampleSctpPod :: PodPortMapping where
  "exampleSctpPod = examplePorts\<lparr>ppm_PortMappings :=
     [\<lparr>hpm_HostPort = 8083, hpm_ContainerPort = 83, hpm_Protocol = ''sctp'', hpm_HostIP = []\<rparr>]\<rparr>"

definition exampleStack :: "fake_env net_stack" where
  "exampleStack =
     \<lparr>ns_Listen = (\<lambda>network address e. (Inr 3, e)), ns_ResolveUDPAddr = (\<lambda>network address e. (Inr address, e)),
      ns_ListenUDP = (\<lambda>network addr e. (Inr 4, e))\<rparr>"

definition exampleNewManager :: "fake_env hostportManager \<times> fake_env hp_state" where
  "exampleNewManager =
     NewHostportManager quietIptables exampleStack (\<lambda>n e. (None, e)) (\<lambda>port v6 e. (None, e)) (hps_env fakeStart)"

theorem sctp_hostport_fails_witness:
  "fst (hostport_Add (fst exampleNewManager) ''id'' (Some exampleSctpPod) ''cbr0'' (snd exampleNewManager)) \<noteq> None"
proof (rule sctp_hostport_fails)
  show "\<lparr>pm_Protocol = Protocol_SCTP, pm_ContainerPort = 83, pm_HostPort = 8083, pm_HostIp = []\<rparr> \<in> set (psc_PortMappings exampleSctpConfig)"
    by (simp add: exampleSctpConfig_def)
  show "toHostportMappings (cd_PortMappings (the (pc_Data (constructPodSandboxCheckpoint exampleSctpConfig)))) =
      Inr (ppm_PortMappings exampleSctpPod)"
    by (simp add: toHostportMappings_checkpoint exampleSctpConfig_def exampleSctpPod_def toCheckpointProtocol_def)
  show "hmg_portOpener (fst exampleNewManager) = openLocalPort exampleStack"
    by (simp add: exampleNewManager_def NewHostportManager_def)
qed (simp_all add: exampleSctpPod_def examplePorts_def)

end
